(* ===== verification/Prelude.thy ===== *)
theory Prelude
  imports Main "HOL-Library.Word" "HOL-Library.Char_ord" "HOL-Library.List_Lexorder"
begin

text \<open>
  What every component of the development shares: the errors of the service as values, the result
  of a Go function (a value, an error or a panic), computations over an explicit state with their
  sequencing and their Hoare-style rules, Go's 32-bit conversions and the formatting helpers of
  the messages.
\<close>

section \<open>Collections of facts\<close>

named_theorems act_simps \<open>unfolding of computations at a concrete state\<close>
named_theorems keeps_intros \<open>rules that show that a computation keeps a property of the state\<close>

section \<open>Errors and results\<close>

text \<open>The gRPC status codes that the service returns.\<close>

datatype code = Internal | InvalidArgument | NotFound

text \<open>
  Go errors. \<open>Fmt\<close> is an error made with \<open>errors.New\<close> or \<open>fmt.Errorf\<close>, \<open>Status\<close> one made with
  \<open>grpcstatus.Errorf\<close>, \<open>ErrNotFound\<close> the error type of \<open>internal/database/dao/dao_errors.go\<close>,
  \<open>ErrNoRows\<close> the value of pgx for a query without rows, \<open>DbError\<close> an error reported by the
  database server, \<open>ExtError\<close> an error of another library, \<open>Canceled\<close> the end of the context and \<open>Wrap\<close> an error made
  with \<open>fmt.Errorf\<close> that ends in the text of another one.
\<close>

datatype error =
    Fmt string
  | Status code string
  | ErrNotFound string
  | ErrNoRows
  | DbError string
  | ExtError string
  | Canceled
  | Wrap string error

text \<open>A Go function returns a value, returns an error, or panics.\<close>

datatype 'a res = Ok 'a | Err error | Panic string

definition is_Ok :: "'a res \<Rightarrow> bool" where
  "is_Ok r \<longleftrightarrow> (case r of Ok _ \<Rightarrow> True | _ \<Rightarrow> False)"

definition is_Panic :: "'a res \<Rightarrow> bool" where
  "is_Panic r \<longleftrightarrow> (case r of Panic _ \<Rightarrow> True | _ \<Rightarrow> False)"

lemma is_Ok_simps [simp]: "is_Ok (Ok x)" "\<not> is_Ok (Err e)" "\<not> is_Ok (Panic p)"
  by (simp_all add: is_Ok_def)

lemma is_Panic_simps [simp]: "\<not> is_Panic (Ok x)" "\<not> is_Panic (Err e)" "is_Panic (Panic p)"
  by (simp_all add: is_Panic_def)

text \<open>Pure sequencing: stop at the first error or panic.\<close>

definition bindR :: "'a res \<Rightarrow> ('a \<Rightarrow> 'b res) \<Rightarrow> 'b res" where
  "bindR r k = (case r of Ok x \<Rightarrow> k x | Err e \<Rightarrow> Err e | Panic p \<Rightarrow> Panic p)"

lemma bindR_simps [simp]:
  "bindR (Ok x) k = k x" "bindR (Err e) k = Err e" "bindR (Panic p) k = Panic p"
  by (simp_all add: bindR_def)

lemma bindR_eq_Ok: "bindR r k = Ok y \<longleftrightarrow> (\<exists>x. r = Ok x \<and> k x = Ok y)"
  by (cases r) auto

lemma bindR_cong [fundef_cong]:
  "r = r' \<Longrightarrow> (\<And>x. r' = Ok x \<Longrightarrow> k x = k' x) \<Longrightarrow> bindR r k = bindR r' k'"
  by (cases r') auto

text \<open>A Go loop that calls a fallible function on each element and returns at the first error.\<close>

fun mapR :: "('a \<Rightarrow> 'b res) \<Rightarrow> 'a list \<Rightarrow> 'b list res" where
  "mapR f [] = Ok []"
| "mapR f (x # xs) = bindR (f x) (\<lambda>y. bindR (mapR f xs) (\<lambda>ys. Ok (y # ys)))"

lemma mapR_cong [fundef_cong]:
  "xs = ys \<Longrightarrow> (\<And>x. x \<in> set ys \<Longrightarrow> f x = g x) \<Longrightarrow> mapR f xs = mapR g ys"
  by (induction ys arbitrary: xs) auto

lemma mapR_Ok_length: "mapR f xs = Ok ys \<Longrightarrow> length ys = length xs"
  by (induction xs arbitrary: ys) (auto simp: bindR_eq_Ok)

lemma mapR_Ok_iff: "mapR f xs = Ok ys \<longleftrightarrow> list_all2 (\<lambda>x y. f x = Ok y) xs ys"
  by (induction xs arbitrary: ys) (auto simp: bindR_eq_Ok list_all2_Cons1)

lemma mapR_all_Ok: "(\<And>x. x \<in> set xs \<Longrightarrow> f x = Ok (g x)) \<Longrightarrow> mapR f xs = Ok (map g xs)"
  by (induction xs) auto

section \<open>Computations over a state\<close>

type_synonym ('s, 'a) act = "'s \<Rightarrow> 'a res \<times> 's"

definition ret :: "'a \<Rightarrow> ('s, 'a) act" where
  "ret x s = (Ok x, s)"

definition fail :: "error \<Rightarrow> ('s, 'a) act" where
  "fail e s = (Err e, s)"

definition panic :: "string \<Rightarrow> ('s, 'a) act" where
  "panic p s = (Panic p, s)"

definition lift :: "'a res \<Rightarrow> ('s, 'a) act" where
  "lift r s = (r, s)"

definition bind :: "('s, 'a) act \<Rightarrow> ('a \<Rightarrow> ('s, 'b) act) \<Rightarrow> ('s, 'b) act" where
  "bind m k s = (case m s of
      (Ok x, s1) \<Rightarrow> k x s1
    | (Err e, s1) \<Rightarrow> (Err e, s1)
    | (Panic p, s1) \<Rightarrow> (Panic p, s1))"

text \<open>\<open>catch m h\<close> is \<open>if err != nil { return h(err) }\<close> after \<open>m\<close>.\<close>

definition catch :: "('s, 'a) act \<Rightarrow> (error \<Rightarrow> ('s, 'a) act) \<Rightarrow> ('s, 'a) act" where
  "catch m h s = (case m s of (Err e, s1) \<Rightarrow> h e s1 | r \<Rightarrow> r)"

fun forM :: "'a list \<Rightarrow> ('a \<Rightarrow> ('s, unit) act) \<Rightarrow> ('s, unit) act" where
  "forM [] f = ret ()"
| "forM (x # xs) f = bind (f x) (\<lambda>_. forM xs f)"

lemma ret_simp [act_simps]: "ret x s = (Ok x, s)"
  by (simp add: ret_def)

lemma fail_simp [act_simps]: "fail e s = (Err e, s)"
  by (simp add: fail_def)

lemma panic_simp [act_simps]: "panic p s = (Panic p, s)"
  by (simp add: panic_def)

lemma lift_simp [act_simps]: "lift r s = (r, s)"
  by (simp add: lift_def)

lemma bind_Ok_iff:
  "bind m k s = (Ok y, t) \<longleftrightarrow> (\<exists>x s1. m s = (Ok x, s1) \<and> k x s1 = (Ok y, t))"
  by (auto simp: bind_def split: prod.splits res.splits)

lemma bind_Err_iff:
  "bind m k s = (Err e, t) \<longleftrightarrow>
     m s = (Err e, t) \<or> (\<exists>x s1. m s = (Ok x, s1) \<and> k x s1 = (Err e, t))"
  by (auto simp: bind_def split: prod.splits res.splits)

lemma bind_Panic_iff:
  "bind m k s = (Panic p, t) \<longleftrightarrow>
     m s = (Panic p, t) \<or> (\<exists>x s1. m s = (Ok x, s1) \<and> k x s1 = (Panic p, t))"
  by (auto simp: bind_def split: prod.splits res.splits)

lemma bind_run:
  "m s = (Ok x, s1) \<Longrightarrow> bind m k s = k x s1"
  "m s = (Err e, s1) \<Longrightarrow> bind m k s = (Err e, s1)"
  "m s = (Panic p, s1) \<Longrightarrow> bind m k s = (Panic p, s1)"
  by (simp_all add: bind_def)

lemma catch_Ok_iff:
  "catch m h s = (Ok y, t) \<longleftrightarrow>
     m s = (Ok y, t) \<or> (\<exists>e s1. m s = (Err e, s1) \<and> h e s1 = (Ok y, t))"
  by (auto simp: catch_def split: prod.splits res.splits)

lemmas act_Ok_iffs = bind_Ok_iff ret_simp fail_simp panic_simp lift_simp

subsection \<open>Properties of the state that a computation keeps\<close>

definition keeps :: "('s \<Rightarrow> bool) \<Rightarrow> ('s, 'a) act \<Rightarrow> bool" where
  "keeps P m \<longleftrightarrow> (\<forall>s. P s \<longrightarrow> P (snd (m s)))"

lemma keepsI: "(\<And>s r t. P s \<Longrightarrow> m s = (r, t) \<Longrightarrow> P t) \<Longrightarrow> keeps P m"
  by (metis keeps_def prod.collapse)

lemma keepsD: "keeps P m \<Longrightarrow> P s \<Longrightarrow> m s = (r, t) \<Longrightarrow> P t"
  by (metis keeps_def snd_conv)

lemma keeps_ret [keeps_intros]: "keeps P (ret x)"
  by (simp add: keeps_def ret_def)

lemma keeps_fail [keeps_intros]: "keeps P (fail e)"
  by (simp add: keeps_def fail_def)

lemma keeps_panic [keeps_intros]: "keeps P (panic p)"
  by (simp add: keeps_def panic_def)

lemma keeps_lift [keeps_intros]: "keeps P (lift r)"
  by (simp add: keeps_def lift_def)

lemma keeps_bind [keeps_intros]:
  "keeps P m \<Longrightarrow> (\<And>x. keeps P (k x)) \<Longrightarrow> keeps P (bind m k)"
  by (force simp: keeps_def bind_def split: prod.splits res.splits)

lemma keeps_catch [keeps_intros]:
  "keeps P m \<Longrightarrow> (\<And>e. keeps P (h e)) \<Longrightarrow> keeps P (catch m h)"
  by (force simp: keeps_def catch_def split: prod.splits res.splits)

lemma keeps_forM [keeps_intros]: "(\<And>x. keeps P (f x)) \<Longrightarrow> keeps P (forM xs f)"
  by (induction xs) (auto intro: keeps_intros)

lemma keeps_if [keeps_intros]:
  "keeps P m \<Longrightarrow> keeps P n \<Longrightarrow> keeps P (if b then m else n)"
  by simp

lemma keeps_case_option [keeps_intros]:
  "keeps P m \<Longrightarrow> (\<And>x. keeps P (f x)) \<Longrightarrow> keeps P (case o' of None \<Rightarrow> m | Some x \<Rightarrow> f x)"
  by (cases o') auto

lemma keeps_case_res [keeps_intros]:
  "(\<And>x. keeps P (f x)) \<Longrightarrow> (\<And>e. keeps P (g e)) \<Longrightarrow> (\<And>p. keeps P (h p)) \<Longrightarrow>
   keeps P (case r of Ok x \<Rightarrow> f x | Err e \<Rightarrow> g e | Panic p \<Rightarrow> h p)"
  by (cases r) auto

section \<open>Machine integers and text\<close>

text \<open>Go's conversion \<open>int32(v)\<close>: the low 32 bits, read in two's complement.\<close>

definition int32 :: "int \<Rightarrow> int" where
  "int32 v = signed_take_bit 31 v"

lemma int32_bounds: "- (2 ^ 31) \<le> int32 v" "int32 v < 2 ^ 31"
  unfolding int32_def
  by (rule signed_take_bit_int_greater_eq_minus_exp) (rule signed_take_bit_int_less_exp)

lemma int32_id: "- (2 ^ 31) \<le> v \<Longrightarrow> v < 2 ^ 31 \<Longrightarrow> int32 v = v"
  unfolding int32_def by (simp add: signed_take_bit_int_eq_self)

text \<open>\<open>%s\<close> between single quotes.\<close>

definition quoted :: "string \<Rightarrow> string" where
  "quoted s = CHR 0x27 # s @ [CHR 0x27]"

text \<open>\<open>%d\<close>: decimal digits of an integer.\<close>

fun nat_digits :: "nat \<Rightarrow> string" where
  "nat_digits n = (if n < 10 then [char_of (48 + n)] else nat_digits (n div 10) @ [char_of (48 + n mod 10)])"

declare nat_digits.simps [simp del]

definition show_int :: "int \<Rightarrow> string" where
  "show_int i = (if i < 0 then CHR ''-'' # nat_digits (nat (- i)) else nat_digits (nat i))"

text \<open>Go's \<open>strings.Join\<close>.\<close>

fun join :: "string \<Rightarrow> string list \<Rightarrow> string" where
  "join sep [] = []"
| "join sep [s] = s"
| "join sep (s # ss) = s @ sep @ join sep ss"

text \<open>A nil slice of strings is \<open>None\<close>; its length is zero.\<close>

type_synonym slice = "string list option"

definition slice_list :: "slice \<Rightarrow> string list" where
  "slice_list s = (case s of None \<Rightarrow> [] | Some xs \<Rightarrow> xs)"

lemma slice_list_simps [simp]: "slice_list None = []" "slice_list (Some xs) = xs"
  by (simp_all add: slice_list_def)

definition is_space :: "char \<Rightarrow> bool" where
  "is_space c \<longleftrightarrow> c \<in> {CHR '' '', CHR 0x09, CHR 0x0A, CHR 0x0B, CHR 0x0C, CHR 0x0D}"

text \<open>Go's \<open>strings.TrimSpace\<close>.\<close>

definition trim_space :: "string \<Rightarrow> string" where
  "trim_space s = rev (dropWhile is_space (rev (dropWhile is_space s)))"

text \<open>Go's \<open>strings.Split\<close> with a separator of one byte.\<close>

fun split_on :: "char \<Rightarrow> string \<Rightarrow> string list" where
  "split_on c [] = [[]]"
| "split_on c (x # xs) = (if x = c then [] # split_on c xs
     else (case split_on c xs of [] \<Rightarrow> [[x]] | y # ys \<Rightarrow> (x # y) # ys))"

end
