(* ===== verification/Auth.thy ===== *)
theory Auth
  imports Prelude
begin

text \<open>
  \<open>internal/auth\<close>: the subject of a request and how it reaches the context, the tenancy logics that
  decide which tenants an object gets and which tenants a subject sees, the attribution logics that
  decide its creators, and the gRPC authentication function and interceptor. The JSON decoder and
  the regular expressions of the public methods are arguments, because they belong to the caller's
  configuration and to Go's \<open>encoding/json\<close>. Text is a list of bytes, and white space is the
  white space of ASCII.
\<close>

section \<open>Subjects and contexts\<close>

record subject =
  source :: string
  user :: string
  groups :: slice

definition SubjectSourceJwt :: string where "SubjectSourceJwt = ''jwt''"
definition SubjectSourceServiceAccount :: string where "SubjectSourceServiceAccount = ''serviceaccount''"
definition SubjectSourceNone :: string where "SubjectSourceNone = ''none''"

definition guestName :: string where "guestName = ''guest''"

definition Guest :: subject where
  "Guest = \<lparr>source = SubjectSourceNone, user = guestName, groups = None\<rparr>"

text \<open>
  The values that the service puts in a \<open>context.Context\<close>: the subject, whether there is a
  transaction, and the incoming metadata of the gRPC call (a header name to its values).
\<close>

record ctx =
  ctx_subject :: "subject option"
  ctx_tx :: bool
  ctx_md :: "(string \<Rightarrow> string list) option"

definition ContextWithSubject :: "ctx \<Rightarrow> subject \<Rightarrow> ctx" where
  "ContextWithSubject c s = c\<lparr>ctx_subject := Some s\<rparr>"

definition SubjectFromContext :: "ctx \<Rightarrow> subject res" where
  "SubjectFromContext c = (case ctx_subject c of
      Some s \<Rightarrow> Ok s
    | None \<Rightarrow> Panic ''failed to get subject from context'')"

lemma SubjectFromContext_with [simp]: "SubjectFromContext (ContextWithSubject c s) = Ok s"
  by (simp add: SubjectFromContext_def ContextWithSubject_def)

section \<open>Tenancy logics\<close>

record tenancy_logic =
  DetermineAssignedTenants :: "ctx \<Rightarrow> slice res"
  DetermineVisibleTenants :: "ctx \<Rightarrow> slice res"

text \<open>
  The regular expression \<open>^system:serviceaccount:([^:]*):[^:]*$\<close> and its first group: the text
  between the second and the third colon, when there are exactly three.
\<close>

definition sa_prefix :: string where
  "sa_prefix = ''system:serviceaccount:''"

definition namespaceRegex :: "string \<Rightarrow> string option" where
  "namespaceRegex u =
    (if take (length sa_prefix) u = sa_prefix
     then (let r = drop (length sa_prefix) u in
           case dropWhile (\<lambda>c. c \<noteq> CHR '':'') r of
             [] \<Rightarrow> None
           | _ # sa \<Rightarrow> if CHR '':'' \<in> set sa then None else Some (takeWhile (\<lambda>c. c \<noteq> CHR '':'') r))
     else None)"

definition extractNamespace :: "ctx \<Rightarrow> string res" where
  "extractNamespace c = bindR (SubjectFromContext c) (\<lambda>s.
     case namespaceRegex (user s) of
       None \<Rightarrow> Err (Fmt (''subject '' @ quoted (user s) @
                 '' is not a service account, it should match regular expression '' @
                 quoted ''^system:serviceaccount:([^:]*):[^:]*$''))
     | Some ns \<Rightarrow> Ok ns)"

definition sa_DetermineAssignedTenants :: "ctx \<Rightarrow> slice res" where
  "sa_DetermineAssignedTenants c = bindR (extractNamespace c) (\<lambda>ns. Ok (Some [ns]))"

definition sa_DetermineVisibleTenants :: "ctx \<Rightarrow> slice res" where
  "sa_DetermineVisibleTenants c = bindR (extractNamespace c) (\<lambda>ns. Ok (Some [ns, ''shared'']))"

definition ServiceAccountTenancyLogic :: tenancy_logic where
  "ServiceAccountTenancyLogic =
     \<lparr>DetermineAssignedTenants = sa_DetermineAssignedTenants,
      DetermineVisibleTenants = sa_DetermineVisibleTenants\<rparr>"

definition jwt_DetermineAssignedTenants :: "ctx \<Rightarrow> slice res" where
  "jwt_DetermineAssignedTenants c = bindR (SubjectFromContext c) (\<lambda>s. Ok (groups s))"

definition jwt_DetermineVisibleTenants :: "ctx \<Rightarrow> slice res" where
  "jwt_DetermineVisibleTenants c = bindR (SubjectFromContext c) (\<lambda>s.
     Ok (Some (slice_list (groups s) @ [''shared''])))"

definition JwtTenancyLogic :: tenancy_logic where
  "JwtTenancyLogic =
     \<lparr>DetermineAssignedTenants = jwt_DetermineAssignedTenants,
      DetermineVisibleTenants = jwt_DetermineVisibleTenants\<rparr>"

definition selectDelegate :: "subject \<Rightarrow> tenancy_logic res" where
  "selectDelegate s =
    (if source s = SubjectSourceServiceAccount then Ok ServiceAccountTenancyLogic
     else if source s = SubjectSourceJwt \<or> source s = SubjectSourceNone then Ok JwtTenancyLogic
     else Err (Fmt (''unknown subject source '' @ quoted (source s))))"

definition default_DetermineAssignedTenants :: "ctx \<Rightarrow> slice res" where
  "default_DetermineAssignedTenants c = bindR (SubjectFromContext c) (\<lambda>s.
     bindR (selectDelegate s) (\<lambda>d. DetermineAssignedTenants d c))"

definition default_DetermineVisibleTenants :: "ctx \<Rightarrow> slice res" where
  "default_DetermineVisibleTenants c = bindR (SubjectFromContext c) (\<lambda>s.
     bindR (selectDelegate s) (\<lambda>d. DetermineVisibleTenants d c))"

definition DefaultTenancyLogic :: tenancy_logic where
  "DefaultTenancyLogic =
     \<lparr>DetermineAssignedTenants = default_DetermineAssignedTenants,
      DetermineVisibleTenants = default_DetermineVisibleTenants\<rparr>"

definition systemTenants :: "string list" where
  "systemTenants = [''shared'']"

definition system_DetermineAssignedTenants :: "ctx \<Rightarrow> slice res" where
  "system_DetermineAssignedTenants c = Ok (Some systemTenants)"

definition system_DetermineVisibleTenants :: "ctx \<Rightarrow> slice res" where
  "system_DetermineVisibleTenants c = Ok None"

definition SystemTenancyLogic :: tenancy_logic where
  "SystemTenancyLogic =
     \<lparr>DetermineAssignedTenants = system_DetermineAssignedTenants,
      DetermineVisibleTenants = system_DetermineVisibleTenants\<rparr>"

definition empty_DetermineAssignedTenants :: "ctx \<Rightarrow> slice res" where
  "empty_DetermineAssignedTenants c = Ok None"

definition empty_DetermineVisibleTenants :: "ctx \<Rightarrow> slice res" where
  "empty_DetermineVisibleTenants c = Ok None"

definition EmptyTenancyLogic :: tenancy_logic where
  "EmptyTenancyLogic =
     \<lparr>DetermineAssignedTenants = empty_DetermineAssignedTenants,
      DetermineVisibleTenants = empty_DetermineVisibleTenants\<rparr>"

section \<open>Attribution logics\<close>

type_synonym attribution_logic = "ctx \<Rightarrow> slice res"

definition default_DetermineAssignedCreators :: attribution_logic where
  "default_DetermineAssignedCreators c = bindR (SubjectFromContext c) (\<lambda>s. Ok (Some [user s]))"

definition systemCreators :: "string list" where
  "systemCreators = [''system'']"

definition system_DetermineAssignedCreators :: attribution_logic where
  "system_DetermineAssignedCreators c = Ok (Some systemCreators)"

definition empty_DetermineAssignedCreators :: attribution_logic where
  "empty_DetermineAssignedCreators c = Ok None"

section \<open>Authentication\<close>

text \<open>\<open>grpcGuestAuthnFunc.call\<close>.\<close>

definition guest_call :: "ctx \<Rightarrow> string \<Rightarrow> ctx res" where
  "guest_call c m = Ok (ContextWithSubject c Guest)"

text \<open>
  The state of \<open>grpcExternalAuthnFunc\<close>: the compiled regular expressions, each as the set of
  method names that it matches.
\<close>

type_synonym regexp = "string \<Rightarrow> bool"

fun isPublicMethod :: "regexp list \<Rightarrow> string \<Rightarrow> bool" where
  "isPublicMethod [] m = False"
| "isPublicMethod (p # ps) m = (if p m then True else isPublicMethod ps m)"

definition external_call :: "(string \<Rightarrow> subject res) \<Rightarrow> regexp list \<Rightarrow> ctx \<Rightarrow> string \<Rightarrow> ctx res" where
  "external_call decode pub c m = (case ctx_md c of
      None \<Rightarrow> Err (Fmt ''missing authentication header'')
    | Some md \<Rightarrow>
        (let values = md ''x-subject'' in
         if length values = 0 \<and> isPublicMethod pub m then Ok (ContextWithSubject c Guest)
         else if length values \<noteq> 1 then Err (Fmt ''too many values for authentication header'')
         else (case decode (values ! 0) of
             Err e \<Rightarrow> Err (Fmt ''failed to decode authentication header'')
           | Panic p \<Rightarrow> Panic p
           | Ok s0 \<Rightarrow>
               (let s = s0\<lparr>user := trim_space (user s0),
                           groups := map_option (map trim_space) (groups s0)\<rparr>
                in if length (user s) = 0 then Err (Fmt ''subject name is empty'')
                   else Ok (ContextWithSubject c s)))))"

text \<open>\<open>GrpcExternalAuthnFuncBuilder.Build\<close>: \<open>compile\<close> is \<open>regexp.Compile\<close>.\<close>

definition external_Build :: "bool \<Rightarrow> (string \<Rightarrow> regexp res) \<Rightarrow> string list \<Rightarrow> regexp list res" where
  "external_Build has_logger compile exprs =
    (if \<not> has_logger then Err (Fmt ''logger is mandatory'') else mapR compile exprs)"

text \<open>\<open>GrpcAuthnInterceptor.UnaryServer\<close>: the function runs before the handler.\<close>

definition authn_UnaryServer ::
  "(ctx \<Rightarrow> string \<Rightarrow> ctx res) \<Rightarrow> string \<Rightarrow> (ctx \<Rightarrow> ('s, 'a) act) \<Rightarrow> ctx \<Rightarrow> ('s, 'a) act" where
  "authn_UnaryServer f m handler c = bind (lift (f c m)) (\<lambda>c'. handler c')"


section \<open>The contract of a tenancy logic that filters\<close>

text \<open>
  What the data access layer relies on for the public API: the tenants assigned to a new object are
  visible to the subject that creates it, and the visible tenants always contain the shared one, so
  they are never empty (an empty list turns the filter off).
\<close>

locale filtering_tenancy =
  fixes assigned visible :: "ctx \<Rightarrow> slice res"
  assumes assigned_visible:
    "assigned c = Ok a \<Longrightarrow> visible c = Ok v \<Longrightarrow> set (slice_list a) \<subseteq> set (slice_list v)"
  and visible_shared: "visible c = Ok v \<Longrightarrow> ''shared'' \<in> set (slice_list v)"
begin

lemma visible_not_empty: "visible c = Ok v \<Longrightarrow> slice_list v \<noteq> []"
  using visible_shared [of c v] by auto

end

lemma selectDelegate_cases:
  "selectDelegate s = Ok d \<Longrightarrow> d = ServiceAccountTenancyLogic \<or> d = JwtTenancyLogic"
  by (auto simp: selectDelegate_def split: if_splits)

interpretation sa: filtering_tenancy sa_DetermineAssignedTenants sa_DetermineVisibleTenants
  by unfold_locales
    (auto simp: sa_DetermineAssignedTenants_def sa_DetermineVisibleTenants_def bindR_eq_Ok)

interpretation jwt: filtering_tenancy jwt_DetermineAssignedTenants jwt_DetermineVisibleTenants
  by unfold_locales
    (auto simp: jwt_DetermineAssignedTenants_def jwt_DetermineVisibleTenants_def bindR_eq_Ok)

lemma delegate_assigned_visible:
  assumes "selectDelegate s = Ok d" "DetermineAssignedTenants d c = Ok a"
    "DetermineVisibleTenants d c = Ok v"
  shows "set (slice_list a) \<subseteq> set (slice_list v)"
  using selectDelegate_cases [OF assms(1)] assms(2,3)
    sa.assigned_visible [of c a v] jwt.assigned_visible [of c a v]
  unfolding ServiceAccountTenancyLogic_def JwtTenancyLogic_def by fastforce

lemma delegate_visible_shared:
  assumes "selectDelegate s = Ok d" "DetermineVisibleTenants d c = Ok v"
  shows "''shared'' \<in> set (slice_list v)"
  using selectDelegate_cases [OF assms(1)] assms(2) sa.visible_shared jwt.visible_shared
  by (auto simp: ServiceAccountTenancyLogic_def JwtTenancyLogic_def)

interpretation default: filtering_tenancy
    default_DetermineAssignedTenants default_DetermineVisibleTenants
proof unfold_locales
  fix c a v
  assume "default_DetermineAssignedTenants c = Ok a" "default_DetermineVisibleTenants c = Ok v"
  then obtain s d where "selectDelegate s = Ok d" "DetermineAssignedTenants d c = Ok a"
      "DetermineVisibleTenants d c = Ok v"
    by (auto simp: default_DetermineAssignedTenants_def default_DetermineVisibleTenants_def bindR_eq_Ok)
  then show "set (slice_list a) \<subseteq> set (slice_list v)" by (rule delegate_assigned_visible)
next
  fix c v
  assume "default_DetermineVisibleTenants c = Ok v"
  then show "''shared'' \<in> set (slice_list v)"
    by (auto simp: default_DetermineVisibleTenants_def bindR_eq_Ok dest: delegate_visible_shared)
qed

section \<open>Service account names\<close>

lemma takeWhile_colon_append:
  "CHR '':'' \<notin> set ns \<Longrightarrow> takeWhile (\<lambda>c. c \<noteq> CHR '':'') (ns @ CHR '':'' # sa) = ns"
  by (induction ns) auto

lemma dropWhile_colon_append:
  "CHR '':'' \<notin> set ns \<Longrightarrow> dropWhile (\<lambda>c. c \<noteq> CHR '':'') (ns @ CHR '':'' # sa) = CHR '':'' # sa"
  by (induction ns) auto

text \<open>The matcher accepts exactly the words of the regular expression, with its group.\<close>

lemma namespaceRegex_iff:
  "namespaceRegex u = Some ns \<longleftrightarrow>
     (\<exists>sa. u = sa_prefix @ ns @ '':'' @ sa \<and> CHR '':'' \<notin> set ns \<and> CHR '':'' \<notin> set sa)"
  (is "?L \<longleftrightarrow> ?R")
proof
  assume L: ?L
  let ?r = "drop (length sa_prefix) u"
  from L have pre: "take (length sa_prefix) u = sa_prefix"
    by (auto simp: namespaceRegex_def split: if_splits)
  from L pre obtain c sa where d: "dropWhile (\<lambda>c. c \<noteq> CHR '':'') ?r = c # sa"
    and sa: "CHR '':'' \<notin> set sa" and ns: "ns = takeWhile (\<lambda>c. c \<noteq> CHR '':'') ?r"
    by (auto simp: namespaceRegex_def Let_def split: list.splits if_splits)
  have c: "c = CHR '':''" using hd_dropWhile [of "\<lambda>c. c \<noteq> CHR '':''" ?r] d by simp
  have "u = sa_prefix @ ?r" using pre by (metis append_take_drop_id)
  also have "?r = ns @ c # sa" unfolding ns using d by (metis takeWhile_dropWhile_id)
  finally have "u = sa_prefix @ ns @ '':'' @ sa" using c by simp
  moreover have "CHR '':'' \<notin> set ns" unfolding ns by (auto dest: set_takeWhileD)
  ultimately show ?R using sa by blast
next
  assume ?R
  then show ?L
    by (auto simp: namespaceRegex_def Let_def takeWhile_colon_append dropWhile_colon_append)
qed

section \<open>Properties\<close>

text \<open>
  The tenancy logic of the public API never turns tenant filtering off and never gives an
  object to a tenant that its creator cannot see: whatever the subject, the visible tenants contain
  \<open>shared\<close> and every tenant assigned to a new object.
\<close>

theorem default_tenancy_contract:
  assumes "DetermineVisibleTenants DefaultTenancyLogic c = Ok v"
    and "DetermineAssignedTenants DefaultTenancyLogic c = Ok a"
  shows "insert ''shared'' (set (slice_list a)) \<subseteq> set (slice_list v)"
  using assms default.visible_shared default.assigned_visible
  by (auto simp: DefaultTenancyLogic_def)

definition example_jwt_ctx :: ctx where
  "example_jwt_ctx = \<lparr>ctx_subject = Some \<lparr>source = ''jwt'', user = ''jane'', groups = Some [''a'', ''b'']\<rparr>,
     ctx_tx = True, ctx_md = None\<rparr>"

theorem default_tenancy_contract_witness:
  "insert ''shared'' (set (slice_list (Some [''a'', ''b'']))) \<subseteq>
     set (slice_list (Some [''a'', ''b'', ''shared'']))"
  by (rule default_tenancy_contract [of example_jwt_ctx])
    (simp_all add: example_jwt_ctx_def DefaultTenancyLogic_def default_DetermineVisibleTenants_def
      default_DetermineAssignedTenants_def SubjectFromContext_def selectDelegate_def
      SubjectSourceServiceAccount_def SubjectSourceJwt_def JwtTenancyLogic_def
      jwt_DetermineAssignedTenants_def jwt_DetermineVisibleTenants_def)

text \<open>
  A subject whose source is a service account sees exactly the namespace written in its user
  name and the shared tenant; any other user name is rejected.
\<close>

theorem service_account_visible:
  "DetermineVisibleTenants DefaultTenancyLogic
     (ContextWithSubject c \<lparr>source = SubjectSourceServiceAccount, user = u, groups = g\<rparr>) = Ok v
   \<longleftrightarrow> (\<exists>ns sa. u = ''system:serviceaccount:'' @ ns @ '':'' @ sa \<and> CHR '':'' \<notin> set ns \<and>
        CHR '':'' \<notin> set sa \<and> v = Some [ns, ''shared''])"
proof -
  have "DetermineVisibleTenants DefaultTenancyLogic
     (ContextWithSubject c \<lparr>source = SubjectSourceServiceAccount, user = u, groups = g\<rparr>) = Ok v
    \<longleftrightarrow> (\<exists>ns. namespaceRegex u = Some ns \<and> v = Some [ns, ''shared''])"
    by (auto simp: DefaultTenancyLogic_def default_DetermineVisibleTenants_def selectDelegate_def
        ServiceAccountTenancyLogic_def sa_DetermineVisibleTenants_def extractNamespace_def
        bindR_eq_Ok split: option.splits)
  then show ?thesis unfolding namespaceRegex_iff sa_prefix_def by blast
qed

text \<open>
  C3. A call accepted by the external authentication function carries a subject: the guest, only
  when the header is absent and the method is public, or the decoded subject with its name and
  groups trimmed and a name that is not empty.
\<close>

theorem external_call_subject:
  assumes "external_call decode pub c m = Ok c'"
  shows "\<exists>md. ctx_md c = Some md \<and>
    (md ''x-subject'' = [] \<and> (\<exists>p \<in> set pub. p m) \<and> c' = ContextWithSubject c Guest \<or>
     (\<exists>h s. md ''x-subject'' = [h] \<and> decode h = Ok s \<and> trim_space (user s) \<noteq> [] \<and>
        c' = ContextWithSubject c (s\<lparr>user := trim_space (user s),
               groups := map_option (map trim_space) (groups s)\<rparr>)))"
proof -
  have pub: "isPublicMethod pub m \<longleftrightarrow> (\<exists>p \<in> set pub. p m)"
    by (induction pub) auto
  obtain md where md: "ctx_md c = Some md"
    using assms by (auto simp: external_call_def split: option.splits)
  show ?thesis
  proof (cases "md ''x-subject''")
    case Nil
    then have "isPublicMethod pub m \<and> c' = ContextWithSubject c Guest"
      using assms md by (simp add: external_call_def split: if_splits)
    then show ?thesis using md Nil pub by blast
  next
    case (Cons h hs)
    then have one: "hs = []"
      using assms md by (simp add: external_call_def split: if_splits)
    then obtain s where "decode h = Ok s" "trim_space (user s) \<noteq> []"
      "c' = ContextWithSubject c (s\<lparr>user := trim_space (user s),
               groups := map_option (map trim_space) (groups s)\<rparr>)"
      using assms md Cons by (simp add: external_call_def Let_def split: res.splits if_splits)
    then show ?thesis using md Cons one by blast
  qed
qed

definition example_decode :: "string \<Rightarrow> subject res" where
  "example_decode h = Ok \<lparr>source = ''jwt'', user = '' jane'', groups = None\<rparr>"

definition example_call_ctx :: ctx where
  "example_call_ctx = \<lparr>ctx_subject = None, ctx_tx = False, ctx_md = Some (\<lambda>h. [''doc''])\<rparr>"

lemma example_external_call:
  "external_call example_decode [] example_call_ctx ''/m'' =
     Ok (ContextWithSubject example_call_ctx \<lparr>source = ''jwt'', user = ''jane'', groups = None\<rparr>)"
  by (simp add: external_call_def example_decode_def example_call_ctx_def trim_space_def is_space_def)

theorem external_call_subject_witness:
  "\<exists>h s. example_decode h = Ok s \<and> trim_space (user s) \<noteq> [] \<and>
     ContextWithSubject example_call_ctx \<lparr>source = ''jwt'', user = ''jane'', groups = None\<rparr> =
     ContextWithSubject example_call_ctx (s\<lparr>user := trim_space (user s),
               groups := map_option (map trim_space) (groups s)\<rparr>)"
proof -
  have "ctx_md example_call_ctx = Some (\<lambda>h. [''doc''])"
    by (simp add: example_call_ctx_def)
  with external_call_subject [OF example_external_call] show ?thesis by fastforce
qed

end
