(* ===== verification/Tx.thy ===== *)
theory Tx
  imports Auth
begin

text \<open>
  \<open>internal/database\<close> (transaction manager, transaction, context, interceptor) and
  \<open>internal/recovery\<close>: a session is the committed database, the transaction of the current call and
  what the call can observe of its surroundings (the outcomes of its next interactions with the
  database server, the time and the identifiers that it generates). A managed transaction is lazy:
  it has a working copy of the database only after its first statement. The server's side of
  \<open>begin\<close>, \<open>commit\<close> and \<open>rollback\<close> is PostgreSQL's documented behaviour: a transaction works on its own
  copy, commit publishes it, rollback drops it. Concurrent transactions are not modelled.
\<close>

section \<open>Sessions\<close>

record 'db session =
  store :: 'db
  outcomes :: "error option list"
  tx_manager :: nat
  tx_real :: "'db option"
  tx_errs :: "error list"
  clock :: int
  uuids :: "nat \<Rightarrow> string option"
  uuid_next :: nat

text \<open>One interaction with the server: it takes the next outcome, success when none is left.\<close>

definition interact :: "('db session, unit) act" where
  "interact s = (case outcomes s of
      [] \<Rightarrow> (Ok (), s)
    | None # os \<Rightarrow> (Ok (), s\<lparr>outcomes := os\<rparr>)
    | Some e # os \<Rightarrow> (Err e, s\<lparr>outcomes := os\<rparr>))"

text \<open>\<open>uuid.New\<close> panics when the generator fails.\<close>

definition uuid_New :: "('db session, string) act" where
  "uuid_New s = (case uuids s (uuid_next s) of
      Some u \<Rightarrow> (Ok u, s\<lparr>uuid_next := Suc (uuid_next s)\<rparr>)
    | None \<Rightarrow> (Panic ''failed to generate UUID'', s))"

section \<open>Transactions\<close>

definition TxFromContext :: "ctx \<Rightarrow> unit res" where
  "TxFromContext c = (if ctx_tx c then Ok () else Err (Fmt ''failed to get transaction from context''))"

definition TxIntoContext :: "ctx \<Rightarrow> ctx" where
  "TxIntoContext c = c\<lparr>ctx_tx := True\<rparr>"

definition ensureReal :: "('db session, unit) act" where
  "ensureReal s = (case tx_real s of
      Some _ \<Rightarrow> (Ok (), s)
    | None \<Rightarrow> bind interact (\<lambda>_ s1. (Ok (), s1\<lparr>tx_real := Some (store s1)\<rparr>)) s)"

text \<open>
  \<open>Query\<close>, \<open>QueryRow\<close> followed by \<open>Scan\<close>, and \<open>Exec\<close>: make sure that the real transaction exists, then
  run the statement on its working copy. A failed statement leaves the copy as it is.
\<close>

definition tx_run :: "('db \<Rightarrow> ('a \<times> 'db) res) \<Rightarrow> ('db session, 'a) act" where
  "tx_run f = bind ensureReal (\<lambda>_. bind interact (\<lambda>_ s.
     (case tx_real s of
        None \<Rightarrow> (Panic ''no real transaction'', s)
      | Some w \<Rightarrow> (case f w of
            Ok (x, w') \<Rightarrow> (Ok x, s\<lparr>tx_real := Some w'\<rparr>)
          | Err e \<Rightarrow> (Err e, s)
          | Panic p \<Rightarrow> (Panic p, s)))))"

definition tx_Query :: "('db \<Rightarrow> 'a res) \<Rightarrow> ('db session, 'a) act" where
  "tx_Query f = tx_run (\<lambda>w. bindR (f w) (\<lambda>x. Ok (x, w)))"

definition tx_QueryRow :: "('db \<Rightarrow> ('a \<times> 'db) res) \<Rightarrow> ('db session, 'a) act" where
  "tx_QueryRow f = tx_run f"

definition tx_Exec :: "('db \<Rightarrow> 'db res) \<Rightarrow> ('db session, unit) act" where
  "tx_Exec f = tx_run (\<lambda>w. bindR (f w) (\<lambda>w'. Ok ((), w')))"

definition ReportError :: "error option \<Rightarrow> 'db session \<Rightarrow> 'db session" where
  "ReportError e s = (case e of None \<Rightarrow> s | Some e' \<Rightarrow> s\<lparr>tx_errs := tx_errs s @ [e']\<rparr>)"

text \<open>
  \<open>defer tx.ReportError(&err)\<close>: the error with which the function returns. A panic leaves the named
  result \<open>err\<close> as it is, nil, so nothing is reported.
\<close>

definition reporting :: "('db session, 'a) act \<Rightarrow> ('db session, 'a) act" where
  "reporting m s = (case m s of
      (Err e, s1) \<Rightarrow> (Err e, ReportError (Some e) s1)
    | (r, s1) \<Rightarrow> (r, ReportError None s1))"

section \<open>The transaction manager\<close>

definition tm_Begin :: "nat \<Rightarrow> ('db session, unit) act" where
  "tm_Begin m s = (Ok (), s\<lparr>tx_manager := m, tx_real := None, tx_errs := []\<rparr>)"

text \<open>\<open>Commit\<close> and \<open>Rollback\<close> of the real transaction.\<close>

definition real_Commit :: "'db \<Rightarrow> ('db session, unit) act" where
  "real_Commit w = bind interact (\<lambda>_ s. (Ok (), s\<lparr>store := w\<rparr>))"

definition real_Rollback :: "('db session, unit) act" where
  "real_Rollback = interact"

definition tm_End :: "nat \<Rightarrow> ('db session, unit) act" where
  "tm_End m s =
    (if tx_manager s \<noteq> m then (Err (Fmt ''transaction belongs to another transaction manager''), s)
     else (case tx_real s of
        None \<Rightarrow> (Ok (), s)
      | Some w \<Rightarrow> if length (tx_errs s) = 0 then real_Commit w s else real_Rollback s))"

section \<open>Interceptors\<close>

text \<open>
  \<open>TxInterceptor.UnaryServer\<close>. Ending the transaction is deferred, so it also happens when the
  handler panics; the panic then continues.
\<close>

definition tx_UnaryServer :: "nat \<Rightarrow> (ctx \<Rightarrow> ('db session, 'a) act) \<Rightarrow> ctx \<Rightarrow> ('db session, 'a) act" where
  "tx_UnaryServer m handler c = bind
     (catch (tm_Begin m) (\<lambda>_. fail (Status Internal ''failed to begin transaction'')))
     (\<lambda>_ s. case handler (TxIntoContext c) s of
        (r, s1) \<Rightarrow> (case tm_End m s1 of
          (txErr, s2) \<Rightarrow> (case r of
              Ok x \<Rightarrow> (case txErr of
                  Err _ \<Rightarrow> (Err (Status Internal ''failed to end transaction''), s2)
                | _ \<Rightarrow> (Ok x, s2))
            | _ \<Rightarrow> (r, s2))))"

text \<open>\<open>GrpcPanicInterceptor.UnaryServer\<close>.\<close>

definition panic_UnaryServer :: "(ctx \<Rightarrow> ('s, 'a) act) \<Rightarrow> ctx \<Rightarrow> ('s, 'a) act" where
  "panic_UnaryServer handler c s = (case handler c s of
      (Panic _, s1) \<Rightarrow> (Err (Status Internal ''Internal error''), s1)
    | r \<Rightarrow> r)"

text \<open>
  The chain of unary interceptors of \<open>internal/cmd/start_server_cmd.go\<close> (the logging interceptor of
  the library changes nothing): panic recovery, authentication, transaction, handler.
\<close>

definition unary_chain ::
  "(ctx \<Rightarrow> string \<Rightarrow> ctx res) \<Rightarrow> nat \<Rightarrow> string \<Rightarrow> (ctx \<Rightarrow> ('db session, 'a) act) \<Rightarrow> ctx \<Rightarrow> ('db session, 'a) act" where
  "unary_chain authn m method handler =
     panic_UnaryServer (authn_UnaryServer authn method (tx_UnaryServer m handler))"


section \<open>What a call inside the transaction keeps\<close>

text \<open>
  Every statement leaves the committed database and the transaction's manager alone: only the end of
  the transaction publishes the working copy.
\<close>

definition tx_frame :: "'db \<Rightarrow> nat \<Rightarrow> 'db session \<Rightarrow> bool" where
  "tx_frame d m s \<longleftrightarrow> store s = d \<and> tx_manager s = m"

lemma interact_cases:
  assumes "interact s = (r, t)"
  obtains os where "t = s\<lparr>outcomes := os\<rparr>" "\<And>p. r \<noteq> Panic p"
  using assms that [of "outcomes s"] that [of "tl (outcomes s)"]
  by (auto simp: interact_def split: list.splits option.splits)

lemma interact_frame [keeps_intros]: "keeps (tx_frame d m) interact"
  by (rule keepsI) (auto simp: tx_frame_def elim: interact_cases)

lemma uuid_New_frame [keeps_intros]: "keeps (tx_frame d m) uuid_New"
  by (rule keepsI) (auto simp: tx_frame_def uuid_New_def split: option.splits)

lemma ensureReal_frame [keeps_intros]: "keeps (tx_frame d m) ensureReal"
proof -
  have "keeps (tx_frame d m) (bind interact (\<lambda>_ s1. (Ok (), s1\<lparr>tx_real := Some (store s1)\<rparr>)))"
    by (intro keeps_intros) (simp add: keeps_def tx_frame_def)
  then show ?thesis by (simp add: keeps_def ensureReal_def split: option.splits)
qed

lemma tx_run_frame [keeps_intros]: "keeps (tx_frame d m) (tx_run f)"
  unfolding tx_run_def
  by (intro keeps_intros) (auto simp: keeps_def tx_frame_def split: option.splits res.splits prod.splits)

lemma tx_statement_frames [keeps_intros]:
  "keeps (tx_frame d m) (tx_Query q)" "keeps (tx_frame d m) (tx_QueryRow f)"
  "keeps (tx_frame d m) (tx_Exec g)"
  by (simp_all add: tx_Query_def tx_QueryRow_def tx_Exec_def tx_run_frame)

lemma ReportError_simps [simp]:
  "store (ReportError e s) = store s" "tx_real (ReportError e s) = tx_real s"
  "tx_manager (ReportError e s) = tx_manager s" "ReportError None s = s"
  "tx_errs (ReportError (Some x) s) = tx_errs s @ [x]" "clock (ReportError e s) = clock s"
  by (auto simp: ReportError_def split: option.splits)

lemma reporting_run:
  "h s = (Ok x, s1) \<Longrightarrow> reporting h s = (Ok x, s1)"
  "h s = (Err e, s1) \<Longrightarrow> reporting h s = (Err e, ReportError (Some e) s1)"
  "h s = (Panic p, s1) \<Longrightarrow> reporting h s = (Panic p, s1)"
  by (simp_all add: reporting_def)

lemma reporting_cases:
  assumes "reporting h s = (r, t)"
  shows "\<exists>s1 e. h s = (r, s1) \<and> t = ReportError e s1"
proof (cases "h s")
  case (Pair r1 s1)
  then show ?thesis using assms
    by (cases r1) (metis ReportError_simps(4) prod.inject reporting_run)+
qed

lemma reporting_frame [keeps_intros]:
  assumes "keeps (tx_frame d m) h"
  shows "keeps (tx_frame d m) (reporting h)"
proof (rule keepsI)
  fix s r t
  assume s: "tx_frame d m s" and t: "reporting h s = (r, t)"
  obtain s1 e where "h s = (r, s1)" "t = ReportError e s1" using reporting_cases [OF t] by blast
  with keepsD [OF assms s] show "tx_frame d m t" by (simp add: tx_frame_def)
qed

lemma reporting_Err: "reporting h s = (Err e, t) \<Longrightarrow> tx_errs t \<noteq> []"
  by (auto simp: reporting_def split: prod.splits res.splits)

lemma reporting_Ok_iff: "reporting h s = (Ok x, t) \<longleftrightarrow> h s = (Ok x, t)"
  by (auto simp: reporting_def split: prod.splits res.splits)

text \<open>The session of a request when its handler starts.\<close>

definition begun :: "nat \<Rightarrow> 'db session \<Rightarrow> 'db session" where
  "begun m s = s\<lparr>tx_manager := m, tx_real := None, tx_errs := []\<rparr>"

lemma begun_simps [simp]:
  "store (begun m s) = store s" "outcomes (begun m s) = outcomes s" "tx_manager (begun m s) = m"
  "tx_real (begun m s) = None" "tx_errs (begun m s) = []" "clock (begun m s) = clock s"
  "uuids (begun m s) = uuids s" "uuid_next (begun m s) = uuid_next s"
  by (simp_all add: begun_def)

section \<open>What a call inside the transaction sees\<close>

text \<open>The database that the next statement works on.\<close>

definition view :: "'db session \<Rightarrow> 'db" where
  "view s = (case tx_real s of Some w \<Rightarrow> w | None \<Rightarrow> store s)"

lemma view_simps [simp]:
  "view (s\<lparr>tx_real := Some w\<rparr>) = w" "view (s\<lparr>outcomes := os\<rparr>) = view s"
  "view (ReportError e s) = view s" "view (begun m s) = store s"
  "view (s\<lparr>uuid_next := n\<rparr>) = view s"
  by (simp_all add: view_def begun_def split: option.splits)

text \<open>What does not change in a transaction: the time, and the sequence of identifiers.\<close>

definition same_call :: "'db session \<Rightarrow> 'db session \<Rightarrow> bool" where
  "same_call s t \<longleftrightarrow> clock t = clock s \<and> uuids t = uuids s \<and> uuid_next t = uuid_next s \<and>
     store t = store s \<and> tx_manager t = tx_manager s \<and> tx_errs t = tx_errs s"

lemma interact_view: "interact s = (r, t) \<Longrightarrow> view t = view s \<and> same_call s t \<and> tx_real t = tx_real s"
  by (auto simp: same_call_def elim!: interact_cases)

lemma ensureReal_Ok:
  "ensureReal s = (Ok u, t) \<Longrightarrow> tx_real t = Some (view s) \<and> same_call s t"
  by (fastforce simp: ensureReal_def bind_Ok_iff view_def same_call_def split: option.splits
      elim!: interact_cases)

lemma ensureReal_fails:
  "ensureReal s = (Err e, t) \<Longrightarrow> tx_real t = tx_real s \<and> same_call s t"
  "ensureReal s \<noteq> (Panic p, t)"
  by (auto simp: ensureReal_def bind_Err_iff bind_Panic_iff same_call_def split: option.splits
      elim!: interact_cases)

lemma tx_run_Ok:
  assumes "tx_run f s = (Ok x, t)"
  shows "\<exists>w'. f (view s) = Ok (x, w') \<and> tx_real t = Some w' \<and> same_call s t"
proof -
  obtain s1 s2 u where s1: "ensureReal s = (Ok u, s1)" and s2: "\<exists>u'. interact s1 = (Ok u', s2)"
    and rest: "(case tx_real s2 of None \<Rightarrow> (Panic ''no real transaction'', s2)
      | Some w \<Rightarrow> (case f w of Ok (x, w') \<Rightarrow> (Ok x, s2\<lparr>tx_real := Some w'\<rparr>)
          | Err e \<Rightarrow> (Err e, s2) | Panic p \<Rightarrow> (Panic p, s2))) = (Ok x, t)"
    using assms unfolding tx_run_def bind_Ok_iff by blast
  have "tx_real s2 = Some (view s)" "same_call s s2"
    using ensureReal_Ok [OF s1] s2 interact_view [of s1 _ s2] by (auto simp: same_call_def)
  with rest show ?thesis
    by (auto simp: same_call_def split: res.splits)
qed

lemma tx_run_fails:
  assumes "tx_run f s = (r, t)" "\<not> is_Ok r"
  shows "(tx_real t = tx_real s \<or> tx_real t = Some (view s)) \<and> same_call s t"
proof (cases "ensureReal s")
  case (Pair ur s1)
  show ?thesis
  proof (cases ur)
    case (Ok u)
    then have s1: "tx_real s1 = Some (view s)" "same_call s s1" using ensureReal_Ok Pair by auto
    obtain ir s2 where s2: "interact s1 = (ir, s2)" by (cases "interact s1")
    then have "tx_real s2 = Some (view s)" "same_call s s2"
      using s1 interact_view [OF s2] by (auto simp: same_call_def)
    with assms Pair s2 Ok show ?thesis
      by (auto simp: tx_run_def bind_def split: res.splits)
  next
    case (Err e)
    then show ?thesis using assms Pair ensureReal_fails(1) by (auto simp: tx_run_def bind_def)
  next
    case (Panic p)
    then show ?thesis using Pair ensureReal_fails(2) by auto
  qed
qed

lemma tx_run_fails_view: "tx_run f s = (r, t) \<Longrightarrow> \<not> is_Ok r \<Longrightarrow> view t = view s \<and> same_call s t"
  using tx_run_fails by (fastforce simp: view_def same_call_def split: option.splits)

text \<open>A statement in a session where the server does not fail.\<close>

lemma tx_run_calm:
  assumes "outcomes s = []"
  shows "tx_run f s = (case f (view s) of
      Ok (x, w') \<Rightarrow> (Ok x, s\<lparr>tx_real := Some w'\<rparr>)
    | Err e \<Rightarrow> (Err e, s\<lparr>tx_real := Some (view s)\<rparr>)
    | Panic p \<Rightarrow> (Panic p, s\<lparr>tx_real := Some (view s)\<rparr>))"
proof (cases "tx_real s")
  case None
  then show ?thesis using assms
    by (simp add: tx_run_def ensureReal_def interact_def bind_def view_def split: res.splits)
next
  case (Some w)
  then have "s\<lparr>tx_real := Some w\<rparr> = s" by simp
  with Some show ?thesis using assms
    by (simp add: tx_run_def ensureReal_def interact_def bind_def view_def split: res.splits)
qed

section \<open>The end of the transaction\<close>

lemma tm_End_Ok:
  assumes "tm_End m s = (Ok (), t)"
  shows "store t = (case tx_real s of Some w \<Rightarrow> if tx_errs s = [] then w else store s | None \<Rightarrow> store s)"
  using assms by (auto simp: tm_End_def real_Commit_def real_Rollback_def bind_Ok_iff
      split: if_splits option.splits elim: interact_cases)

lemma tm_End_Err: "tm_End m s = (Err e, t) \<Longrightarrow> store t = store s"
  by (auto simp: tm_End_def real_Commit_def real_Rollback_def bind_Err_iff
      split: if_splits option.splits elim: interact_cases)

lemma tm_End_no_Panic: "tm_End m s \<noteq> (Panic p, t)"
  by (auto simp: tm_End_def real_Commit_def real_Rollback_def bind_Panic_iff
      split: if_splits option.splits elim: interact_cases)

lemma tm_End_unchanged:
  assumes "tm_End m s = (r, t)" "tx_errs s \<noteq> [] \<or> tx_real s = None \<or> tx_real s = Some (store s)"
  shows "store t = store s"
proof (cases r)
  case (Ok u)
  then show ?thesis using assms tm_End_Ok [of m s t] by (auto split: option.splits if_splits)
next
  case (Err e)
  then show ?thesis using assms(1) tm_End_Err by blast
next
  case (Panic p)
  then show ?thesis using assms(1) tm_End_no_Panic by blast
qed

section \<open>Requests\<close>

text \<open>The result of a request whose handler returned \<open>r\<close> and whose transaction ended with \<open>e\<close>.\<close>

definition request_result :: "'a res \<Rightarrow> unit res \<Rightarrow> 'a res" where
  "request_result r e = (case (r, e) of
      (Ok x, Err _) \<Rightarrow> Err (Status Internal ''failed to end transaction'') | _ \<Rightarrow> r)"

lemma request_result_simps [simp]:
  "request_result r (Ok u) = r" "request_result r (Panic q) = r"
  "request_result (Ok x) (Err e) = Err (Status Internal ''failed to end transaction'')"
  "request_result (Err e') k = Err e'" "request_result (Panic p) k = Panic p"
  by (cases r; simp add: request_result_def)+

lemma tx_UnaryServer_run:
  "h (TxIntoContext c) (begun m s) = (r, u) \<Longrightarrow> tm_End m u = (e, t) \<Longrightarrow>
   tx_UnaryServer m h c s = (request_result r e, t)"
  using tm_End_no_Panic [of m u _ t]
  by (cases r; cases e)
    (simp_all add: tx_UnaryServer_def tm_Begin_def bind_def catch_def begun_def)

lemma tx_UnaryServer_cases:
  assumes "tx_UnaryServer m h c s = (r, t)"
  obtains hr u e where "h (TxIntoContext c) (begun m s) = (hr, u)" "tm_End m u = (e, t)"
    "r = request_result hr e"
proof -
  obtain hr u where h: "h (TxIntoContext c) (begun m s) = (hr, u)"
    by (cases "h (TxIntoContext c) (begun m s)")
  obtain e t' where e: "tm_End m u = (e, t')" by (cases "tm_End m u")
  have "(r, t) = (request_result hr e, t')"
    using tx_UnaryServer_run [of h, OF h e] unfolding assms .
  then have "tm_End m u = (e, t)" "r = request_result hr e" using e by simp_all
  then show thesis by (rule that [OF h])
qed

lemma tx_UnaryServer_Ok:
  assumes "tx_UnaryServer m h c s = (Ok x, t)"
  obtains u where "h (TxIntoContext c) (begun m s) = (Ok x, u)" "tm_End m u = (Ok (), t)"
proof -
  obtain hr u e where u: "h (TxIntoContext c) (begun m s) = (hr, u)" "tm_End m u = (e, t)"
    "Ok x = request_result hr e"
    using tx_UnaryServer_cases [OF assms] .
  moreover have "\<not> is_Panic e" using u(2) tm_End_no_Panic by (cases e) auto
  ultimately have "hr = Ok x" "e = Ok ()" by (cases hr; cases e; auto)+
  with u(1,2) show thesis by (intro that) simp_all
qed

text \<open>
  The contract between the transaction interceptor and a request handler: the handler works through
  the statements of the transaction, and when it returns an error it has reported one or has not
  written anything.
\<close>

locale request_handler =
  fixes handler :: "ctx \<Rightarrow> ('db session, 'a) act"
  assumes frame: "keeps (tx_frame d m) (handler c)"
    and failed: "ctx_tx c \<Longrightarrow> tx_real s = None \<Longrightarrow> handler c s = (Err e, t) \<Longrightarrow>
      tx_errs t \<noteq> [] \<or> tx_real t = None \<or> tx_real t = Some (store t)"
begin

lemma failed_request_unchanged:
  assumes "tx_UnaryServer m handler c s = (Err e, t)"
  shows "store t = store s"
proof -
  obtain hr u e' where u: "handler (TxIntoContext c) (begun m s) = (hr, u)" "tm_End m u = (e', t)"
    "Err e = request_result hr e'"
    using tx_UnaryServer_cases [OF assms] .
  have fr: "store u = store s"
    using keepsD [OF frame [of "store s" m], OF _ u(1)] by (simp add: tx_frame_def)
  show ?thesis
  proof (cases hr)
    case (Ok x)
    with u(3) have "\<exists>x. e' = Err x" by (cases e') auto
    then show ?thesis using u(2) tm_End_Err fr by metis
  next
    case (Err x)
    then have "tx_errs u \<noteq> [] \<or> tx_real u = None \<or> tx_real u = Some (store u)"
      using failed [OF _ _ u(1) [unfolded Err]] by (simp add: TxIntoContext_def)
    then show ?thesis using tm_End_unchanged [OF u(2)] fr by simp
  qed (use u(3) in simp)
qed

lemma request_outcome:
  assumes "tx_UnaryServer m handler c s = (Ok x, t)"
  obtains u where "handler (TxIntoContext c) (begun m s) = (Ok x, u)"
    "store t = (if tx_errs u = [] then case tx_real u of Some w \<Rightarrow> w | None \<Rightarrow> store s else store s)"
proof -
  obtain u where u: "handler (TxIntoContext c) (begun m s) = (Ok x, u)" "tm_End m u = (Ok (), t)"
    using tx_UnaryServer_Ok [OF assms] .
  have "store u = store s"
    using keepsD [OF frame [of "store s" m], OF _ u(1)] by (simp add: tx_frame_def)
  with u(1) tm_End_Ok [OF u(2)] show thesis
    by (intro that [of u]) (simp_all split: option.splits)
qed

end

section \<open>Properties\<close>


definition example_ctx :: ctx where
  "example_ctx = \<lparr>ctx_subject = None, ctx_tx = False, ctx_md = None\<rparr>"

definition example_session :: "'db \<Rightarrow> 'db session" where
  "example_session d = \<lparr>store = d, outcomes = [], tx_manager = 0, tx_real = None, tx_errs = [],
     clock = 0, uuids = (\<lambda>n. Some (replicate (Suc n) CHR ''u'')), uuid_next = 0\<rparr>"

lemma example_Exec:
  "tx_Exec f (begun 0 (example_session d)) = (case f d of
      Ok w \<Rightarrow> (Ok (), (begun 0 (example_session d))\<lparr>tx_real := Some w\<rparr>)
    | Err e \<Rightarrow> (Err e, (begun 0 (example_session d))\<lparr>tx_real := Some d\<rparr>)
    | Panic p \<Rightarrow> (Panic p, (begun 0 (example_session d))\<lparr>tx_real := Some d\<rparr>))"
  by (simp add: tx_Exec_def tx_run_def ensureReal_def interact_def bind_def example_session_def
      split: res.splits)

lemma example_End:
  "tm_End 0 ((begun 0 (example_session d))\<lparr>tx_real := Some w\<rparr>) =
     (Ok (), (begun 0 (example_session d))\<lparr>tx_real := Some w, store := w\<rparr>)"
  by (simp add: tm_End_def real_Commit_def interact_def bind_def example_session_def)


text \<open>
  C5. A handler that writes and then panics has its writes committed: the deferred \<open>ReportError\<close> sees
  a nil error, so the deferred end of the transaction commits, and the client gets an internal error
  for a request whose effects are in the database.
\<close>

theorem panicking_request_is_committed:
  assumes "authn c method = Ok c'" and "outcomes s = []" and "f (store s) = Ok (w :: 'b)"
  shows "\<exists>t. unary_chain authn m method (\<lambda>_. reporting (bind (tx_Exec f) (\<lambda>_. panic p))) c s =
      (Err (Status Internal ''Internal error'') :: 'a res, t) \<and> store t = w"
proof -
  let ?h = "\<lambda>_. reporting (bind (tx_Exec f) (\<lambda>_. panic p :: ('b session, 'a) act))"
  let ?u = "(begun m s)\<lparr>tx_real := Some w\<rparr>"
  have h: "?h (TxIntoContext c') (begun m s) = (Panic p, ?u)"
    using assms by (simp add: reporting_def tx_Exec_def tx_run_def ensureReal_def interact_def bind_def
        panic_def)
  have "tm_End m ?u = (Ok (), ?u\<lparr>store := w\<rparr>)"
    using assms by (simp add: tm_End_def real_Commit_def interact_def bind_def)
  from tx_UnaryServer_run [of ?h, OF h this]
  have "tx_UnaryServer m ?h c' s = (Panic p, ?u\<lparr>store := w\<rparr>)" unfolding request_result_simps .
  then show ?thesis
    unfolding unary_chain_def panic_UnaryServer_def authn_UnaryServer_def bind_def lift_def assms(1)
    by auto
qed

theorem panicking_request_is_committed_witness:
  "\<exists>t. unary_chain guest_call 0 ''/m'' (\<lambda>_. reporting (bind (tx_Exec (\<lambda>w. Ok (w + 1))) (\<lambda>_. panic ''boom'')))
      example_ctx (example_session (3::nat)) = (Err (Status Internal ''Internal error''), t) \<and> store t = 4"
  by (rule panicking_request_is_committed [of _ _ _ "ContextWithSubject example_ctx Guest"])
    (simp_all add: guest_call_def example_session_def)

end
