(* ===== verification/Protobuf.thy ===== *)
theory Protobuf
  imports Prelude "HOL-Library.Finite_Map"
begin

text \<open>
  The part of protocol buffers reflection that the service uses: descriptors of fields, messages as
  finite maps from the names of the populated fields to their values, and the operations \<open>Has\<close>, \<open>Get\<close>,
  \<open>Set\<close>, \<open>Clear\<close> of \<open>protoreflect.Message\<close> as its documentation states them. All the maps of the service's
  API have string keys. A schema gives the fields of each message type, in the order of its
  descriptor.
\<close>

section \<open>Descriptors\<close>

datatype kind =
    BoolKind | Int32Kind | Uint32Kind | Int64Kind | Uint64Kind | FloatKind | DoubleKind
  | StringKind | BytesKind
  | EnumKind string
  | MessageKind string

datatype cardinality = Singular | IsList | IsMap

text \<open>For a map the kind is the one of its values. Only singular scalars may lack presence.\<close>

record field =
  fd_name :: string
  fd_full :: string
  fd_kind :: kind
  fd_card :: cardinality
  fd_presence :: bool

type_synonym schema = "string \<Rightarrow> field list"

definition ByName :: "field list \<Rightarrow> string \<Rightarrow> field option" where
  "ByName fs n = find (\<lambda>f. fd_name f = n) fs"

lemma ByName_Some: "ByName fs n = Some f \<Longrightarrow> f \<in> set fs \<and> fd_name f = n"
  by (auto simp: ByName_def find_Some_iff)

section \<open>Values\<close>

text \<open>A floating point value is the bits of its IEEE representation.\<close>

datatype pvalue =
    VBool bool
  | VNum int
  | VFloat "32 word"
  | VDouble "64 word"
  | VStr string
  | VBytes string
  | VEnum int
  | VMsg "(string, pvalue) fmap"
  | VList "pvalue list"
  | VMap "(string, pvalue) fmap"

type_synonym msg = "(string, pvalue) fmap"

lemma size_fmlookup:
  assumes "fmlookup m k = Some v"
  shows "size v < size (VMsg m)" "size v < size (VMap m)"
proof -
  have "(k, v) \<in> fset (fset_of_fmap m)" using assms by (simp flip: fset_of_fmap_iff)
  then have "Suc (size v) \<le> (\<Sum>x \<in> fset (fset_of_fmap m). Suc (case x of (a, b) \<Rightarrow> 0 + size b))"
    using member_le_sum [of "(k, v)" "fset (fset_of_fmap m)" "\<lambda>x. Suc (case x of (a, b) \<Rightarrow> 0 + size b)"]
    by simp
  then show "size v < size (VMsg m)" "size v < size (VMap m)" by auto
qed

section \<open>Reflection\<close>

definition kind_ok :: "kind \<Rightarrow> pvalue \<Rightarrow> bool" where
  "kind_ok k v = (case v of
      VBool _ \<Rightarrow> k = BoolKind
    | VNum _ \<Rightarrow> k \<in> {Int32Kind, Uint32Kind, Int64Kind, Uint64Kind}
    | VFloat _ \<Rightarrow> k = FloatKind
    | VDouble _ \<Rightarrow> k = DoubleKind
    | VStr _ \<Rightarrow> k = StringKind
    | VBytes _ \<Rightarrow> k = BytesKind
    | VEnum _ \<Rightarrow> (case k of EnumKind _ \<Rightarrow> True | _ \<Rightarrow> False)
    | VMsg _ \<Rightarrow> (case k of MessageKind _ \<Rightarrow> True | _ \<Rightarrow> False)
    | _ \<Rightarrow> False)"

lemma kind_ok_simps [simp]:
  "kind_ok k (VBool b) \<longleftrightarrow> k = BoolKind"
  "kind_ok k (VNum i) \<longleftrightarrow> k \<in> {Int32Kind, Uint32Kind, Int64Kind, Uint64Kind}"
  "kind_ok k (VFloat f) \<longleftrightarrow> k = FloatKind"
  "kind_ok k (VDouble d) \<longleftrightarrow> k = DoubleKind"
  "kind_ok k (VStr s) \<longleftrightarrow> k = StringKind"
  "kind_ok k (VBytes s) \<longleftrightarrow> k = BytesKind"
  "kind_ok k (VEnum e) \<longleftrightarrow> (\<exists>n. k = EnumKind n)"
  "kind_ok k (VMsg m) \<longleftrightarrow> (\<exists>n. k = MessageKind n)"
  "\<not> kind_ok k (VList vs)" "\<not> kind_ok k (VMap m)"
  by (simp_all add: kind_ok_def split: kind.splits)

text \<open>What \<open>Set\<close> checks of the type of a value; it does not look inside messages.\<close>

definition field_ok :: "field \<Rightarrow> pvalue \<Rightarrow> bool" where
  "field_ok f v = (case fd_card f of
      Singular \<Rightarrow> kind_ok (fd_kind f) v
    | IsList \<Rightarrow> (case v of VList xs \<Rightarrow> list_all (kind_ok (fd_kind f)) xs | _ \<Rightarrow> False)
    | IsMap \<Rightarrow> (case v of VMap m \<Rightarrow> fmpred (\<lambda>_. kind_ok (fd_kind f)) m | _ \<Rightarrow> False))"

fun kind_default :: "kind \<Rightarrow> pvalue" where
  "kind_default BoolKind = VBool False"
| "kind_default FloatKind = VFloat 0"
| "kind_default DoubleKind = VDouble 0"
| "kind_default StringKind = VStr []"
| "kind_default BytesKind = VBytes []"
| "kind_default (EnumKind _) = VEnum 0"
| "kind_default (MessageKind _) = VMsg fmempty"
| "kind_default _ = VNum 0"

definition field_default :: "field \<Rightarrow> pvalue" where
  "field_default f = (case fd_card f of
      Singular \<Rightarrow> kind_default (fd_kind f) | IsList \<Rightarrow> VList [] | IsMap \<Rightarrow> VMap fmempty)"

text \<open>Lists, maps and the scalars without presence are not populated when they have their default.\<close>

definition implicit_presence :: "field \<Rightarrow> bool" where
  "implicit_presence f \<longleftrightarrow> (case fd_card f of
      Singular \<Rightarrow> \<not> fd_presence f \<and> \<not> (case fd_kind f of MessageKind _ \<Rightarrow> True | _ \<Rightarrow> False)
    | _ \<Rightarrow> True)"

definition mHas :: "msg \<Rightarrow> field \<Rightarrow> bool" where
  "mHas m f \<longleftrightarrow> fmlookup m (fd_name f) \<noteq> None"

definition mGet :: "msg \<Rightarrow> field \<Rightarrow> pvalue" where
  "mGet m f = (case fmlookup m (fd_name f) of Some v \<Rightarrow> v | None \<Rightarrow> field_default f)"

definition mClear :: "field \<Rightarrow> msg \<Rightarrow> msg" where
  "mClear f m = fmdrop (fd_name f) m"

definition mPut :: "field \<Rightarrow> pvalue \<Rightarrow> msg \<Rightarrow> msg" where
  "mPut f v m = (if implicit_presence f \<and> v = field_default f then fmdrop (fd_name f) m
     else fmupd (fd_name f) v m)"

definition mSet :: "field \<Rightarrow> pvalue \<Rightarrow> msg \<Rightarrow> msg res" where
  "mSet f v m = (if field_ok f v then Ok (mPut f v m) else Panic ''type mismatch'')"

text \<open>\<open>Value.Message\<close>, \<open>Value.List\<close> and \<open>Value.Map\<close> panic on a value of another type.\<close>

definition as_msg :: "pvalue \<Rightarrow> msg res" where
  "as_msg v = (case v of VMsg m \<Rightarrow> Ok m | _ \<Rightarrow> Panic ''type mismatch'')"

definition as_list :: "pvalue \<Rightarrow> pvalue list res" where
  "as_list v = (case v of VList xs \<Rightarrow> Ok xs | _ \<Rightarrow> Panic ''type mismatch'')"

definition as_map :: "pvalue \<Rightarrow> (string, pvalue) fmap res" where
  "as_map v = (case v of VMap m \<Rightarrow> Ok m | _ \<Rightarrow> Panic ''type mismatch'')"

lemma as_simps [simp]:
  "as_msg (VMsg m) = Ok m" "as_list (VList xs) = Ok xs" "as_map (VMap m) = Ok m"
  by (simp_all add: as_msg_def as_list_def as_map_def)

lemma as_Ok_iffs:
  "as_msg v = Ok m \<longleftrightarrow> v = VMsg m" "as_list v = Ok xs \<longleftrightarrow> v = VList xs"
  "as_map v = Ok m \<longleftrightarrow> v = VMap m"
  by (cases v; simp add: as_msg_def as_list_def as_map_def)+

section \<open>Laws of the accessors\<close>

lemma mGet_mPut: "mGet (mPut f v m) f = v"
  by (simp add: mGet_def mPut_def)

lemma mGet_mSet: "mSet f v m = Ok m' \<Longrightarrow> mGet m' f = v"
  by (auto simp: mSet_def mGet_mPut split: if_splits)

lemma mPut_other: "n \<noteq> fd_name f \<Longrightarrow> fmlookup (mPut f v m) n = fmlookup m n"
  by (simp add: mPut_def)

lemma mSet_other: "mSet f v m = Ok m' \<Longrightarrow> n \<noteq> fd_name f \<Longrightarrow> fmlookup m' n = fmlookup m n"
  by (auto simp: mSet_def mPut_other split: if_splits)

lemma mGet_mSet_other: "mSet f v m = Ok m' \<Longrightarrow> fd_name g \<noteq> fd_name f \<Longrightarrow> mGet m' g = mGet m g"
  by (simp add: mGet_def mSet_other)

lemma mHas_mClear [simp]: "\<not> mHas (mClear f m) f"
  by (simp add: mHas_def mClear_def)

lemma mClear_other: "n \<noteq> fd_name f \<Longrightarrow> fmlookup (mClear f m) n = fmlookup m n"
  by (simp add: mClear_def)

lemma field_ok_default: "field_ok f (field_default f)"
  by (cases "fd_card f"; cases "fd_kind f") (simp_all add: field_ok_def field_default_def)

section \<open>Typed accessors\<close>

text \<open>The generated getters and setters of string fields, and the conversion of times.\<close>

definition GetString :: "string \<Rightarrow> msg \<Rightarrow> string" where
  "GetString n m = (case fmlookup m n of Some (VStr s) \<Rightarrow> s | _ \<Rightarrow> [])"

definition SetString :: "string \<Rightarrow> string \<Rightarrow> msg \<Rightarrow> msg" where
  "SetString n s m = (if s = [] then fmdrop n m else fmupd n (VStr s) m)"

fun strings_of :: "pvalue list \<Rightarrow> string list" where
  "strings_of [] = []"
| "strings_of (VStr s # vs) = s # strings_of vs"
| "strings_of (_ # vs) = strings_of vs"

definition GetStrings :: "string \<Rightarrow> msg \<Rightarrow> string list" where
  "GetStrings n m = (case fmlookup m n of Some (VList vs) \<Rightarrow> strings_of vs | _ \<Rightarrow> [])"

definition SetStrings :: "string \<Rightarrow> string list \<Rightarrow> msg \<Rightarrow> msg" where
  "SetStrings n ss m = (if ss = [] then fmdrop n m else fmupd n (VList (map VStr ss)) m)"

definition GetMessage :: "string \<Rightarrow> msg \<Rightarrow> msg option" where
  "GetMessage n m = (case fmlookup m n of Some (VMsg s) \<Rightarrow> Some s | _ \<Rightarrow> None)"

definition SetMessage :: "string \<Rightarrow> msg option \<Rightarrow> msg \<Rightarrow> msg" where
  "SetMessage n s m = (case s of None \<Rightarrow> fmdrop n m | Some x \<Rightarrow> fmupd n (VMsg x) m)"

definition put_num :: "string \<Rightarrow> int \<Rightarrow> msg \<Rightarrow> msg" where
  "put_num n i m = (if i = 0 then m else fmupd n (VNum i) m)"

text \<open>Times are microseconds since the epoch, the precision of the database.\<close>

definition unix :: "int \<Rightarrow> int" where
  "unix t = t div 10 ^ 6"

definition timestamppb_New :: "int \<Rightarrow> msg" where
  "timestamppb_New t = put_num ''nanos'' (t mod 10 ^ 6 * 1000) (put_num ''seconds'' (unix t) fmempty)"

lemma strings_of_map [simp]: "strings_of (map VStr ss) = ss"
  by (induction ss) auto

lemma GetString_SetString [simp]: "GetString n (SetString n s m) = s"
  by (simp add: GetString_def SetString_def)

lemma GetStrings_SetStrings [simp]: "GetStrings n (SetStrings n ss m) = ss"
  by (simp add: GetStrings_def SetStrings_def)

lemma GetMessage_SetMessage [simp]: "GetMessage n (SetMessage n s m) = s"
  by (auto simp: GetMessage_def SetMessage_def split: option.splits)

lemma setters_other [simp]:
  "n \<noteq> k \<Longrightarrow> fmlookup (SetString n s m) k = fmlookup m k"
  "n \<noteq> k \<Longrightarrow> fmlookup (SetStrings n ss m) k = fmlookup m k"
  "n \<noteq> k \<Longrightarrow> fmlookup (SetMessage n x m) k = fmlookup m k"
  by (auto simp: SetString_def SetStrings_def SetMessage_def split: option.splits)

end
