(* ===== verification/Dao.thy ===== *)
theory Dao
  imports Tx Protobuf
begin

text \<open>
  \<open>internal/database/dao/generic_dao.go\<close>: the generic data access object. The database is the tables,
  their archives and the notifications of \<open>internal/database/migrations\<close>: the identifier is the primary
  key of a table, \<open>deletion_timestamp\<close> is the epoch (zero) until the object is deleted. Statements
  are functions on it; a where clause is a value of \<open>cond\<close>, and \<open>render\<close> gives its text. The JSON codec,
  the text comparison of the server's collation and the truth of a translated filter on a row belong to
  other components and are fields of the object.
\<close>

section \<open>The database\<close>

record 'd row =
  creation_ts :: int
  deletion_ts :: int
  finalizers :: "string list"
  creators :: "string list"
  tenants :: "string list"
  row_data :: 'd

record 'd archived =
  a_creation_ts :: int
  a_deletion_ts :: int
  a_archival_ts :: int
  a_creators :: "string list"
  a_tenants :: "string list"
  a_data :: 'd

record 'd db =
  tables :: "string \<Rightarrow> (string \<times> 'd row) list"
  archives :: "string \<Rightarrow> (string \<times> 'd archived) list"
  notifications :: "(string \<times> int \<times> string) list"
  notified :: "(string \<times> string) list"

section \<open>The data access object\<close>

datatype event_type = EventTypeCreated | EventTypeUpdated | EventTypeDeleted

record event =
  ev_type :: event_type
  ev_table :: string
  ev_object :: msg

record 'd dao =
  table :: string
  defaultLimit :: int
  maxLimit :: int
  eventCallbacks :: "(ctx \<Rightarrow> event \<Rightarrow> ('d db session, unit) act) list"
  objectFields :: "field list"
  metadataFields :: "field list"
  marshalOptions :: "msg \<Rightarrow> 'd res"
  unmarshalOptions :: "'d \<Rightarrow> msg \<Rightarrow> msg res"
  filterTranslator :: "string \<Rightarrow> string res"
  attributionLogic :: attribution_logic
  tenancyLogic :: tenancy_logic
  sql_filter :: "string \<Rightarrow> string \<Rightarrow> 'd row \<Rightarrow> bool"
  collation :: "string \<Rightarrow> string"

record list_request =
  Offset :: int
  Limit :: int
  Filter :: string

record list_response =
  Size :: int
  Total :: int
  Items :: "msg list"

section \<open>Where clauses\<close>

datatype param = PString string | PStrings "string list" | PData

datatype cond = FilterText string | IdIs nat | TenantsOverlap nat | And cond cond

text \<open>The text of a clause: \<open>And\<close> puts its left operand in parentheses.\<close>

fun render :: "cond \<Rightarrow> string" where
  "render (FilterText t) = t"
| "render (IdIs n) = ''id = $'' @ nat_digits n"
| "render (TenantsOverlap n) = ''tenants && $'' @ nat_digits n"
| "render (And a b) = ''('' @ render a @ '') and '' @ render b"

text \<open>Whether a clause is true of a row, with the parameters of the statement, counted from one (\<open>PData\<close>
  stands for a JSON document, which no clause mentions).\<close>

fun holds :: "'d dao \<Rightarrow> param list \<Rightarrow> cond \<Rightarrow> string \<times> 'd row \<Rightarrow> bool" where
  "holds d ps (FilterText t) (i, r) = sql_filter d t i r"
| "holds d ps (IdIs n) (i, r) = (n \<in> {1..length ps} \<and> ps ! (n - 1) = PString i)"
| "holds d ps (TenantsOverlap n) (i, r) = (n \<in> {1..length ps} \<and>
     (case ps ! (n - 1) of PStrings ts \<Rightarrow> list_ex (\<lambda>t. t \<in> set ts) (tenants r) | _ \<Rightarrow> False))"
| "holds d ps (And a b) x = (holds d ps a x \<and> holds d ps b x)"

text \<open>A statement without a where clause applies to all the rows.\<close>

definition selects :: "'d dao \<Rightarrow> param list \<Rightarrow> cond option \<Rightarrow> string \<times> 'd row \<Rightarrow> bool" where
  "selects d ps c x = (case c of None \<Rightarrow> True | Some c' \<Rightarrow> holds d ps c' x)"

text \<open>\<open>addTenancyFilter\<close>: no visible tenants means no filter.\<close>

definition addTenancyFilter ::
  "'d dao \<Rightarrow> ctx \<Rightarrow> cond option \<Rightarrow> param list \<Rightarrow> (cond option \<times> param list) res" where
  "addTenancyFilter d c buffer ps = bindR (DetermineVisibleTenants (tenancyLogic d) c) (\<lambda>ts.
     if length (slice_list ts) = 0 then Ok (buffer, ps)
     else (let ps' = ps @ [PStrings (slice_list ts)];
               filter = TenantsOverlap (length ps')
           in Ok (Some (case buffer of None \<Rightarrow> filter | Some b \<Rightarrow> And b filter), ps')))"

section \<open>Objects and metadata\<close>

definition newObject :: msg where
  "newObject = fmempty"

definition GetId :: "msg \<Rightarrow> string" where
  "GetId o' = GetString ''id'' o'"

definition SetId :: "string \<Rightarrow> msg \<Rightarrow> msg" where
  "SetId i o' = SetString ''id'' i o'"

definition makeMetadata :: "int \<Rightarrow> int \<Rightarrow> string list \<Rightarrow> string list \<Rightarrow> string list \<Rightarrow> msg" where
  "makeMetadata cts dts fs cs ts =
    (let m0 = fmempty;
         m1 = if unix cts \<noteq> 0 then SetMessage ''creation_timestamp'' (Some (timestamppb_New cts)) m0 else m0;
         m2 = if unix dts \<noteq> 0 then SetMessage ''deletion_timestamp'' (Some (timestamppb_New dts)) m1 else m1
     in SetStrings ''tenants'' ts (SetStrings ''creators'' cs (SetStrings ''finalizers'' fs m2)))"

definition getMetadata :: "msg \<Rightarrow> msg option" where
  "getMetadata o' = GetMessage ''metadata'' o'"

definition setMetadata :: "msg option \<Rightarrow> msg \<Rightarrow> msg" where
  "setMetadata md o' = SetMessage ''metadata'' md o'"

text \<open>Without duplicates and in the order of \<open>sort.Strings\<close>.\<close>

definition getFinalizers :: "msg option \<Rightarrow> string list" where
  "getFinalizers md = (case md of None \<Rightarrow> [] | Some m \<Rightarrow> sort (remdups (GetStrings ''finalizers'' m)))"

definition equivalentMetadata :: "field list \<Rightarrow> msg \<Rightarrow> msg \<Rightarrow> bool" where
  "equivalentMetadata fs x y = list_all (\<lambda>f.
     fd_name f = ''creation_timestamp'' \<or> fd_name f = ''deletion_timestamp'' \<or> mGet x f = mGet y f) fs"

definition equivalentField :: "'d dao \<Rightarrow> msg \<Rightarrow> msg \<Rightarrow> field \<Rightarrow> bool" where
  "equivalentField d x y f =
    (if mHas x f \<noteq> mHas y f then False
     else if \<not> mHas x f then True
     else if fd_name f = ''metadata'' then
       (case (mGet x f, mGet y f) of
          (VMsg mx, VMsg my) \<Rightarrow> equivalentMetadata (metadataFields d) mx my | _ \<Rightarrow> False)
     else mGet x f = mGet y f)"

text \<open>A nil object is \<open>None\<close>: it is not valid, so it is not equivalent to an object.\<close>

definition equivalent :: "'d dao \<Rightarrow> msg option \<Rightarrow> msg \<Rightarrow> bool" where
  "equivalent d x y = (case x of
      None \<Rightarrow> False | Some x' \<Rightarrow> list_all (equivalentField d x' y) (objectFields d))"

definition marshalData :: "'d dao \<Rightarrow> msg \<Rightarrow> 'd res" where
  "marshalData d o' = marshalOptions d o'"

definition unmarshalData :: "'d dao \<Rightarrow> 'd \<Rightarrow> msg \<Rightarrow> msg res" where
  "unmarshalData d x o' = unmarshalOptions d x o'"

text \<open>The object of a row: what every operation builds after it has read one.\<close>

definition object_of :: "'d dao \<Rightarrow> string \<Rightarrow> 'd row \<Rightarrow> msg res" where
  "object_of d i r = bindR (unmarshalData d (row_data r) newObject) (\<lambda>o'.
     Ok (setMetadata (Some (makeMetadata (creation_ts r) (deletion_ts r) (finalizers r) (creators r) (tenants r)))
           (SetId i o')))"

section \<open>Statements\<close>

text \<open>The first row of a query, \<open>pgx.ErrNoRows\<close> when there is none.\<close>

definition first_row :: "'a list \<Rightarrow> 'a res" where
  "first_row xs = (case xs of [] \<Rightarrow> Err ErrNoRows | x # _ \<Rightarrow> Ok x)"

definition rows_of :: "'d dao \<Rightarrow> 'd db \<Rightarrow> (string \<times> 'd row) list" where
  "rows_of d w = tables w (table d)"

definition set_rows :: "'d dao \<Rightarrow> (string \<times> 'd row) list \<Rightarrow> 'd db \<Rightarrow> 'd db" where
  "set_rows d rs w = w\<lparr>tables := (tables w)(table d := rs)\<rparr>"

definition sql_count :: "'d dao \<Rightarrow> cond option \<Rightarrow> param list \<Rightarrow> 'd db \<Rightarrow> int res" where
  "sql_count d c ps w = Ok (int (length (filter (selects d ps c) (rows_of d w))))"

text \<open>\<open>select ... order by id offset $n limit $m\<close>.\<close>

definition sql_page :: "'d dao \<Rightarrow> cond option \<Rightarrow> param list \<Rightarrow> int \<Rightarrow> int \<Rightarrow> 'd db \<Rightarrow> (string \<times> 'd row) list res" where
  "sql_page d c ps off lim w = Ok (take (nat lim) (drop (nat off)
     (sort_key (\<lambda>x. collation d (fst x)) (filter (selects d ps c) (rows_of d w)))))"

definition sql_select :: "'d dao \<Rightarrow> cond option \<Rightarrow> param list \<Rightarrow> 'd db \<Rightarrow> ((string \<times> 'd row) \<times> 'd db) res" where
  "sql_select d c ps w =
     bindR (first_row (filter (selects d ps c) (rows_of d w))) (\<lambda>x. Ok (x, w))"

definition sql_insert ::
  "'d dao \<Rightarrow> int \<Rightarrow> string \<Rightarrow> string list \<Rightarrow> string list \<Rightarrow> string list \<Rightarrow> 'd \<Rightarrow> 'd db \<Rightarrow> ((string \<times> 'd row) \<times> 'd db) res" where
  "sql_insert d now i fs cs ts x w =
    (if i \<in> fst ` set (rows_of d w) then Err (DbError ''duplicate key value violates unique constraint'')
     else (let r = \<lparr>creation_ts = now, deletion_ts = 0, finalizers = fs, creators = cs, tenants = ts, row_data = x\<rparr>
           in Ok ((i, r), set_rows d (rows_of d w @ [(i, r)]) w)))"

text \<open>\<open>update ... set ... where ... returning ...\<close>: all the rows of the clause change.\<close>

definition sql_update ::
  "'d dao \<Rightarrow> cond option \<Rightarrow> param list \<Rightarrow> ('d row \<Rightarrow> 'd row) \<Rightarrow> 'd db \<Rightarrow> ((string \<times> 'd row) \<times> 'd db) res" where
  "sql_update d c ps f w =
    (let change = (\<lambda>x. if selects d ps c x then (fst x, f (snd x)) else x);
         w' = set_rows d (map change (rows_of d w)) w
     in bindR (first_row (filter (selects d ps c) (rows_of d w))) (\<lambda>x. Ok (change x, w')))"

definition sql_insert_archived :: "'d dao \<Rightarrow> string \<Rightarrow> 'd archived \<Rightarrow> 'd db \<Rightarrow> 'd db res" where
  "sql_insert_archived d i a w =
     Ok (w\<lparr>archives := (archives w)(table d := archives w (table d) @ [(i, a)])\<rparr>)"

definition sql_delete :: "'d dao \<Rightarrow> cond option \<Rightarrow> param list \<Rightarrow> 'd db \<Rightarrow> 'd db res" where
  "sql_delete d c ps w = Ok (set_rows d (filter (\<lambda>x. \<not> selects d ps c x) (rows_of d w)) w)"

section \<open>Operations\<close>

definition mandatory_id :: "string \<Rightarrow> unit res" where
  "mandatory_id i = (if i = [] then Err (Fmt ''object identifier is mandatory'') else Ok ())"

text \<open>The public operations take the transaction from the context and report their error to it.\<close>

definition with_tx :: "ctx \<Rightarrow> ('d db session, 'a) act \<Rightarrow> ('d db session, 'a) act" where
  "with_tx c m = bind (lift (TxFromContext c)) (\<lambda>_. reporting m)"

definition effective_limit :: "'d dao \<Rightarrow> int \<Rightarrow> int" where
  "effective_limit d l =
    (if l < 0 then 0 else if l = 0 then defaultLimit d else if l > maxLimit d then maxLimit d else l)"

definition dao_list :: "'d dao \<Rightarrow> ctx \<Rightarrow> list_request \<Rightarrow> ('d db session, list_response) act" where
  "dao_list d c request =
    bind (if Filter request \<noteq> []
          then bind (lift (filterTranslator d (Filter request))) (\<lambda>t. ret (if t = [] then None else Some (FilterText t)))
          else ret None) (\<lambda>buffer.
    bind (lift (addTenancyFilter d c buffer [])) (\<lambda>(cnd, ps).
    bind (tx_QueryRow (\<lambda>w. bindR (sql_count d cnd ps w) (\<lambda>n. Ok (n, w)))) (\<lambda>total.
    bind (tx_Query (sql_page d cnd ps (max (Offset request) 0) (effective_limit d (Limit request)))) (\<lambda>rs.
    bind (lift (mapR (\<lambda>(i, r). object_of d i r) rs)) (\<lambda>items.
    ret \<lparr>Size = int32 (int (length items)), Total = int32 total, Items = items\<rparr>)))))"

definition dao_List :: "'d dao \<Rightarrow> ctx \<Rightarrow> list_request \<Rightarrow> ('d db session, list_response) act" where
  "dao_List d c request = with_tx c (dao_list d c request)"

text \<open>\<open>Get\<close> returns nil, \<open>None\<close>, when there is no row.\<close>

definition dao_get :: "'d dao \<Rightarrow> ctx \<Rightarrow> string \<Rightarrow> ('d db session, msg option) act" where
  "dao_get d c i =
    bind (lift (mandatory_id i)) (\<lambda>_.
    bind (lift (addTenancyFilter d c (Some (IdIs 1)) [PString i])) (\<lambda>(cnd, ps).
    bind (catch (bind (tx_QueryRow (sql_select d cnd ps)) (\<lambda>x. ret (Some x)))
            (\<lambda>e. if e = ErrNoRows then ret None else fail e)) (\<lambda>x.
    (case x of
       None \<Rightarrow> ret None
     | Some (j, r) \<Rightarrow> bind (lift (object_of d i r)) (\<lambda>o'. ret (Some o'))))))"

definition dao_Get :: "'d dao \<Rightarrow> ctx \<Rightarrow> string \<Rightarrow> ('d db session, msg option) act" where
  "dao_Get d c i = with_tx c (dao_get d c i)"

definition dao_exists :: "'d dao \<Rightarrow> ctx \<Rightarrow> string \<Rightarrow> ('d db session, bool) act" where
  "dao_exists d c i =
    bind (lift (mandatory_id i)) (\<lambda>_.
    bind (lift (addTenancyFilter d c (Some (IdIs 1)) [PString i])) (\<lambda>(cnd, ps).
    bind (tx_QueryRow (\<lambda>w. bindR (sql_count d cnd ps w) (\<lambda>n. Ok (n, w)))) (\<lambda>count.
    ret (count > 0))))"

definition dao_Exists :: "'d dao \<Rightarrow> ctx \<Rightarrow> string \<Rightarrow> ('d db session, bool) act" where
  "dao_Exists d c i = with_tx c (dao_exists d c i)"

definition fireEvent :: "'d dao \<Rightarrow> ctx \<Rightarrow> event_type \<Rightarrow> msg \<Rightarrow> ('d db session, unit) act" where
  "fireEvent d c t o' =
     forM (eventCallbacks d) (\<lambda>f. f c \<lparr>ev_type = t, ev_table = table d, ev_object = o'\<rparr>)"

text \<open>\<open>now()\<close> is the time of the transaction.\<close>

definition dao_create :: "'d dao \<Rightarrow> ctx \<Rightarrow> msg \<Rightarrow> ('d db session, msg) act" where
  "dao_create d c o' =
    bind (if GetId o' = [] then uuid_New else ret (GetId o')) (\<lambda>i.
    (let fs = getFinalizers (getMetadata o') in
    bind (lift (attributionLogic d c)) (\<lambda>cs.
    bind (lift (DetermineAssignedTenants (tenancyLogic d) c)) (\<lambda>ts.
    bind (lift (marshalData d o')) (\<lambda>x.
    bind (\<lambda>s. tx_QueryRow (sql_insert d (clock s) i fs (slice_list cs) (slice_list ts) x) s) (\<lambda>(_, r).
    (let created = setMetadata (Some (makeMetadata (creation_ts r) (deletion_ts r) fs (slice_list cs) (slice_list ts)))
                     (SetId i o') in
    bind (fireEvent d c EventTypeCreated created) (\<lambda>_. ret created))))))))"

definition dao_Create :: "'d dao \<Rightarrow> ctx \<Rightarrow> msg \<Rightarrow> ('d db session, msg) act" where
  "dao_Create d c o' = with_tx c (dao_create d c o')"

definition dao_archive :: "'d dao \<Rightarrow> string \<Rightarrow> int \<Rightarrow> int \<Rightarrow> string list \<Rightarrow> string list \<Rightarrow> 'd \<Rightarrow> ('d db session, unit) act" where
  "dao_archive d i cts dts cs ts x =
    bind (\<lambda>s. tx_Exec (sql_insert_archived d i
            \<lparr>a_creation_ts = cts, a_deletion_ts = dts, a_archival_ts = clock s, a_creators = cs,
             a_tenants = ts, a_data = x\<rparr>) s) (\<lambda>_.
    tx_Exec (sql_delete d (Some (IdIs 1)) [PString i]))"

text \<open>An update without changes returns the zero value of its named result, nil.\<close>

definition dao_update :: "'d dao \<Rightarrow> ctx \<Rightarrow> msg \<Rightarrow> ('d db session, msg option) act" where
  "dao_update d c o' = (let i = GetId o' in
    bind (lift (mandatory_id i)) (\<lambda>_.
    bind (dao_get d c i) (\<lambda>current.
    (if equivalent d current o' then ret None
     else (let fs = getFinalizers (getMetadata o') in
      bind (lift (marshalData d o')) (\<lambda>x.
      bind (tx_QueryRow (sql_update d (Some (IdIs 3)) [PStrings fs, PData, PString i]
              (\<lambda>r. r\<lparr>finalizers := fs, row_data := x\<rparr>))) (\<lambda>(_, r).
      (let updated = setMetadata (Some (makeMetadata (creation_ts r) (deletion_ts r) fs (creators r) (tenants r)))
                       (SetId i o') in
      bind (fireEvent d c EventTypeUpdated updated) (\<lambda>_.
      bind (if unix (deletion_ts r) \<noteq> 0 \<and> length fs = 0
            then dao_archive d i (creation_ts r) (deletion_ts r) (creators r) (tenants r) x
            else ret ()) (\<lambda>_.
      ret (Some updated)))))))))))"

definition dao_Update :: "'d dao \<Rightarrow> ctx \<Rightarrow> msg \<Rightarrow> ('d db session, msg option) act" where
  "dao_Update d c o' = with_tx c (dao_update d c o')"

definition dao_delete :: "'d dao \<Rightarrow> ctx \<Rightarrow> string \<Rightarrow> ('d db session, unit) act" where
  "dao_delete d c i =
    bind (lift (mandatory_id i)) (\<lambda>_.
    bind (lift (addTenancyFilter d c (Some (IdIs 1)) [PString i])) (\<lambda>(cnd, ps).
    bind (catch (\<lambda>s. tx_QueryRow (sql_update d cnd ps (\<lambda>r. r\<lparr>deletion_ts := clock s\<rparr>)) s)
            (\<lambda>e. if e = ErrNoRows then fail (ErrNotFound i) else fail e)) (\<lambda>(_, r).
    bind (lift (object_of d i r)) (\<lambda>o'.
    bind (fireEvent d c EventTypeDeleted o') (\<lambda>_.
    (if length (finalizers r) = 0
     then dao_archive d i (creation_ts r) (deletion_ts r) (creators r) (tenants r) (row_data r)
     else ret ()))))))"

definition dao_Delete :: "'d dao \<Rightarrow> ctx \<Rightarrow> string \<Rightarrow> ('d db session, unit) act" where
  "dao_Delete d c i = with_tx c (dao_delete d c i)"

section \<open>The builder\<close>

text \<open>
  Whether a logger was given, and the other values of the builder. The object type is its name and
  fields; \<open>codec\<close> gives what the builder takes from other components (the JSON encoder with the full
  names of the ignored fields, the decoder, the filter translator) and from the server.
\<close>

record 'd dao_builder =
  b_logger :: bool
  b_table :: string
  b_defaultLimit :: int
  b_maxLimit :: int
  b_eventCallbacks :: "(ctx \<Rightarrow> event \<Rightarrow> ('d db session, unit) act) list"
  b_attributionLogic :: "attribution_logic option"
  b_tenancyLogic :: "tenancy_logic option"

definition NewGenericDAO :: "'d dao_builder" where
  "NewGenericDAO = \<lparr>b_logger = False, b_table = [], b_defaultLimit = 100, b_maxLimit = 1000,
     b_eventCallbacks = [], b_attributionLogic = None, b_tenancyLogic = None\<rparr>"

definition SetDefaultLimit :: "int \<Rightarrow> 'd dao_builder \<Rightarrow> 'd dao_builder" where
  "SetDefaultLimit v b = b\<lparr>b_defaultLimit := int32 v\<rparr>"

definition SetMaxLimit :: "int \<Rightarrow> 'd dao_builder \<Rightarrow> 'd dao_builder" where
  "SetMaxLimit v b = b\<lparr>b_maxLimit := int32 v\<rparr>"

definition AddEventCallback ::
  "(ctx \<Rightarrow> event \<Rightarrow> ('d db session, unit) act) \<Rightarrow> 'd dao_builder \<Rightarrow> 'd dao_builder" where
  "AddEventCallback f b = b\<lparr>b_eventCallbacks := b_eventCallbacks b @ [f]\<rparr>"

record 'd codec =
  c_marshal :: "string list \<Rightarrow> msg \<Rightarrow> 'd res"
  c_unmarshal :: "'d \<Rightarrow> msg \<Rightarrow> msg res"
  c_translator :: "string \<Rightarrow> string res"
  c_sql_filter :: "string \<Rightarrow> string \<Rightarrow> 'd row \<Rightarrow> bool"
  c_collation :: "string \<Rightarrow> string"

definition dao_Build :: "schema \<Rightarrow> string \<Rightarrow> 'd codec \<Rightarrow> 'd dao_builder \<Rightarrow> 'd dao res" where
  "dao_Build sc object_type k b =
    (if \<not> b_logger b then Err (Fmt ''logger is mandatory'')
     else if b_table b = [] then Err (Fmt ''table is mandatory'')
     else if b_defaultLimit b \<le> 0 then
       Err (Fmt (''default limit must be a possitive integer, but it is '' @ show_int (b_defaultLimit b)))
     else if b_maxLimit b \<le> 0 then
       Err (Fmt (''max limit must be a possitive integer, but it is '' @ show_int (b_maxLimit b)))
     else if b_maxLimit b < b_defaultLimit b then
       Err (Fmt (''max limit must be greater or equal to default limit, but max limit is '' @
         show_int (b_maxLimit b) @ '' and default limit is '' @ show_int (b_defaultLimit b)))
     else (case b_tenancyLogic b of
       None \<Rightarrow> Err (Fmt ''tenancy logic is mandatory'')
     | Some tn \<Rightarrow> (case ByName (sc object_type) ''id'' of
         None \<Rightarrow> Err (Fmt (''object of type '' @ quoted object_type @ '' doesn't have a '' @ quoted ''id'' @ '' field''))
       | Some idf \<Rightarrow> (case ByName (sc object_type) ''metadata'' of
           None \<Rightarrow> Err (Fmt (''object of type '' @ quoted object_type @ '' doesn't have a '' @ quoted ''metadata'' @ '' field''))
         | Some mdf \<Rightarrow> Ok \<lparr>table = b_table b, defaultLimit = b_defaultLimit b, maxLimit = b_maxLimit b,
             eventCallbacks = b_eventCallbacks b, objectFields = sc object_type,
             metadataFields = (case fd_kind mdf of MessageKind t \<Rightarrow> sc t | _ \<Rightarrow> []),
             marshalOptions = c_marshal k [fd_full idf, fd_full mdf], unmarshalOptions = c_unmarshal k,
             filterTranslator = c_translator k,
             attributionLogic = (case b_attributionLogic b of None \<Rightarrow> empty_DetermineAssignedCreators | Some a \<Rightarrow> a),
             tenancyLogic = tn, sql_filter = c_sql_filter k, collation = c_collation k\<rparr>))))"

lemma dao_Build_Ok:
  "dao_Build sc ot k b = Ok d \<Longrightarrow> table d = b_table b \<and> table d \<noteq> [] \<and> defaultLimit d = b_defaultLimit b \<and>
     maxLimit d = b_maxLimit b \<and> 0 < defaultLimit d \<and> defaultLimit d \<le> maxLimit d \<and>
     eventCallbacks d = b_eventCallbacks b \<and> b_tenancyLogic b = Some (tenancyLogic d)"
  by (auto simp: dao_Build_def split: if_splits option.splits)

end
