(* ===== verification/DaoReads.thy ===== *)
theory DaoReads
  imports Dao "HOL-Library.Multiset"
begin

text \<open>
  The reading operations of the generic data access object: what \<open>List\<close>, \<open>Get\<close> and \<open>Exists\<close> return, in
  terms of the rows that the subject of the request may see.
\<close>

section \<open>Visible rows\<close>

definition can_see :: "string list \<Rightarrow> 'd row \<Rightarrow> bool" where
  "can_see ts r \<longleftrightarrow> ts = [] \<or> list_ex (\<lambda>t. t \<in> set ts) (tenants r)"

text \<open>What \<open>list\<close> may return: the rows of the filter that the tenants can see.\<close>

definition matches :: "'d dao \<Rightarrow> string \<Rightarrow> string list \<Rightarrow> string \<times> 'd row \<Rightarrow> bool" where
  "matches d t ts x \<longleftrightarrow> (t = [] \<or> sql_filter d t (fst x) (snd x)) \<and> can_see ts (snd x)"

lemma addTenancyFilter_Ok:
  assumes "addTenancyFilter d c buffer ps = Ok (cnd, ps')"
  shows "\<exists>ts. DetermineVisibleTenants (tenancyLogic d) c = Ok ts \<and>
    (if slice_list ts = [] then cnd = buffer \<and> ps' = ps
     else ps' = ps @ [PStrings (slice_list ts)] \<and>
       cnd = Some (case buffer of None \<Rightarrow> TenantsOverlap (Suc (length ps))
                   | Some b \<Rightarrow> And b (TenantsOverlap (Suc (length ps)))))"
proof -
  obtain ts where "DetermineVisibleTenants (tenancyLogic d) c = Ok ts"
    using assms by (auto simp: addTenancyFilter_def bindR_eq_Ok)
  with assms show ?thesis
    by (cases buffer) (auto simp: addTenancyFilter_def Let_def split: if_splits)
qed

text \<open>The clause of \<open>get\<close>, \<open>exists\<close> and \<open>delete\<close>.\<close>

lemma id_clause:
  assumes "addTenancyFilter d c (Some (IdIs 1)) [PString i] = Ok (cnd, ps)"
  shows "\<exists>ts. DetermineVisibleTenants (tenancyLogic d) c = Ok ts \<and>
    (\<forall>x. selects d ps cnd x \<longleftrightarrow> fst x = i \<and> can_see (slice_list ts) (snd x))"
  using addTenancyFilter_Ok [OF assms]
  by (auto simp: selects_def can_see_def split: if_splits)

text \<open>The clause of \<open>list\<close>.\<close>

lemma filter_clause:
  assumes "addTenancyFilter d c (if t = [] then None else Some (FilterText t)) [] = Ok (cnd, ps)"
  shows "\<exists>ts. DetermineVisibleTenants (tenancyLogic d) c = Ok ts \<and>
    (\<forall>x. selects d ps cnd x \<longleftrightarrow> matches d t (slice_list ts) x)"
  using addTenancyFilter_Ok [OF assms]
  by (auto simp: selects_def can_see_def matches_def split: if_splits)

section \<open>Statements that read\<close>

lemma with_tx_Ok: "with_tx c m s = (Ok x, t) \<longleftrightarrow> ctx_tx c \<and> m s = (Ok x, t)"
  by (auto simp: with_tx_def bind_Ok_iff lift_def TxFromContext_def reporting_Ok_iff)

lemma tx_Query_Ok:
  "tx_Query f s = (Ok x, t) \<Longrightarrow> f (view s) = Ok x \<and> view t = view s \<and> same_call s t"
  by (auto simp: tx_Query_def bindR_eq_Ok view_def dest!: tx_run_Ok)

lemma tx_QueryRow_Ok:
  "tx_QueryRow f s = (Ok x, t) \<Longrightarrow> f (view s) = Ok (x, view t) \<and> same_call s t"
  by (auto simp: tx_QueryRow_def view_def dest!: tx_run_Ok)

lemma tx_Exec_Ok:
  "tx_Exec f s = (Ok x, t) \<Longrightarrow> f (view s) = Ok (view t) \<and> same_call s t"
  by (auto simp: tx_Exec_def bindR_eq_Ok view_def dest!: tx_run_Ok)

lemma statement_fails:
  "tx_QueryRow f s = (Err e, t) \<Longrightarrow> view t = view s \<and> same_call s t"
  "tx_Query g s = (Err e, t) \<Longrightarrow> view t = view s \<and> same_call s t"
  by (auto simp: tx_QueryRow_def tx_Query_def dest!: tx_run_fails_view)

lemma sql_select_Ok:
  "sql_select d c ps w = Ok (x, w') \<Longrightarrow> w' = w \<and> x \<in> set (rows_of d w) \<and> selects d ps c x"
  by (auto simp: sql_select_def first_row_def bindR_eq_Ok filter_eq_Cons_iff split: list.splits)

section \<open>Get\<close>

lemma dao_get_Ok:
  assumes "dao_get d c i s = (Ok x, t)"
  obtains ts where "DetermineVisibleTenants (tenancyLogic d) c = Ok ts" "i \<noteq> []"
    "view t = view s" "same_call s t"
    "\<And>o'. x = Some o' \<Longrightarrow> \<exists>r. (i, r) \<in> set (rows_of d (view s)) \<and> can_see (slice_list ts) r \<and>
        object_of d i r = Ok o'"
proof -
  obtain cnd ps x1 s1 where i: "i \<noteq> []"
    and f: "addTenancyFilter d c (Some (IdIs 1)) [PString i] = Ok (cnd, ps)"
    and q: "catch (bind (tx_QueryRow (sql_select d cnd ps)) (\<lambda>x. ret (Some x)))
            (\<lambda>e. if e = ErrNoRows then ret None else fail e) s = (Ok x1, s1)"
    and r: "(case x1 of None \<Rightarrow> ret None
       | Some (j, r) \<Rightarrow> bind (lift (object_of d i r)) (\<lambda>o'. ret (Some o'))) s1 = (Ok x, t)"
    using assms by (auto simp: dao_get_def act_Ok_iffs mandatory_id_def split: if_splits)
  obtain ts where ts: "DetermineVisibleTenants (tenancyLogic d) c = Ok ts"
    "\<And>x. selects d ps cnd x \<longleftrightarrow> fst x = i \<and> can_see (slice_list ts) (snd x)"
    using id_clause [OF f] by blast
  have q': "view s1 = view s \<and> same_call s s1 \<and>
      (case x1 of None \<Rightarrow> True | Some y \<Rightarrow> y \<in> set (rows_of d (view s)) \<and> selects d ps cnd y)"
    using q by (fastforce simp: catch_Ok_iff bind_Ok_iff bind_Err_iff act_simps split: if_splits
        dest!: tx_QueryRow_Ok sql_select_Ok statement_fails)
  have t: "t = s1" using r by (auto simp: act_Ok_iffs split: option.splits)
  show thesis
  proof (rule that [OF ts(1) i])
    show "view t = view s" "same_call s t" using q' t by auto
  next
    fix o' assume o': "x = Some o'"
    then obtain j r where j: "x1 = Some (j, r)" "object_of d i r = Ok o'"
      using r by (auto simp: act_Ok_iffs split: option.splits)
    then have "(j, r) \<in> set (rows_of d (view s))" "j = i" "can_see (slice_list ts) r"
      using q' ts(2) [of "(j, r)"] by auto
    then show "\<exists>r. (i, r) \<in> set (rows_of d (view s)) \<and> can_see (slice_list ts) r \<and> object_of d i r = Ok o'"
      using j(2) by blast
  qed
qed

text \<open>\<open>Get\<close> returns nil only when no visible row has the identifier.\<close>

lemma first_row_fails: "first_row xs = Err e \<longleftrightarrow> xs = [] \<and> e = ErrNoRows"
  by (auto simp: first_row_def split: list.splits)

lemma tx_QueryRow_Err:
  fixes s t :: "'db session"
  assumes "tx_QueryRow f s = (Err e, t)"
  shows "f (view s) = Err e \<or> Some e \<in> set (outcomes s)"
proof -
  have i: "interact s = (Err e, t) \<Longrightarrow> Some e \<in> set (outcomes s)" for s t :: "'db session"
    by (auto simp: interact_def split: list.splits option.splits)
  have i': "interact s = (r, t) \<Longrightarrow> x \<in> set (outcomes t) \<Longrightarrow> x \<in> set (outcomes s)" for r x and s t :: "'db session"
    by (auto simp: interact_def split: list.splits option.splits)
  have en: "ensureReal s = (r, t) \<Longrightarrow> set (outcomes t) \<subseteq> set (outcomes s) \<and>
      (r = Err e \<longrightarrow> Some e \<in> set (outcomes s))" for r and s t :: "'db session"
    by (cases r) (auto simp: ensureReal_def bind_Ok_iff bind_Err_iff bind_Panic_iff split: option.splits
        dest: i i')
  let ?K = "\<lambda>s. (case tx_real s of None \<Rightarrow> (Panic ''no real transaction'', s)
      | Some w \<Rightarrow> (case f w of Ok (x, w') \<Rightarrow> (Ok x, s\<lparr>tx_real := Some w'\<rparr>)
          | Err e \<Rightarrow> (Err e, s) | Panic p \<Rightarrow> (Panic p, s)))"
  from assms consider "ensureReal s = (Err e, t)"
    | u s1 where "ensureReal s = (Ok u, s1)" "interact s1 = (Err e, t)"
    | u s1 u' s2 where "ensureReal s = (Ok u, s1)" "interact s1 = (Ok u', s2)" "?K s2 = (Err e, t)"
    unfolding tx_QueryRow_def tx_run_def bind_Err_iff by blast
  then show ?thesis
  proof cases
    case 3
    then have "tx_real s2 = Some (view s)" using ensureReal_Ok interact_view by metis
    with 3(3) show ?thesis by (auto split: res.splits)
  qed (use en i in blast)+
qed

section \<open>List\<close>

lemma dao_list_Ok:
  assumes "dao_list d c q s = (Ok x, t)"
  shows "\<exists>ts tr items. DetermineVisibleTenants (tenancyLogic d) c = Ok ts \<and>
    (if Filter q = [] then tr = [] else filterTranslator d (Filter q) = Ok tr) \<and>
    mapR (\<lambda>(i, r). object_of d i r)
      (take (nat (effective_limit d (Limit q))) (drop (nat (max (Offset q) 0))
        (sort_key (\<lambda>x. collation d (fst x)) (filter (matches d tr (slice_list ts)) (rows_of d (view s)))))) = Ok items \<and>
    x = \<lparr>Size = int32 (int (length items)),
      Total = int32 (int (length (filter (matches d tr (slice_list ts)) (rows_of d (view s))))), Items = items\<rparr> \<and>
    view t = view s \<and> same_call s t"
proof -
  obtain tr cnd ps total s1 rs s2 items where
    tr: "if Filter q = [] then tr = [] else filterTranslator d (Filter q) = Ok tr" and
    f: "addTenancyFilter d c (if tr = [] then None else Some (FilterText tr)) [] = Ok (cnd, ps)" and
    n: "tx_QueryRow (\<lambda>w. bindR (sql_count d cnd ps w) (\<lambda>n. Ok (n, w))) s = (Ok total, s1)" and
    p: "tx_Query (sql_page d cnd ps (max (Offset q) 0) (effective_limit d (Limit q))) s1 = (Ok rs, s2)" and
    m: "mapR (\<lambda>(i, r). object_of d i r) rs = Ok items" and
    x: "x = \<lparr>Size = int32 (int (length items)), Total = int32 total, Items = items\<rparr>" and
    t: "t = s2"
    using assms unfolding dao_list_def
    by (cases "Filter q = []") (fastforce simp: act_Ok_iffs)+
  obtain ts where ts: "DetermineVisibleTenants (tenancyLogic d) c = Ok ts"
    and sel: "\<And>x. selects d ps cnd x \<longleftrightarrow> matches d tr (slice_list ts) x"
    using filter_clause [OF f] by blast
  have eq: "filter (selects d ps cnd) = filter (matches d tr (slice_list ts))"
    by (intro ext filter_cong) (simp_all add: sel)
  have s1: "view s1 = view s" "same_call s s1"
    "total = int (length (filter (matches d tr (slice_list ts)) (rows_of d (view s))))"
    using tx_QueryRow_Ok [OF n] by (auto simp: sql_count_def eq)
  have s2: "view s2 = view s" "same_call s s2" "rs = take (nat (effective_limit d (Limit q))) (drop (nat (max (Offset q) 0))
        (sort_key (\<lambda>x. collation d (fst x)) (filter (matches d tr (slice_list ts)) (rows_of d (view s)))))"
    using tx_Query_Ok [OF p] s1 by (auto simp: sql_page_def eq same_call_def)
  show ?thesis using ts tr m x t s1 s2 by blast
qed

section \<open>Exists\<close>

lemma dao_exists_Ok:
  assumes "dao_exists d c i s = (Ok b, t)"
  shows "\<exists>ts. DetermineVisibleTenants (tenancyLogic d) c = Ok ts \<and> i \<noteq> [] \<and>
    (b \<longleftrightarrow> (\<exists>r. (i, r) \<in> set (rows_of d (view s)) \<and> can_see (slice_list ts) r)) \<and>
    view t = view s \<and> same_call s t"
proof -
  obtain cnd ps n where i: "i \<noteq> []"
    and f: "addTenancyFilter d c (Some (IdIs 1)) [PString i] = Ok (cnd, ps)"
    and q: "tx_QueryRow (\<lambda>w. bindR (sql_count d cnd ps w) (\<lambda>n. Ok (n, w))) s = (Ok n, t)"
    and b: "b = (n > 0)"
    using assms by (auto simp: dao_exists_def act_Ok_iffs mandatory_id_def split: if_splits)
  obtain ts where ts: "DetermineVisibleTenants (tenancyLogic d) c = Ok ts"
    and sel: "\<And>x. selects d ps cnd x \<longleftrightarrow> fst x = i \<and> can_see (slice_list ts) (snd x)"
    using id_clause [OF f] by blast
  have n: "n = int (length (filter (selects d ps cnd) (rows_of d (view s))))"
    "view t = view s" "same_call s t"
    using tx_QueryRow_Ok [OF q] by (auto simp: sql_count_def)
  have "b \<longleftrightarrow> (\<exists>x \<in> set (rows_of d (view s)). selects d ps cnd x)"
    using b n(1) by (auto simp: filter_empty_conv)
  also have "\<dots> \<longleftrightarrow> (\<exists>r. (i, r) \<in> set (rows_of d (view s)) \<and> can_see (slice_list ts) r)"
    by (auto simp: sel Bex_def)
  finally show ?thesis using ts i n by blast
qed

section \<open>The metadata of what is read\<close>

lemma makeMetadata_simps [simp]:
  "GetStrings ''finalizers'' (makeMetadata a b fs cs ts) = fs"
  "GetStrings ''creators'' (makeMetadata a b fs cs ts) = cs"
  "GetStrings ''tenants'' (makeMetadata a b fs cs ts) = ts"
  by (simp_all add: makeMetadata_def Let_def GetStrings_def SetStrings_def)

lemma object_of_Ok:
  assumes "object_of d i r = Ok o'"
  shows "GetId o' = i" "getMetadata o' = Some (makeMetadata (creation_ts r) (deletion_ts r)
      (finalizers r) (creators r) (tenants r))"
  using assms
  by (auto simp: object_of_def bindR_eq_Ok GetId_def SetId_def getMetadata_def setMetadata_def
      GetString_def SetString_def SetMessage_def GetMessage_def)

definition object_tenants :: "msg \<Rightarrow> string set" where
  "object_tenants o' = (case getMetadata o' of None \<Rightarrow> {} | Some md \<Rightarrow> set (GetStrings ''tenants'' md))"

lemma object_of_tenants: "object_of d i r = Ok o' \<Longrightarrow> object_tenants o' = set (tenants r)"
  by (simp add: object_tenants_def object_of_Ok)

lemma can_see_overlap: "can_see ts r \<Longrightarrow> ts \<noteq> [] \<Longrightarrow> set (tenants r) \<inter> set ts \<noteq> {}"
  by (auto simp: can_see_def list_ex_iff)

text \<open>What the contract of a filtering tenancy logic gives to every reader.\<close>

context filtering_tenancy
begin

lemma seen_overlap:
  "visible c = Ok v \<Longrightarrow> can_see (slice_list v) r \<Longrightarrow> set (tenants r) \<inter> set (slice_list v) \<noteq> {}"
  using visible_not_empty can_see_overlap by blast

end

lemma default_visible:
  "DetermineVisibleTenants DefaultTenancyLogic = default_DetermineVisibleTenants"
  by (simp add: DefaultTenancyLogic_def)

lemma mapR_member: "mapR f xs = Ok ys \<Longrightarrow> y \<in> set ys \<Longrightarrow> \<exists>x \<in> set xs. f x = Ok y"
  by (induction xs arbitrary: ys) (auto simp: bindR_eq_Ok)

lemma list_item_row:
  assumes "dao_list d c q s = (Ok x, t)" "o' \<in> set (Items x)"
  shows "\<exists>ts i r tr. DetermineVisibleTenants (tenancyLogic d) c = Ok ts \<and> (i, r) \<in> set (rows_of d (view s)) \<and>
    matches d tr (slice_list ts) (i, r) \<and> object_of d i r = Ok o'"
proof -
  obtain ts tr items where ts: "DetermineVisibleTenants (tenancyLogic d) c = Ok ts"
    and m: "mapR (\<lambda>(i, r). object_of d i r)
      (take (nat (effective_limit d (Limit q))) (drop (nat (max (Offset q) 0))
        (sort_key (\<lambda>x. collation d (fst x)) (filter (matches d tr (slice_list ts)) (rows_of d (view s)))))) = Ok items"
    and x: "Items x = items"
    using dao_list_Ok [OF assms(1)] by (metis list_response.select_convs(3))
  obtain i r where "object_of d i r = Ok o'"
    "(i, r) \<in> set (take (nat (effective_limit d (Limit q))) (drop (nat (max (Offset q) 0))
        (sort_key (\<lambda>x. collation d (fst x)) (filter (matches d tr (slice_list ts)) (rows_of d (view s))))))"
    using mapR_member [OF m, of o'] assms(2) x by auto
  then have "(i, r) \<in> set (rows_of d (view s))" "matches d tr (slice_list ts) (i, r)"
    by (auto dest!: in_set_takeD in_set_dropD)
  with ts \<open>object_of d i r = Ok o'\<close> show ?thesis by blast
qed

lemma get_row:
  assumes "dao_Get d c i s = (Ok (Some o'), t)"
  shows "\<exists>ts r. DetermineVisibleTenants (tenancyLogic d) c = Ok ts \<and> (i, r) \<in> set (rows_of d (view s)) \<and>
    can_see (slice_list ts) r \<and> object_of d i r = Ok o'"
  using assms dao_get_Ok [of d c i s "Some o'" t] unfolding dao_Get_def with_tx_Ok by metis

text \<open>\<open>Get\<close> returns nil exactly when no visible row has the identifier.\<close>

lemma first_row_Ok: "first_row xs = Ok x \<Longrightarrow> x \<in> set xs"
  by (auto simp: first_row_def split: list.splits)

lemma dao_get_None:
  assumes "dao_get d c i s = (Ok None, t)" "Some ErrNoRows \<notin> set (outcomes s)"
    "DetermineVisibleTenants (tenancyLogic d) c = Ok ts" "(i, r) \<in> set (rows_of d (view s))"
  shows "\<not> can_see (slice_list ts) r"
proof
  assume "can_see (slice_list ts) r"
  obtain cnd ps x1 s1 where
    f: "addTenancyFilter d c (Some (IdIs 1)) [PString i] = Ok (cnd, ps)"
    and q: "catch (bind (tx_QueryRow (sql_select d cnd ps)) (\<lambda>x. ret (Some x)))
            (\<lambda>e. if e = ErrNoRows then ret None else fail e) s = (Ok x1, s1)"
    and r: "(case x1 of None \<Rightarrow> ret None
       | Some (j, r) \<Rightarrow> bind (lift (object_of d i r)) (\<lambda>o'. ret (Some o'))) s1 = (Ok None, t)"
    using assms(1) by (auto simp: dao_get_def act_Ok_iffs mandatory_id_def split: if_splits)
  have "x1 = None" using r by (auto simp: act_Ok_iffs split: option.splits)
  then have "\<exists>s2. tx_QueryRow (sql_select d cnd ps) s = (Err ErrNoRows, s2)"
    using q by (auto simp: catch_Ok_iff bind_Ok_iff bind_Err_iff act_simps split: if_splits)
  then have "first_row (filter (selects d ps cnd) (rows_of d (view s))) = Err ErrNoRows"
    using assms(2) by (auto simp: sql_select_def bindR_def dest!: tx_QueryRow_Err split: res.splits)
  then have "\<not> selects d ps cnd (i, r)"
    using assms(4) by (auto simp: first_row_fails filter_empty_conv)
  with id_clause [OF f] assms(3) \<open>can_see (slice_list ts) r\<close> show False by auto
qed

section \<open>An example\<close>

text \<open>
  A data access object whose documents are messages: the codec drops and keeps what the JSON encoder
  and decoder of the service do, the identifier and the metadata.
\<close>

definition example_marshal :: "msg \<Rightarrow> msg res" where
  "example_marshal o' = Ok (fmdrop ''id'' (fmdrop ''metadata'' o'))"

definition example_unmarshal :: "msg \<Rightarrow> msg \<Rightarrow> msg res" where
  "example_unmarshal x o' = Ok (o' ++\<^sub>f x)"

definition example_schema :: schema where
  "example_schema t = (if t = ''Cluster'' then
      [\<lparr>fd_name = ''id'', fd_full = ''Cluster.id'', fd_kind = StringKind, fd_card = Singular, fd_presence = False\<rparr>,
       \<lparr>fd_name = ''metadata'', fd_full = ''Cluster.metadata'', fd_kind = MessageKind ''Metadata'',
         fd_card = Singular, fd_presence = True\<rparr>,
       \<lparr>fd_name = ''state'', fd_full = ''Cluster.state'', fd_kind = StringKind, fd_card = Singular, fd_presence = False\<rparr>]
    else if t = ''Metadata'' then
      [\<lparr>fd_name = ''finalizers'', fd_full = ''Metadata.finalizers'', fd_kind = StringKind, fd_card = IsList,
         fd_presence = False\<rparr>]
    else [])"

definition example_dao :: "msg dao" where
  "example_dao = \<lparr>table = ''clusters'', defaultLimit = 100, maxLimit = 1000, eventCallbacks = [],
     objectFields = example_schema ''Cluster'', metadataFields = example_schema ''Metadata'', marshalOptions = example_marshal,
     unmarshalOptions = example_unmarshal, filterTranslator = (\<lambda>t. Ok ''true''),
     attributionLogic = default_DetermineAssignedCreators, tenancyLogic = DefaultTenancyLogic,
     sql_filter = (\<lambda>t i r. True), collation = (\<lambda>i. i)\<rparr>"

definition example_row :: "string \<Rightarrow> msg row" where
  "example_row t = \<lparr>creation_ts = 10 ^ 6, deletion_ts = 0, finalizers = [], creators = [''jane''],
     tenants = [t], row_data = fmempty\<rparr>"

definition example_db :: "msg db" where
  "example_db = \<lparr>tables = (\<lambda>t. [(''x'', example_row ''a''), (''y'', example_row ''z'')]),
     archives = (\<lambda>t. []), notifications = [], notified = []\<rparr>"

text \<open>A call of jane, who belongs to the tenants \<open>a\<close> and \<open>b\<close>.\<close>

lemma example_visible:
  "DetermineVisibleTenants DefaultTenancyLogic example_jwt_ctx = Ok (Some [''a'', ''b'', ''shared''])"
  by (simp add: example_jwt_ctx_def DefaultTenancyLogic_def default_DetermineVisibleTenants_def
      SubjectFromContext_def selectDelegate_def SubjectSourceServiceAccount_def SubjectSourceJwt_def
      JwtTenancyLogic_def jwt_DetermineVisibleTenants_def)

lemma example_dao_simps [simp]:
  "table example_dao = ''clusters''" "defaultLimit example_dao = 100" "maxLimit example_dao = 1000"
  "eventCallbacks example_dao = []" "marshalOptions example_dao = example_marshal"
  "unmarshalOptions example_dao = example_unmarshal" "tenancyLogic example_dao = DefaultTenancyLogic"
  "attributionLogic example_dao = default_DetermineAssignedCreators" "collation example_dao = (\<lambda>i. i)"
  "filterTranslator example_dao t = Ok ''true''" "sql_filter example_dao t i r"
  by (simp_all add: example_dao_def)

lemma example_session_simps [simp]:
  "outcomes (example_session w) = []" "view (example_session w) = w" "store (example_session w) = w"
  "clock (example_session w) = 0" "tx_real (example_session w) = None"
  by (simp_all add: example_session_def view_def)

abbreviation example_object :: "string \<Rightarrow> string \<Rightarrow> msg" where
  "example_object i t \<equiv> setMetadata (Some (makeMetadata (10 ^ 6) 0 [] [''jane''] [t])) (SetId i fmempty)"

lemma example_object_of: "object_of example_dao i (example_row t) = Ok (example_object i t)"
  by (simp add: object_of_def unmarshalData_def example_unmarshal_def newObject_def example_row_def)

lemma tx_QueryRow_calm:
  "outcomes s = [] \<Longrightarrow> f (view s) = Ok (x, w) \<Longrightarrow> tx_QueryRow f s = (Ok x, s\<lparr>tx_real := Some w\<rparr>)"
  "outcomes s = [] \<Longrightarrow> f (view s) = Err e \<Longrightarrow> tx_QueryRow f s = (Err e, s\<lparr>tx_real := Some (view s)\<rparr>)"
  by (simp_all add: tx_QueryRow_def tx_run_calm)

lemma tx_Query_calm:
  "outcomes s = [] \<Longrightarrow> g (view s) = Ok x \<Longrightarrow> tx_Query g s = (Ok x, s\<lparr>tx_real := Some (view s)\<rparr>)"
  by (simp add: tx_Query_def tx_run_calm)

lemma tx_Exec_calm:
  "outcomes s = [] \<Longrightarrow> g (view s) = Ok w \<Longrightarrow> tx_Exec g s = (Ok (), s\<lparr>tx_real := Some w\<rparr>)"
  by (simp add: tx_Exec_def tx_run_calm)

lemma example_Get:
  "dao_Get example_dao example_jwt_ctx ''x'' (example_session example_db) =
     (Ok (Some (example_object ''x'' ''a'')), (example_session example_db)\<lparr>tx_real := Some example_db\<rparr>)"
proof -
  have f: "addTenancyFilter example_dao example_jwt_ctx (Some (IdIs 1)) [PString ''x''] =
      Ok (Some (And (IdIs 1) (TenantsOverlap 2)), [PString ''x'', PStrings [''a'', ''b'', ''shared'']])"
    by (simp add: addTenancyFilter_def example_visible)
  have q: "sql_select example_dao (Some (And (IdIs 1) (TenantsOverlap 2)))
      [PString ''x'', PStrings [''a'', ''b'', ''shared'']] example_db = Ok ((''x'', example_row ''a''), example_db)"
    by (simp add: sql_select_def rows_of_def example_db_def selects_def example_row_def first_row_def)
  have "ctx_tx example_jwt_ctx" by (simp add: example_jwt_ctx_def)
  with f q show ?thesis
    by (simp add: dao_Get_def with_tx_def dao_get_def mandatory_id_def bind_def catch_def lift_def
        TxFromContext_def reporting_def tx_QueryRow_calm example_object_of ret_def)
qed

section \<open>Properties\<close>

text \<open>
  C13. With the tenancy logic of the public API, \<open>Get\<close> returns an object only when the object has the
  requested identifier, is a row of the table and belongs to a tenant of the subject.
\<close>

theorem get_respects_tenancy:
  assumes "tenancyLogic d = DefaultTenancyLogic"
    and "dao_Get d c i s = (Ok (Some o'), t)"
    and "DetermineVisibleTenants DefaultTenancyLogic c = Ok v"
  shows "GetId o' = i \<and> i \<in> fst ` set (rows_of d (view s)) \<and>
    object_tenants o' \<inter> set (slice_list v) \<noteq> {}"
proof -
  obtain r where r: "(i, r) \<in> set (rows_of d (view s))" "can_see (slice_list v) r" "object_of d i r = Ok o'"
    using get_row [OF assms(2)] assms(1,3) by auto
  have "default_DetermineVisibleTenants c = Ok v" using assms(3) by (simp add: default_visible)
  from default.seen_overlap [OF this r(2)] object_of_tenants [OF r(3)] object_of_Ok(1) [OF r(3)] r(1)
  show ?thesis by force
qed

theorem get_respects_tenancy_witness:
  "GetId (example_object ''x'' ''a'') = ''x'' \<and> ''x'' \<in> fst ` set (rows_of example_dao example_db) \<and>
    object_tenants (example_object ''x'' ''a'') \<inter> {''a'', ''b'', ''shared''} \<noteq> {}"
  using get_respects_tenancy [OF _ example_Get example_visible] by simp

text \<open>
  C14. Every object that \<open>List\<close> returns under the tenancy logic of the public API, whatever the filter,
  the offset and the limit, belongs to a tenant of the subject and is a row of the table.
\<close>

theorem list_respects_tenancy:
  assumes "tenancyLogic d = DefaultTenancyLogic"
    and "dao_List d c q s = (Ok x, t)" and "o' \<in> set (Items x)"
    and "DetermineVisibleTenants DefaultTenancyLogic c = Ok v"
  shows "GetId o' \<in> fst ` set (rows_of d (view s)) \<and> object_tenants o' \<inter> set (slice_list v) \<noteq> {}"
proof -
  have "dao_list d c q s = (Ok x, t)" using assms(2) by (simp add: dao_List_def with_tx_Ok)
  from list_item_row [OF this assms(3)] obtain i r tr where
    r: "(i, r) \<in> set (rows_of d (view s))" "matches d tr (slice_list v) (i, r)" "object_of d i r = Ok o'"
    using assms(1,4) by auto
  have "default_DetermineVisibleTenants c = Ok v" using assms(4) by (simp add: default_visible)
  from default.seen_overlap [OF this] r(2) object_of_tenants [OF r(3)] object_of_Ok(1) [OF r(3)] r(1)
  show ?thesis by (force simp: matches_def)
qed

definition example_list_request :: list_request where
  "example_list_request = \<lparr>Offset = - 5, Limit = 0, Filter = ''true''\<rparr>"

lemma example_List:
  "dao_List example_dao example_jwt_ctx example_list_request (example_session example_db) =
     (Ok \<lparr>Size = 1, Total = 1, Items = [example_object ''x'' ''a'']\<rparr>,
      (example_session example_db)\<lparr>tx_real := Some example_db\<rparr>)"
proof -
  let ?c = "Some (And (FilterText ''true'') (TenantsOverlap 1))"
  let ?p = "[PStrings [''a'', ''b'', ''shared'']]"
  have f: "addTenancyFilter example_dao example_jwt_ctx (Some (FilterText ''true'')) [] = Ok (?c, ?p)"
    by (simp add: addTenancyFilter_def example_visible)
  have sel: "filter (selects example_dao ?p ?c) (rows_of example_dao example_db) = [(''x'', example_row ''a'')]"
    by (simp add: rows_of_def example_db_def selects_def example_row_def)
  have "sql_count example_dao ?c ?p example_db = Ok 1" using sel by (simp add: sql_count_def)
  moreover have "sql_page example_dao ?c ?p 0 100 example_db = Ok [(''x'', example_row ''a'')]"
    using sel by (simp add: sql_page_def)
  moreover have "ctx_tx example_jwt_ctx" by (simp add: example_jwt_ctx_def)
  ultimately show ?thesis using f
    by (simp add: dao_List_def with_tx_def dao_list_def bind_def lift_def TxFromContext_def reporting_def
        tx_QueryRow_calm tx_Query_calm example_object_of ret_def example_list_request_def
        effective_limit_def int32_id)
qed

theorem list_respects_tenancy_witness:
  "GetId (example_object ''x'' ''a'') \<in> fst ` set (rows_of example_dao example_db) \<and>
     object_tenants (example_object ''x'' ''a'') \<inter> {''a'', ''b'', ''shared''} \<noteq> {}"
  using list_respects_tenancy [OF _ example_List _ example_visible, of "example_object ''x'' ''a''"] by simp

text \<open>
  C15. \<open>List\<close> returns the requested page of the visible rows that match the filter, in the order of
  their identifiers: the offset starts at zero, the limit is at most the maximum of the object, which the
  builder keeps positive, the size is the number of items and the total does not depend on the page.
\<close>

theorem list_page:
  assumes "dao_Build sc ot k b = Ok d" and "b_maxLimit b = int32 m"
    and "dao_List d c q s = (Ok x, t)"
  shows "\<exists>rs. Size x = int (length (Items x)) \<and> Size x \<le> maxLimit d \<and>
    sorted (map (\<lambda>r. collation d (fst r)) rs) \<and> Total x = int32 (int (length rs)) \<and>
    (\<exists>ts tr. DetermineVisibleTenants (tenancyLogic d) c = Ok ts \<and>
       mset rs = filter_mset (matches d tr (slice_list ts)) (mset (rows_of d (view s))) \<and>
       (Filter q = [] \<and> tr = [] \<or> filterTranslator d (Filter q) = Ok tr)) \<and>
    list_all2 (\<lambda>(i, r) o'. object_of d i r = Ok o')
      (take (nat (effective_limit d (Limit q))) (drop (nat (max (Offset q) 0)) rs)) (Items x) \<and>
    view t = view s"
proof -
  have "dao_list d c q s = (Ok x, t)" using assms(3) by (simp add: dao_List_def with_tx_Ok)
  from dao_list_Ok [OF this] obtain ts tr where
    ts: "DetermineVisibleTenants (tenancyLogic d) c = Ok ts"
    and tr: "if Filter q = [] then tr = [] else filterTranslator d (Filter q) = Ok tr"
    and m: "mapR (\<lambda>(i, r). object_of d i r)
      (take (nat (effective_limit d (Limit q))) (drop (nat (max (Offset q) 0))
        (sort_key (\<lambda>x. collation d (fst x)) (filter (matches d tr (slice_list ts)) (rows_of d (view s)))))) = Ok (Items x)"
    and z: "Size x = int32 (int (length (Items x)))"
    and n: "Total x = int32 (int (length (filter (matches d tr (slice_list ts)) (rows_of d (view s)))))"
    and v: "view t = view s"
    by force
  let ?rs = "sort_key (\<lambda>x. collation d (fst x)) (filter (matches d tr (slice_list ts)) (rows_of d (view s)))"
  have lim: "0 < defaultLimit d" "defaultLimit d \<le> maxLimit d" "maxLimit d < 2 ^ 31"
    using dao_Build_Ok [OF assms(1)] assms(2) int32_bounds [of m] by auto
  have "0 \<le> effective_limit d (Limit q)" "effective_limit d (Limit q) \<le> maxLimit d"
    using lim by (auto simp: effective_limit_def)
  moreover have "length (Items x) \<le> nat (effective_limit d (Limit q))"
    using mapR_Ok_length [OF m] by simp
  ultimately have len: "int (length (Items x)) \<le> maxLimit d" by linarith
  with z lim have "Size x = int (length (Items x))" by (simp add: int32_id)
  moreover have "list_all2 (\<lambda>(i, r) o'. object_of d i r = Ok o')
      (take (nat (effective_limit d (Limit q))) (drop (nat (max (Offset q) 0)) ?rs)) (Items x)"
    using m unfolding mapR_Ok_iff by (rule list_all2_mono) auto
  moreover have "mset ?rs = filter_mset (matches d tr (slice_list ts)) (mset (rows_of d (view s)))" by simp
  moreover have "Filter q = [] \<and> tr = [] \<or> filterTranslator d (Filter q) = Ok tr" using tr by (auto split: if_splits)
  moreover have "sorted (map (\<lambda>r. collation d (fst r)) ?rs)" by simp
  moreover have "Total x = int32 (int (length ?rs))" using n by simp
  ultimately show ?thesis using ts len v by metis
qed

definition example_builder :: "msg dao_builder" where
  "example_builder = SetMaxLimit 1000 (NewGenericDAO\<lparr>b_logger := True, b_table := ''clusters'',
     b_attributionLogic := Some default_DetermineAssignedCreators, b_tenancyLogic := Some DefaultTenancyLogic\<rparr>)"

definition example_codec :: "msg codec" where
  "example_codec = \<lparr>c_marshal = (\<lambda>fs. example_marshal), c_unmarshal = example_unmarshal,
     c_translator = (\<lambda>t. Ok ''true''), c_sql_filter = (\<lambda>t i r. True), c_collation = (\<lambda>i. i)\<rparr>"

lemma example_Build: "dao_Build example_schema ''Cluster'' example_codec example_builder = Ok example_dao"
  by (simp add: dao_Build_def example_builder_def example_codec_def example_dao_def example_schema_def
      NewGenericDAO_def SetMaxLimit_def int32_id ByName_def)

theorem list_page_witness:
  "\<exists>rs. (1::int) = int (length [example_object ''x'' ''a'']) \<and> 1 \<le> maxLimit example_dao \<and>
    sorted (map (\<lambda>r. collation example_dao (fst r)) rs) \<and> 1 = int32 (int (length rs)) \<and>
    list_all2 (\<lambda>(i, r) o'. object_of example_dao i r = Ok o') (take 100 (drop 0 rs)) [example_object ''x'' ''a'']"
proof -
  have "b_maxLimit example_builder = int32 1000" by (simp add: example_builder_def SetMaxLimit_def)
  from list_page [OF example_Build this example_List] show ?thesis
    by (fastforce simp: example_list_request_def effective_limit_def)
qed

text \<open>
  \<open>Get\<close> answers nil only for an identifier that the subject cannot see, and \<open>Exists\<close> agrees with
  it: in the same state of the transaction, \<open>Exists\<close> is true exactly when \<open>Get\<close> finds an object.
\<close>

theorem get_agrees_with_exists:
  assumes "dao_Get d c i s = (Ok x, t)" and "Some ErrNoRows \<notin> set (outcomes s)"
    and "dao_Exists d c i u = (Ok b, u')" and "view u = view s"
  shows "b \<longleftrightarrow> x \<noteq> None"
proof -
  have g: "dao_get d c i s = (Ok x, t)" using assms(1) by (simp add: dao_Get_def with_tx_Ok)
  have "dao_exists d c i u = (Ok b, u')" using assms(3) by (simp add: dao_Exists_def with_tx_Ok)
  from dao_exists_Ok [OF this] obtain ts where ts: "DetermineVisibleTenants (tenancyLogic d) c = Ok ts"
    and b: "b \<longleftrightarrow> (\<exists>r. (i, r) \<in> set (rows_of d (view s)) \<and> can_see (slice_list ts) r)"
    using assms(4) by auto
  show ?thesis
  proof (cases x)
    case None
    then show ?thesis using dao_get_None [OF _ assms(2) ts] g b by blast
  next
    case (Some o')
    then show ?thesis using get_row [of d c i s o' t] assms(1) ts b by auto
  qed
qed

theorem get_agrees_with_exists_witness:
  "\<exists>b. fst (dao_Exists example_dao example_jwt_ctx ''x'' (example_session example_db)) = Ok b \<and>
     (b \<longleftrightarrow> Some (example_object ''x'' ''a'') \<noteq> None)"
proof -
  have f: "addTenancyFilter example_dao example_jwt_ctx (Some (IdIs 1)) [PString ''x''] =
      Ok (Some (And (IdIs 1) (TenantsOverlap 2)), [PString ''x'', PStrings [''a'', ''b'', ''shared'']])"
    by (simp add: addTenancyFilter_def example_visible)
  have "ctx_tx example_jwt_ctx" by (simp add: example_jwt_ctx_def)
  with f have "\<exists>b t. dao_Exists example_dao example_jwt_ctx ''x'' (example_session example_db) = (Ok b, t)"
    by (simp add: dao_Exists_def with_tx_def dao_exists_def mandatory_id_def bind_def lift_def sql_count_def
        TxFromContext_def reporting_def tx_QueryRow_calm ret_def)
  then obtain b t where e: "dao_Exists example_dao example_jwt_ctx ''x'' (example_session example_db) = (Ok b, t)"
    by blast
  have "b \<longleftrightarrow> Some (example_object ''x'' ''a'') \<noteq> None"
    by (rule get_agrees_with_exists [OF example_Get _ e]) simp_all
  with e show ?thesis by (intro exI [of _ b]) simp
qed

end
