(* ===== verification/DaoWrites.thy ===== *)
theory DaoWrites
  imports DaoReads
begin

text \<open>
  The writing operations of the generic data access object: their effect on the tables and the
  archives, the invariant of a table (the identifiers are distinct, and a deleted object without
  finalizers is not in it) and its preservation by every request.
\<close>

section \<open>Computations that report no error when they succeed\<close>

named_theorems ok_errs_intros

definition ok_errs :: "('d db session, 'a) act \<Rightarrow> bool" where
  "ok_errs m \<longleftrightarrow> (\<forall>s x t. m s = (Ok x, t) \<longrightarrow> tx_errs t = tx_errs s)"

definition no_errs :: "('d db session, 'a) act \<Rightarrow> bool" where
  "no_errs m \<longleftrightarrow> (\<forall>s r t. m s = (r, t) \<longrightarrow> tx_errs t = tx_errs s)"

lemma ok_errsD: "ok_errs m \<Longrightarrow> m s = (Ok x, t) \<Longrightarrow> tx_errs t = tx_errs s"
  by (simp add: ok_errs_def)

lemma ok_errs_basic [ok_errs_intros]:
  "ok_errs (ret x)" "ok_errs (fail e)" "ok_errs (lift r)" "ok_errs uuid_New"
  by (auto simp: ok_errs_def ret_def fail_def lift_def uuid_New_def split: option.splits)

lemma ok_errs_bind [ok_errs_intros]: "ok_errs m \<Longrightarrow> (\<And>x. ok_errs (k x)) \<Longrightarrow> ok_errs (bind m k)"
  unfolding ok_errs_def bind_Ok_iff by metis

lemma no_errs_QueryRow [ok_errs_intros]: "no_errs (tx_QueryRow f)"
  unfolding no_errs_def
proof (intro allI impI)
  fix s r t
  assume "tx_QueryRow f s = (r, t)"
  then show "tx_errs t = tx_errs s"
    by (cases "is_Ok r") (auto simp: tx_QueryRow_def same_call_def is_Ok_def split: res.splits
        dest: tx_run_Ok tx_run_fails)
qed

lemma no_errs_now: "(\<And>n. no_errs (f n)) \<Longrightarrow> no_errs (\<lambda>s. f (clock s) s)"
  unfolding no_errs_def by blast

lemma ok_errs_now: "(\<And>n. ok_errs (f n)) \<Longrightarrow> ok_errs (\<lambda>s. f (clock s) s)"
  unfolding ok_errs_def by blast

lemma no_errs_bind [ok_errs_intros]: "no_errs m \<Longrightarrow> (\<And>x. no_errs (k x)) \<Longrightarrow> no_errs (bind m k)"
  by (fastforce simp: no_errs_def bind_def split: prod.splits res.splits)

lemma no_errs_ret [ok_errs_intros]: "no_errs (ret x)"
  by (simp add: no_errs_def ret_def)

lemma ok_errs_statements [ok_errs_intros]:
  "ok_errs (tx_QueryRow f)" "ok_errs (tx_Query g)" "ok_errs (tx_Exec h)"
  by (auto simp: ok_errs_def same_call_def dest: tx_QueryRow_Ok tx_Query_Ok tx_Exec_Ok)

lemma ok_errs_catch [ok_errs_intros]: "no_errs m \<Longrightarrow> (\<And>e. ok_errs (h e)) \<Longrightarrow> ok_errs (catch m h)"
  unfolding ok_errs_def no_errs_def catch_Ok_iff by metis

lemma ok_errs_case [ok_errs_intros]:
  "(\<And>a b. ok_errs (f a b)) \<Longrightarrow> ok_errs (case x of (a, b) \<Rightarrow> f a b)"
  "ok_errs m \<Longrightarrow> (\<And>x. ok_errs (k x)) \<Longrightarrow> ok_errs (case o' of None \<Rightarrow> m | Some x \<Rightarrow> k x)"
  "ok_errs m \<Longrightarrow> ok_errs n \<Longrightarrow> ok_errs (if b then m else n)"
  by (cases x; cases o'; cases b; simp)+

lemma ok_errs_with_tx [ok_errs_intros]: "ok_errs m \<Longrightarrow> ok_errs (with_tx c m)"
  by (simp add: ok_errs_def with_tx_Ok)

section \<open>Event callbacks that do not touch the objects\<close>

definition same_objects :: "'d db session \<Rightarrow> 'd db session \<Rightarrow> bool" where
  "same_objects s t \<longleftrightarrow> tables (view t) = tables (view s) \<and> archives (view t) = archives (view s) \<and>
     clock t = clock s"

lemma same_objects_refl [simp]: "same_objects s s"
  by (simp add: same_objects_def)

lemma same_objects_trans: "same_objects s t \<Longrightarrow> same_objects t u \<Longrightarrow> same_objects s u"
  by (simp add: same_objects_def)

text \<open>
  What the data access object relies on: the callbacks work through the transaction and leave the
  tables and the archives alone.
\<close>

locale quiet_callbacks =
  fixes d :: "'d dao"
  assumes quiet: "f \<in> set (eventCallbacks d) \<Longrightarrow> f c e s = (r, t) \<Longrightarrow> same_objects s t"
    and callback_frame: "f \<in> set (eventCallbacks d) \<Longrightarrow> keeps (tx_frame w m) (f c e)"
    and callback_errs: "f \<in> set (eventCallbacks d) \<Longrightarrow> ok_errs (f c e)"
begin

lemma fireEvent_quiet: "fireEvent d c ty o' s = (r, t) \<Longrightarrow> same_objects s t"
proof -
  have "set fs \<subseteq> set (eventCallbacks d) \<Longrightarrow>
      forM fs (\<lambda>f. f c e) s = (r, t) \<Longrightarrow> same_objects s t" for fs e r
  proof (induction fs arbitrary: s r)
    case (Cons f fs)
    then show ?case
      by (cases "f c e s"; cases "fst (f c e s)")
        (auto simp: bind_def dest: quiet intro: same_objects_trans)
  qed (simp add: ret_def)
  from this [OF subset_refl] show "fireEvent d c ty o' s = (r, t) \<Longrightarrow> same_objects s t"
    by (simp add: fireEvent_def)
qed

lemma fireEvent_errs: "ok_errs (fireEvent d c ty o')"
proof -
  have "set fs \<subseteq> set (eventCallbacks d) \<Longrightarrow> ok_errs (forM fs (\<lambda>f. f c e))" for fs e
    by (induction fs) (auto intro: ok_errs_intros callback_errs)
  then show ?thesis by (simp add: fireEvent_def)
qed

lemma fireEvent_frame [keeps_intros]: "keeps (tx_frame w m) (fireEvent d c ty o')"
proof -
  have "set fs \<subseteq> set (eventCallbacks d) \<Longrightarrow> keeps (tx_frame w m) (forM fs (\<lambda>f. f c e))" for fs e
    by (induction fs) (auto intro: keeps_ret keeps_bind callback_frame)
  then show ?thesis by (simp add: fireEvent_def)
qed

end

lemma no_callbacks: "eventCallbacks d = [] \<Longrightarrow> quiet_callbacks d"
  by unfold_locales auto

section \<open>Effects of the statements\<close>

lemma rows_of_set_rows [simp]: "rows_of d (set_rows d rs w) = rs"
  by (simp add: rows_of_def set_rows_def)

lemma set_rows_simps [simp]:
  "archives (set_rows d rs w) = archives w"
  "tables (set_rows d rs w) = (tables w)(table d := rs)"
  by (simp_all add: set_rows_def)

text \<open>The effect of an operation on the objects: the new rows and archive of its table.\<close>

definition effect ::
  "'d dao \<Rightarrow> 'd db session \<Rightarrow> (string \<times> 'd row) list \<Rightarrow> (string \<times> 'd archived) list \<Rightarrow> 'd db session \<Rightarrow> bool" where
  "effect d s rs as t \<longleftrightarrow> tables (view t) = (tables (view s))(table d := rs) \<and>
     archives (view t) = (archives (view s))(table d := as) \<and> clock t = clock s"

lemma effect_rows: "effect d s rs as t \<Longrightarrow> rows_of d (view t) = rs \<and> archives (view t) (table d) = as"
  by (simp add: effect_def rows_of_def)

lemma effect_none: "view t = view s \<Longrightarrow> clock t = clock s \<Longrightarrow> effect d s (rows_of d (view s)) (archives (view s) (table d)) t"
  by (simp add: effect_def rows_of_def)

lemma effect_trans:
  "effect d s rs as t \<Longrightarrow> effect d t rs' as' u \<Longrightarrow> effect d s rs' as' u"
  by (simp add: effect_def)

lemma effect_quiet: "effect d s rs as t \<Longrightarrow> same_objects t u \<Longrightarrow> effect d s rs as u"
  by (simp add: effect_def same_objects_def)

lemma effect_same: "same_objects s t \<Longrightarrow> effect d t rs as u \<Longrightarrow> effect d s rs as u"
  by (simp add: effect_def same_objects_def)

definition archived_row :: "int \<Rightarrow> int \<Rightarrow> int \<Rightarrow> string list \<Rightarrow> string list \<Rightarrow> 'd \<Rightarrow> 'd archived" where
  "archived_row now cts dts cs ts x = \<lparr>a_creation_ts = cts, a_deletion_ts = dts, a_archival_ts = now,
     a_creators = cs, a_tenants = ts, a_data = x\<rparr>"

lemma sql_delete_id:
  "sql_delete d (Some (IdIs 1)) [PString i] w = Ok (set_rows d (filter (\<lambda>y. fst y \<noteq> i) (rows_of d w)) w)"
proof -
  have "filter (\<lambda>x. \<not> selects d [PString i] (Some (IdIs 1)) x) (rows_of d w) =
      filter (\<lambda>y. fst y \<noteq> i) (rows_of d w)"
    by (intro filter_cong) (auto simp: selects_def)
  then show ?thesis by (simp add: sql_delete_def)
qed

lemmas sql_delete_id' = sql_delete_id [unfolded One_nat_def]

lemma dao_archive_Ok:
  assumes "dao_archive d i cts dts cs ts x s = (Ok u, t)"
  shows "effect d s (filter (\<lambda>y. fst y \<noteq> i) (rows_of d (view s)))
     (archives (view s) (table d) @ [(i, archived_row (clock s) cts dts cs ts x)]) t"
proof -
  obtain s1 u1 where
    a: "tx_Exec (sql_insert_archived d i (archived_row (clock s) cts dts cs ts x)) s = (Ok u1, s1)"
    and b: "tx_Exec (sql_delete d (Some (IdIs 1)) [PString i]) s1 = (Ok u, t)"
    using assms by (auto simp: dao_archive_def archived_row_def bind_Ok_iff)
  have "view s1 = (view s)\<lparr>archives := (archives (view s))(table d :=
      archives (view s) (table d) @ [(i, archived_row (clock s) cts dts cs ts x)])\<rparr>" "clock s1 = clock s"
    using tx_Exec_Ok [OF a] by (auto simp: sql_insert_archived_def same_call_def)
  moreover have "view t = set_rows d (filter (\<lambda>y. fst y \<noteq> i) (rows_of d (view s1))) (view s1)" "clock t = clock s1"
    using tx_Exec_Ok [OF b] by (auto simp: sql_delete_id' same_call_def)
  ultimately show ?thesis by (simp add: effect_def rows_of_def)
qed

section \<open>Create\<close>

context quiet_callbacks
begin

lemma dao_create_Ok:
  assumes "dao_create d c o' s = (Ok x, t)"
  shows "\<exists>i cs ts dt r. attributionLogic d c = Ok cs \<and> DetermineAssignedTenants (tenancyLogic d) c = Ok ts \<and>
    marshalData d o' = Ok dt \<and> (GetId o' \<noteq> [] \<longrightarrow> i = GetId o') \<and> i \<notin> fst ` set (rows_of d (view s)) \<and>
    r = \<lparr>creation_ts = clock s, deletion_ts = 0, finalizers = getFinalizers (getMetadata o'),
      creators = slice_list cs, tenants = slice_list ts, row_data = dt\<rparr> \<and>
    x = setMetadata (Some (makeMetadata (clock s) 0 (finalizers r) (creators r) (tenants r))) (SetId i o') \<and>
    effect d s (rows_of d (view s) @ [(i, r)]) (archives (view s) (table d)) t"
proof -
  let ?fs = "getFinalizers (getMetadata o')"
  obtain i s1 cs ts dt j r s2 u where
    i: "(if GetId o' = [] then uuid_New else ret (GetId o')) s = (Ok i, s1)" and
    cs: "attributionLogic d c = Ok cs" and ts: "DetermineAssignedTenants (tenancyLogic d) c = Ok ts" and
    dt: "marshalData d o' = Ok dt" and
    q: "tx_QueryRow (sql_insert d (clock s1) i ?fs (slice_list cs) (slice_list ts) dt) s1 = (Ok (j, r), s2)" and
    e: "fireEvent d c EventTypeCreated x s2 = (Ok u, t)" and
    x: "x = setMetadata (Some (makeMetadata (creation_ts r) (deletion_ts r) ?fs (slice_list cs) (slice_list ts)))
      (SetId i o')"
    using assms by (auto simp: dao_create_def Let_def act_Ok_iffs)
  have s1: "view s1 = view s" "clock s1 = clock s" "GetId o' \<noteq> [] \<longrightarrow> i = GetId o'"
    using i by (auto simp: uuid_New_def ret_def split: if_splits option.splits)
  have "sql_insert d (clock s) i ?fs (slice_list cs) (slice_list ts) dt (view s) = Ok ((j, r), view s2)"
    and c2: "clock s2 = clock s"
    using tx_QueryRow_Ok [OF q] s1 by (auto simp: same_call_def)
  then have ins: "i \<notin> fst ` set (rows_of d (view s))"
    "r = \<lparr>creation_ts = clock s, deletion_ts = 0, finalizers = ?fs, creators = slice_list cs,
       tenants = slice_list ts, row_data = dt\<rparr>"
    "view s2 = set_rows d (rows_of d (view s) @ [(i, r)]) (view s)"
    by (auto simp: sql_insert_def Let_def split: if_splits)
  have "effect d s (rows_of d (view s) @ [(i, r)]) (archives (view s) (table d)) s2"
    using ins(3) c2 by (simp add: effect_def)
  then have "effect d s (rows_of d (view s) @ [(i, r)]) (archives (view s) (table d)) t"
    using effect_quiet fireEvent_quiet [OF e] by blast
  with cs ts dt s1(3) ins(1,2) x show ?thesis by auto
qed

end

section \<open>Update and delete\<close>

text \<open>The rows after an update of those with an identifier that satisfy a condition.\<close>

definition change_rows :: "string \<Rightarrow> ('d row \<Rightarrow> bool) \<Rightarrow> ('d row \<Rightarrow> 'd row) \<Rightarrow> (string \<times> 'd row) list \<Rightarrow> (string \<times> 'd row) list" where
  "change_rows i p f rs = map (\<lambda>x. if fst x = i \<and> p (snd x) then (i, f (snd x)) else x) rs"

lemma sql_update_Ok:
  assumes "sql_update d cnd ps f w = Ok ((j, r), w')"
    and "\<And>x. selects d ps cnd x \<longleftrightarrow> fst x = i \<and> p (snd x)"
  shows "j = i \<and> (\<exists>r0. (i, r0) \<in> set (rows_of d w) \<and> p r0 \<and> r = f r0) \<and>
    w' = set_rows d (change_rows i p f (rows_of d w)) w"
proof -
  obtain x where x: "first_row (filter (selects d ps cnd) (rows_of d w)) = Ok x"
    "(j, r) = (if selects d ps cnd x then (fst x, f (snd x)) else x)"
    "w' = set_rows d (map (\<lambda>x. if selects d ps cnd x then (fst x, f (snd x)) else x) (rows_of d w)) w"
    using assms(1) by (auto simp: sql_update_def Let_def bindR_eq_Ok)
  have "x \<in> set (filter (selects d ps cnd) (rows_of d w))" using first_row_Ok [OF x(1)] .
  then have m: "x \<in> set (rows_of d w)" "selects d ps cnd x" by auto
  have "map (\<lambda>x. if selects d ps cnd x then (fst x, f (snd x)) else x) (rows_of d w) =
      change_rows i p f (rows_of d w)"
    unfolding change_rows_def by (intro map_cong) (auto simp: assms(2))
  with x m assms(2) [of x] show ?thesis by (cases x) auto
qed

lemma ids_change_rows [simp]: "map fst (change_rows i p f rs) = map fst rs"
  by (induction rs) (auto simp: change_rows_def)

lemma filter_change_rows [simp]:
  "filter (\<lambda>y. fst y \<noteq> i) (change_rows i p f rs) = filter (\<lambda>y. fst y \<noteq> i) rs"
  by (induction rs) (auto simp: change_rows_def)

text \<open>What an update does once it has found that there are changes.\<close>

definition update_row :: "'d dao \<Rightarrow> ctx \<Rightarrow> msg \<Rightarrow> 'd \<Rightarrow> ('d db session, msg option) act" where
  "update_row d c o' x = (let i = GetId o'; fs = getFinalizers (getMetadata o') in
    bind (tx_QueryRow (sql_update d (Some (IdIs 3)) [PStrings fs, PData, PString i]
              (\<lambda>r. r\<lparr>finalizers := fs, row_data := x\<rparr>))) (\<lambda>(_, r).
      (let updated = setMetadata (Some (makeMetadata (creation_ts r) (deletion_ts r) fs (creators r) (tenants r)))
                       (SetId i o') in
      bind (fireEvent d c EventTypeUpdated updated) (\<lambda>_.
      bind (if unix (deletion_ts r) \<noteq> 0 \<and> length fs = 0
            then dao_archive d i (creation_ts r) (deletion_ts r) (creators r) (tenants r) x
            else ret ()) (\<lambda>_.
      ret (Some updated))))))"

lemma dao_update_eq:
  "dao_update d c o' = bind (lift (mandatory_id (GetId o'))) (\<lambda>_. bind (dao_get d c (GetId o')) (\<lambda>current.
     (if equivalent d current o' then ret None
      else bind (lift (marshalData d o')) (\<lambda>x. update_row d c o' x))))"
  unfolding dao_update_def update_row_def Let_def ..

context quiet_callbacks
begin

lemma update_row_Ok:
  assumes "update_row d c o' dt s = (Ok x, t)" "i = GetId o'" "fs = getFinalizers (getMetadata o')"
  shows "\<exists>r0. (i, r0) \<in> set (rows_of d (view s)) \<and>
      x = Some (setMetadata (Some (makeMetadata (creation_ts r0) (deletion_ts r0) fs (creators r0) (tenants r0)))
        (SetId i o')) \<and>
      (if unix (deletion_ts r0) \<noteq> 0 \<and> fs = []
       then effect d s (filter (\<lambda>y. fst y \<noteq> i) (rows_of d (view s))) (archives (view s) (table d) @
          [(i, archived_row (clock s) (creation_ts r0) (deletion_ts r0) (creators r0) (tenants r0) dt)]) t
       else effect d s (change_rows i (\<lambda>_. True) (\<lambda>r. r\<lparr>finalizers := fs, row_data := dt\<rparr>) (rows_of d (view s)))
          (archives (view s) (table d)) t)"
proof -
  let ?f = "\<lambda>r. r\<lparr>finalizers := fs, row_data := dt\<rparr>"
  let ?rows = "change_rows i (\<lambda>_. True) ?f (rows_of d (view s))"
  obtain j r s2 s3 u where
      q: "tx_QueryRow (sql_update d (Some (IdIs 3)) [PStrings fs, PData, PString i] ?f) s = (Ok (j, r), s2)" and
      x: "x = Some (setMetadata (Some (makeMetadata (creation_ts r) (deletion_ts r) fs (creators r) (tenants r)))
                       (SetId i o'))" and
      e: "fireEvent d c EventTypeUpdated (setMetadata (Some (makeMetadata (creation_ts r) (deletion_ts r) fs
             (creators r) (tenants r))) (SetId i o')) s2 = (Ok u, s3)" and
      a: "(if unix (deletion_ts r) \<noteq> 0 \<and> length fs = 0
            then dao_archive d i (creation_ts r) (deletion_ts r) (creators r) (tenants r) dt
            else ret ()) s3 = (Ok (), t)"
    using assms(1) unfolding update_row_def Let_def assms(2,3) [symmetric]
    by (auto simp: bind_Ok_iff ret_simp)
  have up: "sql_update d (Some (IdIs 3)) [PStrings fs, PData, PString i] ?f (view s) = Ok ((j, r), view s2)"
    and c2: "clock s2 = clock s"
    using tx_QueryRow_Ok [OF q] by (simp_all add: same_call_def)
  have "selects d [PStrings fs, PData, PString i] (Some (IdIs 3)) y \<longleftrightarrow> fst y = i \<and> (\<lambda>_. True) (snd y)" for y
    by (cases y) (auto simp: selects_def)
  note upd = sql_update_Ok [OF up this]
  then obtain r0 where r0: "(i, r0) \<in> set (rows_of d (view s))" "r = ?f r0" by blast
  from upd have "view s2 = set_rows d ?rows (view s)" by blast
  with c2 have "effect d s ?rows (archives (view s) (table d)) s2" by (simp add: effect_def)
  then have e3: "effect d s ?rows (archives (view s) (table d)) s3"
    using effect_quiet fireEvent_quiet [OF e] by blast
  show ?thesis
  proof (cases "unix (deletion_ts r) \<noteq> 0 \<and> fs = []")
    case True
    then have "dao_archive d i (creation_ts r) (deletion_ts r) (creators r) (tenants r) dt s3 = (Ok (), t)"
      using a by simp
    from effect_trans [OF e3 dao_archive_Ok [OF this]] effect_rows [OF e3] e3 True x r0
    show ?thesis by (intro exI [of _ r0]) (simp add: effect_def)
  next
    case False
    then show ?thesis using a e3 x r0 by (intro exI [of _ r0]) (auto simp: ret_def)
  qed
qed

lemma dao_update_Ok:
  assumes "dao_update d c o' s = (Ok x, t)" "i = GetId o'" "fs = getFinalizers (getMetadata o')"
  shows "i \<noteq> [] \<and> (x = None \<and> view t = view s \<and> clock t = clock s \<or>
    (\<exists>r0 dt. (i, r0) \<in> set (rows_of d (view s)) \<and> marshalData d o' = Ok dt \<and>
      x = Some (setMetadata (Some (makeMetadata (creation_ts r0) (deletion_ts r0) fs (creators r0) (tenants r0)))
        (SetId i o')) \<and>
      (if unix (deletion_ts r0) \<noteq> 0 \<and> fs = []
       then effect d s (filter (\<lambda>y. fst y \<noteq> i) (rows_of d (view s))) (archives (view s) (table d) @
          [(i, archived_row (clock s) (creation_ts r0) (deletion_ts r0) (creators r0) (tenants r0) dt)]) t
       else effect d s (change_rows i (\<lambda>_. True) (\<lambda>r. r\<lparr>finalizers := fs, row_data := dt\<rparr>) (rows_of d (view s)))
          (archives (view s) (table d)) t)))"
proof -
  obtain cur s1 where i: "i \<noteq> []" and g: "dao_get d c i s = (Ok cur, s1)"
    and rest: "(if equivalent d cur o' then ret None
      else bind (lift (marshalData d o')) (\<lambda>x. update_row d c o' x)) s1 = (Ok x, t)"
    using assms(1) unfolding dao_update_eq assms(2) [symmetric] bind_Ok_iff
    by (auto simp: lift_def mandatory_id_def split: if_splits)
  have s1: "view s1 = view s" "clock s1 = clock s"
    using dao_get_Ok [OF g] by (auto simp: same_call_def)
  show ?thesis
  proof (cases "equivalent d cur o'")
    case True
    then show ?thesis using rest i s1 by (simp add: ret_def)
  next
    case False
    with rest obtain dt where dt: "marshalData d o' = Ok dt" and u: "update_row d c o' dt s1 = (Ok x, t)"
      by (auto simp: bind_Ok_iff lift_def)
    have eq: "effect d s1 rs as t \<longleftrightarrow> effect d s rs as t" for rs as
      using s1 by (simp add: effect_def)
    show ?thesis using update_row_Ok [OF u assms(2,3)] i dt unfolding s1 eq by blast
  qed
qed

lemma dao_delete_Ok:
  assumes "dao_delete d c i s = (Ok x, t)"
  shows "\<exists>ts r0. i \<noteq> [] \<and> DetermineVisibleTenants (tenancyLogic d) c = Ok ts \<and>
    (i, r0) \<in> set (rows_of d (view s)) \<and> can_see (slice_list ts) r0 \<and>
    (if finalizers r0 = []
     then effect d s (filter (\<lambda>y. fst y \<noteq> i) (rows_of d (view s))) (archives (view s) (table d) @
        [(i, archived_row (clock s) (creation_ts r0) (clock s) (creators r0) (tenants r0) (row_data r0))]) t
     else effect d s (change_rows i (can_see (slice_list ts)) (\<lambda>r. r\<lparr>deletion_ts := clock s\<rparr>) (rows_of d (view s)))
        (archives (view s) (table d)) t)"
proof -
  obtain cnd ps j r s1 o' u s2 where i: "i \<noteq> []"
    and f: "addTenancyFilter d c (Some (IdIs 1)) [PString i] = Ok (cnd, ps)"
    and q: "tx_QueryRow (sql_update d cnd ps (\<lambda>r. r\<lparr>deletion_ts := clock s\<rparr>)) s = (Ok (j, r), s1)"
    and o': "object_of d i r = Ok o'"
    and e: "fireEvent d c EventTypeDeleted o' s1 = (Ok u, s2)"
    and a: "(if length (finalizers r) = 0
     then dao_archive d i (creation_ts r) (deletion_ts r) (creators r) (tenants r) (row_data r)
     else ret ()) s2 = (Ok x, t)"
    using assms
    by (auto simp: dao_delete_def act_Ok_iffs catch_Ok_iff mandatory_id_def split: if_splits)
  obtain ts where ts: "DetermineVisibleTenants (tenancyLogic d) c = Ok ts"
    and sel: "\<And>x. selects d ps cnd x \<longleftrightarrow> fst x = i \<and> can_see (slice_list ts) (snd x)"
    using id_clause [OF f] by blast
  let ?f = "\<lambda>r. r\<lparr>deletion_ts := clock s\<rparr>"
  have u1: "sql_update d cnd ps ?f (view s) = Ok ((j, r), view s1)" and c1: "clock s1 = clock s"
    using tx_QueryRow_Ok [OF q] by (auto simp: same_call_def)
  from sql_update_Ok [OF u1 sel] obtain r0 where
    r0: "(i, r0) \<in> set (rows_of d (view s))" "can_see (slice_list ts) r0" "r = ?f r0" and
    v1: "view s1 = set_rows d (change_rows i (can_see (slice_list ts)) ?f (rows_of d (view s))) (view s)"
    by blast
  have "effect d s (change_rows i (can_see (slice_list ts)) ?f (rows_of d (view s))) (archives (view s) (table d)) s1"
    using v1 c1 by (simp add: effect_def)
  then have e2: "effect d s (change_rows i (can_see (slice_list ts)) ?f (rows_of d (view s))) (archives (view s) (table d)) s2"
    using effect_quiet fireEvent_quiet [OF e] by blast
  show ?thesis
  proof (cases "finalizers r = []")
    case True
    then have "dao_archive d i (creation_ts r) (deletion_ts r) (creators r) (tenants r) (row_data r) s2 = (Ok x, t)"
      using a by simp
    from effect_trans [OF e2 dao_archive_Ok [OF this]] effect_rows [OF e2] e2 True ts r0 i
    have "effect d s (filter (\<lambda>y. fst y \<noteq> i) (rows_of d (view s))) (archives (view s) (table d) @
        [(i, archived_row (clock s) (creation_ts r0) (clock s) (creators r0) (tenants r0) (row_data r0))]) t"
      by (auto simp: effect_def)
    with True ts r0 i show ?thesis by auto
  next
    case False
    then show ?thesis using a e2 ts r0 i by (auto simp: ret_def)
  qed
qed

end

section \<open>The invariant of a table\<close>

text \<open>An object stays in its table while it is not deleted or has finalizers.\<close>

definition live :: "'d row \<Rightarrow> bool" where
  "live r \<longleftrightarrow> unix (deletion_ts r) = 0 \<or> finalizers r \<noteq> []"

definition rows_ok :: "(string \<times> 'd row) list \<Rightarrow> bool" where
  "rows_ok rs \<longleftrightarrow> distinct (map fst rs) \<and> list_all (\<lambda>x. live (snd x)) rs"

definition table_ok :: "'d dao \<Rightarrow> 'd db \<Rightarrow> bool" where
  "table_ok d w \<longleftrightarrow> rows_ok (rows_of d w)"

lemma rows_ok_filter: "rows_ok rs \<Longrightarrow> rows_ok (filter p rs)"
  by (auto simp: rows_ok_def distinct_map_filter list_all_iff)

lemma rows_ok_append:
  "rows_ok rs \<Longrightarrow> i \<notin> fst ` set rs \<Longrightarrow> live r \<Longrightarrow> rows_ok (rs @ [(i, r)])"
  by (auto simp: rows_ok_def)

lemma change_rows_set:
  "y \<in> set (change_rows i p f rs) \<Longrightarrow>
     y \<in> set rs \<or> (\<exists>r0. (i, r0) \<in> set rs \<and> p r0 \<and> y = (i, f r0))"
  by (fastforce simp: change_rows_def split: if_splits)

lemma rows_ok_change:
  assumes "rows_ok rs" "\<And>r0. (i, r0) \<in> set rs \<Longrightarrow> p r0 \<Longrightarrow> live (f r0)"
  shows "rows_ok (change_rows i p f rs)"
  using assms by (fastforce simp: rows_ok_def list_all_iff dest!: change_rows_set)

lemma rows_unique: "rows_ok rs \<Longrightarrow> (i, r) \<in> set rs \<Longrightarrow> (i, r') \<in> set rs \<Longrightarrow> r = r'"
  by (auto simp: rows_ok_def eq_key_imp_eq_value)

lemma effect_ok: "effect d s rs as t \<Longrightarrow> rows_ok rs \<Longrightarrow> table_ok d (view t)"
  by (simp add: table_ok_def effect_rows)

section \<open>Requests\<close>

datatype dao_request =
    DList list_request | DGet string | DExists string | DCreate msg | DUpdate msg | DDelete string

definition dao_call :: "'d dao \<Rightarrow> dao_request \<Rightarrow> ctx \<Rightarrow> ('d db session, unit) act" where
  "dao_call d q c = (case q of
      DList r \<Rightarrow> bind (dao_List d c r) (\<lambda>_. ret ())
    | DGet i \<Rightarrow> bind (dao_Get d c i) (\<lambda>_. ret ())
    | DExists i \<Rightarrow> bind (dao_Exists d c i) (\<lambda>_. ret ())
    | DCreate m \<Rightarrow> bind (dao_Create d c m) (\<lambda>_. ret ())
    | DUpdate m \<Rightarrow> bind (dao_Update d c m) (\<lambda>_. ret ())
    | DDelete i \<Rightarrow> dao_Delete d c i)"

lemma with_tx_Err: "ctx_tx c \<Longrightarrow> with_tx c m s = (Err e, t) \<Longrightarrow> tx_errs t \<noteq> []"
  by (auto simp: with_tx_def bind_Err_iff lift_def TxFromContext_def dest: reporting_Err)

lemma with_tx_frame [keeps_intros]: "keeps (tx_frame w m) h \<Longrightarrow> keeps (tx_frame w m) (with_tx c h)"
  unfolding with_tx_def by (intro keeps_intros)

lemma keeps_case_prod [keeps_intros]: "(\<And>a b. keeps P (f a b)) \<Longrightarrow> keeps P (case x of (a, b) \<Rightarrow> f a b)"
  by (cases x) simp

lemma keeps_now: "(\<And>n. keeps P (f n)) \<Longrightarrow> keeps P (\<lambda>s. f (clock s) s)"
  by (simp add: keeps_def)

lemma dao_get_frame [keeps_intros]: "keeps (tx_frame w m) (dao_get d c i)"
  unfolding dao_get_def by (intro keeps_intros)

lemma dao_list_frame [keeps_intros]: "keeps (tx_frame w m) (dao_list d c q)"
  unfolding dao_list_def by (intro keeps_intros)

lemma dao_exists_frame [keeps_intros]: "keeps (tx_frame w m) (dao_exists d c i)"
  unfolding dao_exists_def by (intro keeps_intros)

lemma dao_archive_frame [keeps_intros]: "keeps (tx_frame w m) (dao_archive d i a b cs ts x)"
  unfolding dao_archive_def by (intro keeps_intros keeps_now)

context quiet_callbacks
begin

lemma dao_create_frame [keeps_intros]: "keeps (tx_frame w m) (dao_create d c o')"
  unfolding dao_create_def Let_def by (intro keeps_intros keeps_now fireEvent_frame)

lemma dao_update_frame [keeps_intros]: "keeps (tx_frame w m) (dao_update d c o')"
  unfolding dao_update_def Let_def by (intro keeps_intros keeps_now fireEvent_frame)

lemma dao_delete_frame [keeps_intros]: "keeps (tx_frame w m) (dao_delete d c i)"
  unfolding dao_delete_def by (intro keeps_intros keeps_now fireEvent_frame)

lemma dao_errs:
  "ok_errs (dao_Get d c i)" "ok_errs (dao_Create d c o')" "ok_errs (dao_Update d c o')"
  "ok_errs (dao_Delete d c i)"
  unfolding dao_Get_def dao_get_def dao_Create_def dao_create_def dao_Update_def dao_update_def dao_Delete_def
    dao_delete_def dao_archive_def Let_def
  by (intro ok_errs_intros fireEvent_errs ok_errs_now no_errs_now)+

text \<open>A request that succeeds keeps the invariant of the table.\<close>

lemma dao_call_ok:
  assumes "dao_call d q c s = (Ok u, t)" "table_ok d (view s)"
  shows "table_ok d (view t)"
proof (cases q)
  case (DList r)
  then obtain x where "dao_list d c r s = (Ok x, t)"
    using assms by (auto simp: dao_call_def bind_Ok_iff ret_def dao_List_def with_tx_Ok)
  then show ?thesis using assms(2) dao_list_Ok by metis
next
  case (DGet i)
  then obtain x where "dao_get d c i s = (Ok x, t)"
    using assms by (auto simp: dao_call_def bind_Ok_iff ret_def dao_Get_def with_tx_Ok)
  then show ?thesis using assms(2) dao_get_Ok by metis
next
  case (DExists i)
  then obtain x where "dao_exists d c i s = (Ok x, t)"
    using assms by (auto simp: dao_call_def bind_Ok_iff ret_def dao_Exists_def with_tx_Ok)
  then show ?thesis using assms(2) dao_exists_Ok by metis
next
  case (DCreate m)
  then obtain x where "dao_create d c m s = (Ok x, t)"
    using assms by (auto simp: dao_call_def bind_Ok_iff ret_def dao_Create_def with_tx_Ok)
  from dao_create_Ok [OF this] show ?thesis
    using assms(2) by (auto simp: table_ok_def effect_rows live_def unix_def intro!: rows_ok_append)
next
  case (DUpdate m)
  then obtain x where "dao_update d c m s = (Ok x, t)"
    using assms by (auto simp: dao_call_def bind_Ok_iff ret_def dao_Update_def with_tx_Ok)
  from dao_update_Ok [OF this refl refl] consider "view t = view s"
    | r0 dt where "(GetId m, r0) \<in> set (rows_of d (view s))"
      "if unix (deletion_ts r0) \<noteq> 0 \<and> getFinalizers (getMetadata m) = []
       then effect d s (filter (\<lambda>y. fst y \<noteq> GetId m) (rows_of d (view s))) (archives (view s) (table d) @
          [(GetId m, archived_row (clock s) (creation_ts r0) (deletion_ts r0) (creators r0) (tenants r0) dt)]) t
       else effect d s (change_rows (GetId m) (\<lambda>_. True) (\<lambda>r. r\<lparr>finalizers := getFinalizers (getMetadata m),
          row_data := dt\<rparr>) (rows_of d (view s))) (archives (view s) (table d)) t"
    by blast
  then show ?thesis
  proof cases
    case 1
    then show ?thesis using assms(2) by simp
  next
    case 2
    show ?thesis
    proof (cases "unix (deletion_ts r0) \<noteq> 0 \<and> getFinalizers (getMetadata m) = []")
      case True
      then show ?thesis using 2(2) assms(2) effect_ok rows_ok_filter unfolding table_ok_def by metis
    next
      case False
      let ?f = "\<lambda>r. r\<lparr>finalizers := getFinalizers (getMetadata m), row_data := dt\<rparr>"
      have "rows_ok (change_rows (GetId m) (\<lambda>_. True) ?f (rows_of d (view s)))"
      proof (rule rows_ok_change)
        show "rows_ok (rows_of d (view s))" using assms(2) by (simp add: table_ok_def)
        fix r assume "(GetId m, r) \<in> set (rows_of d (view s))"
        then have "r = r0" using 2(1) rows_unique \<open>rows_ok (rows_of d (view s))\<close> by metis
        then show "live (?f r)" using False by (auto simp: live_def)
      qed
      then show ?thesis using 2(2) False effect_ok by metis
    qed
  qed
next
  case (DDelete i)
  then have "dao_delete d c i s = (Ok u, t)"
    using assms by (auto simp: dao_call_def dao_Delete_def with_tx_Ok)
  from dao_delete_Ok [OF this] obtain ts r0 where
    r0: "(i, r0) \<in> set (rows_of d (view s))" and
    e: "if finalizers r0 = []
     then effect d s (filter (\<lambda>y. fst y \<noteq> i) (rows_of d (view s))) (archives (view s) (table d) @
        [(i, archived_row (clock s) (creation_ts r0) (clock s) (creators r0) (tenants r0) (row_data r0))]) t
     else effect d s (change_rows i (can_see (slice_list ts)) (\<lambda>r. r\<lparr>deletion_ts := clock s\<rparr>) (rows_of d (view s)))
        (archives (view s) (table d)) t"
    by blast
  have ok: "rows_ok (rows_of d (view s))" using assms(2) by (simp add: table_ok_def)
  show ?thesis
  proof (cases "finalizers r0 = []")
    case True
    then show ?thesis using e ok effect_ok rows_ok_filter by metis
  next
    case False
    have "rows_ok (change_rows i (can_see (slice_list ts)) (\<lambda>r. r\<lparr>deletion_ts := clock s\<rparr>) (rows_of d (view s)))"
    proof (rule rows_ok_change [OF ok])
      fix r assume "(i, r) \<in> set (rows_of d (view s))"
      then have "r = r0" using r0 rows_unique [OF ok] by metis
      then show "live (r\<lparr>deletion_ts := clock s\<rparr>)" using False by (auto simp: live_def)
    qed
    then show ?thesis using e False effect_ok by metis
  qed
qed

end

section \<open>Create and then get\<close>

text \<open>
  What the codec has to do: decoding what was encoded gives the message without the fields that have
  columns of their own.
\<close>

definition codec_roundtrip :: "'d dao \<Rightarrow> msg \<Rightarrow> bool" where
  "codec_roundtrip d o' \<longleftrightarrow> (case marshalData d o' of
      Ok x \<Rightarrow> unmarshalData d x newObject = Ok (fmdrop ''id'' (fmdrop ''metadata'' o'))
    | _ \<Rightarrow> True)"

lemma set_both:
  "i \<noteq> [] \<Longrightarrow> setMetadata (Some md) (SetId i (fmdrop ''id'' (fmdrop ''metadata'' o'))) =
     setMetadata (Some md) (SetId i o')"
  by (rule fmap_ext) (simp add: setMetadata_def SetId_def SetMessage_def SetString_def)

context quiet_callbacks
begin

lemma created_row_decodes:
  assumes "dao_create d c o' s = (Ok x, t)" "codec_roundtrip d o'" "GetId x \<noteq> []"
  shows "\<exists>r ts. rows_of d (view t) = rows_of d (view s) @ [(GetId x, r)] \<and> object_of d (GetId x) r = Ok x \<and>
    DetermineAssignedTenants (tenancyLogic d) c = Ok ts \<and> tenants r = slice_list ts \<and>
    GetId x \<notin> fst ` set (rows_of d (view s))"
proof -
  obtain i cs ts dt r where
    ts: "DetermineAssignedTenants (tenancyLogic d) c = Ok ts" and dt: "marshalData d o' = Ok dt" and
    r: "r = \<lparr>creation_ts = clock s, deletion_ts = 0, finalizers = getFinalizers (getMetadata o'),
      creators = slice_list cs, tenants = slice_list ts, row_data = dt\<rparr>" and
    x: "x = setMetadata (Some (makeMetadata (clock s) 0 (finalizers r) (creators r) (tenants r))) (SetId i o')" and
    e: "effect d s (rows_of d (view s) @ [(i, r)]) (archives (view s) (table d)) t"
    and n: "i \<notin> fst ` set (rows_of d (view s))"
    using dao_create_Ok [OF assms(1)] by blast
  have i: "GetId x = i"
    by (simp add: x GetId_def SetId_def setMetadata_def GetString_def SetString_def SetMessage_def)
  have "unmarshalData d dt newObject = Ok (fmdrop ''id'' (fmdrop ''metadata'' o'))"
    using assms(2) dt by (simp add: codec_roundtrip_def)
  then have "object_of d i r = Ok x"
    using assms(3) i by (simp add: object_of_def r x set_both)
  with e i ts n show ?thesis by (intro exI [of _ r] exI [of _ ts]) (auto simp: effect_rows r)
qed

end

end
