(* ===== verification/MaskPath.thy ===== *)
theory MaskPath
  imports Protobuf
begin

text \<open>
  \<open>internal/masks\<close>: the compiler of the paths of field masks, and the operations that get, set and
  clear the value that a path names. A path is a list of steps; each step names a field, and may
  select an element of a list or an entry of a map.
\<close>

section \<open>Paths\<close>

datatype step_kind = FieldStep | IndexStep int | KeyStep string

record path_step =
  st_field :: field
  st_kind :: step_kind

record path =
  path_text :: string
  path_steps :: "path_step list"

section \<open>The compiler\<close>

text \<open>
  \<open>strconv.Atoi\<close>: an optional sign and decimal digits, in 64 bits. Only the last part of its error is kept.
\<close>

definition digit :: "char \<Rightarrow> int option" where
  "digit c = (let n = (of_char c :: int) in if 48 \<le> n \<and> n \<le> 57 then Some (n - 48) else None)"

fun digits :: "int \<Rightarrow> string \<Rightarrow> int option" where
  "digits acc [] = Some acc"
| "digits acc (c # cs) = (case digit c of None \<Rightarrow> None | Some n \<Rightarrow> digits (10 * acc + n) cs)"

definition Atoi :: "string \<Rightarrow> int + string" where
  "Atoi s = (let (neg, ds) = (case s of
        CHR ''-'' # r \<Rightarrow> (True, r) | CHR ''+'' # r \<Rightarrow> (False, r) | _ \<Rightarrow> (False, s))
     in if ds = [] then Inr ''invalid syntax''
        else (case digits 0 ds of
            None \<Rightarrow> Inr ''invalid syntax''
          | Some n \<Rightarrow> (let v = (if neg then - n else n) in
              if v < - (2 ^ 63) \<or> 2 ^ 63 \<le> v then Inr ''value out of range'' else Inl v)))"

definition split_path :: "string \<Rightarrow> string list" where
  "split_path p = filter (\<lambda>s. s \<noteq> []) (map trim_space (split_on CHR ''.'' p))"

text \<open>
  The loop over the segments, with the message type in which the next one is looked up: it moves to
  the type of the field when that is a message, and stays where it was otherwise.
\<close>

fun compile_steps :: "schema \<Rightarrow> string \<Rightarrow> string list \<Rightarrow> path_step list res" where
  "compile_steps sc ty [] = Ok []"
| "compile_steps sc ty (seg # segs) = (case ByName (sc ty) seg of
      None \<Rightarrow> Err (Fmt (''field '' @ quoted seg @ '' not found''))
    | Some f \<Rightarrow> (let ty' = (case fd_kind f of MessageKind t \<Rightarrow> t | _ \<Rightarrow> ty) in
        (case (fd_card f, segs) of
           (IsList, i # rest) \<Rightarrow> (case Atoi i of
               Inr e \<Rightarrow> Err (Fmt (''invalid index '' @ quoted i @ '': '' @ e))
             | Inl n \<Rightarrow> bindR (compile_steps sc ty' rest)
                 (\<lambda>sts. Ok (\<lparr>st_field = f, st_kind = IndexStep n\<rparr> # sts)))
         | (IsMap, k # rest) \<Rightarrow> bindR (compile_steps sc ty' rest)
             (\<lambda>sts. Ok (\<lparr>st_field = f, st_kind = KeyStep k\<rparr> # sts))
         | _ \<Rightarrow> bindR (compile_steps sc ty' segs)
             (\<lambda>sts. Ok (\<lparr>st_field = f, st_kind = FieldStep\<rparr> # sts)))))"

text \<open>
  \<open>Compile\<close> joins what is left of the segments to normalise the text of the path, and nothing is left
  after the loop.
\<close>

definition Compile :: "schema \<Rightarrow> string \<Rightarrow> string \<Rightarrow> path res" where
  "Compile sc ty p = bindR (compile_steps sc ty (split_path p)) (\<lambda>sts.
     Ok \<lparr>path_text = join ''.'' [], path_steps = sts\<rparr>)"

section \<open>Get\<close>

fun steps_Get :: "path_step list \<Rightarrow> pvalue \<Rightarrow> pvalue option res" where
  "steps_Get [] v = Ok (Some v)"
| "steps_Get (st # sts) v = bindR (as_msg v) (\<lambda>m.
     if \<not> mHas m (st_field st) then Ok None
     else (let cv = mGet m (st_field st) in
       (case st_kind st of
          FieldStep \<Rightarrow> steps_Get sts cv
        | IndexStep n \<Rightarrow> bindR (as_list cv) (\<lambda>xs.
            if int (length xs) < n then Ok None
            else if n < 0 \<or> int (length xs) \<le> n then Panic ''index out of range''
            else steps_Get sts (xs ! nat n))
        | KeyStep k \<Rightarrow> bindR (as_map cv) (\<lambda>mp.
            case fmlookup mp k of None \<Rightarrow> Ok None | Some x \<Rightarrow> steps_Get sts x))))"

definition path_Get :: "path \<Rightarrow> msg option \<Rightarrow> pvalue option res" where
  "path_Get p m = (case m of None \<Rightarrow> Ok None | Some m' \<Rightarrow> steps_Get (path_steps p) (VMsg m'))"

section \<open>Set\<close>

text \<open>A list that has an element at the index: new elements are appended while it is too short.\<close>

definition extend :: "field \<Rightarrow> int \<Rightarrow> pvalue list \<Rightarrow> pvalue list" where
  "extend f n xs = xs @ replicate (nat (n + 1) - length xs) (kind_default (fd_kind f))"

text \<open>
  A field that is not populated is set to a new value first. The step of an index leaves the list as
  the current value, so a step after it panics; the step of a key that is not the last puts a new
  value in the entry.
\<close>

fun steps_Set :: "path_step list \<Rightarrow> pvalue \<Rightarrow> msg \<Rightarrow> msg res" where
  "steps_Set [] v m = Ok m"
| "steps_Set (st # sts) v m = (let f = st_field st; cur = mGet m f in
     (case st_kind st of
        FieldStep \<Rightarrow>
          (if sts = [] then mSet f v m
           else bindR (as_msg cur) (\<lambda>sub. bindR (steps_Set sts v sub) (\<lambda>sub'. mSet f (VMsg sub') m)))
      | IndexStep n \<Rightarrow> bindR (as_list cur) (\<lambda>xs.
          if sts = [] then
            (if n < 0 then Panic ''index out of range''
             else mSet f (VList ((extend f n xs)[nat n := v])) m)
          else Panic ''type mismatch'')
      | KeyStep k \<Rightarrow> bindR (as_map cur) (\<lambda>mp.
          if sts = [] then mSet f (VMap (fmupd k v mp)) m
          else bindR (as_msg (kind_default (fd_kind f))) (\<lambda>sub. bindR (steps_Set sts v sub)
            (\<lambda>sub'. mSet f (VMap (fmupd k (VMsg sub') mp)) m)))))"

definition path_Set :: "path \<Rightarrow> pvalue \<Rightarrow> msg option \<Rightarrow> msg option res" where
  "path_Set p v m = (case m of None \<Rightarrow> Ok None
    | Some m' \<Rightarrow> bindR (steps_Set (path_steps p) v m') (\<lambda>x. Ok (Some x)))"

section \<open>Clear\<close>

fun steps_Clear :: "path_step list \<Rightarrow> msg \<Rightarrow> msg res" where
  "steps_Clear [] m = Ok m"
| "steps_Clear (st # sts) m = (let f = st_field st; cur = mGet m f in
     if \<not> mHas m f then Ok m
     else (case st_kind st of
        FieldStep \<Rightarrow>
          (if sts = [] then Ok (mClear f m)
           else bindR (as_msg cur) (\<lambda>sub. bindR (steps_Clear sts sub) (\<lambda>sub'. mSet f (VMsg sub') m)))
      | IndexStep n \<Rightarrow> bindR (as_list cur) (\<lambda>xs.
          if int (length xs) < n then Ok m
          else if n < 0 \<or> int (length xs) \<le> n then Panic ''index out of range''
          else if sts = [] then mSet f (VList (xs[nat n := kind_default (fd_kind f)])) m
          else bindR (as_msg (xs ! nat n)) (\<lambda>sub. bindR (steps_Clear sts sub)
            (\<lambda>sub'. mSet f (VList (xs[nat n := VMsg sub'])) m)))
      | KeyStep k \<Rightarrow> bindR (as_map cur) (\<lambda>mp.
          if sts = [] then mSet f (VMap (fmdrop k mp)) m
          else (case fmlookup mp k of
              None \<Rightarrow> Panic ''invalid value''
            | Some x \<Rightarrow> bindR (as_msg x) (\<lambda>sub. bindR (steps_Clear sts sub)
                (\<lambda>sub'. mSet f (VMap (fmupd k (VMsg sub') mp)) m))))))"

definition path_Clear :: "path \<Rightarrow> msg option \<Rightarrow> msg option res" where
  "path_Clear p m = (case m of None \<Rightarrow> Ok None
    | Some m' \<Rightarrow> bindR (steps_Clear (path_steps p) m') (\<lambda>x. Ok (Some x)))"

section \<open>Laws\<close>

lemma mSet_Ok: "mSet f v m = Ok m' \<longleftrightarrow> field_ok f v \<and> m' = mPut f v m"
  by (auto simp: mSet_def)

text \<open>Whether setting a field to a value populates it.\<close>

definition populates :: "field \<Rightarrow> pvalue \<Rightarrow> bool" where
  "populates f v \<longleftrightarrow> \<not> (implicit_presence f \<and> v = field_default f)"

lemma mHas_mPut: "mHas (mPut f v m) f \<longleftrightarrow> populates f v"
  by (simp add: mHas_def mPut_def populates_def)

lemma field_ok_message: "field_ok f (VMsg x) \<Longrightarrow> \<not> implicit_presence f"
  by (cases "fd_card f"; cases "fd_kind f") (auto simp: field_ok_def implicit_presence_def)

lemma populates_message: "field_ok f (VMsg x) \<Longrightarrow> populates f (VMsg x)"
  by (simp add: populates_def field_ok_message)

lemma populates_list: "xs \<noteq> [] \<Longrightarrow> field_ok f (VList xs) \<Longrightarrow> populates f (VList xs)"
  by (cases "fd_card f"; cases "fd_kind f") (auto simp: populates_def field_default_def field_ok_def)

lemma fmupd_not_empty: "fmupd k v m \<noteq> fmempty"
  by (metis fmempty_lookup fmupd_lookup option.distinct(1))

lemma populates_map: "field_ok f (VMap (fmupd k x mp)) \<Longrightarrow> populates f (VMap (fmupd k x mp))"
  by (cases "fd_card f"; cases "fd_kind f")
    (auto simp: populates_def field_default_def field_ok_def fmupd_not_empty)

lemma extend_nth: "0 \<le> n \<Longrightarrow> nat n < length (extend f n xs) \<and> n < int (length (extend f n xs))"
  by (auto simp: extend_def)

text \<open>
  The last step of the path, on which it depends whether the field that is set counts as populated.
\<close>

definition last_populates :: "path_step list \<Rightarrow> pvalue \<Rightarrow> bool" where
  "last_populates sts v \<longleftrightarrow> sts \<noteq> [] \<longrightarrow> st_kind (last sts) = FieldStep \<longrightarrow> populates (st_field (last sts)) v"

lemma get_after_set:
  "steps_Set sts v m = Ok m' \<Longrightarrow> sts \<noteq> [] \<Longrightarrow> last_populates sts v \<Longrightarrow>
   steps_Get sts (VMsg m') = Ok (Some v)"
proof (induction sts v m arbitrary: m' rule: steps_Set.induct)
  case (2 st sts v m)
  let ?f = "st_field st"
  have get: "mGet (mPut ?f x m) ?f = x" for x by (rule mGet_mPut)
  have lp: "sts \<noteq> [] \<Longrightarrow> last_populates sts v" using 2 by (simp add: last_populates_def)
  show ?case
  proof (cases "st_kind st")
    case FieldStep
    show ?thesis
    proof (cases "sts = []")
      case True
      then show ?thesis using 2 FieldStep
        by (auto simp: Let_def mSet_Ok get mHas_mPut last_populates_def)
    next
      case False
      then obtain sub sub' where "steps_Set sts v sub = Ok sub'" "mGet m ?f = VMsg sub"
        "field_ok ?f (VMsg sub')" "m' = mPut ?f (VMsg sub') m"
        using 2 FieldStep by (auto simp: Let_def mSet_Ok bindR_eq_Ok as_Ok_iffs)
      then show ?thesis using 2(1) False lp FieldStep
        by (simp add: get mHas_mPut populates_message)
    qed
  next
    case (IndexStep n)
    then obtain xs where xs: "sts = []" "0 \<le> n" "field_ok ?f (VList ((extend ?f n xs)[nat n := v]))"
      "m' = mPut ?f (VList ((extend ?f n xs)[nat n := v])) m"
      using 2 by (auto simp: Let_def mSet_Ok bindR_eq_Ok as_Ok_iffs split: if_splits)
    have "extend ?f n xs \<noteq> []" using extend_nth [OF xs(2), of ?f xs] by auto
    then have "populates ?f (VList ((extend ?f n xs)[nat n := v]))"
      using xs(3) populates_list by force
    then show ?thesis using xs extend_nth [OF xs(2), of ?f xs] IndexStep
      by (simp add: get mHas_mPut)
  next
    case (KeyStep k)
    show ?thesis
    proof (cases "sts = []")
      case True
      then show ?thesis using 2 KeyStep
        by (auto simp: Let_def mSet_Ok get mHas_mPut bindR_eq_Ok populates_map)
    next
      case False
      then obtain mp sub sub' where "steps_Set sts v sub = Ok sub'"
        "kind_default (fd_kind ?f) = VMsg sub" "mGet m ?f = VMap mp"
        "field_ok ?f (VMap (fmupd k (VMsg sub') mp))" "m' = mPut ?f (VMap (fmupd k (VMsg sub') mp)) m"
        using 2 KeyStep by (auto simp: Let_def mSet_Ok bindR_eq_Ok as_Ok_iffs)
      then show ?thesis using 2(2) False lp KeyStep
        by (simp add: get mHas_mPut populates_map as_Ok_iffs)
    qed
  qed
qed simp

lemma mPut_lookup: "n \<noteq> fd_name f \<Longrightarrow> fmlookup (mPut f v m) n = fmlookup m n"
  by (simp add: mPut_def)

text \<open>A path touches only the field of its first step.\<close>

lemma set_frame:
  "steps_Set (st # sts) v m = Ok m' \<Longrightarrow> n \<noteq> fd_name (st_field st) \<Longrightarrow> fmlookup m' n = fmlookup m n"
  by (cases "st_kind st") (auto simp: Let_def bindR_eq_Ok mSet_Ok mPut_lookup split: if_splits)

lemma clear_frame:
  "steps_Clear (st # sts) m = Ok m' \<Longrightarrow> n \<noteq> fd_name (st_field st) \<Longrightarrow> fmlookup m' n = fmlookup m n"
  by (cases "st_kind st")
    (auto simp: Let_def bindR_eq_Ok mSet_Ok mPut_lookup mClear_def split: if_splits option.splits)

text \<open>After clearing a path that ends in a field, nothing is found there.\<close>

lemma get_after_clear:
  "steps_Clear sts m = Ok m' \<Longrightarrow> sts \<noteq> [] \<Longrightarrow> list_all (\<lambda>st. st_kind st = FieldStep) sts \<Longrightarrow>
   steps_Get sts (VMsg m') = Ok None"
proof (induction sts m arbitrary: m' rule: steps_Clear.induct)
  case (2 st sts m)
  let ?f = "st_field st"
  show ?case
  proof (cases "mHas m ?f \<and> sts \<noteq> []")
    case True
    with 2 obtain sub sub' where "steps_Clear sts sub = Ok sub'" "mGet m ?f = VMsg sub"
      "field_ok ?f (VMsg sub')" "m' = mPut ?f (VMsg sub') m"
      by (auto simp: Let_def mSet_Ok bindR_eq_Ok as_Ok_iffs)
    with 2 True show ?thesis by (auto simp: mGet_mPut mHas_mPut populates_message)
  next
    case False
    then have "\<not> mHas m' ?f" using 2 by (auto simp: Let_def split: if_splits)
    then show ?thesis by simp
  qed
qed simp

section \<open>Properties\<close>


definition example_list_field :: field where
  "example_list_field = \<lparr>fd_name = ''items'', fd_full = ''M.items'', fd_kind = StringKind, fd_card = IsList,
     fd_presence = False\<rparr>"

definition example_nested_field :: field where
  "example_nested_field = \<lparr>fd_name = ''spec'', fd_full = ''M.spec'', fd_kind = MessageKind ''M'', fd_card = Singular,
     fd_presence = True\<rparr>"

definition example_path :: path where
  "example_path = \<lparr>path_text = [], path_steps =
     [\<lparr>st_field = example_nested_field, st_kind = FieldStep\<rparr>, \<lparr>st_field = example_list_field, st_kind = IndexStep 1\<rparr>]\<rparr>"

lemma example_Set:
  "path_Set example_path (VStr ''b'') (Some fmempty) =
     Ok (Some (fmupd ''spec'' (VMsg (fmupd ''items'' (VList [VStr [], VStr ''b'']) fmempty)) fmempty))"
  by (simp add: path_Set_def example_path_def example_nested_field_def example_list_field_def mGet_def
      field_default_def extend_def numeral_2_eq_2 mSet_def field_ok_def mPut_def implicit_presence_def Let_def)


text \<open>
  Getting or clearing the element of a list whose index is exactly the length of the list panics,
  instead of answering that there is no such element, which is the answer for any larger index.
\<close>

theorem index_at_length_panics:
  assumes "fmlookup m (fd_name f) = Some (VList xs)"
  shows "path_Get \<lparr>path_text = t, path_steps = [\<lparr>st_field = f, st_kind = IndexStep n\<rparr>]\<rparr> (Some m) =
    (if int (length xs) < n then Ok None
     else if n = int (length xs) then Panic ''index out of range''
     else if n < 0 then Panic ''index out of range''
     else Ok (Some (xs ! nat n)))"
  using assms by (auto simp: path_Get_def mHas_def mGet_def)

theorem index_at_length_panics_witness:
  "path_Get \<lparr>path_text = [], path_steps = [\<lparr>st_field = example_list_field, st_kind = IndexStep 1\<rparr>]\<rparr>
     (Some (fmupd ''items'' (VList [VStr ''a'']) fmempty)) = Panic ''index out of range''"
  using index_at_length_panics [of "fmupd ''items'' (VList [VStr ''a'']) fmempty" example_list_field "[VStr ''a'']" "[]" 1]
  by (simp add: example_list_field_def)

text \<open>
  The segments that a compiled path spells: the name of the field of each step, followed by the text
  of the index or of the key when the step has one.
\<close>

fun spells :: "schema \<Rightarrow> path_step list \<Rightarrow> string list \<Rightarrow> bool" where
  "spells sc [] segs \<longleftrightarrow> segs = []"
| "spells sc (st # sts) segs \<longleftrightarrow> (\<exists>ty. ByName (sc ty) (fd_name (st_field st)) = Some (st_field st)) \<and>
     (case st_kind st of
        FieldStep \<Rightarrow> (case segs of a # r \<Rightarrow> a = fd_name (st_field st) \<and> spells sc sts r | _ \<Rightarrow> False)
      | IndexStep n \<Rightarrow> fd_card (st_field st) = IsList \<and>
          (case segs of a # i # r \<Rightarrow> a = fd_name (st_field st) \<and> Atoi i = Inl n \<and> spells sc sts r | _ \<Rightarrow> False)
      | KeyStep k \<Rightarrow> fd_card (st_field st) = IsMap \<and>
          (case segs of a # k' # r \<Rightarrow> a = fd_name (st_field st) \<and> k' = k \<and> spells sc sts r | _ \<Rightarrow> False))"

lemma compile_steps_spells: "compile_steps sc ty segs = Ok sts \<Longrightarrow> spells sc sts segs"
proof (induction sc ty segs arbitrary: sts rule: compile_steps.induct)
  case (2 sc ty seg segs)
  then obtain f where f: "ByName (sc ty) seg = Some f" by (auto split: option.splits)
  then have n: "fd_name f = seg" using ByName_Some by blast
  then have b: "\<exists>ty. ByName (sc ty) (fd_name f) = Some f" using f by blast
  show ?case
  proof (cases "fd_card f = Singular \<or> segs = []")
    case True
    then show ?thesis using 2 f n b
      by (cases "fd_card f"; cases segs) (auto simp: Let_def bindR_eq_Ok)
  next
    case False
    then obtain s segs' where "segs = s # segs'" "fd_card f \<noteq> Singular" by (cases segs) auto
    then show ?thesis using 2 f n b
      by (cases "fd_card f"; cases "Atoi s") (auto simp: Let_def bindR_eq_Ok)
  qed
qed simp

text \<open>
  A compiled path spells the text it was compiled from: its steps are, in order, the segments of
  the text without blanks and empty segments, each field is one of the schema, and indexes and keys
  select elements of lists and entries of maps only.
\<close>

theorem compile_spells:
  assumes "Compile sc ty p = Ok r"
  shows "spells sc (path_steps r) (split_path p)"
  using assms compile_steps_spells by (auto simp: Compile_def bindR_eq_Ok)

theorem compile_spells_witness:
  "spells (\<lambda>t. [example_nested_field, example_list_field])
     [\<lparr>st_field = example_nested_field, st_kind = FieldStep\<rparr>, \<lparr>st_field = example_list_field, st_kind = IndexStep 1\<rparr>]
     [''spec'', ''items'', ''1'']"
proof -
  have s: "split_path ''spec. items.1'' = [''spec'', ''items'', ''1'']"
    by (simp add: split_path_def trim_space_def is_space_def)
  have "Compile (\<lambda>t. [example_nested_field, example_list_field]) ''M'' ''spec. items.1'' = Ok example_path"
    unfolding Compile_def s
    by (simp add: example_path_def ByName_def example_nested_field_def example_list_field_def Atoi_def digit_def)
  from compile_spells [OF this] s show ?thesis by (simp add: example_path_def)
qed

end
