(* ===== verification/GenericServer.thy ===== *)
theory GenericServer
  imports DaoWrites MaskPath
begin

text \<open>
  \<open>internal/database/database_notifier.go\<close> and \<open>internal/servers/generic_server.go\<close>: notifications sent
  inside the transaction, and the server that offers List, Get, Create, Update and Delete for any type
  of object on top of the data access object. The serialisation of \<open>google.golang.org/protobuf\<close> is an
  argument of the notifier. Requests are the values that their getters return.
\<close>

section \<open>The notifier\<close>

record notifier =
  channel :: string
  marshal_any :: "msg \<Rightarrow> string res"

definition sql_insert_notification :: "int \<Rightarrow> string \<Rightarrow> string \<Rightarrow> 'd db \<Rightarrow> 'd db res" where
  "sql_insert_notification now i payload w =
    (if i \<in> fst ` set (notifications w) then Err (DbError ''duplicate key value violates unique constraint'')
     else Ok (w\<lparr>notifications := notifications w @ [(i, now, payload)]\<rparr>))"

definition sql_notify :: "string \<Rightarrow> string \<Rightarrow> 'd db \<Rightarrow> 'd db res" where
  "sql_notify ch i w = Ok (w\<lparr>notified := notified w @ [(ch, i)]\<rparr>)"

text \<open>\<open>creation_timestamp < now() - interval '1 minute'\<close>.\<close>

definition sql_delete_old :: "int \<Rightarrow> 'd db \<Rightarrow> 'd db res" where
  "sql_delete_old now w = Ok (w\<lparr>notifications :=
     filter (\<lambda>(i, ts, p). \<not> ts < now - 60 * 10 ^ 6) (notifications w)\<rparr>)"

definition Notify :: "notifier \<Rightarrow> ctx \<Rightarrow> msg \<Rightarrow> ('d db session, unit) act" where
  "Notify n c payload = with_tx c
    (bind (lift (marshal_any n payload)) (\<lambda>x.
     bind uuid_New (\<lambda>i.
     bind (\<lambda>s. tx_Exec (sql_insert_notification (clock s) i x) s) (\<lambda>_.
     bind (tx_Exec (sql_notify (channel n) i)) (\<lambda>_.
     (\<lambda>s. tx_Exec (sql_delete_old (clock s)) s))))))"

section \<open>Events\<close>

text \<open>The field of the event that holds an object of a type.\<close>

definition event_field :: "string \<Rightarrow> string option" where
  "event_field t = map_of
     [(''private.v1.ClusterTemplate'', ''cluster_template''), (''private.v1.Cluster'', ''cluster''),
      (''private.v1.HostClass'', ''host_class''), (''private.v1.Host'', ''host''),
      (''private.v1.HostPool'', ''host_pool''), (''private.v1.Hub'', ''hub''),
      (''private.v1.VirtualMachineTemplate'', ''virtual_machine_template''),
      (''private.v1.VirtualMachine'', ''virtual_machine'')] t"

fun event_type_number :: "event_type \<Rightarrow> int" where
  "event_type_number EventTypeCreated = 1"
| "event_type_number EventTypeUpdated = 2"
| "event_type_number EventTypeDeleted = 3"

text \<open>\<open>notifyEvent\<close>: the kubeconfig of a hub is not sent.\<close>

definition notifyEvent :: "string \<Rightarrow> notifier \<Rightarrow> ctx \<Rightarrow> event \<Rightarrow> ('d db session, unit) act" where
  "notifyEvent ty n c e =
    bind uuid_New (\<lambda>i.
     (let ev = fmupd ''type'' (VEnum (event_type_number (ev_type e))) (SetString ''id'' i fmempty) in
      (case event_field ty of
         None \<Rightarrow> fail (Fmt (''unknown object type '' @ quoted ty))
       | Some f \<Rightarrow>
           (let obj = (if ty = ''private.v1.Hub'' then fmdrop ''kubeconfig'' (ev_object e) else ev_object e) in
            Notify n c (SetMessage f (Some obj) ev)))))"

section \<open>The server\<close>

record 'd generic_server =
  g_dao :: "'d dao"
  g_schema :: schema
  g_type :: string

text \<open>
  \<open>Build\<close>, up to the descriptors of the service's requests, which generated code registers: the
  event callback is added when there is a notifier, and the attribution logic when there is one.
\<close>

record 'd server_builder =
  sb_logger :: bool
  sb_service :: string
  sb_table :: string
  sb_notifier :: "notifier option"
  sb_attribution :: "attribution_logic option"
  sb_tenancy :: "tenancy_logic option"

definition server_dao_builder :: "string \<Rightarrow> 'd server_builder \<Rightarrow> 'd dao_builder" where
  "server_dao_builder ty b =
    (let db0 = NewGenericDAO\<lparr>b_logger := sb_logger b, b_table := sb_table b\<rparr>;
         db1 = (case sb_notifier b of None \<Rightarrow> db0 | Some n \<Rightarrow> AddEventCallback (notifyEvent ty n) db0);
         db2 = (case sb_attribution b of None \<Rightarrow> db1 | Some a \<Rightarrow> db1\<lparr>b_attributionLogic := Some a\<rparr>)
     in (case sb_tenancy b of None \<Rightarrow> db2 | Some t \<Rightarrow> db2\<lparr>b_tenancyLogic := Some t\<rparr>))"

definition server_Build :: "schema \<Rightarrow> string \<Rightarrow> 'd codec \<Rightarrow> 'd server_builder \<Rightarrow> 'd generic_server res" where
  "server_Build sc ty k b =
    (if \<not> sb_logger b then Err (Fmt ''logger is mandatory'')
     else if sb_service b = [] then Err (Fmt ''service name is mandatory'')
     else if sb_table b = [] then Err (Fmt ''table name is mandatory'')
     else (case dao_Build sc ty k (server_dao_builder ty b) of
         Err e \<Rightarrow> Err (Fmt ''failed to create DAO'')
       | Panic p \<Rightarrow> Panic p
       | Ok d \<Rightarrow> Ok \<lparr>g_dao = d, g_schema = sc, g_type = ty\<rparr>))"

section \<open>Methods\<close>

definition server_List :: "'d generic_server \<Rightarrow> ctx \<Rightarrow> list_request \<Rightarrow> ('d db session, list_response) act" where
  "server_List g c q = catch (dao_List (g_dao g) c q) (\<lambda>e. fail (Status Internal ''failed to list''))"

definition server_Get :: "'d generic_server \<Rightarrow> ctx \<Rightarrow> string \<Rightarrow> ('d db session, msg) act" where
  "server_Get g c i =
    (if i = [] then fail (Status InvalidArgument ''identifier is mandatory'')
     else bind (catch (dao_Get (g_dao g) c i)
            (\<lambda>e. fail (Status Internal (''failed to get object with identifier '' @ quoted i)))) (\<lambda>x.
       (case x of
          None \<Rightarrow> fail (Status NotFound (''object with identifier '' @ quoted i @ '' doesn't exist''))
        | Some o' \<Rightarrow> ret o')))"

definition server_Create :: "'d generic_server \<Rightarrow> ctx \<Rightarrow> msg option \<Rightarrow> ('d db session, msg) act" where
  "server_Create g c x = (case x of
      None \<Rightarrow> fail (Status InvalidArgument ''object is mandatory'')
    | Some o' \<Rightarrow> catch (dao_Create (g_dao g) c o') (\<lambda>e. fail (Status Internal ''failed to create object'')))"

text \<open>\<open>compilePaths\<close>; the cache of \<open>compilePath\<close> holds results of \<open>Compile\<close> for the same server.\<close>

type_synonym path_cache = "string \<Rightarrow> path option"

definition compilePath :: "'d generic_server \<Rightarrow> string \<Rightarrow> path_cache \<Rightarrow> path res \<times> path_cache" where
  "compilePath g p cache = (case cache p of
      Some r \<Rightarrow> (Ok r, cache)
    | None \<Rightarrow> (case Compile (g_schema g) (g_type g) p of
        Ok r \<Rightarrow> (Ok r, cache(p \<mapsto> r))
      | e \<Rightarrow> (e, cache)))"

definition compilePaths :: "'d generic_server \<Rightarrow> string list \<Rightarrow> path list res" where
  "compilePaths g ps = mapR (Compile (g_schema g) (g_type g)) ps"

text \<open>One path of the mask: the value of the input, or the removal of the path when it has none.\<close>

definition apply_path :: "msg \<Rightarrow> path \<Rightarrow> msg \<Rightarrow> msg res" where
  "apply_path input p o' = bindR (path_Get p (Some input)) (\<lambda>v.
     bindR (case v of Some x \<Rightarrow> path_Set p x (Some o') | None \<Rightarrow> path_Clear p (Some o'))
       (\<lambda>y. Ok (the y)))"

fun apply_paths :: "msg \<Rightarrow> path list \<Rightarrow> msg \<Rightarrow> msg res" where
  "apply_paths input [] o' = Ok o'"
| "apply_paths input (p # ps) o' = bindR (apply_path input p o') (apply_paths input ps)"

definition server_Update ::
  "'d generic_server \<Rightarrow> ctx \<Rightarrow> msg option \<Rightarrow> string list option \<Rightarrow> ('d db session, msg option) act" where
  "server_Update g c x paths = (case x of
      None \<Rightarrow> fail (Status InvalidArgument ''object is mandatory'')
    | Some input \<Rightarrow> (let i = GetId input in
        if i = [] then fail (Status Internal ''object identifier is mandatory'')
        else bind (catch (dao_Get (g_dao g) c i)
            (\<lambda>e. fail (Status Internal (''failed to get object with identifier '' @ quoted i)))) (\<lambda>y.
          (case y of
             None \<Rightarrow> fail (Status InvalidArgument (''object with identifier '' @ quoted i @ '' doesn't exist''))
           | Some current \<Rightarrow>
               bind (lift (case paths of
                   None \<Rightarrow> Ok input
                 | Some ps \<Rightarrow> bindR (compilePaths g ps) (\<lambda>fps. apply_paths input fps current))) (\<lambda>o'.
               catch (dao_Update (g_dao g) c o')
                 (\<lambda>e. fail (Status Internal (''failed to update object with identifier '' @ quoted i))))))))"

definition server_Delete :: "'d generic_server \<Rightarrow> ctx \<Rightarrow> string \<Rightarrow> ('d db session, unit) act" where
  "server_Delete g c i =
    (if i = [] then fail (Status Internal ''object identifier is mandatory'')
     else catch (dao_Delete (g_dao g) c i) (\<lambda>e. (case e of
         ErrNotFound j \<Rightarrow> fail (Status NotFound (''object with identifier '' @ quoted i @ '' not found''))
       | _ \<Rightarrow> fail (Status Internal ''failed to delete object''))))"

section \<open>The notifier leaves the objects alone\<close>

lemma tx_Exec_objects:
  assumes "tx_Exec f s = (r, t)" "\<And>w w'. f w = Ok w' \<Longrightarrow> tables w' = tables w \<and> archives w' = archives w"
  shows "same_objects s t"
proof (cases r)
  case (Ok u)
  then show ?thesis using tx_Exec_Ok [of f s u t] assms by (auto simp: same_objects_def same_call_def)
next
  case (Err e)
  then have "view t = view s \<and> same_call s t"
    using assms(1) tx_run_fails_view by (fastforce simp: tx_Exec_def)
  then show ?thesis by (simp add: same_objects_def same_call_def)
next
  case (Panic p)
  then have "view t = view s \<and> same_call s t"
    using assms(1) tx_run_fails_view by (fastforce simp: tx_Exec_def)
  then show ?thesis by (simp add: same_objects_def same_call_def)
qed

text \<open>A computation that leaves the objects alone, whatever its result.\<close>

definition harmless :: "('d db session, 'a) act \<Rightarrow> bool" where
  "harmless m \<longleftrightarrow> (\<forall>s. same_objects s (snd (m s)))"

named_theorems harmless_intros

lemma harmlessD: "harmless m \<Longrightarrow> m s = (r, t) \<Longrightarrow> same_objects s t"
  by (metis harmless_def snd_conv)

lemma harmlessI: "(\<And>s r t. m s = (r, t) \<Longrightarrow> same_objects s t) \<Longrightarrow> harmless m"
  unfolding harmless_def by (metis surjective_pairing)

lemma harmless_ret [harmless_intros]: "harmless (ret x)" "harmless (fail e)" "harmless (lift r)"
  by (simp_all add: harmless_def ret_def fail_def lift_def)

lemma harmless_bind [harmless_intros]:
  assumes "harmless m" "\<And>x. harmless (k x)"
  shows "harmless (bind m k)"
  unfolding harmless_def
proof
  fix s
  obtain r s1 where m: "m s = (r, s1)" by (cases "m s")
  then have s1: "same_objects s s1" using assms(1) by (metis harmless_def snd_conv)
  show "same_objects s (snd (bind m k s))"
  proof (cases r)
    case (Ok x)
    then show ?thesis using m assms(2) [of x] same_objects_trans [OF s1, of "snd (k x s1)"]
      by (simp add: bind_def harmless_def)
  qed (use m s1 in \<open>simp_all add: bind_def\<close>)
qed

lemma harmless_uuid [harmless_intros]: "harmless uuid_New"
  by (auto simp: harmless_def uuid_New_def same_objects_def split: option.splits)

lemma harmless_exec [harmless_intros]:
  "(\<And>w w'. f w = Ok w' \<Longrightarrow> tables w' = tables w \<and> archives w' = archives w) \<Longrightarrow> harmless (tx_Exec f)"
  unfolding harmless_def by (metis tx_Exec_objects surjective_pairing)

lemma harmless_now: "(\<And>n. harmless (f n)) \<Longrightarrow> harmless (\<lambda>s. f (clock s) s)"
  by (simp add: harmless_def)

lemma harmless_reporting [harmless_intros]:
  assumes "harmless m"
  shows "harmless (reporting m)"
proof (rule harmlessI)
  fix s r t
  assume "reporting m s = (r, t)"
  then obtain s1 e where "m s = (r, s1)" "t = ReportError e s1" using reporting_cases by blast
  with harmlessD [OF assms] show "same_objects s t" by (simp add: same_objects_def)
qed

lemma harmless_with_tx [harmless_intros]: "harmless m \<Longrightarrow> harmless (with_tx c m)"
  unfolding with_tx_def by (intro harmless_intros)

lemma harmless_Notify [harmless_intros]: "harmless (Notify n c x)"
  unfolding Notify_def
  by (intro harmless_intros harmless_now)
    (auto simp: sql_insert_notification_def sql_notify_def sql_delete_old_def split: if_splits)

lemma harmless_notifyEvent: "harmless (notifyEvent ty n c e)"
  unfolding notifyEvent_def Let_def
  by (cases "event_field ty") (auto intro!: harmless_intros)

lemma Notify_frame [keeps_intros]: "keeps (tx_frame w m) (Notify n c x)"
  unfolding Notify_def by (intro keeps_intros keeps_now)

lemma notifyEvent_frame: "keeps (tx_frame w m) (notifyEvent ty n c e)"
  unfolding notifyEvent_def Let_def by (intro keeps_intros)

lemma Notify_errs [ok_errs_intros]: "ok_errs (Notify n c x)"
  unfolding Notify_def by (intro ok_errs_intros ok_errs_now)

lemma notifyEvent_errs: "ok_errs (notifyEvent ty n c e)"
  unfolding notifyEvent_def Let_def by (intro ok_errs_intros)

text \<open>The data access object of a server, with the callback of its notifier.\<close>

definition server_dao :: "string \<Rightarrow> notifier option \<Rightarrow> 'd dao \<Rightarrow> 'd dao" where
  "server_dao ty n d = d\<lparr>eventCallbacks := (case n of None \<Rightarrow> [] | Some n' \<Rightarrow> [notifyEvent ty n'])\<rparr>"

interpretation notified: quiet_callbacks "server_dao ty n d" for ty n d
proof unfold_locales
  fix f c e s r t
  assume "f \<in> set (eventCallbacks (server_dao ty n d))" "f c e s = (r, t)"
  then show "same_objects s t"
    using harmlessD [OF harmless_notifyEvent] by (auto simp: server_dao_def split: option.splits)
next
  fix f c e w m
  assume "f \<in> set (eventCallbacks (server_dao ty n d))"
  then show "keeps (tx_frame w m) (f c e)"
    using notifyEvent_frame by (auto simp: server_dao_def split: option.splits)
next
  fix f c e
  assume "f \<in> set (eventCallbacks (server_dao ty n d))"
  then show "ok_errs (f c e)"
    using notifyEvent_errs by (auto simp: server_dao_def split: option.splits)
qed

text \<open>What \<open>Build\<close> returns has such a data access object.\<close>

lemma server_Build_Ok:
  assumes "server_Build sc ty k b = Ok g"
  shows "g_dao g = server_dao ty (sb_notifier b) (g_dao g) \<and> table (g_dao g) = sb_table b \<and>
    sb_tenancy b = Some (tenancyLogic (g_dao g)) \<and> g_schema g = sc \<and> g_type g = ty \<and>
    0 < defaultLimit (g_dao g) \<and> defaultLimit (g_dao g) \<le> maxLimit (g_dao g)"
proof -
  obtain d where d: "dao_Build sc ty k (server_dao_builder ty b) = Ok d"
    and g: "g = \<lparr>g_dao = d, g_schema = sc, g_type = ty\<rparr>"
    using assms by (auto simp: server_Build_def split: if_splits res.splits)
  show ?thesis using dao_Build_Ok [OF d] g
    by (auto simp: server_dao_builder_def Let_def NewGenericDAO_def AddEventCallback_def server_dao_def
        split: option.splits)
qed

section \<open>What is notified\<close>

text \<open>What a notification adds to the database.\<close>

definition notify_db :: "notifier \<Rightarrow> string \<Rightarrow> string \<Rightarrow> int \<Rightarrow> 'd db \<Rightarrow> 'd db" where
  "notify_db n i x now w = w\<lparr>notifications := filter (\<lambda>(i, ts, p). \<not> ts < now - 60 * 10 ^ 6)
       (notifications w @ [(i, now, x)]), notified := notified w @ [(channel n, i)]\<rparr>"

lemma Notify_calm:
  assumes "ctx_tx c" "outcomes s = []" "marshal_any n p = Ok x" "uuids s (uuid_next s) = Some i"
    "i \<notin> fst ` set (notifications (view s))"
  shows "Notify n c p s = (Ok (), s\<lparr>uuid_next := Suc (uuid_next s), tx_real := Some (notify_db n i x (clock s) (view s))\<rparr>)"
proof -
  let ?s1 = "s\<lparr>uuid_next := Suc (uuid_next s)\<rparr>"
  let ?w1 = "(view s)\<lparr>notifications := notifications (view s) @ [(i, clock s, x)]\<rparr>"
  let ?w2 = "?w1\<lparr>notified := notified (view s) @ [(channel n, i)]\<rparr>"
  have u: "uuid_New s = (Ok i, ?s1)" using assms(4) by (simp add: uuid_New_def)
  have 1: "tx_Exec (sql_insert_notification (clock s) i x) ?s1 = (Ok (), ?s1\<lparr>tx_real := Some ?w1\<rparr>)"
    using assms(2,5) by (intro tx_Exec_calm) (simp_all add: sql_insert_notification_def)
  have 2: "tx_Exec (sql_notify (channel n) i) (?s1\<lparr>tx_real := Some ?w1\<rparr>) = (Ok (), ?s1\<lparr>tx_real := Some ?w2\<rparr>)"
    using assms(2) tx_Exec_calm [of "?s1\<lparr>tx_real := Some ?w1\<rparr>" "sql_notify (channel n) i" ?w2]
    by (simp add: sql_notify_def)
  have 3: "tx_Exec (sql_delete_old (clock s)) (?s1\<lparr>tx_real := Some ?w2\<rparr>) =
      (Ok (), ?s1\<lparr>tx_real := Some (notify_db n i x (clock s) (view s))\<rparr>)"
    using assms(2) tx_Exec_calm [of "?s1\<lparr>tx_real := Some ?w2\<rparr>" "sql_delete_old (clock s)"
        "notify_db n i x (clock s) (view s)"]
    by (simp add: sql_delete_old_def notify_db_def)
  show ?thesis
    using assms(1,3) u 1 2 3
    by (simp add: Notify_def with_tx_def TxFromContext_def reporting_def bind_def lift_def)
qed

lemma Notify_Ok:
  assumes "Notify n c p s = (Ok u, t)"
  shows "\<exists>i x. marshal_any n p = Ok x \<and> view t = notify_db n i x (clock s) (view s) \<and>
    i \<notin> fst ` set (notifications (view s)) \<and> clock t = clock s"
proof -
  obtain x i s1 s2 s3 where x: "marshal_any n p = Ok x"
    and u: "uuid_New s = (Ok i, s1)"
    and 1: "tx_Exec (sql_insert_notification (clock s1) i x) s1 = (Ok (), s2)"
    and 2: "tx_Exec (sql_notify (channel n) i) s2 = (Ok (), s3)"
    and 3: "tx_Exec (sql_delete_old (clock s3)) s3 = (Ok u, t)"
    using assms by (auto simp: Notify_def with_tx_Ok bind_Ok_iff lift_def)
  have s1: "view s1 = view s" "clock s1 = clock s"
    using u by (auto simp: uuid_New_def split: option.splits)
  have s2: "sql_insert_notification (clock s) i x (view s) = Ok (view s2)" "clock s2 = clock s"
    using tx_Exec_Ok [OF 1] s1 by (auto simp: same_call_def)
  have s3: "view s3 = (view s2)\<lparr>notified := notified (view s2) @ [(channel n, i)]\<rparr>" "clock s3 = clock s"
    using tx_Exec_Ok [OF 2] s2(2) by (auto simp: same_call_def sql_notify_def)
  have t: "view t = (view s3)\<lparr>notifications := filter (\<lambda>(i, ts, p). \<not> ts < clock s - 60 * 10 ^ 6)
      (notifications (view s3))\<rparr>" "clock t = clock s"
    using tx_Exec_Ok [OF 3] s3(2) by (auto simp: same_call_def sql_delete_old_def)
  from s2(1) have i: "i \<notin> fst ` set (notifications (view s))" and
    v2: "view s2 = (view s)\<lparr>notifications := notifications (view s) @ [(i, clock s, x)]\<rparr>"
    by (auto simp: sql_insert_notification_def split: if_splits)
  have "view t = notify_db n i x (clock s) (view s)"
    unfolding t(1) s3(1) v2 notify_db_def by simp
  with x i t(2) show ?thesis by blast
qed

text \<open>The event of a change, and the object that it carries.\<close>

definition event_object :: "string \<Rightarrow> msg \<Rightarrow> msg" where
  "event_object ty o' = (if ty = ''private.v1.Hub'' then fmdrop ''kubeconfig'' o' else o')"

definition event_message :: "string \<Rightarrow> string \<Rightarrow> string \<Rightarrow> event_type \<Rightarrow> msg \<Rightarrow> msg" where
  "event_message ty f eid k o' = SetMessage f (Some (event_object ty o'))
     (fmupd ''type'' (VEnum (event_type_number k)) (SetString ''id'' eid fmempty))"

lemma notifyEvent_Ok:
  assumes "notifyEvent ty n c e s = (Ok u, t)"
  shows "\<exists>i x eid f. event_field ty = Some f \<and>
    marshal_any n (event_message ty f eid (ev_type e) (ev_object e)) = Ok x \<and>
    view t = notify_db n i x (clock s) (view s) \<and> i \<notin> fst ` set (notifications (view s)) \<and> clock t = clock s"
proof -
  obtain eid s1 f where u: "uuid_New s = (Ok eid, s1)" and f: "event_field ty = Some f"
    and n: "Notify n c (event_message ty f eid (ev_type e) (ev_object e)) s1 = (Ok u, t)"
    using assms
    by (auto simp: notifyEvent_def bind_Ok_iff fail_def Let_def event_message_def event_object_def
        split: option.splits)
  have s1: "view s1 = view s" "clock s1 = clock s"
    using u by (auto simp: uuid_New_def split: option.splits)
  obtain i x where "marshal_any n (event_message ty f eid (ev_type e) (ev_object e)) = Ok x"
    "view t = notify_db n i x (clock s) (view s)" "i \<notin> fst ` set (notifications (view s))" "clock t = clock s"
    using Notify_Ok [OF n] s1 by auto
  with f show ?thesis by blast
qed

end
