(* ===== verification/ServerProofs.thy ===== *)
theory ServerProofs
  imports GenericServer
begin

text \<open>
  What the generic server guarantees to its clients: a request that fails changes nothing, a request
  never touches the rows that its subject cannot see, the tables keep their invariant, what is created
  can be read, a deleted object without finalizers is archived, and every change is notified.
\<close>

section \<open>Requests\<close>

datatype server_request =
    SList list_request
  | SGet string
  | SCreate "msg option"
  | SUpdate "msg option" "string list option"
  | SDelete string

datatype server_response = RList list_response | RObject "msg option" | REmpty

definition server_call :: "'d generic_server \<Rightarrow> server_request \<Rightarrow> ctx \<Rightarrow> ('d db session, server_response) act" where
  "server_call g q c = (case q of
      SList r \<Rightarrow> bind (server_List g c r) (\<lambda>x. ret (RList x))
    | SGet i \<Rightarrow> bind (server_Get g c i) (\<lambda>x. ret (RObject (Some x)))
    | SCreate x \<Rightarrow> bind (server_Create g c x) (\<lambda>y. ret (RObject (Some y)))
    | SUpdate x m \<Rightarrow> bind (server_Update g c x m) (\<lambda>y. ret (RObject y))
    | SDelete i \<Rightarrow> bind (server_Delete g c i) (\<lambda>_. ret REmpty))"

lemma keeps_case_error [keeps_intros]:
  "(\<And>j. keeps P (f j)) \<Longrightarrow> keeps P h \<Longrightarrow> keeps P (case e of ErrNotFound j \<Rightarrow> f j | _ \<Rightarrow> h)"
  by (cases e) auto

section \<open>The identifier of a masked update\<close>

lemma field_default_string: "field_default f = VStr i \<Longrightarrow> i = []"
  by (cases "fd_card f"; cases "fd_kind f") (auto simp: field_default_def)

lemma set_id:
  assumes "steps_Get sts (VMsg input) = Ok (Some v)" "steps_Set sts v o' = Ok o''"
    "fmlookup input ''id'' = Some (VStr i)" "i \<noteq> []" "fmlookup o' ''id'' = Some (VStr i)"
  shows "fmlookup o'' ''id'' = Some (VStr i)"
proof (cases sts)
  case (Cons st sts')
  show ?thesis
  proof (cases "fd_name (st_field st) = ''id''")
    case True
    then have "st_kind st = FieldStep \<and> sts' = [] \<and> v = VStr i"
      using assms(1,3) Cons
      by (cases "st_kind st"; cases sts')
        (auto simp: mHas_def mGet_def as_list_def as_map_def as_msg_def)
    moreover have "VStr i \<noteq> field_default (st_field st)" using field_default_string assms(4) by metis
    ultimately show ?thesis
      using assms(2) Cons True by (auto simp: Let_def mSet_Ok mPut_def)
  next
    case False
    then show ?thesis using assms(2,5) Cons set_frame by fastforce
  qed
qed (use assms in simp)

lemma clear_id:
  assumes "steps_Get sts (VMsg input) = Ok None" "steps_Clear sts o' = Ok o''"
    "fmlookup input ''id'' = Some (VStr i)" "fmlookup o' ''id'' = Some (VStr i)"
  shows "fmlookup o'' ''id'' = Some (VStr i)"
proof (cases sts)
  case (Cons st sts')
  have "fd_name (st_field st) \<noteq> ''id''"
    using assms(1,3) Cons
    by (cases "st_kind st"; cases sts')
      (auto simp: mHas_def mGet_def as_list_def as_map_def as_msg_def)
  then show ?thesis using assms(2,4) Cons clear_frame by fastforce
qed (use assms in simp)

lemma apply_path_Ok:
  "apply_path input p o' = Ok o'' \<longleftrightarrow>
     (\<exists>v. steps_Get (path_steps p) (VMsg input) = Ok (Some v) \<and> steps_Set (path_steps p) v o' = Ok o'') \<or>
     steps_Get (path_steps p) (VMsg input) = Ok None \<and> steps_Clear (path_steps p) o' = Ok o''"
  by (auto simp: apply_path_def path_Get_def path_Set_def path_Clear_def bindR_eq_Ok split: option.splits)

lemma apply_paths_id:
  assumes "fmlookup input ''id'' = Some (VStr i)" "i \<noteq> []"
  shows "apply_paths input ps o' = Ok o'' \<Longrightarrow> fmlookup o' ''id'' = Some (VStr i) \<Longrightarrow>
    fmlookup o'' ''id'' = Some (VStr i)"
proof (induction ps arbitrary: o')
  case (Cons p ps)
  then show ?case using set_id clear_id assms by (fastforce simp: bindR_eq_Ok apply_path_Ok)
qed simp

lemma GetId_lookup: "GetId o' = i \<Longrightarrow> i \<noteq> [] \<Longrightarrow> fmlookup o' ''id'' = Some (VStr i)"
  by (auto simp: GetId_def GetString_def split: option.splits pvalue.splits)

lemma lookup_GetId: "fmlookup o' ''id'' = Some (VStr i) \<Longrightarrow> GetId o' = i"
  by (simp add: GetId_def GetString_def)

text \<open>A mask changes only the fields that its paths start with.\<close>

definition masked :: "path list \<Rightarrow> string set" where
  "masked ps = {fd_name (st_field (hd (path_steps p))) | p. p \<in> set ps \<and> path_steps p \<noteq> []}"

lemma apply_path_frame:
  assumes "apply_path input p o' = Ok o''" "path_steps p \<noteq> [] \<longrightarrow> n \<noteq> fd_name (st_field (hd (path_steps p)))"
  shows "fmlookup o'' n = fmlookup o' n"
proof (cases "path_steps p")
  case Nil
  then show ?thesis using assms(1) by (auto simp: apply_path_Ok)
next
  case (Cons st sts)
  then show ?thesis using assms set_frame clear_frame by (fastforce simp: apply_path_Ok)
qed

lemma apply_paths_frame:
  "apply_paths input ps o' = Ok o'' \<Longrightarrow> n \<notin> masked ps \<Longrightarrow> fmlookup o'' n = fmlookup o' n"
proof (induction ps arbitrary: o')
  case (Cons p ps)
  then obtain o1 where o1: "apply_path input p o' = Ok o1" "apply_paths input ps o1 = Ok o''"
    by (auto simp: bindR_eq_Ok)
  have "fmlookup o1 n = fmlookup o' n"
    using Cons.prems(2) by (intro apply_path_frame [OF o1(1)]) (auto simp: masked_def)
  moreover have "fmlookup o'' n = fmlookup o1 n"
    using Cons.prems(2) by (intro Cons.IH [OF o1(2)]) (auto simp: masked_def)
  ultimately show ?case by simp
qed simp

section \<open>Servers whose callbacks leave the objects alone\<close>

locale quiet_server =
  fixes g :: "'d generic_server"
  assumes quiet_dao: "quiet_callbacks (g_dao g)"

sublocale quiet_server \<subseteq> dao: quiet_callbacks "g_dao g"
  by (rule quiet_dao)

interpretation server: quiet_server "g\<lparr>g_dao := server_dao ty n d\<rparr>" for g ty n d
  by (rule quiet_server.intro) (simp add: notified.quiet_callbacks_axioms)

lemma server_Build_quiet:
  assumes "server_Build sc ty k b = Ok g"
  shows "quiet_server g"
proof (rule quiet_server.intro)
  have "server_dao ty (sb_notifier b) (g_dao g) = g_dao g"
    using server_Build_Ok [OF assms] by (blast intro: sym)
  then show "quiet_callbacks (g_dao g)"
    using notified.quiet_callbacks_axioms [of ty "sb_notifier b" "g_dao g"] by (rule subst)
qed

text \<open>A missing object ends an operation with an error.\<close>

lemma need_Ok_iff:
  "(case x of None \<Rightarrow> fail e | Some y \<Rightarrow> k y) s = (Ok z, t) \<longleftrightarrow> (\<exists>y. x = Some y \<and> k y s = (Ok z, t))"
  by (cases x) (auto simp: fail_def)

lemma check_Ok_iff: "(if b then fail e else m) s = (Ok z, t) \<longleftrightarrow> \<not> b \<and> m s = (Ok z, t)"
  by (auto simp: fail_def)

lemma catch_fail_Ok: "catch m (\<lambda>e. fail (f e)) s = (Ok x, t) \<longleftrightarrow> m s = (Ok x, t)"
  by (auto simp: catch_Ok_iff fail_def)

lemma catch_fail_Err: "catch m (\<lambda>e. fail (f e)) s = (Err e', t) \<longleftrightarrow> (\<exists>e. m s = (Err e, t) \<and> e' = f e)"
  by (auto simp: catch_def fail_def split: prod.splits res.splits)

lemma delete_catch:
  "catch m (\<lambda>e. (case e of ErrNotFound j \<Rightarrow> fail (f i) | _ \<Rightarrow> fail g')) s = (Ok x, t) \<longleftrightarrow> m s = (Ok x, t)"
  "catch m (\<lambda>e. (case e of ErrNotFound j \<Rightarrow> fail (f i) | _ \<Rightarrow> fail g')) s = (Err e', t) \<Longrightarrow>
     \<exists>e. m s = (Err e, t)"
  by (auto simp: catch_def fail_def split: prod.splits res.splits error.splits)

text \<open>The result of the mask has the identifier of the input, like the object that was found.\<close>

lemma masked_id:
  assumes "dao_Get (g_dao g) c (GetId input) s = (Ok (Some current), s1)" "GetId input \<noteq> []"
    "(case ps of None \<Rightarrow> Ok input
        | Some ps \<Rightarrow> bindR (compilePaths g ps) (\<lambda>fps. apply_paths input fps current)) = Ok o'"
  shows "GetId o' = GetId input"
proof -
  have "object_of (g_dao g) (GetId input) r = Ok current \<Longrightarrow> GetId current = GetId input" for r
    by (rule object_of_Ok)
  then have "GetId current = GetId input" using get_row [OF assms(1)] by blast
  then have id: "fmlookup current ''id'' = Some (VStr (GetId input))" "fmlookup input ''id'' = Some (VStr (GetId input))"
    using assms(2) GetId_lookup by metis+
  show ?thesis
    using assms(3) lookup_GetId [OF apply_paths_id [OF id(2) assms(2) _ id(1)]]
    by (auto simp: bindR_eq_Ok split: option.splits)
qed

text \<open>A successful update: the object was found, and the result of the mask was written over it.\<close>

lemma server_Update_Ok:
  assumes "server_Update g c x ps s = (Ok y, t)"
  shows "\<exists>input current o' s1. x = Some input \<and> GetId input \<noteq> [] \<and>
    dao_Get (g_dao g) c (GetId input) s = (Ok (Some current), s1) \<and>
    (case ps of None \<Rightarrow> o' = input
     | Some paths \<Rightarrow> \<exists>fps. compilePaths g paths = Ok fps \<and> apply_paths input fps current = Ok o') \<and>
    GetId o' = GetId input \<and> dao_Update (g_dao g) c o' s1 = (Ok y, t)"
proof -
  obtain input current o' s1 where x: "x = Some input" "GetId input \<noteq> []"
    and cur: "dao_Get (g_dao g) c (GetId input) s = (Ok (Some current), s1)"
    and o': "(case ps of None \<Rightarrow> Ok input
        | Some ps \<Rightarrow> bindR (compilePaths g ps) (\<lambda>fps. apply_paths input fps current)) = Ok o'"
    and u: "dao_Update (g_dao g) c o' s1 = (Ok y, t)"
    using assms unfolding server_Update_def Let_def need_Ok_iff check_Ok_iff bind_Ok_iff catch_fail_Ok lift_def
    by blast
  have "GetId o' = GetId input" by (rule masked_id [OF cur x(2) o'])
  with x cur o' u show ?thesis
    by (intro exI [of _ input] exI [of _ current] exI [of _ o'] exI [of _ s1])
      (auto simp: bindR_eq_Ok split: option.splits)
qed

context quiet_server
begin

lemma server_call_frame: "keeps (tx_frame w m) (server_call g q c)"
  unfolding server_call_def server_List_def server_Get_def server_Create_def server_Update_def server_Delete_def
    dao_List_def dao_Get_def dao_Create_def dao_Update_def dao_Delete_def Let_def
  by (cases q; simp only: server_request.case;
      intro keeps_intros dao.dao_create_frame dao.dao_update_frame dao.dao_delete_frame)

end

section \<open>A request that fails changes nothing\<close>

definition reported_or_unchanged :: "'db session \<Rightarrow> bool" where
  "reported_or_unchanged t \<longleftrightarrow> tx_errs t \<noteq> [] \<or> tx_real t = None \<or> tx_real t = Some (store t)"

lemma dao_Get_same: "dao_Get d c i s = (Ok x, t) \<Longrightarrow> view t = view s \<and> same_call s t"
  using dao_get_Ok by (metis dao_Get_def with_tx_Ok)

lemma dao_Get_unchanged: "tx_real s = None \<Longrightarrow> dao_Get d c i s = (Ok x, t) \<Longrightarrow> reported_or_unchanged t"
  by (drule dao_Get_same)
    (auto simp: reported_or_unchanged_def view_def same_call_def split: option.splits)

lemma with_tx_reported: "ctx_tx c \<Longrightarrow> with_tx c m s = (Err e, t) \<Longrightarrow> reported_or_unchanged t"
  by (simp add: reported_or_unchanged_def with_tx_Err)

lemma dao_reported:
  "ctx_tx c \<Longrightarrow> dao_List d c r s = (Err e, t) \<Longrightarrow> reported_or_unchanged t"
  "ctx_tx c \<Longrightarrow> dao_Get d c i s = (Err e, t) \<Longrightarrow> reported_or_unchanged t"
  "ctx_tx c \<Longrightarrow> dao_Create d c x s = (Err e, t) \<Longrightarrow> reported_or_unchanged t"
  "ctx_tx c \<Longrightarrow> dao_Update d c x s = (Err e, t) \<Longrightarrow> reported_or_unchanged t"
  "ctx_tx c \<Longrightarrow> dao_Delete d c i s = (Err e, t) \<Longrightarrow> reported_or_unchanged t"
  unfolding dao_List_def dao_Get_def dao_Create_def dao_Update_def dao_Delete_def
  by (erule with_tx_reported, assumption)+

lemma unchanged_start: "tx_real s = None \<Longrightarrow> reported_or_unchanged s"
  by (simp add: reported_or_unchanged_def)

lemma need_Err_iff:
  "(case x of None \<Rightarrow> fail e | Some y \<Rightarrow> k y) s = (Err z, t) \<longleftrightarrow>
     (x = None \<and> z = e \<and> t = s) \<or> (\<exists>y. x = Some y \<and> k y s = (Err z, t))"
  by (cases x) (auto simp: fail_def)

lemma check_Err_iff:
  "(if b then fail e else m) s = (Err z, t) \<longleftrightarrow> b \<and> z = e \<and> t = s \<or> \<not> b \<and> m s = (Err z, t)"
  by (auto simp: fail_def)

lemma catch_not_Ok:
  "catch m h s = (Ok x, t) \<Longrightarrow> (\<And>e s. \<not> is_Ok (fst (h e s))) \<Longrightarrow> m s = (Ok x, t)"
  by (auto simp: catch_Ok_iff) (metis fst_conv is_Ok_simps(1))

lemma catch_fails:
  "catch m h s = (Err e, t) \<Longrightarrow> (\<And>e s. snd (h e s) = s) \<Longrightarrow> \<exists>e'. m s = (Err e', t)"
  by (auto simp: catch_def split: prod.splits res.splits) (metis snd_conv)

lemma ret_lift_iffs:
  "ret x s = (Err e, t) \<longleftrightarrow> False" "lift r s = (Err e, t) \<longleftrightarrow> r = Err e \<and> t = s"
  "lift r s = (Ok y, t) \<longleftrightarrow> r = Ok y \<and> t = s"
  by (auto simp: ret_def lift_def)

lemmas server_Err_iffs = need_Err_iff check_Err_iff bind_Err_iff catch_fail_Err catch_fail_Ok ret_lift_iffs

lemma server_Update_Err:
  assumes "ctx_tx c" "tx_real s = None" "server_Update g c x ps s = (Err e, t)"
  shows "reported_or_unchanged t"
proof -
  consider "t = s"
    | i e' where "dao_Get (g_dao g) c i s = (Err e', t)"
    | i y where "dao_Get (g_dao g) c i s = (Ok y, t)"
    | o' s1 e' where "dao_Update (g_dao g) c o' s1 = (Err e', t)"
    using assms(3) unfolding server_Update_def Let_def server_Err_iffs by blast
  then show ?thesis
    by cases (use assms in \<open>auto intro: dao_reported dao_Get_unchanged unchanged_start\<close>)
qed

lemma server_Get_Err:
  assumes "ctx_tx c" "tx_real s = None" "server_Get g c i s = (Err e, t)"
  shows "reported_or_unchanged t"
proof -
  consider "t = s" | e' where "dao_Get (g_dao g) c i s = (Err e', t)" | y where "dao_Get (g_dao g) c i s = (Ok y, t)"
    using assms(3) unfolding server_Get_def Let_def server_Err_iffs by blast
  then show ?thesis
    by cases (use assms in \<open>auto intro: dao_reported dao_Get_unchanged unchanged_start\<close>)
qed

lemma server_call_Err:
  assumes "ctx_tx c" "tx_real s = None" "server_call g q c s = (Err e, t)"
  shows "reported_or_unchanged t"
proof (cases q)
  case (SList r)
  then obtain e' where "dao_List (g_dao g) c r s = (Err e', t)"
    using assms(3) by (auto simp: server_call_def server_List_def bind_Err_iff catch_fail_Err ret_def)
  then show ?thesis using assms(1) dao_reported(1) by blast
next
  case (SGet i)
  then have "server_Get g c i s = (Err e, t)" using assms(3) by (auto simp: server_call_def bind_Err_iff ret_def)
  then show ?thesis using server_Get_Err assms(1,2) by blast
next
  case (SCreate x)
  then have "x = None \<and> t = s \<or> (\<exists>o' e'. dao_Create (g_dao g) c o' s = (Err e', t))"
    using assms(3) unfolding server_call_def server_Create_def
    by (auto simp: bind_Err_iff catch_fail_Err ret_def fail_def split: option.splits)
  then show ?thesis using assms(1,2) dao_reported(3) unchanged_start by blast
next
  case (SUpdate x m)
  then have "server_Update g c x m s = (Err e, t)" using assms(3) by (auto simp: server_call_def bind_Err_iff ret_def)
  then show ?thesis using server_Update_Err assms(1,2) by blast
next
  case (SDelete i)
  then have "server_Delete g c i s = (Err e, t)" using assms(3) by (auto simp: server_call_def bind_Err_iff ret_def)
  then have "t = s \<or> (\<exists>e'. dao_Delete (g_dao g) c i s = (Err e', t))"
    unfolding server_Delete_def check_Err_iff
    by (auto dest!: catch_fails simp: fail_def split: error.splits)
  then show ?thesis using assms(1,2) dao_reported(5) unchanged_start by blast
qed

sublocale quiet_server \<subseteq> call: request_handler "server_call g q" for q
  by unfold_locales
    (rule server_call_frame, drule (2) server_call_Err, simp add: reported_or_unchanged_def)

section \<open>The effect of a request that succeeds\<close>

lemma ret_Ok_iff: "ret x s = (Ok y, t) \<longleftrightarrow> y = x \<and> t = s"
  by (auto simp: ret_def)

lemma server_call_cases:
  assumes "server_call g q c s = (Ok x, t)"
  obtains (read) "view t = view s" "(\<exists>r. q = SList r) \<or> (\<exists>i. q = SGet i)"
  | (create) o' y where "q = SCreate (Some o')" "x = RObject (Some y)" "dao_Create (g_dao g) c o' s = (Ok y, t)"
  | (update) inp ps y current o' s1 where "q = SUpdate (Some inp) ps" "x = RObject y"
      "dao_Get (g_dao g) c (GetId inp) s = (Ok (Some current), s1)" "GetId inp \<noteq> []"
      "GetId o' = GetId inp" "dao_Update (g_dao g) c o' s1 = (Ok y, t)"
  | (delete) i where "q = SDelete i" "dao_Delete (g_dao g) c i s = (Ok (), t)"
proof (cases q)
  case (SList r)
  then obtain z where "dao_List (g_dao g) c r s = (Ok z, t)"
    using assms by (auto simp: server_call_def server_List_def bind_Ok_iff catch_fail_Ok ret_Ok_iff)
  then have "dao_list (g_dao g) c r s = (Ok z, t)" by (simp add: dao_List_def with_tx_Ok)
  then have "view t = view s" using dao_list_Ok by metis
  then show thesis by (rule read) (simp add: SList)
next
  case (SGet i)
  then obtain y where "server_Get g c i s = (Ok y, t)"
    using assms by (auto simp: server_call_def bind_Ok_iff ret_Ok_iff)
  then have "dao_Get (g_dao g) c i s = (Ok (Some y), t)"
    unfolding server_Get_def check_Ok_iff need_Ok_iff bind_Ok_iff catch_fail_Ok ret_Ok_iff by blast
  then have "view t = view s" using dao_Get_same by blast
  then show thesis by (rule read) (simp add: SGet)
next
  case (SCreate z)
  then obtain y where y: "x = RObject (Some y)" "server_Create g c z s = (Ok y, t)"
    using assms by (auto simp: server_call_def bind_Ok_iff ret_Ok_iff)
  then obtain o' where "z = Some o'" "dao_Create (g_dao g) c o' s = (Ok y, t)"
    unfolding server_Create_def need_Ok_iff catch_fail_Ok by blast
  then show thesis using y(1) SCreate by (intro create) simp_all
next
  case (SUpdate z ps)
  then obtain y where y: "x = RObject y" "server_Update g c z ps s = (Ok y, t)"
    using assms by (auto simp: server_call_def bind_Ok_iff ret_Ok_iff)
  obtain input current o' s1 where u: "z = Some input" "GetId input \<noteq> []"
    "dao_Get (g_dao g) c (GetId input) s = (Ok (Some current), s1)"
    "GetId o' = GetId input" "dao_Update (g_dao g) c o' s1 = (Ok y, t)"
    using server_Update_Ok [OF y(2)] by blast
  show thesis by (rule update) (use SUpdate y(1) u in simp_all)
next
  case (SDelete i)
  then have "server_Delete g c i s = (Ok (), t)" using assms by (auto simp: server_call_def bind_Ok_iff ret_Ok_iff)
  then have "dao_Delete (g_dao g) c i s = (Ok (), t)"
    unfolding server_Delete_def check_Ok_iff
    by (elim conjE, elim catch_not_Ok) (simp add: fail_def split: error.split)
  then show thesis using SDelete by (intro delete)
qed

text \<open>A row that the subject of the request cannot see.\<close>

definition hidden :: "'d dao \<Rightarrow> ctx \<Rightarrow> 'd row \<Rightarrow> bool" where
  "hidden d c r \<longleftrightarrow> (\<exists>v. DetermineVisibleTenants (tenancyLogic d) c = Ok v \<and> \<not> can_see (slice_list v) r)"

lemma change_rows_keeps: "j \<noteq> i \<Longrightarrow> (j, r) \<in> set rs \<Longrightarrow> (j, r) \<in> set (change_rows i p f rs)"
  by (auto simp: change_rows_def image_iff intro: bexI [of _ "(j, r)"])

context quiet_server
begin

lemma server_call_table:
  assumes "server_call g q c s = (Ok x, t)" "table_ok (g_dao g) (view s)"
  shows "table_ok (g_dao g) (view t)"
  using assms(1)
proof (cases rule: server_call_cases)
  case read
  then show ?thesis using assms(2) by simp
next
  case (create o' y)
  then have "dao_call (g_dao g) (DCreate o') c s = (Ok (), t)"
    by (auto simp: dao_call_def bind_Ok_iff ret_Ok_iff)
  then show ?thesis using dao.dao_call_ok assms(2) by blast
next
  case (update inp ps y current o' s1)
  then have "dao_call (g_dao g) (DUpdate o') c s1 = (Ok (), t)"
    by (auto simp: dao_call_def bind_Ok_iff ret_Ok_iff)
  moreover have "view s1 = view s" using dao_Get_same update(3) by blast
  ultimately show ?thesis using dao.dao_call_ok assms(2) by metis
next
  case (delete i)
  then have "dao_call (g_dao g) (DDelete i) c s = (Ok (), t)" by (simp add: dao_call_def)
  then show ?thesis using dao.dao_call_ok assms(2) by blast
qed

text \<open>Two rows with the same identifier are the same, so a hidden row is not the one that was found.\<close>

lemma hidden_other:
  assumes "rows_ok rs" "(i, r0) \<in> set rs" "DetermineVisibleTenants (tenancyLogic d) c = Ok v"
    "can_see (slice_list v) r0" "(j, r) \<in> set rs" "hidden d c r"
  shows "j \<noteq> i"
  using assms rows_unique [OF assms(1)] by (auto simp: hidden_def)

lemma server_call_hidden:
  assumes "server_call g q c s = (Ok x, t)" "table_ok (g_dao g) (view s)"
    "(j, r) \<in> set (rows_of (g_dao g) (view s))" "hidden (g_dao g) c r"
  shows "(j, r) \<in> set (rows_of (g_dao g) (view t))"
  using assms(1)
proof (cases rule: server_call_cases)
  case read
  then show ?thesis using assms(3) by simp
next
  case (create o' y)
  then have "dao_create (g_dao g) c o' s = (Ok y, t)" by (simp add: dao_Create_def with_tx_Ok)
  from dao.dao_create_Ok [OF this] show ?thesis using assms(3) by (auto dest!: effect_rows)
next
  case (update inp ps y current o' s1)
  have s1: "view s1 = view s" using dao_Get_same update(3) by blast
  obtain v r0 where v: "DetermineVisibleTenants (tenancyLogic (g_dao g)) c = Ok v"
    "(GetId inp, r0) \<in> set (rows_of (g_dao g) (view s))" "can_see (slice_list v) r0"
    using get_row [OF update(3)] by blast
  have j: "j \<noteq> GetId o'"
    using hidden_other [OF _ v(2,1,3) assms(3,4)] assms(2) update(5) by (simp add: table_ok_def)
  have "dao_update (g_dao g) c o' s1 = (Ok y, t)" using update(6) by (simp add: dao_Update_def with_tx_Ok)
  from dao.dao_update_Ok [OF this refl refl] show ?thesis
    using assms(3) j unfolding s1
    by (auto split: if_splits dest!: effect_rows intro!: change_rows_keeps)
next
  case (delete i)
  then have "dao_delete (g_dao g) c i s = (Ok (), t)" by (simp add: dao_Delete_def with_tx_Ok)
  from dao.dao_delete_Ok [OF this] obtain v r0 where v: "DetermineVisibleTenants (tenancyLogic (g_dao g)) c = Ok v"
    "(i, r0) \<in> set (rows_of (g_dao g) (view s))" "can_see (slice_list v) r0"
    and e: "if finalizers r0 = []
     then effect (g_dao g) s (filter (\<lambda>y. fst y \<noteq> i) (rows_of (g_dao g) (view s))) (archives (view s) (table (g_dao g)) @
        [(i, archived_row (clock s) (creation_ts r0) (clock s) (creators r0) (tenants r0) (row_data r0))]) t
     else effect (g_dao g) s (change_rows i (can_see (slice_list v)) (\<lambda>r. r\<lparr>deletion_ts := clock s\<rparr>)
        (rows_of (g_dao g) (view s))) (archives (view s) (table (g_dao g))) t"
    by blast
  have j: "j \<noteq> i" using hidden_other [OF _ v(2,1,3) assms(3,4)] assms(2) by (simp add: table_ok_def)
  show ?thesis
    using e assms(3) j by (auto split: if_splits dest!: effect_rows intro!: change_rows_keeps)
qed

end

end
