(* ===== verification/ServerRequests.thy ===== *)
theory ServerRequests
  imports ServerProofs
begin

text \<open>
  Whole requests to the generic server, through the transaction interceptor: what a request that
  succeeds publishes, the reachable databases, reading back what was created, and the events that a
  request sends.
\<close>

section \<open>Reachable databases\<close>

text \<open>
  Each request runs in its own transaction, in a session whose time, identifiers and server outcomes
  are arbitrary. Requests that panic are left out: their writes are committed half done.
\<close>

inductive server_reach :: "'d generic_server \<Rightarrow> 'd db \<Rightarrow> 'd db \<Rightarrow> bool" for g w where
  start: "server_reach g w w"
| request: "server_reach g w (store s) \<Longrightarrow> tx_UnaryServer m (server_call g q) c s = (r, t) \<Longrightarrow>
    \<not> is_Panic r \<Longrightarrow> server_reach g w (store t)"

inductive_cases server_reach_cases: "server_reach g w w'"

lemma ok_errs_catch_fail:
  "ok_errs m \<Longrightarrow> (\<And>e s. \<not> is_Ok (fst (h e s))) \<Longrightarrow> ok_errs (catch m h)"
  unfolding ok_errs_def using catch_not_Ok by metis

context quiet_server
begin

lemma server_call_errs: "ok_errs (server_call g q c)"
proof -
  have l: "ok_errs (dao_List (g_dao g) c r)" for r
    unfolding ok_errs_def dao_List_def with_tx_Ok using dao_list_Ok same_call_def by metis
  show ?thesis
    unfolding server_call_def server_List_def server_Get_def server_Create_def server_Update_def
      server_Delete_def Let_def
    by (cases q; simp only: server_request.case)
      (intro ok_errs_intros ok_errs_catch_fail l dao.dao_errs; simp add: fail_def split: error.split)+
qed

text \<open>A request that succeeds publishes what its handler saw at its end.\<close>

lemma request_commits:
  assumes "tx_UnaryServer m (server_call g q) c s = (Ok x, t)"
  obtains u where "server_call g q (TxIntoContext c) (begun m s) = (Ok x, u)" "store t = view u"
proof -
  obtain u where u: "server_call g q (TxIntoContext c) (begun m s) = (Ok x, u)"
    "store t = (if tx_errs u = [] then case tx_real u of Some w \<Rightarrow> w | None \<Rightarrow> store s else store s)"
    using call.request_outcome [OF assms] .
  have "store u = store s"
    using keepsD [OF server_call_frame [of "store s" m], OF _ u(1)] by (simp add: tx_frame_def)
  moreover have "tx_errs u = []" using ok_errsD [OF server_call_errs u(1)] by simp
  ultimately have "store t = view u" using u(2) by (simp add: view_def split: option.splits)
  with u(1) show thesis by (rule that)
qed

lemma request_unchanged:
  "tx_UnaryServer m (server_call g q) c s = (Err e, t) \<Longrightarrow> store t = store s"
  by (rule call.failed_request_unchanged)

lemma request_table:
  assumes "tx_UnaryServer m (server_call g q) c s = (r, t)" "\<not> is_Panic r" "table_ok (g_dao g) (store s)"
  shows "table_ok (g_dao g) (store t)"
proof (cases r)
  case (Ok x)
  obtain u where "server_call g q (TxIntoContext c) (begun m s) = (Ok x, u)" "store t = view u"
    using request_commits [OF assms(1) [unfolded Ok]] .
  then show ?thesis using server_call_table assms(3) by fastforce
next
  case (Err e)
  then show ?thesis using call.failed_request_unchanged [OF assms(1) [unfolded Err]] assms(3) by simp
qed (use assms(2) in simp)

lemma request_hidden:
  assumes "tx_UnaryServer m (server_call g q) c s = (r, t)" "\<not> is_Panic r" "table_ok (g_dao g) (store s)"
    "(j, row) \<in> set (rows_of (g_dao g) (store s))" "hidden (g_dao g) (TxIntoContext c) row"
  shows "(j, row) \<in> set (rows_of (g_dao g) (store t))"
proof (cases r)
  case (Ok x)
  obtain u where "server_call g q (TxIntoContext c) (begun m s) = (Ok x, u)" "store t = view u"
    using request_commits [OF assms(1) [unfolded Ok]] .
  then show ?thesis using server_call_hidden assms(3-5) by fastforce
next
  case (Err e)
  then show ?thesis using call.failed_request_unchanged [OF assms(1) [unfolded Err]] assms(4) by simp
qed (use assms(2) in simp)

lemma reach_table: "server_reach g w w' \<Longrightarrow> table_ok (g_dao g) w \<Longrightarrow> table_ok (g_dao g) w'"
  by (induction rule: server_reach.induct) (auto dest: request_table)

end

section \<open>Reading what was created\<close>

lemma addTenancyFilter_total:
  "DetermineVisibleTenants (tenancyLogic d) c = Ok ts \<Longrightarrow> \<exists>cnd ps'. addTenancyFilter d c b ps = Ok (cnd, ps')"
  by (auto simp: addTenancyFilter_def Let_def)

lemma get_calm:
  assumes "ctx_tx c" "outcomes s = []" "i \<noteq> []" "rows_ok (rows_of d (view s))"
    "DetermineVisibleTenants (tenancyLogic d) c = Ok ts" "(i, r) \<in> set (rows_of d (view s))" "object_of d i r = Ok o'"
  shows "dao_Get d c i s =
    (Ok (if can_see (slice_list ts) r then Some o' else None), s\<lparr>tx_real := Some (view s)\<rparr>)"
proof -
  obtain cnd ps where f: "addTenancyFilter d c (Some (IdIs 1)) [PString i] = Ok (cnd, ps)"
    using addTenancyFilter_total [OF assms(5)] by blast
  have sel: "selects d ps cnd x \<longleftrightarrow> fst x = i \<and> can_see (slice_list ts) (snd x)" for x
    using id_clause [OF f] assms(5) by (cases x) auto
  let ?rs = "filter (selects d ps cnd) (rows_of d (view s))"
  have only: "x = (i, r)" if "x \<in> set ?rs" for x
  proof -
    have "fst x = i" "x \<in> set (rows_of d (view s))" using that sel by simp_all
    then show ?thesis using rows_unique [OF assms(4,6)] by (metis prod.collapse)
  qed
  show ?thesis
  proof (cases "can_see (slice_list ts) r")
    case True
    then have "(i, r) \<in> set ?rs" using assms(6) sel by simp
    then obtain x xs where x: "?rs = x # xs" by (metis list.set_cases)
    then have "x = (i, r)" using only by (metis list.set_intros(1))
    then have "first_row ?rs = Ok (i, r)" unfolding x by (simp add: first_row_def)
    then have "tx_QueryRow (sql_select d cnd ps) s = (Ok (i, r), s\<lparr>tx_real := Some (view s)\<rparr>)"
      using assms(2) by (intro tx_QueryRow_calm) (simp_all add: sql_select_def)
    then show ?thesis using f assms(1,3,7) True unfolding dao_Get_def dao_get_def with_tx_def
      by (simp add: bind_def catch_def lift_def TxFromContext_def reporting_def mandatory_id_def ret_def)
  next
    case False
    then have n: "(i, r) \<notin> set ?rs" using sel by simp
    have "?rs = []"
    proof (rule ccontr)
      assume "?rs \<noteq> []"
      then have "hd ?rs \<in> set ?rs" by (rule hd_in_set)
      with only [OF this] n show False by simp
    qed
    then have "tx_QueryRow (sql_select d cnd ps) s = (Err ErrNoRows, s\<lparr>tx_real := Some (view s)\<rparr>)"
      using assms(2) by (intro tx_QueryRow_calm) (simp_all add: sql_select_def first_row_def)
    then show ?thesis using f assms(1,3) False unfolding dao_Get_def dao_get_def with_tx_def
      by (simp add: bind_def catch_def lift_def TxFromContext_def reporting_def mandatory_id_def ret_def)
  qed
qed

lemma calm_End: "outcomes s = [] \<Longrightarrow> \<exists>t. tm_End (tx_manager s) s = (Ok (), t)"
  by (auto simp: tm_End_def real_Commit_def real_Rollback_def interact_def bind_def split: option.splits)

text \<open>A request for an object, in a session where the server does not fail.\<close>

lemma get_request:
  assumes "outcomes s = []" "i \<noteq> []" "table_ok (g_dao g) (store s)"
    "DetermineVisibleTenants (tenancyLogic (g_dao g)) (TxIntoContext c) = Ok ts"
    "(i, r) \<in> set (rows_of (g_dao g) (store s))" "object_of (g_dao g) i r = Ok o'"
  shows "\<exists>t. tx_UnaryServer m (server_call g (SGet i)) c s =
    (if can_see (slice_list ts) r then Ok (RObject (Some o'))
     else Err (Status NotFound (''object with identifier '' @ quoted i @ '' doesn't exist'')), t)"
proof -
  let ?u = "(begun m s)\<lparr>tx_real := Some (store s)\<rparr>"
  have ctx: "ctx_tx (TxIntoContext c)" by (simp add: TxIntoContext_def)
  have rows: "rows_ok (rows_of (g_dao g) (view (begun m s)))" "(i, r) \<in> set (rows_of (g_dao g) (view (begun m s)))"
    using assms(3,5) by (simp_all add: table_ok_def)
  have "dao_Get (g_dao g) (TxIntoContext c) i (begun m s) =
    (Ok (if can_see (slice_list ts) r then Some o' else None), ?u)"
    using get_calm [OF ctx _ assms(2) rows(1) assms(4) rows(2) assms(6)] assms(1) by simp
  then have "server_call g (SGet i) (TxIntoContext c) (begun m s) =
    (if can_see (slice_list ts) r then Ok (RObject (Some o'))
     else Err (Status NotFound (''object with identifier '' @ quoted i @ '' doesn't exist'')), ?u)"
    using assms(2) by (simp add: server_call_def server_Get_def bind_def catch_def ret_def fail_def)
  moreover obtain t where "tm_End m ?u = (Ok (), t)" using calm_End [of ?u] assms(1) by auto
  ultimately show ?thesis using tx_UnaryServer_run [of "server_call g (SGet i)" c m s] by fastforce
qed

section \<open>The events of a request\<close>

definition same_notes :: "'d db session \<Rightarrow> 'd db session \<Rightarrow> bool" where
  "same_notes s t \<longleftrightarrow> notifications (view t) = notifications (view s) \<and> notified (view t) = notified (view s) \<and>
     clock t = clock s"

lemma same_notes_view: "view t = view s \<Longrightarrow> clock t = clock s \<Longrightarrow> same_notes s t"
  by (simp add: same_notes_def)

definition keeps_notes :: "'d db \<Rightarrow> 'd db \<Rightarrow> bool" where
  "keeps_notes w w' \<longleftrightarrow> notifications w' = notifications w \<and> notified w' = notified w"

lemma sql_notes:
  "sql_update d c ps f w = Ok (x, w') \<Longrightarrow> keeps_notes w w'"
  "sql_insert d now i fs cs ts dt w = Ok (x, w') \<Longrightarrow> keeps_notes w w'"
  "sql_insert_archived d i a w = Ok w' \<Longrightarrow> keeps_notes w w'"
  "sql_delete d c ps w = Ok w' \<Longrightarrow> keeps_notes w w'"
  by (auto simp: sql_update_def sql_insert_def sql_insert_archived_def sql_delete_def Let_def bindR_eq_Ok
      set_rows_def keeps_notes_def split: if_splits)

lemma statement_notes:
  "tx_QueryRow f s = (Ok x, t) \<Longrightarrow> (\<And>w x w'. f w = Ok (x, w') \<Longrightarrow> keeps_notes w w') \<Longrightarrow> same_notes s t"
  "tx_Exec h s = (Ok u, t) \<Longrightarrow> (\<And>w w'. h w = Ok w' \<Longrightarrow> keeps_notes w w') \<Longrightarrow> same_notes s t"
  using tx_QueryRow_Ok [of f s x t] tx_Exec_Ok [of h s u t]
  by (auto simp: same_notes_def keeps_notes_def same_call_def)

lemma same_notes_trans: "same_notes s t \<Longrightarrow> same_notes t u \<Longrightarrow> same_notes s u"
  by (simp add: same_notes_def)

lemma archive_notes:
  assumes "dao_archive d i a b cs ts x s = (Ok u, t)"
  shows "same_notes s t"
proof -
  obtain s1 u1 where
    a: "tx_Exec (sql_insert_archived d i (archived_row (clock s) a b cs ts x)) s = (Ok u1, s1)"
    and b: "tx_Exec (sql_delete d (Some (IdIs 1)) [PString i]) s1 = (Ok u, t)"
    using assms by (auto simp: dao_archive_def archived_row_def bind_Ok_iff)
  show ?thesis
    by (rule same_notes_trans [OF statement_notes(2) [OF a sql_notes(3)] statement_notes(2) [OF b sql_notes(4)]])
qed

lemma archive_if_notes:
  "(if b then dao_archive d i cts dts cs ts x else ret ()) s = (Ok u, t) \<Longrightarrow> same_notes s t"
  using archive_notes [of d i cts dts cs ts x s u t] by (cases b) (auto simp: ret_def same_notes_view)

lemma create_fires:
  assumes "dao_create d c o' s = (Ok x, t)"
  shows "\<exists>s1. same_notes s s1 \<and> fireEvent d c EventTypeCreated x s1 = (Ok (), t)"
proof -
  let ?fs = "getFinalizers (getMetadata o')"
  obtain i s1 cs ts dt j r s2 u where
    i: "(if GetId o' = [] then uuid_New else ret (GetId o')) s = (Ok i, s1)" and
    q: "tx_QueryRow (sql_insert d (clock s1) i ?fs (slice_list cs) (slice_list ts) dt) s1 = (Ok (j, r), s2)" and
    e: "fireEvent d c EventTypeCreated x s2 = (Ok (), t)"
    using assms by (auto simp: dao_create_def Let_def act_Ok_iffs)
  have s1: "view s1 = view s" "clock s1 = clock s"
    using i by (auto simp: uuid_New_def ret_def split: if_splits option.splits)
  have "same_notes s1 s2" by (rule statement_notes(1) [OF q sql_notes(2)])
  with s1 e show ?thesis by (intro exI [of _ s2]) (simp add: same_notes_def)
qed

lemma update_row_fires:
  assumes "update_row d c o' dt s = (Ok x, t)"
  shows "\<exists>y s1 s2. x = Some y \<and> same_notes s s1 \<and> fireEvent d c EventTypeUpdated y s1 = (Ok (), s2) \<and> same_notes s2 t"
proof -
  let ?i = "GetId o'" let ?fs = "getFinalizers (getMetadata o')"
  let ?y = "\<lambda>r. setMetadata (Some (makeMetadata (creation_ts r) (deletion_ts r) ?fs (creators r) (tenants r)))
      (SetId ?i o')"
  obtain j r s2 s3 where
      q: "tx_QueryRow (sql_update d (Some (IdIs 3)) [PStrings ?fs, PData, PString ?i]
              (\<lambda>r. r\<lparr>finalizers := ?fs, row_data := dt\<rparr>)) s = (Ok (j, r), s2)" and
      e: "fireEvent d c EventTypeUpdated (?y r) s2 = (Ok (), s3)" and
      a: "(if unix (deletion_ts r) \<noteq> 0 \<and> length ?fs = 0
            then dao_archive d ?i (creation_ts r) (deletion_ts r) (creators r) (tenants r) dt
            else ret ()) s3 = (Ok (), t)" and y: "x = Some (?y r)"
    using assms unfolding update_row_def Let_def by (auto simp: bind_Ok_iff ret_simp)
  have "same_notes s s2" by (rule statement_notes(1) [OF q sql_notes(1)])
  moreover have "same_notes s3 t" by (rule archive_if_notes [OF a])
  ultimately show ?thesis using e y by (intro exI [of _ "?y r"] exI [of _ s2] exI [of _ s3]) simp
qed

lemma update_fires:
  assumes "dao_update d c o' s = (Ok x, t)"
  shows "x = None \<and> same_notes s t \<or>
    (\<exists>y s1 s2. x = Some y \<and> same_notes s s1 \<and> fireEvent d c EventTypeUpdated y s1 = (Ok (), s2) \<and> same_notes s2 t)"
proof -
  obtain cur s1 where g: "dao_get d c (GetId o') s = (Ok cur, s1)"
    and rest: "(if equivalent d cur o' then ret None
      else bind (lift (marshalData d o')) (\<lambda>x. update_row d c o' x)) s1 = (Ok x, t)"
    using assms unfolding dao_update_eq bind_Ok_iff by (auto simp: lift_def)
  have "view s1 = view s" "clock s1 = clock s"
    using dao_get_Ok [OF g] by (auto simp: same_call_def)
  then have s1: "same_notes s s1" by (rule same_notes_view)
  show ?thesis
  proof (cases "equivalent d cur o'")
    case True
    then show ?thesis using rest s1 by (simp add: ret_def)
  next
    case False
    with rest obtain dt where u: "update_row d c o' dt s1 = (Ok x, t)"
      by (auto simp: bind_Ok_iff lift_def)
    obtain y s2 s3 where "x = Some y" "same_notes s1 s2"
      "fireEvent d c EventTypeUpdated y s2 = (Ok (), s3)" "same_notes s3 t"
      using update_row_fires [OF u] by (elim exE conjE)
    with same_notes_trans [OF s1 \<open>same_notes s1 s2\<close>] show ?thesis by (intro disjI2 exI conjI)
  qed
qed

lemma delete_fires:
  assumes "dao_delete d c i s = (Ok x, t)"
  shows "\<exists>s1 s2 o'. GetId o' = i \<and> same_notes s s1 \<and> fireEvent d c EventTypeDeleted o' s1 = (Ok (), s2) \<and> same_notes s2 t"
proof -
  obtain cnd ps j r s1 o' s2 where
    q: "tx_QueryRow (sql_update d cnd ps (\<lambda>r. r\<lparr>deletion_ts := clock s\<rparr>)) s = (Ok (j, r), s1)"
    and o': "object_of d i r = Ok o'"
    and e: "fireEvent d c EventTypeDeleted o' s1 = (Ok (), s2)"
    and a: "(if length (finalizers r) = 0
     then dao_archive d i (creation_ts r) (deletion_ts r) (creators r) (tenants r) (row_data r)
     else ret ()) s2 = (Ok x, t)"
    using assms by (auto simp: dao_delete_def act_Ok_iffs catch_Ok_iff split: if_splits)
  have "same_notes s s1" by (rule statement_notes(1) [OF q sql_notes(1)])
  moreover have "same_notes s2 t" by (rule archive_if_notes [OF a])
  ultimately show ?thesis using object_of_Ok(1) [OF o'] e by blast
qed

text \<open>One event of a kind about an object, added to what had been notified.\<close>

definition notified_once :: "notifier \<Rightarrow> string \<Rightarrow> int \<Rightarrow> event_type \<Rightarrow> msg \<Rightarrow> 'd db \<Rightarrow> 'd db \<Rightarrow> bool" where
  "notified_once n ty now k o' w w' \<longleftrightarrow> (\<exists>i x eid f. event_field ty = Some f \<and>
     marshal_any n (event_message ty f eid k o') = Ok x \<and> i \<notin> fst ` set (notifications w) \<and>
     notified w' = notified w @ [(channel n, i)] \<and>
     notifications w' = filter (\<lambda>(i, ts, p). \<not> ts < now - 60 * 10 ^ 6) (notifications w) @ [(i, now, x)])"

lemma fires_once:
  assumes "eventCallbacks d = [notifyEvent ty n]" "same_notes s s1" "fireEvent d c k o' s1 = (Ok (), s2)" "same_notes s2 t"
  shows "notified_once n ty (clock s) k o' (view s) (view t)"
proof -
  have "notifyEvent ty n c \<lparr>ev_type = k, ev_table = table d, ev_object = o'\<rparr> s1 = (Ok (), s2)"
    using assms(1,3) by (auto simp: fireEvent_def bind_Ok_iff ret_def)
  from notifyEvent_Ok [OF this] show ?thesis
    using assms(2,4) by (auto simp: notified_once_def same_notes_def notify_db_def)
qed

end
