(* ===== verification/ServerExample.thy ===== *)
theory ServerExample
  imports ServerRequests
begin

text \<open>
  A server of clusters with a notifier, and three requests of jane to it, computed: the deletion of an
  object of another tenant, the deletion of an object of hers and the creation of one.
\<close>

section \<open>An example\<close>

definition example_notifier :: notifier where
  "example_notifier = \<lparr>channel = ''events'', marshal_any = (\<lambda>m. Ok ''payload'')\<rparr>"

definition example_server_builder :: "msg server_builder" where
  "example_server_builder = \<lparr>sb_logger = True, sb_service = ''private.v1.Clusters'', sb_table = ''clusters'',
     sb_notifier = Some example_notifier, sb_attribution = Some default_DetermineAssignedCreators,
     sb_tenancy = Some DefaultTenancyLogic\<rparr>"

definition example_server_schema :: schema where
  "example_server_schema t = (if t = ''private.v1.Cluster'' then example_schema ''Cluster'' else example_schema t)"

definition example_server :: "msg generic_server" where
  "example_server = \<lparr>g_dao = example_dao\<lparr>eventCallbacks := [notifyEvent ''private.v1.Cluster'' example_notifier]\<rparr>,
     g_schema = example_server_schema, g_type = ''private.v1.Cluster''\<rparr>"

lemma example_server_Build:
  "server_Build example_server_schema ''private.v1.Cluster'' example_codec example_server_builder = Ok example_server"
  by (simp add: server_Build_def server_dao_builder_def dao_Build_def example_server_builder_def example_codec_def
      example_dao_def example_server_def example_server_schema_def example_schema_def NewGenericDAO_def ByName_def
      AddEventCallback_def)

lemma example_ctx_tx [simp]: "TxIntoContext example_jwt_ctx = example_jwt_ctx" "ctx_tx example_jwt_ctx"
  by (simp_all add: TxIntoContext_def example_jwt_ctx_def)

lemma example_clause:
  "addTenancyFilter (g_dao example_server) example_jwt_ctx (Some (IdIs 1)) [PString i] =
     Ok (Some (And (IdIs 1) (TenantsOverlap 2)), [PString i, PStrings [''a'', ''b'', ''shared'']])"
  by (simp add: addTenancyFilter_def example_visible example_server_def)

lemmas example_clause' = example_clause [unfolded One_nat_def]

lemma example_begun_simps [simp]:
  "outcomes (begun m (example_session w)) = []" "view (begun m (example_session w)) = w"
  by simp_all

lemma example_delete_hidden:
  "server_call example_server (SDelete ''y'') example_jwt_ctx (begun 0 (example_session example_db)) =
     (Err (Status NotFound (''object with identifier '' @ quoted ''y'' @ '' not found'')),
      (begun 0 (example_session example_db))\<lparr>tx_real := Some example_db, tx_errs := [ErrNotFound ''y'']\<rparr>)"
proof -
  let ?c = "Some (And (IdIs 1) (TenantsOverlap 2))"
  let ?p = "[PString ''y'', PStrings [''a'', ''b'', ''shared'']]"
  have "sql_update (g_dao example_server) ?c ?p f example_db = Err ErrNoRows" for f
    by (simp add: sql_update_def rows_of_def example_db_def selects_def example_row_def first_row_def example_server_def)
  then show ?thesis
    by (simp add: server_call_def server_Delete_def dao_Delete_def with_tx_def dao_delete_def mandatory_id_def
        example_clause' bind_def catch_def lift_def TxFromContext_def reporting_def tx_QueryRow_calm ReportError_def
        fail_def)
qed

lemma example_server_simps [simp]:
  "table (g_dao example_server) = ''clusters''"
  "eventCallbacks (g_dao example_server) = [notifyEvent ''private.v1.Cluster'' example_notifier]"
  "unmarshalOptions (g_dao example_server) = example_unmarshal"
  "marshalOptions (g_dao example_server) = example_marshal"
  "tenancyLogic (g_dao example_server) = DefaultTenancyLogic"
  "attributionLogic (g_dao example_server) = default_DetermineAssignedCreators"
  by (simp_all add: example_server_def)

text \<open>The event of a change in a session where nothing fails.\<close>

lemma example_fire:
  assumes "outcomes s = []" "uuids s = uuids (example_session example_db)" "uuid_next s = 0"
    "''uu'' \<notin> fst ` set (notifications (view s))"
  shows "fireEvent (g_dao example_server) example_jwt_ctx k o' s =
    (Ok (), s\<lparr>uuid_next := 2, tx_real := Some (notify_db example_notifier ''uu'' ''payload'' (clock s) (view s))\<rparr>)"
proof -
  let ?s2 = "s\<lparr>uuid_next := Suc 0\<rparr>"
  let ?e = "event_message ''private.v1.Cluster'' ''cluster'' ''u'' k o'"
  have "Notify example_notifier example_jwt_ctx ?e ?s2 = (Ok (), ?s2\<lparr>uuid_next := Suc (uuid_next ?s2),
      tx_real := Some (notify_db example_notifier ''uu'' ''payload'' (clock ?s2) (view ?s2))\<rparr>)"
    by (rule Notify_calm) (use assms in \<open>simp_all add: example_notifier_def example_session_def numeral_2_eq_2\<close>)
  then have n: "Notify example_notifier example_jwt_ctx ?e ?s2 = (Ok (), s\<lparr>uuid_next := 2,
      tx_real := Some (notify_db example_notifier ''uu'' ''payload'' (clock s) (view s))\<rparr>)"
    by (simp add: numeral_2_eq_2)
  have "uuid_New s = (Ok ''u'', ?s2)"
    using assms by (simp add: uuid_New_def example_session_def)
  with n show ?thesis
    by (simp add: fireEvent_def bind_def ret_def notifyEvent_def event_field_def event_message_def event_object_def)
qed

text \<open>Deleting the object that jane can see: it is archived, and the deletion is notified.\<close>

definition example_deleted :: "msg db" where
  "example_deleted = example_db\<lparr>tables := (tables example_db)(''clusters'' := [(''y'', example_row ''z'')]),
     archives := (archives example_db)(''clusters'' := [(''x'', archived_row 0 (10 ^ 6) 0 [''jane''] [''a''] fmempty)]),
     notifications := [(''uu'', 0, ''payload'')], notified := [(''events'', ''uu'')]\<rparr>"

lemma example_delete_visible:
  "server_call example_server (SDelete ''x'') example_jwt_ctx (begun 0 (example_session example_db)) =
     (Ok REmpty, (begun 0 (example_session example_db))\<lparr>uuid_next := 2, tx_real := Some example_deleted\<rparr>)"
proof -
  let ?s = "begun 0 (example_session example_db)"
  let ?d = "g_dao example_server"
  let ?c = "Some (And (IdIs 1) (TenantsOverlap 2))"
  let ?p = "[PString ''x'', PStrings [''a'', ''b'', ''shared'']]"
  let ?r = "(example_row ''a'')\<lparr>deletion_ts := 0\<rparr>"
  let ?w = "example_db\<lparr>tables := (tables example_db)(''clusters'' := [(''x'', ?r), (''y'', example_row ''z'')])\<rparr>"
  let ?w2 = "notify_db example_notifier ''uu'' ''payload'' 0 ?w"
  have clk: "clock ?s = 0" by simp
  have "sql_update ?d ?c ?p (\<lambda>r. r\<lparr>deletion_ts := 0\<rparr>) example_db = Ok ((''x'', ?r), ?w)"
    by (simp add: sql_update_def rows_of_def example_db_def selects_def example_row_def first_row_def set_rows_def)
  then have q: "tx_QueryRow (sql_update ?d ?c ?p (\<lambda>r. r\<lparr>deletion_ts := clock ?s\<rparr>)) ?s = (Ok (''x'', ?r), ?s\<lparr>tx_real := Some ?w\<rparr>)"
    unfolding clk by (intro tx_QueryRow_calm) simp_all
  obtain o' where o': "object_of ?d ''x'' ?r = Ok o'"
    by (simp add: object_of_def unmarshalData_def example_unmarshal_def)
  let ?s1 = "?s\<lparr>tx_real := Some ?w\<rparr>"
  have f: "fireEvent ?d example_jwt_ctx EventTypeDeleted o' ?s1 = (Ok (), ?s\<lparr>uuid_next := 2, tx_real := Some ?w2\<rparr>)"
    using example_fire [of ?s1 EventTypeDeleted o'] by (simp add: example_db_def example_session_def)
  let ?s3 = "?s\<lparr>uuid_next := 2, tx_real := Some ?w2\<rparr>"
  let ?w3 = "?w2\<lparr>archives := (archives ?w2)(''clusters'' := [(''x'', archived_row 0 (10 ^ 6) 0 [''jane''] [''a''] fmempty)])\<rparr>"
  have a1: "tx_Exec (sql_insert_archived ?d ''x'' (archived_row 0 (10 ^ 6) 0 [''jane''] [''a''] fmempty)) ?s3 =
      (Ok (), ?s3\<lparr>tx_real := Some ?w3\<rparr>)"
    by (intro tx_Exec_calm) (simp_all add: sql_insert_archived_def notify_db_def example_db_def)
  have a2: "tx_Exec (sql_delete ?d (Some (IdIs 1)) [PString ''x'']) (?s3\<lparr>tx_real := Some ?w3\<rparr>) =
      (Ok (), (?s3\<lparr>tx_real := Some ?w3\<rparr>)\<lparr>tx_real := Some example_deleted\<rparr>)"
    by (intro tx_Exec_calm)
      (simp_all add: sql_delete_id' rows_of_def set_rows_def example_deleted_def notify_db_def example_db_def
        example_notifier_def)
  have a: "dao_archive ?d ''x'' (10 ^ 6) 0 [''jane''] [''a''] fmempty ?s3 = (Ok (), ?s3\<lparr>tx_real := Some example_deleted\<rparr>)"
    using a1 a2 by (simp add: dao_archive_def bind_def archived_row_def)
  have "dao_Delete ?d example_jwt_ctx ''x'' ?s = (Ok (), ?s3\<lparr>tx_real := Some example_deleted\<rparr>)"
    using q o' f a
    by (simp add: dao_Delete_def with_tx_def TxFromContext_def lift_def reporting_def dao_delete_def mandatory_id_def
        example_clause' bind_def catch_def example_row_def)
  then show ?thesis by (simp add: server_call_def server_Delete_def bind_def catch_def ret_def)
qed

definition example_input :: msg where
  "example_input = SetId ''n'' fmempty"

definition example_created :: msg where
  "example_created = setMetadata (Some (makeMetadata 0 0 [] [''jane''] [''a'', ''b''])) (SetId ''n'' example_input)"

definition example_created_row :: "msg row" where
  "example_created_row = \<lparr>creation_ts = 0, deletion_ts = 0, finalizers = [], creators = [''jane''],
     tenants = [''a'', ''b''], row_data = fmdrop ''id'' (fmdrop ''metadata'' example_input)\<rparr>"

definition example_with_created :: "msg db" where
  "example_with_created = notify_db example_notifier ''uu'' ''payload'' 0
     (set_rows (g_dao example_server) (rows_of (g_dao example_server) example_db @ [(''n'', example_created_row)]) example_db)"

lemma example_assigned:
  "DetermineAssignedTenants DefaultTenancyLogic example_jwt_ctx = Ok (Some [''a'', ''b''])"
  "default_DetermineAssignedCreators example_jwt_ctx = Ok (Some [''jane''])"
  by (simp_all add: example_jwt_ctx_def DefaultTenancyLogic_def default_DetermineAssignedTenants_def
      SubjectFromContext_def selectDelegate_def SubjectSourceServiceAccount_def SubjectSourceJwt_def
      JwtTenancyLogic_def jwt_DetermineAssignedTenants_def default_DetermineAssignedCreators_def)

lemma example_create:
  "server_call example_server (SCreate (Some example_input)) example_jwt_ctx (begun 0 (example_session example_db)) =
     (Ok (RObject (Some example_created)),
      (begun 0 (example_session example_db))\<lparr>uuid_next := 2, tx_real := Some example_with_created\<rparr>)"
proof -
  let ?s = "begun 0 (example_session example_db)"
  let ?d = "g_dao example_server"
  let ?w = "set_rows ?d (rows_of ?d example_db @ [(''n'', example_created_row)]) example_db"
  have "sql_insert ?d 0 ''n'' [] [''jane''] [''a'', ''b''] (fmdrop ''id'' (fmdrop ''metadata'' example_input)) example_db =
      Ok ((''n'', example_created_row), ?w)"
    by (simp add: sql_insert_def rows_of_def example_db_def example_created_row_def Let_def)
  then have q: "tx_QueryRow (sql_insert ?d 0 ''n'' [] [''jane''] [''a'', ''b''] (fmdrop ''id'' (fmdrop ''metadata'' example_input))) ?s =
      (Ok (''n'', example_created_row), ?s\<lparr>tx_real := Some ?w\<rparr>)"
    by (intro tx_QueryRow_calm) simp_all
  have f: "fireEvent ?d example_jwt_ctx EventTypeCreated example_created (?s\<lparr>tx_real := Some ?w\<rparr>) =
      (Ok (), ?s\<lparr>uuid_next := 2, tx_real := Some example_with_created\<rparr>)"
    using example_fire [of "?s\<lparr>tx_real := Some ?w\<rparr>" EventTypeCreated example_created]
    by (simp add: example_with_created_def example_db_def example_session_def set_rows_def)
  have g: "GetId example_input = ''n''" "getMetadata example_input = None"
    by (simp_all add: example_input_def GetId_def SetId_def getMetadata_def GetMessage_def SetString_def GetString_def)
  have m: "makeMetadata (creation_ts example_created_row) (deletion_ts example_created_row) [] [''jane''] [''a'', ''b''] =
      makeMetadata 0 0 [] [''jane''] [''a'', ''b'']" by (simp add: example_created_row_def)
  have "dao_Create ?d example_jwt_ctx example_input ?s = (Ok example_created, ?s\<lparr>uuid_next := 2, tx_real := Some example_with_created\<rparr>)"
    using q f by (simp add: dao_Create_def with_tx_def TxFromContext_def lift_def reporting_def dao_create_def
        bind_def g ret_def getFinalizers_def example_assigned marshalData_def example_marshal_def m
        flip: example_created_def)
  then show ?thesis by (simp add: server_call_def server_Create_def bind_def catch_def ret_def)
qed

section \<open>The requests through the interceptor\<close>

lemma example_delete_request:
  "tx_UnaryServer 0 (server_call example_server (SDelete ''x'')) example_jwt_ctx (example_session example_db) =
     (Ok REmpty, (begun 0 (example_session example_db))\<lparr>uuid_next := 2, tx_real := Some example_deleted,
        store := example_deleted\<rparr>)"
proof -
  let ?u = "(begun 0 (example_session example_db))\<lparr>uuid_next := 2, tx_real := Some example_deleted\<rparr>"
  have "tm_End 0 ?u = (Ok (), ?u\<lparr>store := example_deleted\<rparr>)"
    by (simp add: tm_End_def real_Commit_def interact_def bind_def)
  from tx_UnaryServer_run [OF _ this, of "server_call example_server (SDelete ''x'')" example_jwt_ctx]
  show ?thesis using example_delete_visible by simp
qed

lemma example_create_request:
  "tx_UnaryServer 0 (server_call example_server (SCreate (Some example_input))) example_jwt_ctx (example_session example_db) =
     (Ok (RObject (Some example_created)), (begun 0 (example_session example_db))\<lparr>uuid_next := 2,
        tx_real := Some example_with_created, store := example_with_created\<rparr>)"
proof -
  let ?u = "(begun 0 (example_session example_db))\<lparr>uuid_next := 2, tx_real := Some example_with_created\<rparr>"
  have "tm_End 0 ?u = (Ok (), ?u\<lparr>store := example_with_created\<rparr>)"
    by (simp add: tm_End_def real_Commit_def interact_def bind_def)
  from tx_UnaryServer_run [OF _ this, of "server_call example_server (SCreate (Some example_input))" example_jwt_ctx]
  show ?thesis using example_create by simp
qed

lemma example_table_ok: "table_ok (g_dao example_server) example_db"
  by (simp add: table_ok_def rows_ok_def rows_of_def example_db_def example_row_def live_def unix_def)

section \<open>An update with a mask\<close>

definition example_change :: msg where
  "example_change = fmupd ''state'' (VStr ''ready'') (SetId ''x'' fmempty)"

definition example_changed :: msg where
  "example_changed = fmupd ''state'' (VStr ''ready'') (example_object ''x'' ''a'')"

definition example_updated :: msg where
  "example_updated = setMetadata (Some (makeMetadata (10 ^ 6) 0 [] [''jane''] [''a''])) (SetId ''x'' example_changed)"

lemma example_server_object_of: "object_of (g_dao example_server) i (example_row t) = Ok (example_object i t)"
  by (simp add: object_of_def unmarshalData_def example_unmarshal_def newObject_def example_row_def)

lemma example_server_get:
  assumes "outcomes s = []" "view s = example_db"
  shows "dao_Get (g_dao example_server) example_jwt_ctx ''x'' s =
    (Ok (Some (example_object ''x'' ''a'')), s\<lparr>tx_real := Some example_db\<rparr>)"
proof -
  have "rows_ok (rows_of (g_dao example_server) (view s))" using example_table_ok assms(2) by (simp add: table_ok_def)
  moreover have "(''x'', example_row ''a'') \<in> set (rows_of (g_dao example_server) (view s))"
    using assms(2) by (simp add: rows_of_def example_db_def)
  moreover have "can_see [''a'', ''b'', ''shared''] (example_row ''a'')" by (simp add: can_see_def example_row_def)
  ultimately show ?thesis
    using get_calm [of example_jwt_ctx s "''x''" "g_dao example_server" "Some [''a'', ''b'', ''shared'']"
        "example_row ''a''" "example_object ''x'' ''a''"] assms example_visible example_server_object_of
    by simp
qed

lemma example_compile: "compilePaths example_server [''state''] =
    Ok [\<lparr>path_text = [], path_steps = [\<lparr>st_field = \<lparr>fd_name = ''state'', fd_full = ''Cluster.state'',
      fd_kind = StringKind, fd_card = Singular, fd_presence = False\<rparr>, st_kind = FieldStep\<rparr>]\<rparr>]"
proof -
  have "split_path ''state'' = [''state'']" by (simp add: split_path_def trim_space_def is_space_def)
  then show ?thesis
    by (simp add: compilePaths_def Compile_def example_server_def example_server_schema_def example_schema_def ByName_def)
qed

lemma example_update_from:
  assumes "outcomes s = []" "view s = example_db" "uuids s = uuids (example_session example_db)" "uuid_next s = 0"
    and x: "GetId x = ''x''" "fmlookup x ''state'' = Some (VStr ''ready'')"
  shows "\<exists>t. server_Update example_server example_jwt_ctx (Some x) (Some [''state'']) s = (Ok (Some example_updated), t)"
proof -
  let ?d = "g_dao example_server"
  let ?s = s
  let ?s1 = "?s\<lparr>tx_real := Some example_db\<rparr>"
  let ?x = "fmdrop ''id'' (fmdrop ''metadata'' example_changed)"
  let ?r = "(example_row ''a'')\<lparr>finalizers := [], row_data := ?x\<rparr>"
  have g: "dao_Get ?d example_jwt_ctx ''x'' ?s = (Ok (Some (example_object ''x'' ''a'')), ?s1)"
    by (intro example_server_get) (simp_all add: assms)
  have "dao_Get ?d example_jwt_ctx ''x'' ?s1 = (Ok (Some (example_object ''x'' ''a'')), ?s1\<lparr>tx_real := Some example_db\<rparr>)"
    by (intro example_server_get) (simp_all add: assms)
  then have g1: "dao_get ?d example_jwt_ctx ''x'' ?s1 = (Ok (Some (example_object ''x'' ''a'')), ?s1)"
    by (simp add: dao_Get_def with_tx_Ok)
  have "GetId example_changed = ''x''"
    by (simp add: example_changed_def GetId_def SetId_def GetString_def SetString_def setMetadata_def SetMessage_def)
  with x(1) have id: "GetId x = ''x''" "GetId example_changed = ''x''" by simp_all
  have ap: "bindR (compilePaths example_server [''state'']) (\<lambda>fps. apply_paths x fps (example_object ''x'' ''a'')) =
      Ok example_changed"
    by (simp add: example_compile apply_path_def path_Get_def path_Set_def mHas_def mGet_def mSet_def field_ok_def
        mPut_def field_default_def x(2) example_changed_def)
  have ne: "\<not> equivalent ?d (Some (example_object ''x'' ''a'')) example_changed"
    by (simp add: equivalent_def example_server_def example_dao_def example_schema_def equivalentField_def mHas_def
        example_changed_def setMetadata_def SetId_def SetMessage_def SetString_def)
  have fs: "getFinalizers (getMetadata example_changed) = []"
    by (simp add: example_changed_def getMetadata_def GetMessage_def setMetadata_def SetMessage_def getFinalizers_def)
  let ?w = "set_rows ?d [(''x'', ?r), (''y'', example_row ''z'')] example_db"
  have "sql_update ?d (Some (IdIs 3)) [PStrings [], PData, PString ''x''] (\<lambda>r. r\<lparr>finalizers := [], row_data := ?x\<rparr>)
      example_db = Ok ((''x'', ?r), ?w)"
    by (simp add: sql_update_def rows_of_def example_db_def selects_def first_row_def set_rows_def)
  then have q: "tx_QueryRow (sql_update ?d (Some (IdIs 3)) [PStrings [], PData, PString ''x'']
      (\<lambda>r. r\<lparr>finalizers := [], row_data := ?x\<rparr>)) ?s1 = (Ok (''x'', ?r), ?s1\<lparr>tx_real := Some ?w\<rparr>)"
    by (intro tx_QueryRow_calm) (simp_all add: assms(1))
  obtain s3 where f: "fireEvent ?d example_jwt_ctx EventTypeUpdated example_updated (?s1\<lparr>tx_real := Some ?w\<rparr>) = (Ok (), s3)"
    using example_fire [of "?s1\<lparr>tx_real := Some ?w\<rparr>" EventTypeUpdated example_updated] assms(1,3,4)
    by (simp add: example_db_def set_rows_def)
  have r: "creation_ts ?r = 10 ^ 6" "deletion_ts ?r = 0" "creators ?r = [''jane'']" "tenants ?r = [''a'']"
    by (simp_all add: example_row_def)
  have "update_row ?d example_jwt_ctx example_changed ?x ?s1 = (Ok (Some example_updated), s3)"
    unfolding update_row_def Let_def id fs
    using q f by (simp add: bind_def r ret_def unix_def example_updated_def)
  then have "dao_Update ?d example_jwt_ctx example_changed ?s1 = (Ok (Some example_updated), s3)"
    unfolding dao_Update_def dao_update_eq id
    using g1 ne by (simp add: with_tx_def TxFromContext_def lift_def reporting_def bind_def mandatory_id_def
        marshalData_def example_marshal_def)
  then have "server_Update example_server example_jwt_ctx (Some x) (Some [''state'']) ?s = (Ok (Some example_updated), s3)"
    unfolding server_Update_def Let_def id option.case
    using g ap by (simp add: bind_def catch_def lift_def)
  then show ?thesis ..
qed

lemma example_update:
  "\<exists>t. server_Update example_server example_jwt_ctx (Some example_change) (Some [''state''])
     (begun 0 (example_session example_db)) = (Ok (Some example_updated), t)"
  by (rule example_update_from)
    (simp_all add: example_change_def GetId_def SetId_def GetString_def SetString_def example_session_def)

end
