(* ===== verification/ServerProps.thy ===== *)
theory ServerProps
  imports ServerRequests ServerExample
begin

text \<open>
  The properties of the generic server, of its data access object and of its notifier, over whole
  requests: through the transaction interceptor, on the committed database.
\<close>

section \<open>Properties of the server\<close>

text \<open>
  A request to the generic server that fails, for any reason (an invalid request, the database,
  the event callbacks, the end of the transaction), leaves the committed database as it was.
\<close>

theorem failed_request_changes_nothing:
  assumes "server_Build sc ty k b = Ok g"
    and "tx_UnaryServer m (server_call g q) c s = (Err e, t)"
  shows "store t = store s"
  by (rule quiet_server.request_unchanged [OF server_Build_quiet [OF assms(1)] assms(2)])

theorem failed_request_changes_nothing_witness:
  "\<exists>t. tx_UnaryServer 0 (server_call example_server (SDelete ''y'')) example_jwt_ctx (example_session example_db) =
      (Err (Status NotFound (''object with identifier '' @ quoted ''y'' @ '' not found'')), t) \<and> store t = example_db"
proof -
  let ?u = "(begun 0 (example_session example_db))\<lparr>tx_real := Some example_db, tx_errs := [ErrNotFound ''y'']\<rparr>"
  have e: "tm_End 0 ?u = (Ok (), ?u)"
    by (simp add: tm_End_def real_Rollback_def interact_def)
  have r: "tx_UnaryServer 0 (server_call example_server (SDelete ''y'')) example_jwt_ctx (example_session example_db) =
      (Err (Status NotFound (''object with identifier '' @ quoted ''y'' @ '' not found'')), ?u)"
    using tx_UnaryServer_run [OF _ e, of "server_call example_server (SDelete ''y'')" example_jwt_ctx]
      example_delete_hidden by simp
  have "store ?u = example_db"
    using failed_request_changes_nothing [OF example_server_Build r] unfolding example_session_simps .
  with r show ?thesis by blast
qed





text \<open>
  C10. A successful deletion takes an object that the subject can see. Without finalizers the object
  leaves its table, and goes to the archive with its creators, tenants and document and the time of the
  request as its deletion time. With finalizers it stays, marked with the time of the request; nothing
  else in the table changes.
\<close>

theorem delete_archives_or_marks:
  assumes "server_Build sc ty k b = Ok g" and "table_ok (g_dao g) (store s)"
    and "tx_UnaryServer m (server_call g (SDelete i)) c s = (Ok x, t)"
  shows "\<exists>r. (i, r) \<in> set (rows_of (g_dao g) (store s)) \<and>
    (if finalizers r = []
     then rows_of (g_dao g) (store t) = filter (\<lambda>y. fst y \<noteq> i) (rows_of (g_dao g) (store s)) \<and>
       archives (store t) (table (g_dao g)) = archives (store s) (table (g_dao g)) @
         [(i, \<lparr>a_creation_ts = creation_ts r, a_deletion_ts = clock s, a_archival_ts = clock s,
           a_creators = creators r, a_tenants = tenants r, a_data = row_data r\<rparr>)]
     else rows_of (g_dao g) (store t) =
         map (\<lambda>y. if fst y = i then (i, r\<lparr>deletion_ts := clock s\<rparr>) else y) (rows_of (g_dao g) (store s)) \<and>
       archives (store t) (table (g_dao g)) = archives (store s) (table (g_dao g)))"
proof -
  let ?d = "g_dao g"
  have q: "quiet_server g" by (rule server_Build_quiet [OF assms(1)])
  obtain u where u: "server_call g (SDelete i) (TxIntoContext c) (begun m s) = (Ok x, u)" "store t = view u"
    using quiet_server.request_commits [OF q assms(3)] .
  have "dao_Delete ?d (TxIntoContext c) i (begun m s) = (Ok (), u)"
    using u(1) by (cases rule: server_call_cases) auto
  then have "dao_delete ?d (TxIntoContext c) i (begun m s) = (Ok (), u)" by (simp add: dao_Delete_def with_tx_Ok)
  from quiet_callbacks.dao_delete_Ok [OF quiet_server.quiet_dao [OF q] this, unfolded begun_simps view_simps]
  obtain ts r where
    r: "(i, r) \<in> set (rows_of ?d (store s))" "can_see (slice_list ts) r" and
    e: "if finalizers r = []
     then effect ?d (begun m s) (filter (\<lambda>y. fst y \<noteq> i) (rows_of ?d (store s))) (archives (store s) (table ?d) @
        [(i, archived_row (clock s) (creation_ts r) (clock s) (creators r) (tenants r) (row_data r))]) u
     else effect ?d (begun m s) (change_rows i (can_see (slice_list ts)) (\<lambda>r. r\<lparr>deletion_ts := clock s\<rparr>)
        (rows_of ?d (store s))) (archives (store s) (table ?d)) u"
    by blast
  have "change_rows i (can_see (slice_list ts)) (\<lambda>r. r\<lparr>deletion_ts := clock s\<rparr>) (rows_of ?d (store s)) =
      map (\<lambda>y. if fst y = i then (i, r\<lparr>deletion_ts := clock s\<rparr>) else y) (rows_of ?d (store s))"
    unfolding change_rows_def
  proof (rule map_cong [OF refl])
    fix y assume "y \<in> set (rows_of ?d (store s))"
    then have "fst y = i \<Longrightarrow> snd y = r"
      using rows_unique [OF assms(2) [unfolded table_ok_def] r(1)] by (metis prod.collapse)
    then show "(if fst y = i \<and> can_see (slice_list ts) (snd y) then (i, (snd y)\<lparr>deletion_ts := clock s\<rparr>) else y) =
        (if fst y = i then (i, r\<lparr>deletion_ts := clock s\<rparr>) else y)"
      using r(2) by auto
  qed
  with r(1) e u(2) show ?thesis
    by (intro exI [of _ r]) (auto simp: archived_row_def dest!: effect_rows)
qed

theorem delete_archives_or_marks_witness:
  "\<exists>r. (''x'', r) \<in> set (rows_of (g_dao example_server) example_db)"
  using delete_archives_or_marks [OF example_server_Build _ example_delete_request] example_table_ok by auto

text \<open>
  C9. An object that was created can be read by its creator: the next \<open>Get\<close> of its identifier, in a
  session where the database does not fail, returns exactly the object that \<open>Create\<close> returned, if the
  codec gives back what it encoded and the creator has at least one tenant to assign. A creator
  without tenants (a guest, or a token without groups) creates an object that it cannot read.
\<close>

theorem create_then_get:
  assumes "server_Build sc ty k b = Ok g" and "sb_tenancy b = Some DefaultTenancyLogic"
    and "table_ok (g_dao g) (store s)" and "codec_roundtrip (g_dao g) o'"
    and "tx_UnaryServer m (server_call g (SCreate (Some o'))) c s = (Ok (RObject (Some x)), t)"
    and "GetId x \<noteq> []" and "store s2 = store t" and "outcomes s2 = []"
    and "DetermineAssignedTenants DefaultTenancyLogic (TxIntoContext c) = Ok a"
    and "DetermineVisibleTenants DefaultTenancyLogic (TxIntoContext c) = Ok v"
  shows "\<exists>t2. tx_UnaryServer m (server_call g (SGet (GetId x))) c s2 =
    (if slice_list a \<noteq> [] then Ok (RObject (Some x))
     else Err (Status NotFound (''object with identifier '' @ quoted (GetId x) @ '' doesn't exist'')), t2)"
proof -
  let ?d = "g_dao g"
  have q: "quiet_server g" by (rule server_Build_quiet [OF assms(1)])
  have tl: "tenancyLogic ?d = DefaultTenancyLogic" using server_Build_Ok [OF assms(1)] assms(2) by simp
  have ok: "table_ok ?d (store s2)"
    using quiet_server.request_table [OF q assms(5) _ assms(3)] assms(7) by simp
  obtain u where u: "server_call g (SCreate (Some o')) (TxIntoContext c) (begun m s) = (Ok (RObject (Some x)), u)"
    "store t = view u"
    using quiet_server.request_commits [OF q assms(5)] .
  have "dao_create ?d (TxIntoContext c) o' (begun m s) = (Ok x, u)"
    using u(1) by (cases rule: server_call_cases) (auto simp: dao_Create_def with_tx_Ok)
  from quiet_callbacks.created_row_decodes [OF quiet_server.quiet_dao [OF q] this assms(4,6)] obtain r ts where
    r: "rows_of ?d (view u) = rows_of ?d (store s) @ [(GetId x, r)]" "object_of ?d (GetId x) r = Ok x"
    "DetermineAssignedTenants (tenancyLogic ?d) (TxIntoContext c) = Ok ts" "tenants r = slice_list ts"
    by auto
  have "can_see (slice_list v) r \<longleftrightarrow> slice_list a \<noteq> []"
  proof -
    have d: "default_DetermineVisibleTenants (TxIntoContext c) = Ok v"
      "default_DetermineAssignedTenants (TxIntoContext c) = Ok a"
      using assms(9,10) by (simp_all add: DefaultTenancyLogic_def)
    have "tenants r = slice_list a" using r(3,4) assms(9) tl by simp
    moreover have "set (slice_list a) \<subseteq> set (slice_list v)" using default.assigned_visible [OF d(2,1)] .
    moreover have "slice_list v \<noteq> []" using default.visible_not_empty [OF d(1)] .
    ultimately show ?thesis by (cases "slice_list a") (auto simp: can_see_def list_ex_iff)
  qed
  moreover have "(GetId x, r) \<in> set (rows_of ?d (store s2))" using r(1) u(2) assms(7) by simp
  ultimately show ?thesis
    using get_request [OF assms(8,6) ok _ _ r(2), of c v] assms(10) tl by simp
qed

theorem create_then_get_witness:
  "\<exists>t2. tx_UnaryServer 0 (server_call example_server (SGet ''n'')) example_jwt_ctx (example_session example_with_created) =
     (Ok (RObject (Some example_created)), t2)"
proof -
  have id: "GetId example_created = ''n''"
    by (simp add: example_created_def example_input_def GetId_def SetId_def setMetadata_def GetString_def
        SetString_def SetMessage_def)
  have "codec_roundtrip (g_dao example_server) example_input"
    by (simp add: codec_roundtrip_def marshalData_def example_marshal_def unmarshalData_def example_unmarshal_def
        newObject_def)
  from create_then_get [where a = "Some [''a'', ''b'']" and v = "Some [''a'', ''b'', ''shared'']"
      and ?s2.0 = "example_session example_with_created", OF example_server_Build _ _ this example_create_request]
  show ?thesis using id example_visible example_assigned example_table_ok
    by (simp add: example_server_builder_def)
qed

text \<open>
  C11. Every change is notified, once and in the same transaction: a successful creation, effective
  update or deletion on a server with a notifier publishes one notification in its channel, with a
  stored event of the right kind about that object, while reads and updates without changes publish
  nothing.
\<close>

theorem changes_are_notified:
  assumes "server_Build sc ty k b = Ok g" and "sb_notifier b = Some n"
    and "tx_UnaryServer m (server_call g q) c s = (Ok x, t)"
  shows "case (q, x) of
      (SCreate _, RObject (Some o')) \<Rightarrow> notified_once n ty (clock s) EventTypeCreated o' (store s) (store t)
    | (SUpdate _ _, RObject (Some o')) \<Rightarrow> notified_once n ty (clock s) EventTypeUpdated o' (store s) (store t)
    | (SDelete i, _) \<Rightarrow>
        \<exists>o'. GetId o' = i \<and> notified_once n ty (clock s) EventTypeDeleted o' (store s) (store t)
    | _ \<Rightarrow> notifications (store t) = notifications (store s) \<and> notified (store t) = notified (store s)"
proof -
  have cb: "eventCallbacks (g_dao g) = [notifyEvent ty n]"
    using server_Build_Ok [OF assms(1)] assms(2) by (metis (no_types, lifting) dao.select_convs(4)
        dao.surjective dao.update_convs(4) option.simps(5) server_dao_def)
  obtain u where u: "server_call g q (TxIntoContext c) (begun m s) = (Ok x, u)" "store t = view u"
    using quiet_server.request_commits [OF server_Build_quiet [OF assms(1)] assms(3)] .
  have v: "view (begun m s) = store s" "clock (begun m s) = clock s" by simp_all
  from u(1) show ?thesis
  proof (cases rule: server_call_cases)
    case read
    then show ?thesis using u(2) by auto
  next
    case (create o' y)
    then have "dao_create (g_dao g) (TxIntoContext c) o' (begun m s) = (Ok y, u)" by (simp add: dao_Create_def with_tx_Ok)
    from create_fires [OF this] obtain s1 where "same_notes (begun m s) s1"
      "fireEvent (g_dao g) (TxIntoContext c) EventTypeCreated y s1 = (Ok (), u)" by blast
    from fires_once [OF cb this same_notes_view [OF refl refl]] show ?thesis using create u(2) v by simp
  next
    case (update inp ps y current o' s1)
    then have "dao_update (g_dao g) (TxIntoContext c) o' s1 = (Ok y, u)" by (simp add: dao_Update_def with_tx_Ok)
    from update_fires [OF this] have "y = None \<and> same_notes s1 u \<or>
      (\<exists>z. y = Some z \<and> notified_once n ty (clock s1) EventTypeUpdated z (view s1) (view u))"
      using fires_once [OF cb] by blast
    moreover have "view s1 = store s" "clock s1 = clock s"
      using dao_Get_same [OF update(3)] v by (simp_all add: same_call_def)
    ultimately show ?thesis using update u(2) by (auto simp: same_notes_def)
  next
    case (delete i)
    then have "dao_delete (g_dao g) (TxIntoContext c) i (begun m s) = (Ok (), u)" by (simp add: dao_Delete_def with_tx_Ok)
    from delete_fires [OF this] obtain s1 s2 o' where "GetId o' = i" "same_notes (begun m s) s1"
      "fireEvent (g_dao g) (TxIntoContext c) EventTypeDeleted o' s1 = (Ok (), s2)" "same_notes s2 u" by blast
    with fires_once [OF cb this(2-4)] show ?thesis using delete u(2) v by auto
  qed
qed

theorem changes_are_notified_witness:
  "\<exists>o'. GetId o' = ''x'' \<and>
     notified_once example_notifier ''private.v1.Cluster'' 0 EventTypeDeleted o' example_db example_deleted"
  using changes_are_notified [OF example_server_Build _ example_delete_request]
  by (simp add: example_server_builder_def)



text \<open>
  An update that changes nothing succeeds and answers without an object: the data access object
  returns nil when the new object is equivalent to the stored one, and the server puts that nil in its
  response instead of the object.
\<close>

theorem update_without_changes_returns_nil:
  assumes "ctx_tx c" and "outcomes s = []" and "GetId input \<noteq> []" and "table_ok (g_dao g) (view s)"
    and "DetermineVisibleTenants (tenancyLogic (g_dao g)) c = Ok v"
    and "(GetId input, r) \<in> set (rows_of (g_dao g) (view s))" and "can_see (slice_list v) r"
    and "object_of (g_dao g) (GetId input) r = Ok current"
    and "equivalent (g_dao g) (Some current) input"
  shows "\<exists>t. server_Update g c (Some input) None s = (Ok None, t) \<and> view t = view s"
proof -
  let ?s1 = "s\<lparr>tx_real := Some (view s)\<rparr>"
  have g: "dao_Get (g_dao g) c (GetId input) s = (Ok (Some current), ?s1)"
    using get_calm [OF assms(1,2,3) _ assms(5,6,8)] assms(4,7) by (simp add: table_ok_def)
  have "dao_Get (g_dao g) c (GetId input) ?s1 = (Ok (Some current), ?s1)"
    using get_calm [OF assms(1) _ assms(3) _ assms(5) _ assms(8), of ?s1] assms(2,4,6,7) by (simp add: table_ok_def)
  then have "dao_get (g_dao g) c (GetId input) ?s1 = (Ok (Some current), ?s1)" by (simp add: dao_Get_def with_tx_Ok)
  then have "dao_Update (g_dao g) c input ?s1 = (Ok None, ?s1)"
    using assms(1,3,9) unfolding dao_Update_def dao_update_eq
    by (simp add: with_tx_def TxFromContext_def lift_def reporting_def bind_def mandatory_id_def ret_def)
  then have "server_Update g c (Some input) None s = (Ok None, ?s1)"
    unfolding server_Update_def Let_def option.case using g assms(3) by (simp add: bind_def catch_def lift_def)
  then show ?thesis by auto
qed

theorem update_without_changes_returns_nil_witness:
  "\<exists>t. server_Update example_server example_jwt_ctx (Some (example_object ''x'' ''a'')) None (example_session example_db) =
     (Ok None, t) \<and> view t = example_db"
proof -
  have id: "GetId (example_object ''x'' ''a'') = ''x''" using object_of_Ok(1) [OF example_server_object_of] .
  have v: "DetermineVisibleTenants (tenancyLogic (g_dao example_server)) example_jwt_ctx = Ok (Some [''a'', ''b'', ''shared''])"
    using example_visible by simp
  have r: "(GetId (example_object ''x'' ''a''), example_row ''a'') \<in> set (rows_of (g_dao example_server) (view (example_session example_db)))"
    unfolding id by (simp add: rows_of_def example_db_def)
  have o': "object_of (g_dao example_server) (GetId (example_object ''x'' ''a'')) (example_row ''a'') = Ok (example_object ''x'' ''a'')"
    unfolding id by (rule example_server_object_of)
  have see: "can_see (slice_list (Some [''a'', ''b'', ''shared''])) (example_row ''a'')"
    by (simp add: can_see_def example_row_def)
  have eq: "equivalent (g_dao example_server) (Some (example_object ''x'' ''a'')) (example_object ''x'' ''a'')"
    by (simp add: equivalent_def equivalentField_def list_all_iff equivalentMetadata_def example_server_def
        example_dao_def example_schema_def mHas_def mGet_def setMetadata_def SetMessage_def)
  have ctx: "ctx_tx example_jwt_ctx" "outcomes (example_session example_db) = []" by simp_all
  have ne: "GetId (example_object ''x'' ''a'') \<noteq> []" unfolding id by simp
  have ok: "table_ok (g_dao example_server) (view (example_session example_db))" using example_table_ok by simp
  have "\<exists>t. server_Update example_server example_jwt_ctx (Some (example_object ''x'' ''a'')) None (example_session example_db) =
     (Ok None, t) \<and> view t = view (example_session example_db)"
    by (rule update_without_changes_returns_nil [OF ctx ne ok v r see o' eq])
  then show ?thesis by simp
qed

text \<open>
  The data access object alone does not confine updates to the tenants of the subject: its \<open>Update\<close>
  does not stop when \<open>Get\<close> finds nothing, and its statement selects by identifier only, so it overwrites
  the row of another tenant. Only the check of the generic server prevents it.
\<close>

theorem dao_update_ignores_tenancy:
  assumes "ctx_tx c" and "outcomes s = []" and "GetId o' \<noteq> []" and "table_ok d (view s)"
    and "eventCallbacks d = []"
    and "DetermineVisibleTenants (tenancyLogic d) c = Ok v"
    and "(GetId o', r) \<in> set (rows_of d (view s))" and "\<not> can_see (slice_list v) r"
    and "object_of d (GetId o') r = Ok old" and "marshalData d o' = Ok x"
    and "unix (deletion_ts r) = 0"
  shows "\<exists>y t. dao_Update d c o' s = (Ok (Some y), t) \<and>
    (GetId o', r\<lparr>finalizers := getFinalizers (getMetadata o'), row_data := x\<rparr>) \<in> set (rows_of d (view t))"
proof -
  let ?i = "GetId o'" let ?fs = "getFinalizers (getMetadata o')" let ?s1 = "s\<lparr>tx_real := Some (view s)\<rparr>"
  let ?f = "\<lambda>r. r\<lparr>finalizers := ?fs, row_data := x\<rparr>"
  let ?p = "[PStrings ?fs, PData, PString ?i]"
  have "dao_Get d c ?i s = (Ok None, ?s1)"
    using get_calm [OF assms(1,2,3) _ assms(6,7,9)] assms(4,8) by (simp add: table_ok_def)
  then have g: "dao_get d c ?i s = (Ok None, ?s1)" by (simp add: dao_Get_def with_tx_Ok)
  have sel: "selects d ?p (Some (IdIs 3)) z \<longleftrightarrow> fst z = ?i" for z
    by (cases z) (auto simp: selects_def)
  let ?rs = "filter (selects d ?p (Some (IdIs 3))) (rows_of d (view s))"
  have "(?i, r) \<in> set ?rs" using assms(7) sel by simp
  then obtain z zs where z: "?rs = z # zs" by (cases ?rs) (auto simp del: set_filter)
  then have "z \<in> set ?rs" by simp
  then have "z \<in> set (rows_of d (view s))" "fst z = ?i" by (simp_all add: sel)
  then have zr: "z = (?i, r)"
    using rows_unique [OF assms(4) [unfolded table_ok_def] assms(7)] by (metis prod.collapse)
  let ?w = "set_rows d (map (\<lambda>y. if selects d ?p (Some (IdIs 3)) y then (fst y, ?f (snd y)) else y) (rows_of d (view s))) (view s)"
  have "sql_update d (Some (IdIs 3)) ?p ?f (view s) = Ok ((?i, ?f r), ?w)"
    using z sel [of z] by (simp add: sql_update_def Let_def first_row_def zr)
  then have q: "tx_QueryRow (sql_update d (Some (IdIs 3)) ?p ?f) ?s1 = (Ok (?i, ?f r), ?s1\<lparr>tx_real := Some ?w\<rparr>)"
    using assms(2) by (intro tx_QueryRow_calm) simp_all
  let ?y = "setMetadata (Some (makeMetadata (creation_ts r) (deletion_ts r) ?fs (creators r) (tenants r))) (SetId ?i o')"
  let ?t = "?s1\<lparr>tx_real := Some ?w\<rparr>"
  have u: "update_row d c o' x ?s1 = (Ok (Some ?y), ?t)"
    unfolding update_row_def Let_def bind_run(1) [of "tx_QueryRow (sql_update d (Some (IdIs 3)) ?p ?f)", OF q] prod.case
    using assms(5,11) by (simp add: bind_def fireEvent_def ret_def)
  have "dao_update d c o' s = (Ok (Some ?y), ?t)"
    unfolding dao_update_eq using g u assms(3,10)
    by (simp add: lift_def bind_def mandatory_id_def equivalent_def)
  then have "dao_Update d c o' s = (Ok (Some ?y), ?t)" using assms(1) by (simp add: dao_Update_def with_tx_Ok)
  moreover have "(?i, ?f r) \<in> set (rows_of d (view ?t))"
    unfolding view_simps rows_of_set_rows set_map
    by (rule image_eqI [where x = "(?i, r)"]) (use assms(7) sel in simp_all)
  ultimately show ?thesis by blast
qed

theorem dao_update_ignores_tenancy_witness:
  "\<exists>y t. dao_Update example_dao example_jwt_ctx (SetId ''y'' (fmupd ''state'' (VStr ''ready'') fmempty)) (example_session example_db) =
     (Ok (Some y), t)"
proof -
  let ?o = "SetId ''y'' (fmupd ''state'' (VStr ''ready'') fmempty)"
  have id: "GetId ?o = ''y''" by (simp add: GetId_def SetId_def)
  have v: "DetermineVisibleTenants (tenancyLogic example_dao) example_jwt_ctx = Ok (Some [''a'', ''b'', ''shared''])"
    using example_visible by simp
  have r: "(GetId ?o, example_row ''z'') \<in> set (rows_of example_dao (view (example_session example_db)))"
    unfolding id by (simp add: rows_of_def example_db_def)
  have see: "\<not> can_see (slice_list (Some [''a'', ''b'', ''shared''])) (example_row ''z'')"
    by (simp add: can_see_def example_row_def)
  have ok: "table_ok example_dao (view (example_session example_db))"
    by (simp add: table_ok_def rows_ok_def rows_of_def example_db_def example_row_def live_def unix_def)
  have "\<exists>x. marshalData example_dao ?o = Ok x" by (simp add: marshalData_def example_marshal_def)
  then obtain x where x: "marshalData example_dao ?o = Ok x" ..
  have un: "unix (deletion_ts (example_row ''z'')) = 0" by (simp add: example_row_def unix_def)
  have misc: "ctx_tx example_jwt_ctx" "outcomes (example_session example_db) = []" "GetId ?o \<noteq> []"
    "eventCallbacks example_dao = []"
    unfolding id by simp_all
  show ?thesis
    using dao_update_ignores_tenancy [OF misc(1-3) ok misc(4) v r see example_object_of x un] by blast
qed

end
