(* ===== verification/StoreRefinement.thy ===== *)
theory StoreRefinement
  imports ServerExample
begin

text \<open>
  What a generic server promises, without SQL: a store that maps identifiers to rows, and what each request may do
  with it. Whole requests to the server, through the transaction interceptor, refine the operations of the store.
\<close>

section \<open>The abstract store\<close>

type_synonym 'd objects = "string \<Rightarrow> 'd row option"

definition store_of :: "'d dao \<Rightarrow> 'd db \<Rightarrow> 'd objects" where
  "store_of d w = map_of (rows_of d w)"

definition visible_to :: "'d dao \<Rightarrow> ctx \<Rightarrow> 'd row \<Rightarrow> bool" where
  "visible_to d c r \<longleftrightarrow> (\<exists>v. DetermineVisibleTenants (tenancyLogic d) c = Ok v \<and> can_see (slice_list v) r)"

text \<open>The object that an update writes: the input, or the current object with the fields of the mask.\<close>

definition updated_object :: "'d generic_server \<Rightarrow> msg \<Rightarrow> string list option \<Rightarrow> msg \<Rightarrow> msg res" where
  "updated_object g input ps current = (case ps of None \<Rightarrow> Ok input
     | Some paths \<Rightarrow> bindR (compilePaths g paths) (\<lambda>fps. apply_paths input fps current))"

text \<open>A row with new finalizers and data leaves the store when it was deleted and has no finalizers left.\<close>

definition write_row :: "string \<Rightarrow> 'd row \<Rightarrow> 'd objects \<Rightarrow> 'd objects" where
  "write_row i r M = (if unix (deletion_ts r) \<noteq> 0 \<and> finalizers r = [] then M(i := None) else M(i \<mapsto> r))"

text \<open>
  The operations: what a request that succeeds at a time returns and does. Requests of all the kinds only reach the
  rows that are visible to their subject, and change at most one of them.
\<close>

definition store_list :: "'d dao \<Rightarrow> ctx \<Rightarrow> 'd objects \<Rightarrow> msg list \<Rightarrow> bool" where
  "store_list d c M xs \<longleftrightarrow> (\<forall>x\<in>set xs. \<exists>i r. M i = Some r \<and> visible_to d c r \<and> object_of d i r = Ok x)"

definition store_get :: "'d dao \<Rightarrow> ctx \<Rightarrow> 'd objects \<Rightarrow> string \<Rightarrow> msg \<Rightarrow> bool" where
  "store_get d c M i x \<longleftrightarrow> (\<exists>r. M i = Some r \<and> visible_to d c r \<and> object_of d i r = Ok x)"

definition store_create :: "'d dao \<Rightarrow> ctx \<Rightarrow> int \<Rightarrow> 'd objects \<Rightarrow> msg \<Rightarrow> msg \<Rightarrow> 'd objects \<Rightarrow> bool" where
  "store_create d c now' M o' x M' \<longleftrightarrow> (\<exists>i r cs ts. M i = None \<and> M' = M(i \<mapsto> r) \<and> (GetId o' \<noteq> [] \<longrightarrow> i = GetId o') \<and>
     attributionLogic d c = Ok cs \<and> DetermineAssignedTenants (tenancyLogic d) c = Ok ts \<and> marshalData d o' = Ok (row_data r) \<and>
     creators r = slice_list cs \<and> tenants r = slice_list ts \<and> creation_ts r = now' \<and> deletion_ts r = 0 \<and>
     finalizers r = getFinalizers (getMetadata o') \<and>
     x = setMetadata (Some (makeMetadata now' 0 (finalizers r) (creators r) (tenants r))) (SetId i o'))"

definition store_update ::
  "'d generic_server \<Rightarrow> ctx \<Rightarrow> 'd objects \<Rightarrow> msg \<Rightarrow> string list option \<Rightarrow> msg option \<Rightarrow> 'd objects \<Rightarrow> bool" where
  "store_update g c M input ps y M' \<longleftrightarrow> (\<exists>r current o'. M (GetId input) = Some r \<and> visible_to (g_dao g) c r \<and>
     object_of (g_dao g) (GetId input) r = Ok current \<and> updated_object g input ps current = Ok o' \<and>
     (y = None \<and> M' = M \<and> equivalent (g_dao g) (Some current) o' \<or>
      (\<exists>dt. marshalData (g_dao g) o' = Ok dt \<and>
        M' = write_row (GetId input) (r\<lparr>finalizers := getFinalizers (getMetadata o'), row_data := dt\<rparr>) M \<and>
        y = Some (setMetadata (Some (makeMetadata (creation_ts r) (deletion_ts r) (getFinalizers (getMetadata o'))
              (creators r) (tenants r))) (SetId (GetId input) o')))))"

definition store_delete :: "'d dao \<Rightarrow> ctx \<Rightarrow> int \<Rightarrow> 'd objects \<Rightarrow> string \<Rightarrow> 'd objects \<Rightarrow> bool" where
  "store_delete d c now' M i M' \<longleftrightarrow> (\<exists>r. M i = Some r \<and> visible_to d c r \<and>
     M' = (if finalizers r = [] then M(i := None) else M(i \<mapsto> r\<lparr>deletion_ts := now'\<rparr>)))"

definition store_request ::
  "'d generic_server \<Rightarrow> ctx \<Rightarrow> int \<Rightarrow> server_request \<Rightarrow> 'd objects \<Rightarrow> server_response \<Rightarrow> 'd objects \<Rightarrow> bool" where
  "store_request g c now' q M x M' \<longleftrightarrow> (case q of
      SList l \<Rightarrow> M' = M \<and> (\<exists>y. x = RList y \<and> store_list (g_dao g) c M (Items y))
    | SGet i \<Rightarrow> M' = M \<and> (\<exists>y. x = RObject (Some y) \<and> store_get (g_dao g) c M i y)
    | SCreate z \<Rightarrow> (\<exists>o' y. z = Some o' \<and> x = RObject (Some y) \<and> store_create (g_dao g) c now' M o' y M')
    | SUpdate z ps \<Rightarrow> (\<exists>input y. z = Some input \<and> x = RObject y \<and> store_update g c M input ps y M')
    | SDelete i \<Rightarrow> x = REmpty \<and> store_delete (g_dao g) c now' M i M')"

section \<open>Tables as stores\<close>

lemma store_of_row: "rows_ok (rows_of d w) \<Longrightarrow> (i, r) \<in> set (rows_of d w) \<Longrightarrow> store_of d w i = Some r"
  by (simp add: store_of_def rows_ok_def)

lemma map_of_other: "map_of (filter (\<lambda>y. fst y \<noteq> i) rs) = (map_of rs)(i := None)"
  by (induction rs) auto

lemma map_of_change:
  "distinct (map fst rs) \<Longrightarrow> (i, r) \<in> set rs \<Longrightarrow> p r \<Longrightarrow> map_of (change_rows i p f rs) = (map_of rs)(i \<mapsto> f r)"
proof (induction rs)
  case (Cons x rs)
  show ?case
  proof (cases "fst x = i")
    case True
    then have x: "x = (i, r)" using Cons.prems by (cases x) (auto simp: image_iff)
    have "change_rows i p f rs = rs"
      unfolding change_rows_def using Cons.prems(1) x by (intro map_idI) (auto simp: image_iff)
    then have "change_rows i p f (x # rs) = (i, f r) # rs" using x Cons.prems(3) by (simp add: change_rows_def)
    then show ?thesis using x by (simp add: fun_eq_iff)
  next
    case False
    then have "map_of (change_rows i p f rs) = (map_of rs)(i \<mapsto> f r)"
      using Cons.prems by (intro Cons.IH) auto
    moreover have "change_rows i p f (x # rs) = x # change_rows i p f rs" using False by (simp add: change_rows_def)
    ultimately show ?thesis using False by (cases x) (auto simp: fun_upd_twist)
  qed
qed simp

lemma effect_store: "effect d s rs as t \<Longrightarrow> store_of d (view t) = map_of rs"
  by (auto simp: store_of_def dest: effect_rows)

section \<open>Refinement\<close>

context quiet_server
begin

lemma create_refines:
  assumes "dao_Create (g_dao g) c o' s = (Ok x, t)"
  shows "store_create (g_dao g) c (clock s) (store_of (g_dao g) (view s)) o' x (store_of (g_dao g) (view t))"
proof -
  have "dao_create (g_dao g) c o' s = (Ok x, t)" using assms by (simp add: dao_Create_def with_tx_Ok)
  from dao.dao_create_Ok [OF this] obtain i cs ts dt r where
    r: "attributionLogic (g_dao g) c = Ok cs" "DetermineAssignedTenants (tenancyLogic (g_dao g)) c = Ok ts"
    "marshalData (g_dao g) o' = Ok dt" "GetId o' \<noteq> [] \<longrightarrow> i = GetId o'" "i \<notin> fst ` set (rows_of (g_dao g) (view s))"
    "r = \<lparr>creation_ts = clock s, deletion_ts = 0, finalizers = getFinalizers (getMetadata o'),
      creators = slice_list cs, tenants = slice_list ts, row_data = dt\<rparr>"
    "x = setMetadata (Some (makeMetadata (clock s) 0 (finalizers r) (creators r) (tenants r))) (SetId i o')"
    "effect (g_dao g) s (rows_of (g_dao g) (view s) @ [(i, r)]) (archives (view s) (table (g_dao g))) t"
    by blast
  have n: "store_of (g_dao g) (view s) i = None" using r(5) by (simp add: store_of_def map_of_eq_None_iff)
  have "store_of (g_dao g) (view t) = (store_of (g_dao g) (view s))(i \<mapsto> r)"
    using effect_store [OF r(8)] n by (auto simp: store_of_def map_add_def fun_eq_iff split: option.splits)
  with n r(1-4,6,7) show ?thesis unfolding store_create_def by (intro exI [of _ i] exI [of _ r]) simp
qed

lemma change_store:
  assumes "effect d s (change_rows i p f (rows_of d (view s))) as t" "table_ok d (view s)"
    "(i, r) \<in> set (rows_of d (view s))" "p r"
  shows "store_of d (view t) = (store_of d (view s))(i \<mapsto> f r)"
proof -
  have "distinct (map fst (rows_of d (view s)))" using assms(2) by (simp add: table_ok_def rows_ok_def)
  from effect_store [OF assms(1)] map_of_change [of _ i r p f, OF this assms(3,4)] show ?thesis
    by (simp add: store_of_def)
qed

lemma remove_store:
  "effect d s (filter (\<lambda>y. fst y \<noteq> i) (rows_of d (view s))) as t \<Longrightarrow>
     store_of d (view t) = (store_of d (view s))(i := None)"
  using effect_store [of d s _ as t] by (simp add: map_of_other store_of_def)

lemma delete_refines:
  assumes "dao_Delete (g_dao g) c i s = (Ok (), t)" "table_ok (g_dao g) (view s)"
  shows "store_delete (g_dao g) c (clock s) (store_of (g_dao g) (view s)) i (store_of (g_dao g) (view t))"
proof -
  let ?d = "g_dao g"
  have "dao_delete ?d c i s = (Ok (), t)" using assms(1) by (simp add: dao_Delete_def with_tx_Ok)
  from dao.dao_delete_Ok [OF this] obtain ts r where
    v: "DetermineVisibleTenants (tenancyLogic ?d) c = Ok ts" "can_see (slice_list ts) r" and
    r: "(i, r) \<in> set (rows_of ?d (view s))" and
    e: "if finalizers r = []
     then effect ?d s (filter (\<lambda>y. fst y \<noteq> i) (rows_of ?d (view s))) (archives (view s) (table ?d) @
        [(i, archived_row (clock s) (creation_ts r) (clock s) (creators r) (tenants r) (row_data r))]) t
     else effect ?d s (change_rows i (can_see (slice_list ts)) (\<lambda>r. r\<lparr>deletion_ts := clock s\<rparr>)
        (rows_of ?d (view s))) (archives (view s) (table ?d)) t"
    by blast
  have "store_of ?d (view s) i = Some r" using store_of_row r assms(2) by (metis table_ok_def)
  moreover have "visible_to ?d c r" using v by (auto simp: visible_to_def)
  moreover have "store_of ?d (view t) = (if finalizers r = [] then (store_of ?d (view s))(i := None)
      else (store_of ?d (view s))(i \<mapsto> r\<lparr>deletion_ts := clock s\<rparr>))"
  proof (cases "finalizers r = []")
    case True
    then show ?thesis using e remove_store by auto
  next
    case False
    then have "effect ?d s (change_rows i (can_see (slice_list ts)) (\<lambda>r. r\<lparr>deletion_ts := clock s\<rparr>)
        (rows_of ?d (view s))) (archives (view s) (table ?d)) t" using e by simp
    from change_store [of ?d s i "can_see (slice_list ts)", OF this assms(2) r v(2)] False show ?thesis by simp
  qed
  ultimately show ?thesis unfolding store_delete_def by (intro exI [of _ r]) simp
qed

lemma update_writes:
  assumes "dao_Update (g_dao g) c o' s = (Ok (Some x), t)" "table_ok (g_dao g) (view s)"
    "(GetId o', r) \<in> set (rows_of (g_dao g) (view s))"
  shows "\<exists>dt. marshalData (g_dao g) o' = Ok dt \<and>
    store_of (g_dao g) (view t) = write_row (GetId o') (r\<lparr>finalizers := getFinalizers (getMetadata o'), row_data := dt\<rparr>)
      (store_of (g_dao g) (view s)) \<and>
    x = setMetadata (Some (makeMetadata (creation_ts r) (deletion_ts r) (getFinalizers (getMetadata o'))
      (creators r) (tenants r))) (SetId (GetId o') o')"
proof -
  let ?d = "g_dao g" and ?fs = "getFinalizers (getMetadata o')" and ?i = "GetId o'"
  have "dao_update ?d c o' s = (Ok (Some x), t)" using assms(1) by (simp add: dao_Update_def with_tx_Ok)
  from dao.dao_update_Ok [OF this refl refl] obtain r0 dt where
    r0: "(?i, r0) \<in> set (rows_of ?d (view s))" and dt: "marshalData ?d o' = Ok dt" and
    x: "x = setMetadata (Some (makeMetadata (creation_ts r0) (deletion_ts r0) ?fs (creators r0) (tenants r0)))
        (SetId ?i o')" and
    e: "if unix (deletion_ts r0) \<noteq> 0 \<and> ?fs = []
       then effect ?d s (filter (\<lambda>y. fst y \<noteq> ?i) (rows_of ?d (view s))) (archives (view s) (table ?d) @
          [(?i, archived_row (clock s) (creation_ts r0) (deletion_ts r0) (creators r0) (tenants r0) dt)]) t
       else effect ?d s (change_rows ?i (\<lambda>_. True) (\<lambda>r. r\<lparr>finalizers := ?fs, row_data := dt\<rparr>) (rows_of ?d (view s)))
          (archives (view s) (table ?d)) t"
    by blast
  have "r0 = r" using rows_unique r0 assms(2,3) by (metis table_ok_def)
  with x have x: "x = setMetadata (Some (makeMetadata (creation_ts r) (deletion_ts r) ?fs (creators r) (tenants r)))
        (SetId ?i o')" by simp
  have "store_of ?d (view t) = write_row ?i (r\<lparr>finalizers := ?fs, row_data := dt\<rparr>) (store_of ?d (view s))"
  proof (cases "unix (deletion_ts r) \<noteq> 0 \<and> ?fs = []")
    case True
    then show ?thesis using e remove_store unfolding \<open>r0 = r\<close> write_row_def by auto
  next
    case False
    then have "effect ?d s (change_rows ?i (\<lambda>_. True) (\<lambda>r. r\<lparr>finalizers := ?fs, row_data := dt\<rparr>) (rows_of ?d (view s)))
          (archives (view s) (table ?d)) t" using e unfolding \<open>r0 = r\<close> by argo
    from change_store [of ?d s ?i "\<lambda>_. True", OF this assms(2,3)] False show ?thesis by (auto simp: write_row_def)
  qed
  with dt x show ?thesis by (intro exI [of _ dt]) (simp only: simp_thms)
qed

lemma update_nothing:
  assumes "dao_Update (g_dao g) c o' s = (Ok None, t)" "table_ok (g_dao g) (view s)"
    "(GetId o', r) \<in> set (rows_of (g_dao g) (view s))" "object_of (g_dao g) (GetId o') r = Ok current"
  shows "view t = view s \<and> equivalent (g_dao g) (Some current) o'"
proof -
  let ?d = "g_dao g"
  have u: "dao_update ?d c o' s = (Ok None, t)" using assms(1) by (simp add: dao_Update_def with_tx_Ok)
  have v: "view t = view s" using dao.dao_update_Ok [OF u refl refl] by blast
  from u obtain cur s1 where g: "dao_get ?d c (GetId o') s = (Ok cur, s1)" and
    rest: "(if equivalent ?d cur o' then ret None else bind (lift (marshalData ?d o')) (\<lambda>x. update_row ?d c o' x)) s1 =
      (Ok None, t)"
    unfolding dao_update_eq bind_Ok_iff by (auto simp: lift_def mandatory_id_def split: if_splits)
  have eq: "equivalent ?d cur o'"
    using rest dao.update_row_Ok [OF _ refl refl] by (auto simp: bind_Ok_iff lift_def split: if_splits) blast
  then obtain y where y: "cur = Some y" by (cases cur) (auto simp: equivalent_def)
  from dao_get_Ok [OF g] y obtain r' where "(GetId o', r') \<in> set (rows_of ?d (view s))" "object_of ?d (GetId o') r' = Ok y"
    by auto
  then have "y = current" using rows_unique assms(2-4) by (metis table_ok_def res.inject(1))
  with v eq y show ?thesis by simp
qed

lemma update_refines:
  assumes "server_Update g c z ps s = (Ok y, t)" "table_ok (g_dao g) (view s)"
  shows "\<exists>input. z = Some input \<and>
    store_update g c (store_of (g_dao g) (view s)) input ps y (store_of (g_dao g) (view t))"
proof -
  let ?d = "g_dao g"
  obtain input current o' s1 where z: "z = Some input" "GetId o' = GetId input" and
    g: "dao_Get ?d c (GetId input) s = (Ok (Some current), s1)" and
    o': "case ps of None \<Rightarrow> o' = input
     | Some paths \<Rightarrow> \<exists>fps. compilePaths g paths = Ok fps \<and> apply_paths input fps current = Ok o'" and
    u: "dao_Update ?d c o' s1 = (Ok y, t)"
    using server_Update_Ok [OF assms(1)] by blast
  from get_row [OF g] obtain ts r where ts: "DetermineVisibleTenants (tenancyLogic ?d) c = Ok ts" "can_see (slice_list ts) r"
    and r: "(GetId input, r) \<in> set (rows_of ?d (view s))" "object_of ?d (GetId input) r = Ok current"
    by blast
  have s1: "view s1 = view s" using dao_Get_same g by blast
  have m: "store_of ?d (view s) (GetId input) = Some r" using store_of_row r(1) assms(2) by (metis table_ok_def)
  have v: "visible_to ?d c r" using ts by (auto simp: visible_to_def)
  have w: "updated_object g input ps current = Ok o'"
    using o' by (auto simp: updated_object_def bindR_eq_Ok split: option.splits)
  show ?thesis
  proof (cases y)
    case None
    from update_nothing [OF u [unfolded None], unfolded s1 z(2), OF assms(2) r]
    have "view t = view s" "equivalent ?d (Some current) o'" by auto
    with None z(1) m v r(2) w show ?thesis unfolding store_update_def by simp
  next
    case (Some x)
    from update_writes [OF u [unfolded Some], unfolded s1 z(2), OF assms(2) r(1)]
    obtain dt where "marshalData ?d o' = Ok dt"
      "store_of ?d (view t) = write_row (GetId input) (r\<lparr>finalizers := getFinalizers (getMetadata o'), row_data := dt\<rparr>)
        (store_of ?d (view s))"
      "x = setMetadata (Some (makeMetadata (creation_ts r) (deletion_ts r) (getFinalizers (getMetadata o'))
        (creators r) (tenants r))) (SetId (GetId input) o')" by blast
    with Some z(1) m v r(2) w show ?thesis unfolding store_update_def by auto
  qed
qed

lemma get_refines:
  assumes "server_Get g c i s = (Ok y, t)" "table_ok (g_dao g) (view s)"
  shows "view t = view s \<and> store_get (g_dao g) c (store_of (g_dao g) (view s)) i y"
proof -
  have g: "dao_Get (g_dao g) c i s = (Ok (Some y), t)"
    using assms(1) unfolding server_Get_def check_Ok_iff need_Ok_iff bind_Ok_iff catch_fail_Ok ret_Ok_iff by blast
  from get_row [OF this] have "store_get (g_dao g) c (store_of (g_dao g) (view s)) i y"
    using store_of_row assms(2) unfolding store_get_def visible_to_def table_ok_def by blast
  with dao_Get_same g show ?thesis by blast
qed

lemma list_refines:
  assumes "server_List g c q s = (Ok y, t)" "table_ok (g_dao g) (view s)"
  shows "view t = view s \<and> store_list (g_dao g) c (store_of (g_dao g) (view s)) (Items y)"
proof -
  from assms(1) have "dao_List (g_dao g) c q s = (Ok y, t)"
    by (auto simp: server_List_def bind_Ok_iff catch_fail_Ok ret_Ok_iff)
  then have l: "dao_list (g_dao g) c q s = (Ok y, t)" by (simp add: dao_List_def with_tx_Ok)
  have "store_list (g_dao g) c (store_of (g_dao g) (view s)) (Items y)"
    unfolding store_list_def
  proof
    fix x assume "x \<in> set (Items y)"
    from list_item_row [OF l this] show "\<exists>i r. store_of (g_dao g) (view s) i = Some r \<and> visible_to (g_dao g) c r \<and>
        object_of (g_dao g) i r = Ok x"
      using store_of_row assms(2) unfolding visible_to_def table_ok_def by (fastforce simp: matches_def)
  qed
  with dao_list_Ok [OF l] show ?thesis by metis
qed

lemma call_refines:
  assumes "server_call g q c s = (Ok x, t)" "table_ok (g_dao g) (view s)"
  shows "store_request g c (clock s) q (store_of (g_dao g) (view s)) x (store_of (g_dao g) (view t))"
proof (cases q)
  case (SList l)
  then obtain y where "x = RList y" "server_List g c l s = (Ok y, t)"
    using assms(1) by (auto simp: server_call_def bind_Ok_iff ret_Ok_iff)
  with list_refines [OF _ assms(2)] SList show ?thesis by (simp add: store_request_def)
next
  case (SGet i)
  then obtain y where "x = RObject (Some y)" "server_Get g c i s = (Ok y, t)"
    using assms(1) by (auto simp: server_call_def bind_Ok_iff ret_Ok_iff)
  with get_refines [OF _ assms(2)] SGet show ?thesis by (simp add: store_request_def)
next
  case (SCreate z)
  from assms(1) obtain o' y where "z = Some o'" "x = RObject (Some y)" "dao_Create (g_dao g) c o' s = (Ok y, t)"
    unfolding SCreate by (cases rule: server_call_cases) auto
  with create_refines SCreate show ?thesis by (simp add: store_request_def)
next
  case (SUpdate z ps)
  then obtain y where "x = RObject y" "server_Update g c z ps s = (Ok y, t)"
    using assms(1) by (auto simp: server_call_def bind_Ok_iff ret_Ok_iff)
  with update_refines [OF _ assms(2)] SUpdate show ?thesis by (simp add: store_request_def)
next
  case (SDelete i)
  then have "x = REmpty" using assms(1) by (auto simp: server_call_def bind_Ok_iff ret_Ok_iff)
  moreover have "dao_Delete (g_dao g) c i s = (Ok (), t)"
    using assms(1) unfolding SDelete by (cases rule: server_call_cases) auto
  ultimately show ?thesis using delete_refines assms(2) SDelete by (simp add: store_request_def)
qed

end



end
