(* ===== verification/FilterTranslator.thy ===== *)
theory FilterTranslator
  imports Protobuf
begin

text \<open>
  The translator of filters, \<open>internal/database/dao/filter_translator.go\<close>: from the checked syntax tree
  of a CEL expression to the text of a condition of a \<open>where\<close> clause. The parser and the type checker of
  CEL are not part of the repository, so the translator starts at the tree that they return.
\<close>

section \<open>Expressions\<close>

text \<open>
  A string literal is the list of the runes that Go's \<open>range\<close> visits. \<open>OtherLit t\<close> is a literal whose Go
  value has the type \<open>t\<close> (bytes, double, unsigned) and \<open>OtherExpr k\<close> an expression of the kind number \<open>k\<close>
  of \<open>ast.ExprKind\<close>: the target of a call without receiver is the unspecified expression, number 0.
\<close>

type_synonym rune = nat

datatype literal = NullLit | BoolLit bool | IntLit int | StrLit "rune list" | OtherLit string

datatype expr =
    Call string expr "expr list"
  | Ident string
  | Literal literal
  | Select expr string bool
  | ListExpr "expr list"
  | OtherExpr nat

section \<open>Results\<close>

text \<open>
  The descriptor of a message, or of the entries of a map field. \<open>FullName\<close> of the entries follows
  protoc: the parent of the field, the field in camel case and \<open>Entry\<close>.
\<close>

datatype desc = MsgDesc string | EntryDesc field

fun camel :: "bool \<Rightarrow> string \<Rightarrow> string" where
  "camel _ [] = []"
| "camel up (c # cs) = (if c = CHR ''_'' then camel True cs
     else (if up \<and> CHR ''a'' \<le> c \<and> c \<le> CHR ''z'' then char_of (of_char c - 32 :: nat) else c)
       # camel False cs)"

definition FullName :: "desc \<Rightarrow> string" where
  "FullName d = (case d of MsgDesc n \<Rightarrow> n
    | EntryDesc f \<Rightarrow> take (length (fd_full f) - length (fd_name f)) (fd_full f)
        @ camel True (fd_name f) @ ''Entry'')"

definition entry_fields :: "field \<Rightarrow> field list" where
  "entry_fields f =
     [\<lparr>fd_name = ''key'', fd_full = FullName (EntryDesc f) @ ''.key'', fd_kind = StringKind,
       fd_card = Singular, fd_presence = True\<rparr>,
      \<lparr>fd_name = ''value'', fd_full = FullName (EntryDesc f) @ ''.value'', fd_kind = fd_kind f,
       fd_card = Singular, fd_presence = True\<rparr>]"

definition Fields :: "schema \<Rightarrow> desc \<Rightarrow> field list" where
  "Fields sc d = (case d of MsgDesc n \<Rightarrow> sc n | EntryDesc f \<Rightarrow> entry_fields f)"

text \<open>\<open>FieldDescriptor.Kind\<close> of a map field is the kind of a message, its entries.\<close>

definition field_Message :: "field \<Rightarrow> desc option" where
  "field_Message f = (if fd_card f = IsMap then Some (EntryDesc f)
     else case fd_kind f of MessageKind n \<Rightarrow> Some (MsgDesc n) | _ \<Rightarrow> None)"

fun Kind_String :: "kind \<Rightarrow> string" where
  "Kind_String BoolKind = ''bool''"
| "Kind_String Int32Kind = ''int32''"
| "Kind_String Uint32Kind = ''uint32''"
| "Kind_String Int64Kind = ''int64''"
| "Kind_String Uint64Kind = ''uint64''"
| "Kind_String FloatKind = ''float''"
| "Kind_String DoubleKind = ''double''"
| "Kind_String StringKind = ''string''"
| "Kind_String BytesKind = ''bytes''"
| "Kind_String (EnumKind _) = ''enum''"
| "Kind_String (MessageKind _) = ''message''"

datatype rkind =
    NullType | BooleanK | NumericK | TimeK | StringK | ThisK | MdK | JsonK

fun rkind_String :: "rkind \<Rightarrow> string" where
  "rkind_String NullType = ''null''"
| "rkind_String BooleanK = ''boolean''"
| "rkind_String NumericK = ''numeric''"
| "rkind_String StringK = ''string''"
| "rkind_String TimeK = ''time''"
| "rkind_String ThisK = ''this''"
| "rkind_String MdK = ''metadata''"
| "rkind_String JsonK = ''json''"

record result =
  sql :: string
  precedence :: nat
  rkind :: rkind
  rdesc :: "desc option"

definition MaxPrecedence :: nat where "MaxPrecedence = 2 ^ 63 - 1"
definition MultiplicativePrecedence :: nat where "MultiplicativePrecedence = 8"
definition AdditivePrecedence :: nat where "AdditivePrecedence = 7"
definition IsPrecedence :: nat where "IsPrecedence = 6"
definition OtherPrecedence :: nat where "OtherPrecedence = 5"
definition InPrecedence :: nat where "InPrecedence = 4"
definition ComparisonPrecedence :: nat where "ComparisonPrecedence = 3"
definition NotPrecedence :: nat where "NotPrecedence = 2"
definition AndPrecedence :: nat where "AndPrecedence = 1"
definition OrPrecedence :: nat where "OrPrecedence = 0"

lemmas precedences = MaxPrecedence_def MultiplicativePrecedence_def AdditivePrecedence_def
  IsPrecedence_def OtherPrecedence_def InPrecedence_def ComparisonPrecedence_def
  NotPrecedence_def AndPrecedence_def OrPrecedence_def

definition result_of :: "string \<Rightarrow> nat \<Rightarrow> rkind \<Rightarrow> result" where
  "result_of s p k = \<lparr>sql = s, precedence = p, rkind = k, rdesc = None\<rparr>"

lemma result_of_simps [simp]:
  "sql (result_of s p k) = s" "precedence (result_of s p k) = p"
  "rkind (result_of s p k) = k" "rdesc (result_of s p k) = None"
  "(result_of s p k)\<lparr>precedence := q\<rparr> = result_of s q k"
  by (simp_all add: result_of_def)

definition paren :: "nat \<Rightarrow> result \<Rightarrow> string" where
  "paren p r = (if precedence r < p then ''('' @ sql r @ '')'' else sql r)"

section \<open>Literals\<close>

definition hex_digit :: "nat \<Rightarrow> char" where
  "hex_digit n = char_of (if n < 10 then 48 + n else 87 + n)"

text \<open>Go's \<open>%04x\<close> and \<open>%08x\<close> for a number that fits in the digits.\<close>

fun hex :: "nat \<Rightarrow> nat \<Rightarrow> string" where
  "hex 0 n = []"
| "hex (Suc w) n = hex w (n div 16) @ [hex_digit (n mod 16)]"

text \<open>\<open>unicode.IsPrint(r) && r <= unicode.MaxASCII\<close>.\<close>

definition printable_ascii :: "rune \<Rightarrow> bool" where
  "printable_ascii r \<longleftrightarrow> 32 \<le> r \<and> r < 127"

definition translateRune :: "string \<Rightarrow> rune \<Rightarrow> string \<times> bool" where
  "translateRune special r = (
     if r = 92 \<or> r \<in> of_char ` set special then ([CHR 0x5C, char_of r], False)
     else if r = 39 then ([CHR 0x5C, CHR 0x27], True)
     else if r = 10 then ([CHR 0x5C, CHR ''n''], True)
     else if r = 9 then ([CHR 0x5C, CHR ''t''], True)
     else if printable_ascii r then ([char_of r], False)
     else if r < 65535 then (CHR 0x5C # CHR ''u'' # hex 4 r, True)
     else (CHR 0x5C # CHR ''U'' # hex 8 r, True))"

fun translateString :: "rune list \<Rightarrow> string \<Rightarrow> string \<times> bool" where
  "translateString [] special = ([], False)"
| "translateString (r # rs) special = (let (t, e) = translateRune special r;
     (ts, es) = translateString rs special in (t @ ts, e \<or> es))"

definition translateLiteral :: "literal \<Rightarrow> result res" where
  "translateLiteral v = (case v of
      NullLit \<Rightarrow> Ok (result_of ''null'' MaxPrecedence NullType)
    | BoolLit b \<Rightarrow> Ok (result_of (if b then ''true'' else ''false'') MaxPrecedence BooleanK)
    | IntLit i \<Rightarrow> Ok (result_of (show_int i) MaxPrecedence NumericK)
    | StrLit rs \<Rightarrow> (let (t, escaped) = translateString rs [] in
        Ok (result_of ((if escaped then ''e'' else []) @ quoted t) MaxPrecedence StringK))
    | OtherLit t \<Rightarrow> Err (Fmt (''unknown literal type '' @ quoted t)))"

definition translateIdent :: "string \<Rightarrow> result res" where
  "translateIdent name = (
     if name = ''this'' then Ok (result_of '''' MaxPrecedence ThisK)
     else if name = ''now'' then Ok (result_of ''now()'' MaxPrecedence TimeK)
     else Err (Fmt (''unknown identifier '' @ quoted name)))"

section \<open>Fields\<close>

definition epoch_text :: string where
  "epoch_text = ''1970-01-01 00:00:00Z''"

text \<open>\<open>cast(o->>'f' as t)\<close>\<close>

definition json_cast :: "string \<Rightarrow> string \<Rightarrow> string \<Rightarrow> string" where
  "json_cast operand f t = ''cast('' @ operand @ ''->>'' @ quoted f @ '' as '' @ t @ '')''"

definition translateSelectJsonField :: "schema \<Rightarrow> string \<Rightarrow> desc option \<Rightarrow> string \<Rightarrow> bool \<Rightarrow> result res"
where
  "translateSelectJsonField sc operandSql msgDesc f testOnly = (
     if testOnly then Ok (result_of (operandSql @ '' ? '' @ quoted f) OtherPrecedence BooleanK)
     else case msgDesc of None \<Rightarrow> Panic ''nil pointer dereference''
     | Some d \<Rightarrow> (case ByName (Fields sc d) f of None \<Rightarrow> Panic ''nil pointer dereference''
       | Some fd \<Rightarrow> (case field_Message fd of
           Some (MsgDesc n) \<Rightarrow>
             if n = ''google.protobuf.Timestamp''
             then Ok (result_of (json_cast operandSql f ''timestamp with time zone'') MaxPrecedence TimeK)
             else Ok ((result_of (operandSql @ ''->'' @ quoted f) MaxPrecedence JsonK)
               \<lparr>rdesc := Some (MsgDesc n)\<rparr>)
         | Some d' \<Rightarrow> Ok ((result_of (operandSql @ ''->'' @ quoted f) MaxPrecedence JsonK)
               \<lparr>rdesc := Some d'\<rparr>)
         | None \<Rightarrow> (case fd_kind fd of
             BoolKind \<Rightarrow> Ok (result_of (json_cast operandSql f ''bool'') MaxPrecedence BooleanK)
           | Int32Kind \<Rightarrow> Ok (result_of (json_cast operandSql f ''integer'') MaxPrecedence NumericK)
           | Int64Kind \<Rightarrow> Ok (result_of (json_cast operandSql f ''bigint'') MaxPrecedence NumericK)
           | FloatKind \<Rightarrow> Ok (result_of (json_cast operandSql f ''real'') MaxPrecedence NumericK)
           | DoubleKind \<Rightarrow>
               Ok (result_of (json_cast operandSql f ''double precision'') MaxPrecedence NumericK)
           | StringKind \<Rightarrow> Ok (result_of (operandSql @ ''->>'' @ quoted f) MaxPrecedence StringK)
           | k \<Rightarrow> Err (Fmt (''select of JSON field '' @ quoted f @ '' of operand '' @ quoted operandSql
               @ '' of type '' @ quoted (FullName d) @ '' of kind '' @ quoted (Kind_String k)
               @ '' isn't supported''))))))"

definition translateSelectThisMdField :: "string \<Rightarrow> bool \<Rightarrow> result res" where
  "translateSelectThisMdField f testOnly = (
     if f = ''creation_timestamp'' then
       (if testOnly then Ok (result_of ''true'' MaxPrecedence BooleanK)
        else Ok (result_of f MaxPrecedence TimeK))
     else if f = ''deletion_timestamp'' then
       (if testOnly then Ok (result_of (f @ '' != '' @ quoted epoch_text) MaxPrecedence BooleanK)
        else Ok (result_of (''nullif('' @ f @ '', '' @ quoted epoch_text @ '')'') MaxPrecedence TimeK))
     else if f \<in> {''creators'', ''tenants''} then Ok (result_of f MaxPrecedence StringK)
     else Err (Fmt (''metadata doesn't have a '' @ quoted f @ '' field'')))"

definition translateSelectThisField :: "schema \<Rightarrow> string \<Rightarrow> string \<Rightarrow> bool \<Rightarrow> result res" where
  "translateSelectThisField sc this f testOnly = (
     if f = ''id'' then
       (if testOnly then Ok (result_of ''true'' MaxPrecedence BooleanK)
        else Ok (result_of f MaxPrecedence StringK))
     else if f = ''metadata'' then
       (if testOnly then Ok (result_of ''true'' MaxPrecedence BooleanK)
        else Ok (result_of [] MaxPrecedence MdK))
     else translateSelectJsonField sc ''data'' (Some (MsgDesc this)) f testOnly)"

text \<open>The dispatch of \<open>translateSelectField\<close> on the kind of its translated operand.\<close>

definition select_of :: "schema \<Rightarrow> string \<Rightarrow> string \<Rightarrow> bool \<Rightarrow> result \<Rightarrow> result res" where
  "select_of sc this f testOnly o' = bindR (case rkind o' of
       ThisK \<Rightarrow> translateSelectThisField sc this f testOnly
     | MdK \<Rightarrow> translateSelectThisMdField f testOnly
     | JsonK \<Rightarrow> translateSelectJsonField sc (sql o') (rdesc o') f testOnly
     | k \<Rightarrow> Err (Fmt (''select of field '' @ quoted f @ '' of kind '' @ quoted (rkind_String k)
         @ '' isn't supported'')))
     (\<lambda>r. Ok (r\<lparr>precedence := MaxPrecedence\<rparr>))"

section \<open>Operators\<close>

text \<open>
  The text, the precedence and the kind of the result of an operator with a fixed translation. The
  equalities depend on their operands: a null one goes to the right and makes them \<open>is\<close> and \<open>is not\<close>.
\<close>

definition operator_of :: "string \<Rightarrow> rkind \<Rightarrow> (string \<times> nat \<times> rkind) option" where
  "operator_of name k = (
     if name = ''_+_'' then Some (''+'', AdditivePrecedence, k)
     else if name = ''_-_'' then Some (''-'', AdditivePrecedence, k)
     else if name = ''_*_'' then Some (''*'', MultiplicativePrecedence, k)
     else if name = ''_/_'' then Some (''/'', MultiplicativePrecedence, k)
     else if name = ''_%_'' then Some (''%'', MultiplicativePrecedence, k)
     else if name = ''_>_'' then Some (''>'', ComparisonPrecedence, BooleanK)
     else if name = ''_>=_'' then Some (''>='', ComparisonPrecedence, BooleanK)
     else if name = ''_<_'' then Some (''<'', ComparisonPrecedence, BooleanK)
     else if name = ''_<=_'' then Some (''<='', ComparisonPrecedence, BooleanK)
     else if name = ''_&&_'' then Some (''and'', AndPrecedence, BooleanK)
     else if name = ''_||_'' then Some (''or'', OrPrecedence, BooleanK)
     else None)"

definition infix_sql :: "string \<Rightarrow> nat \<Rightarrow> rkind \<Rightarrow> result \<Rightarrow> result \<Rightarrow> result" where
  "infix_sql op p k l r = result_of (paren p l @ '' '' @ op @ '' '' @ paren p r) p k"

definition equality :: "string \<Rightarrow> string \<Rightarrow> result \<Rightarrow> result \<Rightarrow> result" where
  "equality eq is l0 r0 = (
     let (l, r) = (if rkind l0 = NullType then (r0, l0) else (l0, r0)) in
     if rkind r = NullType then infix_sql is IsPrecedence BooleanK l r
     else infix_sql eq ComparisonPrecedence BooleanK l r)"

definition binary_of :: "string \<Rightarrow> result \<Rightarrow> result \<Rightarrow> result res" where
  "binary_of name l r = (
     if name = ''_==_'' then Ok (equality ''='' ''is'' l r)
     else if name = ''_!=_'' then Ok (equality ''!='' ''is not'' l r)
     else case operator_of name (rkind l) of
       Some (op, p, k) \<Rightarrow> Ok (infix_sql op p k l r)
     | None \<Rightarrow> Err (Fmt (''unsupported operator '' @ quoted name)))"

definition not_of :: "result \<Rightarrow> result" where
  "not_of r = result_of (''not '' @ paren NotPrecedence r) NotPrecedence BooleanK"

text \<open>The translations of \<open>in\<close> do not set the kind, which stays null, the zero value.\<close>

definition in_list_of :: "result \<Rightarrow> result list \<Rightarrow> result" where
  "in_list_of k vs =
     result_of (paren InPrecedence k @ '' in ('' @ join '', '' (map sql vs) @ '')'') InPrecedence NullType"

definition in_field_of :: "result \<Rightarrow> result \<Rightarrow> result" where
  "in_field_of k v = result_of (sql v @ '' @> array['' @ sql k @ '']'') InPrecedence NullType"

definition like_of :: "string \<Rightarrow> expr \<Rightarrow> string \<Rightarrow> string \<Rightarrow> result \<Rightarrow> result res" where
  "like_of funcName pattern prefix suffix target = (case pattern of
      Literal (StrLit rs) \<Rightarrow> (let (t, escaped) = translateString rs ''%_'' in
        Ok (result_of (paren InPrecedence target @ '' like '' @ (if escaped then ''e'' else [])
          @ quoted (prefix @ t @ suffix)) InPrecedence BooleanK))
    | _ \<Rightarrow> Err (Fmt (''argument of the '' @ quoted funcName @ '' function must be a string literal'')))"

definition binary_operators :: "string list" where
  "binary_operators = [''_+_'', ''_-_'', ''_*_'', ''_/_'', ''_%_'', ''_==_'', ''_!=_'', ''_>_'',
     ''_>=_'', ''_<_'', ''_<=_'', ''_&&_'', ''_||_'']"

definition arity_error :: "string \<Rightarrow> string \<Rightarrow> string \<Rightarrow> nat \<Rightarrow> error" where
  "arity_error exactly what name n = Fmt (''expected exactly '' @ exactly @ '' for '' @ what @ '' ''
     @ quoted name @ '' but got '' @ show_int (int n))"

text \<open>The body of the loop of \<open>translateInList\<close> over the values.\<close>

fun literal_value :: "nat \<times> expr \<Rightarrow> result res" where
  "literal_value (i, Literal v) = translateLiteral v"
| "literal_value (i, _) = Err (Fmt (''value '' @ show_int (int i) @ '' isn't a literal''))"

section \<open>The translator\<close>

text \<open>
  The methods call each other as in the code; \<open>sc\<close> gives the fields of the message types and \<open>this\<close> is
  the full name of the type of the objects. An index out of the range of the arguments is a panic.
\<close>

function (sequential)
  translate :: "schema \<Rightarrow> string \<Rightarrow> expr \<Rightarrow> result res" and
  translateCall :: "schema \<Rightarrow> string \<Rightarrow> string \<Rightarrow> expr \<Rightarrow> expr list \<Rightarrow> result res" and
  translateBinary :: "schema \<Rightarrow> string \<Rightarrow> string \<Rightarrow> expr \<Rightarrow> expr \<Rightarrow> result res" and
  translateNot :: "schema \<Rightarrow> string \<Rightarrow> expr \<Rightarrow> result res" and
  translateIn :: "schema \<Rightarrow> string \<Rightarrow> expr list \<Rightarrow> result res" and
  translateInList :: "schema \<Rightarrow> string \<Rightarrow> expr \<Rightarrow> expr list \<Rightarrow> result res" and
  translateInField :: "schema \<Rightarrow> string \<Rightarrow> expr \<Rightarrow> expr \<Rightarrow> string \<Rightarrow> bool \<Rightarrow> result res" and
  translateToLike :: "schema \<Rightarrow> string \<Rightarrow> string \<Rightarrow> expr \<Rightarrow> expr \<Rightarrow> string \<Rightarrow> string \<Rightarrow> result res" and
  translateSelectField :: "schema \<Rightarrow> string \<Rightarrow> expr \<Rightarrow> string \<Rightarrow> bool \<Rightarrow> result res"
where
  "translate sc this (Call name target args) = translateCall sc this name target args"
| "translate sc this (Ident name) = translateIdent name"
| "translate sc this (Literal v) = translateLiteral v"
| "translate sc this (Select operand f testOnly) = translateSelectField sc this operand f testOnly"
| "translate sc this (ListExpr _) = Err (Fmt ''unsupported expression kind 4'')"
| "translate sc this (OtherExpr k) = Err (Fmt (''unsupported expression kind '' @ show_int (int k)))"

| "translateCall sc this name target args = (
     if name \<in> set binary_operators then
       (case args of [l, r] \<Rightarrow> translateBinary sc this name l r
        | _ \<Rightarrow> Err (arity_error ''two arguments'' ''operator'' name (length args)))
     else if name = ''!_'' then
       (case args of a # _ \<Rightarrow> translateNot sc this a | [] \<Rightarrow> Panic ''index out of range'')
     else if name = ''@in'' then translateIn sc this args
     else if name = ''contains'' then
       (case args of [p] \<Rightarrow> translateToLike sc this name target p ''%'' ''%''
        | _ \<Rightarrow> Err (arity_error ''one argument'' ''function'' name (length args)))
     else if name = ''startsWith'' then
       (case args of [p] \<Rightarrow> translateToLike sc this name target p [] ''%''
        | _ \<Rightarrow> Err (arity_error ''one argument'' ''function'' name (length args)))
     else if name = ''endsWith'' then
       (case args of [p] \<Rightarrow> translateToLike sc this name target p ''%'' []
        | _ \<Rightarrow> Err (arity_error ''one argument'' ''function'' name (length args)))
     else Err (Fmt (''function '' @ quoted name @ '' isn't supported'')))"

| "translateBinary sc this name left right =
     bindR (translate sc this left) (\<lambda>leftTr. bindR (translate sc this right) (\<lambda>rightTr.
       binary_of name leftTr rightTr))"

| "translateNot sc this v = bindR (translate sc this v) (\<lambda>valueTr. Ok (not_of valueTr))"

| "translateIn sc this args = (case args of
      k # ListExpr vs # _ \<Rightarrow> translateInList sc this k vs
    | k # Select operand f testOnly # _ \<Rightarrow> translateInField sc this k operand f testOnly
    | k # v # _ \<Rightarrow>
        Err (Fmt ''second argument of the 'in' operator must be a list or a select expression'')
    | _ \<Rightarrow> Panic ''index out of range'')"

| "translateInList sc this key vs =
     bindR (translate sc this key) (\<lambda>keyTr.
     bindR (mapR literal_value (enumerate 0 vs)) (\<lambda>valueTrs. Ok (in_list_of keyTr valueTrs)))"

| "translateInField sc this key operand f testOnly =
     bindR (translate sc this key) (\<lambda>keyTr.
     bindR (translateSelectField sc this operand f testOnly) (\<lambda>valueTr.
     Ok (in_field_of keyTr valueTr)))"

| "translateToLike sc this funcName target pattern prefix suffix =
     bindR (translate sc this target) (like_of funcName pattern prefix suffix)"

| "translateSelectField sc this operand f testOnly =
     bindR (translate sc this operand) (select_of sc this f testOnly)"
  by pat_completeness auto

termination
  by (relation "measure (case_sum
      (case_sum (case_sum (\<lambda>(_, _, e). 2 * size e) (\<lambda>(_, _, _, t, as). 2 * (size t + size_list size as) + 1))
        (case_sum (\<lambda>(_, _, _, l, r). 2 * (size l + size r) + 1) (\<lambda>(_, _, v). 2 * size v + 1)))
      (case_sum (case_sum (\<lambda>(_, _, as). 2 * size_list size as) (\<lambda>(_, _, k, vs). 2 * (size k + size_list size vs) + 1))
        (case_sum (\<lambda>(_, _, k, o', _). 2 * (size k + size o') + 2)
          (case_sum (\<lambda>(_, _, _, t, _). 2 * size t + 1) (\<lambda>(_, _, o', _). 2 * size o' + 1)))))") auto

text \<open>\<open>Translate\<close> returns the text of the translation of the compiled expression.\<close>

definition Translate :: "('f \<Rightarrow> expr res) \<Rightarrow> schema \<Rightarrow> string \<Rightarrow> 'f \<Rightarrow> string res" where
  "Translate compile sc this text =
     bindR (compile text) (\<lambda>e. bindR (translate sc this e) (\<lambda>r. Ok (sql r)))"

text \<open>
  The builder: the logger is mandatory, and any failure of the CEL library to create the environment, with
  the type of the objects, the variable \<open>this\<close> and the current time, gives the same error.
\<close>

definition filter_Build :: "'l option \<Rightarrow> 'env res \<Rightarrow> 'env res" where
  "filter_Build logger createCelEnv = (case logger of
      None \<Rightarrow> Err (Fmt ''logger is mandatory'')
    | Some _ \<Rightarrow> (case createCelEnv of
        Err _ \<Rightarrow> Err (Fmt ''failed to create CEL environment'') | r \<Rightarrow> r))"

lemmas filter_evaluation = binary_of_def equality_def infix_sql_def paren_def precedences result_of_def
  translateIdent_def select_of_def translateSelectThisField_def translateSelectThisMdField_def
  translateLiteral_def translateRune_def printable_ascii_def quoted_def operator_of_def

section \<open>Successful translations as rules\<close>

text \<open>The same translation as a relation, whose induction rule follows the cases of the code.\<close>

definition like_functions :: "(string \<times> string \<times> string) list" where
  "like_functions = [(''contains'', ''%'', ''%''), (''startsWith'', [], ''%''), (''endsWith'', ''%'', [])]"

inductive translated :: "schema \<Rightarrow> string \<Rightarrow> expr \<Rightarrow> result \<Rightarrow> bool" for sc this where
  t_Ident: "translateIdent n = Ok r \<Longrightarrow> translated sc this (Ident n) r"
| t_Literal: "translateLiteral v = Ok r \<Longrightarrow> translated sc this (Literal v) r"
| t_Select: "translated sc this e a \<Longrightarrow> select_of sc this f b a = Ok r \<Longrightarrow>
    translated sc this (Select e f b) r"
| t_Binary: "name \<in> set binary_operators \<Longrightarrow> translated sc this e1 a \<Longrightarrow> translated sc this e2 b \<Longrightarrow>
    binary_of name a b = Ok r \<Longrightarrow> translated sc this (Call name t [e1, e2]) r"
| t_Not: "translated sc this e a \<Longrightarrow> translated sc this (Call ''!_'' t (e # es)) (not_of a)"
| t_InList: "translated sc this e a \<Longrightarrow> list_all2 (\<lambda>l b. translateLiteral l = Ok b) ls bs \<Longrightarrow>
    translated sc this (Call ''@in'' t (e # ListExpr (map Literal ls) # es)) (in_list_of a bs)"
| t_InField: "translated sc this e a \<Longrightarrow> translated sc this (Select e' f b) c \<Longrightarrow>
    translated sc this (Call ''@in'' t (e # Select e' f b # es)) (in_field_of a c)"
| t_Like: "(name, p, s) \<in> set like_functions \<Longrightarrow> translated sc this t a \<Longrightarrow>
    like_of name e p s a = Ok r \<Longrightarrow> translated sc this (Call name t [e]) r"

lemma literal_value_Ok:
  "literal_value (i, v) = Ok b \<longleftrightarrow> (\<exists>l. v = Literal l \<and> translateLiteral l = Ok b)"
  by (cases v) auto

lemma literal_values:
  "mapR literal_value (enumerate k vs) = Ok bs \<Longrightarrow>
   \<exists>ls. vs = map Literal ls \<and> list_all2 (\<lambda>l b. translateLiteral l = Ok b) ls bs"
proof (induction vs arbitrary: k bs)
  case (Cons v vs)
  then obtain b bs' l where b: "v = Literal l" "translateLiteral l = Ok b" "bs = b # bs'"
    and rest: "mapR literal_value (enumerate (Suc k) vs) = Ok bs'"
    by (auto simp: bindR_eq_Ok simp: literal_value_Ok)
  from Cons.IH [OF rest] obtain ls where "vs = map Literal ls" "list_all2 (\<lambda>l b. translateLiteral l = Ok b) ls bs'"
    by blast
  then show ?case using b by (intro exI [of _ "l # ls"]) simp
qed simp

lemma translateIn_Ok:
  assumes "translateIn sc this args = Ok r"
  shows "(\<exists>k ls bs es a. args = k # ListExpr (map Literal ls) # es \<and> translate sc this k = Ok a
        \<and> list_all2 (\<lambda>l b. translateLiteral l = Ok b) ls bs \<and> r = in_list_of a bs)
    \<or> (\<exists>k e f b es a c. args = k # Select e f b # es \<and> translate sc this k = Ok a
        \<and> translate sc this (Select e f b) = Ok c \<and> r = in_field_of a c)"
proof -
  obtain k v es where args: "args = k # v # es" using assms
    by (auto split: list.splits)
  show ?thesis
  proof (cases v)
    case (ListExpr vs)
    then obtain a bs where "translate sc this k = Ok a" "r = in_list_of a bs"
      "mapR literal_value (enumerate 0 vs) = Ok bs"
      using assms args by (auto simp: bindR_eq_Ok)
    then show ?thesis using literal_values ListExpr args by blast
  qed (use assms args in \<open>auto simp: bindR_eq_Ok\<close>)
qed

lemma not_binary: "''!_'' \<notin> set binary_operators" "''@in'' \<notin> set binary_operators"
    "(n, p, s) \<in> set like_functions \<Longrightarrow> n \<notin> set binary_operators"
  by (auto simp: binary_operators_def like_functions_def)

lemma translateCall_Ok:
  assumes "translateCall sc this name t args = Ok r"
  obtains (binary) e1 e2 where "name \<in> set binary_operators" "args = [e1, e2]"
      "translateBinary sc this name e1 e2 = Ok r"
  | (neg) e es where "name = ''!_''" "args = e # es" "translateNot sc this e = Ok r"
  | (mem) "name = ''@in''" "translateIn sc this args = Ok r"
  | (like) p s e where "(name, p, s) \<in> set like_functions" "args = [e]"
      "translateToLike sc this name t e p s = Ok r"
  using assms
  unfolding translateCall.simps like_functions_def
  by (auto split: if_splits list.splits simp del: translateBinary.simps translateNot.simps
      translateIn.simps translateToLike.simps)

lemma translate_translated: "translate sc this e = Ok r \<Longrightarrow> translated sc this e r"
proof (induction e arbitrary: r)
  case (Call name t args)
  from Call.prems have "translateCall sc this name t args = Ok r" by simp
  then show ?case
  proof (cases rule: translateCall_Ok)
    case (binary e1 e2)
    then show ?thesis using Call.IH(2) by (auto simp: bindR_eq_Ok intro!: t_Binary)
  next
    case (neg e es)
    then show ?thesis using Call.IH(2) by (auto simp: bindR_eq_Ok intro!: t_Not)
  next
    case mem
    show ?thesis using translateIn_Ok [OF mem(2)] Call.IH(2)
      by (auto simp del: translate.simps simp: mem(1) intro!: t_InList t_InField)
  next
    case (like p s e)
    then show ?thesis using Call.IH(1) by (auto simp: bindR_eq_Ok intro!: t_Like)
  qed
qed (auto simp: bindR_eq_Ok intro: translated.intros)

lemma mapR_literals:
  "list_all2 (\<lambda>l b. translateLiteral l = Ok b) ls bs \<Longrightarrow>
   mapR literal_value (enumerate k (map Literal ls)) = Ok bs"
  by (induction ls arbitrary: bs k) (auto simp: list_all2_Cons1)

lemma translated_translate: "translated sc this e r \<Longrightarrow> translate sc this e = Ok r"
proof (induction rule: translated.induct)
  case (t_Like name p s t a e r)
  then show ?case by (auto simp: not_binary like_functions_def)
qed (simp_all add: not_binary mapR_literals)

lemma translate_iff: "translate sc this e = Ok r \<longleftrightarrow> translated sc this e r"
  using translate_translated translated_translate by blast

end
