(* ===== verification/FilterSafety.thy ===== *)
theory FilterSafety
  imports FilterTranslator Dao
begin

text \<open>
  A translated filter is one closed fragment of SQL. The lexer below reads text as PostgreSQL does with
  its default settings: string literals, string literals with escapes, and nested parentheses and
  brackets outside of them. The text of a filter leaves every parenthesis that was open before it open,
  closes the ones that it opens, and never starts a comment, a quoted identifier or another statement,
  so that the tenancy condition that the data access object adds around it keeps its meaning.
\<close>

section \<open>A lexer of SQL\<close>

text \<open>The character before: nothing of interest, the word \<open>e\<close>, another word, a dash, a slash or the
  quote that closed a literal.\<close>

datatype prev = PNone | PE | PWord | PDash | PSlash | PQuote | PEQuote

text \<open>Outside of literals with the open brackets, inside a literal, inside a literal with escapes,
  after a backslash of one, or something that a condition must not contain.\<close>

datatype lexer = Code string prev | InStr string | InEStr string | InEsc string | Bad

definition word_char :: "char \<Rightarrow> bool" where
  "word_char c \<longleftrightarrow> c \<in> {CHR ''a''..CHR ''z''} \<or> c \<in> {CHR ''A''..CHR ''Z''}
     \<or> c \<in> {CHR ''0''..CHR ''9''} \<or> c = CHR ''_''"

definition quote_char :: char where "quote_char = CHR 0x27"
definition backslash :: char where "backslash = CHR 0x5C"

fun lex_quote :: "string \<Rightarrow> prev \<Rightarrow> lexer" where
  "lex_quote st PE = InEStr st"
| "lex_quote st PEQuote = InEStr st"
| "lex_quote st PWord = Bad"
| "lex_quote st _ = InStr st"

definition pop :: "char \<Rightarrow> string \<Rightarrow> lexer" where
  "pop c st = (case st of d # ds \<Rightarrow> if c = d then Code ds PNone else Bad | [] \<Rightarrow> Bad)"

definition lex_code :: "string \<Rightarrow> prev \<Rightarrow> char \<Rightarrow> lexer" where
  "lex_code st p c = (
     if c = quote_char then lex_quote st p
     else if c = CHR ''('' \<or> c = CHR ''['' then Code (c # st) PNone
     else if c = CHR '')'' then pop (CHR ''('') st
     else if c = CHR '']'' then pop (CHR ''['') st
     else if c \<in> {CHR 0x22, CHR '';'', CHR ''$'', backslash} then Bad
     else if c = CHR ''-'' then (if p = PDash then Bad else Code st PDash)
     else if c = CHR ''/'' then Code st PSlash
     else if c = CHR ''*'' then (if p = PSlash then Bad else Code st PNone)
     else if word_char c then
       Code st (if c \<in> {CHR ''e'', CHR ''E''} \<and> p \<notin> {PE, PWord} then PE else PWord)
     else Code st PNone)"

fun lex_step :: "lexer \<Rightarrow> char \<Rightarrow> lexer" where
  "lex_step (Code st p) c = lex_code st p c"
| "lex_step (InStr st) c = (if c = quote_char then Code st PQuote else InStr st)"
| "lex_step (InEStr st) c = (if c = quote_char then Code st PEQuote
     else if c = backslash then InEsc st else InEStr st)"
| "lex_step (InEsc st) c = InEStr st"
| "lex_step Bad c = Bad"

definition lex :: "lexer \<Rightarrow> string \<Rightarrow> lexer" where
  "lex s cs = foldl lex_step s cs"

lemma lex_simps [simp]: "lex s [] = s" "lex s (c # cs) = lex (lex_step s c) cs"
  by (simp_all add: lex_def)

lemma lex_append [simp]: "lex s (cs @ ds) = lex (lex s cs) ds"
  by (simp add: lex_def)

text \<open>
  A closed fragment, after a character that ends a word: the brackets that were open stay open, and the
  next character cannot complete a comment.
\<close>

definition calm :: "prev \<Rightarrow> bool" where
  "calm p \<longleftrightarrow> p \<noteq> PDash \<and> p \<noteq> PSlash"

lemma calm_simps [simp]: "calm PNone" "calm PE" "calm PWord" "calm PQuote" "calm PEQuote"
  by (simp_all add: calm_def)

definition closed :: "string \<Rightarrow> bool" where
  "closed cs \<longleftrightarrow> (\<forall>st. \<exists>p. calm p \<and> lex (Code st PNone) cs = Code st p)"

lemma closedE:
  assumes "closed cs"
  obtains p where "lex (Code st PNone) cs = Code st p" "calm p"
  using assms unfolding closed_def by blast

lemma closedI: "(\<And>st. \<exists>p. calm p \<and> lex (Code st PNone) cs = Code st p) \<Longrightarrow> closed cs"
  by (simp add: closed_def)

section \<open>Fragments\<close>

named_theorems closed_intros \<open>rules that show that a fragment is closed\<close>

lemmas lex_defs = lex_code_def quote_char_def backslash_def word_char_def pop_def

text \<open>Words and the blanks, parentheses and operators that join fragments.\<close>

definition plain_char :: "char \<Rightarrow> bool" where
  "plain_char c \<longleftrightarrow> word_char c \<or> c \<in> {CHR '' '', CHR '':'', CHR '','', CHR ''='', CHR ''!'', CHR ''?'',
     CHR ''@'', CHR ''>'', CHR ''<'', CHR ''%'', CHR ''+''}"

definition special_chars :: "char set" where
  "special_chars = {quote_char, CHR ''('', CHR ''['', CHR '')'', CHR '']'', CHR 0x22, CHR '';'', CHR ''$'',
     backslash, CHR ''-'', CHR ''/'', CHR ''*''}"

lemma special_not_plain: "c \<in> special_chars \<Longrightarrow> \<not> plain_char c"
  unfolding special_chars_def quote_char_def backslash_def
  by (elim insertE) (simp_all add: plain_char_def word_char_def)

lemma word_char_no_quote: "word_char c \<Longrightarrow> c \<noteq> quote_char \<and> c \<noteq> backslash"
  using special_not_plain [of c] by (auto simp: plain_char_def special_chars_def)

lemma lex_plain:
  assumes "plain_char c"
  shows "\<exists>p'. calm p' \<and> lex_code st p c = Code st p'"
proof -
  have "c \<notin> special_chars" using assms special_not_plain by blast
  then show ?thesis by (simp add: lex_code_def special_chars_def)
qed

lemma lex_plains:
  "calm p \<Longrightarrow> list_all plain_char cs \<Longrightarrow> \<exists>p'. calm p' \<and> lex (Code st p) cs = Code st p'"
proof (induction cs arbitrary: p)
  case (Cons c cs)
  then obtain q where "calm q" "lex_code st p c = Code st q" using lex_plain by fastforce
  then show ?case using Cons by simp
qed auto

lemma closed_plain: "list_all plain_char cs \<Longrightarrow> closed cs"
  by (rule closedI) (simp add: lex_plains)

lemma lex_blank [simp]: "lex_code st p (CHR '' '') = Code st PNone"
  by (simp add: lex_defs)

lemma closed_Nil [closed_intros]: "closed []"
  by (simp add: closed_def)

lemma lex_close [simp]: "lex_code (CHR ''('' # st) p (CHR '')'') = Code st PNone"
    "lex_code (CHR ''['' # st) p (CHR '']'') = Code st PNone"
  by (simp_all add: lex_defs)

lemma lex_open [simp]: "lex_code st p (CHR ''('') = Code (CHR ''('' # st) PNone"
    "lex_code st p (CHR ''['') = Code (CHR ''['' # st) PNone"
  by (simp_all add: lex_defs)

lemma lex_comma [simp]: "lex_code st p (CHR '','') = Code st PNone"
  by (simp add: lex_defs)

text \<open>Text without quotes inside a literal.\<close>

lemma lex_InStr: "quote_char \<notin> set cs \<Longrightarrow> lex (InStr st) cs = InStr st"
  by (induction cs) auto

lemma lex_quoted:
  assumes "quote_char \<notin> set cs" "lex_code st p quote_char = InStr st"
  shows "lex (Code st p) (quoted cs) = Code st PQuote"
  using assms by (simp add: quoted_def lex_InStr flip: quote_char_def)

lemma closed_append:
  assumes "closed a" "closed b" "\<And>st p. calm p \<Longrightarrow> lex (Code st p) op = Code st PNone"
  shows "closed (a @ op @ b)"
proof (rule closedI)
  fix st
  obtain p where "lex (Code st PNone) a = Code st p" "calm p" using assms(1) by (rule closedE)
  moreover obtain q where "lex (Code st PNone) b = Code st q" "calm q" using assms(2) by (rule closedE)
  ultimately show "\<exists>q. calm q \<and> lex (Code st PNone) (a @ op @ b) = Code st q" using assms(3) by simp
qed

text \<open>An opening text, a closed fragment and a closing one.\<close>

lemma closed_wrap:
  assumes "closed a" "\<And>st. lex (Code st PNone) before = Code (c # st) PNone"
    "\<And>st p. calm p \<Longrightarrow> lex (Code (c # st) p) after = Code st PNone"
  shows "closed (before @ a @ after)"
proof (rule closedI)
  fix st
  obtain p where "lex (Code (c # st) PNone) a = Code (c # st) p" "calm p" using assms(1) by (rule closedE)
  then show "\<exists>q. calm q \<and> lex (Code st PNone) (before @ a @ after) = Code st q"
    using assms(2,3) by simp
qed

lemma closed_paren: "closed (sql r) \<Longrightarrow> closed (paren n r)"
  unfolding paren_def using closed_wrap [of "sql r" "''(''" "CHR ''(''" "'')''"] by simp

lemma closed_join:
  "list_all closed ss \<Longrightarrow> closed (join '', '' ss)"
proof (induction "'', ''" ss rule: join.induct)
  case (3 s s' ss)
  then show ?case using closed_append [of s "join '', '' (s' # ss)" "'', ''"] by simp
qed (simp_all add: closed_intros)

text \<open>A literal without escapes and one with escapes.\<close>

lemma closed_quote: "quote_char \<notin> set cs \<Longrightarrow> closed (quoted cs)"
  by (rule closedI) (simp add: lex_quoted lex_code_def)

lemma closed_quoted:
  assumes "closed a" "quote_char \<notin> set cs"
    "\<And>st p. calm p \<Longrightarrow> lex (Code st p) op = Code st PNone"
  shows "closed (a @ op @ quoted cs)"
  using closed_append [OF assms(1) closed_quote [OF assms(2)] assms(3)] .

lemma closed_equoted:
  assumes "\<And>st. lex (InEStr st) cs = InEStr st"
  shows "closed (''e'' @ quoted cs)"
proof (rule closedI)
  fix st
  have "lex_code st PNone (CHR ''e'') = Code st PE" "lex_code st PE (CHR 0x27) = InEStr st"
    by (simp_all add: lex_defs)
  then show "\<exists>p. calm p \<and> lex (Code st PNone) (''e'' @ quoted cs) = Code st p"
    using assms [of st] by (simp add: quoted_def quote_char_def)
qed

section \<open>The pieces of the translator\<close>

lemma char_of_eq:
  "r < 256 \<Longrightarrow> char_of r = c \<longleftrightarrow> r = (of_char c :: nat)"
  "r < 256 \<Longrightarrow> c = char_of r \<longleftrightarrow> r = (of_char c :: nat)"
  by (metis char_of_char mod_less of_char_of)+

lemma of_char_quote: "(of_char x :: nat) = 39 \<longleftrightarrow> x = quote_char"
  using of_char_eq_iff [of x quote_char, where 'a = nat] by (simp add: quote_char_def)

lemma hex_digit_plain: "n < 16 \<Longrightarrow> plain_char (hex_digit n)"
proof -
  assume "n < 16"
  then have "n \<in> set [0..<16]" by simp
  moreover have "list_all (\<lambda>n. plain_char (hex_digit n)) [0..<16]"
    by (simp add: upt_conv_Cons hex_digit_def plain_char_def word_char_def char_of_def bit_Suc_0_iff)
  ultimately show ?thesis by (simp only: list_all_iff)
qed

lemma hex_plain: "list_all plain_char (hex w n)"
  by (induction w n rule: hex.induct) (simp_all add: hex_digit_plain)

lemma plain_no_quote: "plain_char c \<Longrightarrow> c \<noteq> quote_char \<and> c \<noteq> backslash"
  using special_not_plain [of c] by (auto simp: special_chars_def)

lemma lex_InEStr_plain: "list_all plain_char cs \<Longrightarrow> lex (InEStr st) cs = InEStr st"
  by (induction cs) (auto dest: plain_no_quote)

lemma printable_char:
  "printable_ascii r \<Longrightarrow> r \<noteq> 39 \<Longrightarrow> char_of r \<noteq> quote_char"
  "printable_ascii r \<Longrightarrow> r \<noteq> 92 \<Longrightarrow> char_of r \<noteq> backslash"
  by (auto simp: printable_ascii_def quote_char_def backslash_def char_of_eq)

lemma translateRune_escaped: "lex (InEStr st) (fst (translateRune special r)) = InEStr st"
  using printable_char [of r] hex_plain
  by (auto simp: translateRune_def lex_InEStr_plain quote_char_def backslash_def)

lemma translateRune_plain:
  assumes "\<not> snd (translateRune special r)" "quote_char \<notin> set special"
  shows "quote_char \<notin> set (fst (translateRune special r))"
proof -
  have "(39::nat) \<notin> of_char ` set special"
  proof
    assume "(39::nat) \<in> of_char ` set special"
    then obtain x where "x \<in> set special" "of_char x = (39::nat)" by auto
    then show False using assms(2) of_char_quote by simp
  qed
  then show ?thesis using assms(1) printable_char [of r]
    by (auto simp: translateRune_def quote_char_def char_of_eq split: if_splits)
qed

lemma translateString_escaped: "lex (InEStr st) (fst (translateString rs special)) = InEStr st"
  by (induction rs)
    (auto simp: split_beta Let_def translateRune_escaped)

lemma translateString_plain:
  "\<not> snd (translateString rs special) \<Longrightarrow> quote_char \<notin> set special \<Longrightarrow>
   quote_char \<notin> set (fst (translateString rs special))"
  by (induction rs)
    (auto simp: split_beta Let_def dest: translateRune_plain)

lemma closed_StrLit: "translateLiteral (StrLit rs) = Ok r \<Longrightarrow> closed (sql r)"
proof -
  assume r: "translateLiteral (StrLit rs) = Ok r"
  show "closed (sql r)"
  proof (cases "snd (translateString rs [])")
    case True
    then show ?thesis using r closed_equoted [of "fst (translateString rs [])"]
      by (auto simp: translateLiteral_def split_beta Let_def translateString_escaped)
  next
    case False
    then show ?thesis using r closed_quote [OF translateString_plain [OF False]]
      by (auto simp: translateLiteral_def split_beta Let_def)
  qed
qed
lemma nat_digits_plain: "list_all plain_char (nat_digits n)"
proof (induction n rule: nat_digits.induct)
  case (1 n)
  have "list_all (\<lambda>k. plain_char (char_of (48 + k))) [0..<10]"
    by (simp add: upt_conv_Cons plain_char_def word_char_def char_of_def bit_Suc_0_iff)
  then have "plain_char (char_of (48 + k))" if "k < 10" for k :: nat
    using that by (simp add: list_all_iff)
  moreover have "n mod 10 < 10" by simp
  ultimately show ?case using 1 by (subst nat_digits.simps) (simp del: nat_digits.simps)
qed

lemma nat_digits_not_Nil: "nat_digits n \<noteq> []"
  by (subst nat_digits.simps) simp

lemma closed_show_int: "closed (show_int i)"
proof (rule closedI)
  fix st
  show "\<exists>p. calm p \<and> lex (Code st PNone) (show_int i) = Code st p"
  proof (cases "i < 0")
    case True
    obtain c cs where ds: "nat_digits (nat (- i)) = c # cs" "plain_char c" "list_all plain_char cs"
      using nat_digits_plain [of "nat (- i)"] nat_digits_not_Nil [of "nat (- i)"]
      by (cases "nat_digits (nat (- i))") auto
    have "lex_code st PNone (CHR ''-'') = Code st PDash" by (simp add: lex_defs)
    moreover obtain p where "calm p" "lex_code st PDash c = Code st p" using lex_plain [OF ds(2)] by blast
    ultimately show ?thesis using True ds lex_plains by (simp add: show_int_def)
  qed (simp add: show_int_def lex_plains nat_digits_plain)
qed

lemma closed_literal: "translateLiteral v = Ok r \<Longrightarrow> closed (sql r)"
proof (cases v)
  case (StrLit rs)
  then show "translateLiteral v = Ok r \<Longrightarrow> closed (sql r)" using closed_StrLit by simp
next
  case (IntLit i)
  then show "translateLiteral v = Ok r \<Longrightarrow> closed (sql r)"
    by (auto simp: translateLiteral_def closed_show_int)
qed (auto simp: translateLiteral_def plain_char_def word_char_def intro!: closed_plain)

lemma closed_ident: "translateIdent n = Ok r \<Longrightarrow> closed (sql r)"
  by (auto simp: translateIdent_def closed_Nil closed_def lex_defs split: if_splits)

text \<open>The fields of the documents.\<close>

lemma lex_arrows:
  "calm p \<Longrightarrow> lex (Code st p) ''->'' = Code st PNone"
  "calm p \<Longrightarrow> lex (Code st p) ''->>'' = Code st PNone"
  "calm p \<Longrightarrow> lex (Code st p) '' ? '' = Code st PNone"
  by (simp_all add: lex_defs calm_def)

lemma closed_json_cast:
  assumes "closed a" "quote_char \<notin> set f" "list_all plain_char t"
  shows "closed (json_cast a f t)"
proof -
  have "lex (Code (CHR ''('' # st) p) ('' as '' @ t @ '')'') = Code st PNone" if "calm p" for st p
    using lex_plains [OF calm_simps(1) assms(3), of "CHR ''('' # st"] by (auto simp: lex_defs)
  moreover have "lex (Code st PNone) ''cast('' = Code (CHR ''('' # st) PNone" for st
    by (simp add: lex_defs)
  ultimately show ?thesis
    using closed_wrap [OF closed_quoted [OF assms(1,2) lex_arrows(2)], of "''cast(''" "CHR ''(''"]
    by (simp add: json_cast_def)
qed

lemma closed_select_json:
  assumes "translateSelectJsonField sc a d f b = Ok r" "closed a" "list_all word_char f"
  shows "closed (sql r)"
proof -
  have f: "quote_char \<notin> set f" using assms(3) word_char_no_quote by (auto simp: list_all_iff)
  note cast = closed_json_cast [OF assms(2) f]
  have casts: "closed (json_cast a f ''timestamp with time zone'')" "closed (json_cast a f ''bool'')"
    "closed (json_cast a f ''integer'')" "closed (json_cast a f ''bigint'')"
    "closed (json_cast a f ''real'')" "closed (json_cast a f ''double precision'')"
    by (rule cast, simp add: plain_char_def word_char_def)+
  note arrows = closed_quoted [OF assms(2) f lex_arrows(1)] closed_quoted [OF assms(2) f lex_arrows(2)]
    closed_quoted [OF assms(2) f lex_arrows(3)]
  show ?thesis using assms(1) casts arrows
    by (auto simp: translateSelectJsonField_def split: if_splits option.splits desc.splits kind.splits)
qed

lemma closed_text: "list_all plain_char s \<Longrightarrow> closed (sql (result_of s p k))"
  by (simp add: closed_plain)

lemma epoch_no_quote: "quote_char \<notin> set epoch_text"
  by (simp add: epoch_text_def quote_char_def)

lemma closed_deletion_test: "closed (''deletion_timestamp'' @ '' != '' @ quoted epoch_text)"
  by (rule closed_quoted [OF _ epoch_no_quote])
    (simp_all add: closed_plain plain_char_def word_char_def lex_defs)

lemma closed_deletion: "closed (''nullif('' @ (''deletion_timestamp'' @ '', '' @ quoted epoch_text) @ '')'')"
  by (rule closed_wrap [of _ _ "CHR ''(''"], rule closed_quoted [OF _ epoch_no_quote])
    (simp_all add: closed_plain plain_char_def word_char_def lex_defs)

lemma closed_columns: "closed ''true''" "closed ''creation_timestamp''" "closed ''creators''"
    "closed ''tenants''" "closed ''data''" "closed ''id''"
  by (simp_all add: closed_plain plain_char_def word_char_def)

lemma closed_select_md:
  assumes r: "translateSelectThisMdField f b = Ok r"
  shows "closed (sql r)"
proof -
  consider "f = ''creation_timestamp''" | "f = ''deletion_timestamp''" | "f \<in> {''creators'', ''tenants''}"
    using r unfolding translateSelectThisMdField_def by (metis res.distinct(1))
  then show ?thesis
  proof cases
    case 1
    then show ?thesis using r closed_columns(1,2)
      by (cases b) (auto simp: translateSelectThisMdField_def)
  next
    case 2
    then show ?thesis using r closed_columns(1) closed_deletion closed_deletion_test
      by (cases b) (auto simp: translateSelectThisMdField_def)
  next
    case 3
    then show ?thesis using r closed_columns(3,4) by (auto simp: translateSelectThisMdField_def)
  qed
qed

lemma closed_select:
  assumes "select_of sc this f b a = Ok r" "closed (sql a)" "list_all word_char f"
  shows "closed (sql r)"
proof -
  have field: "closed (sql r')" if "translateSelectThisField sc this f b = Ok r'" for r'
  proof -
    show ?thesis using that closed_select_json [OF _ _ assms(3)] closed_columns
      by (auto simp: translateSelectThisField_def closed_Nil split: if_splits)
  qed
  show ?thesis using assms(1,2) field closed_select_md closed_select_json [OF _ _ assms(3)]
    by (fastforce simp: select_of_def bindR_eq_Ok split: rkind.splits)
qed

text \<open>The operators.\<close>

definition joint :: "string \<Rightarrow> bool" where
  "joint op \<longleftrightarrow> (\<forall>st. \<exists>p. lex (Code st PNone) op = Code st p)"

lemma closed_infix:
  assumes "closed (sql a)" "closed (sql b)" "joint op"
  shows "closed (sql (infix_sql op p k a b))"
proof -
  have "lex (Code st q) (CHR '' '' # op @ '' '') = Code st PNone" for st q
    using assms(3) [unfolded joint_def, rule_format, of st] by auto
  then show ?thesis
    using closed_append [OF closed_paren [OF assms(1), of p] closed_paren [OF assms(2), of p],
        of "CHR '' '' # op @ '' ''"] by (simp add: infix_sql_def)
qed

lemma joints: "joint ''+''" "joint ''-''" "joint ''*''" "joint ''/''" "joint ''%''" "joint ''>''"
    "joint ''>=''" "joint ''<''" "joint ''<=''" "joint ''and''" "joint ''or''" "joint ''=''"
    "joint ''!=''" "joint ''is''" "joint ''is not''"
  by (simp_all add: joint_def lex_defs)

lemma closed_binary:
  assumes "binary_of n a b = Ok r" "closed (sql a)" "closed (sql b)"
  shows "closed (sql r)"
proof -
  have "closed (sql (equality ''='' ''is'' a b))" "closed (sql (equality ''!='' ''is not'' a b))"
    unfolding equality_def Let_def split_beta
    by (simp_all add: closed_infix assms(2,3) joints)
  moreover have "joint op" if "operator_of n k = Some (op, p, k')" for op p k k'
    using that joints by (auto simp: operator_of_def split: if_splits)
  ultimately show ?thesis using assms closed_infix [OF assms(2,3)]
    by (auto simp: binary_of_def split: if_splits option.splits)
qed

lemma closed_not: "closed (sql a) \<Longrightarrow> closed (sql (not_of a))"
  using closed_append [OF closed_Nil closed_paren [of a NotPrecedence], of "''not ''"]
  by (simp add: not_of_def lex_defs closed_def)

lemma closed_in_list:
  assumes "closed (sql a)" "list_all (\<lambda>b. closed (sql b)) bs"
  shows "closed (sql (in_list_of a bs))"
proof -
  have "closed (''('' @ join '', '' (List.map sql bs) @ '')'')"
    by (rule closed_wrap [of _ _ "CHR ''(''"], rule closed_join)
      (use assms(2) in \<open>simp_all add: list_all_iff\<close>)
  moreover have "lex (Code st p) '' in '' = Code st PNone" for st p
    by (simp add: lex_defs)
  ultimately show ?thesis
    using closed_append [OF closed_paren [OF assms(1), of InPrecedence], of _ "'' in ''"]
    by (simp add: in_list_of_def)
qed

lemma closed_in_field:
  assumes "closed (sql a)" "closed (sql b)"
  shows "closed (sql (in_field_of a b))"
proof -
  have "closed (''array['' @ sql a @ '']'')"
    by (rule closed_wrap [of _ _ "CHR ''[''"]) (simp_all add: assms lex_defs)
  moreover have "lex (Code st p) '' @> '' = Code st PNone" for st p
    by (simp add: lex_defs)
  ultimately show ?thesis
    using closed_append [OF assms(2), of _ "'' @> ''"] by (simp add: in_field_of_def)
qed

lemma closed_like:
  assumes "like_of n e p s a = Ok r" "closed (sql a)" "set p \<union> set s \<subseteq> {CHR ''%''}"
  shows "closed (sql r)"
proof -
  obtain rs where e: "e = Literal (StrLit rs)"
    using assms(1) by (auto simp: like_of_def split: expr.splits literal.splits)
  define t where "t = fst (translateString rs ''%_'')"
  define x where "x = snd (translateString rs ''%_'')"
  have affix: "list_all plain_char p" "list_all plain_char s"
    using assms(3) by (auto simp: list_all_iff plain_char_def)
  have "closed ((if x then ''e'' else []) @ quoted (p @ t @ s))"
  proof (cases x)
    case True
    have "lex (InEStr st) (p @ t @ s) = InEStr st" for st
      by (simp add: lex_InEStr_plain affix t_def translateString_escaped)
    then show ?thesis using True closed_equoted by simp
  next
    case False
    then have "quote_char \<notin> set t" unfolding t_def x_def
      by (rule translateString_plain) (simp add: quote_char_def)
    moreover have "quote_char \<notin> set p \<union> set s" using assms(3) by (auto simp: quote_char_def)
    ultimately show ?thesis using False closed_quote [of "p @ t @ s"] by simp
  qed
  moreover have "lex (Code st p) '' like '' = Code st PNone" for st p
    by (simp add: lex_defs)
  ultimately have "closed (paren InPrecedence a @ '' like '' @ (if x then ''e'' else []) @ quoted (p @ t @ s))"
    using closed_append [OF closed_paren [OF assms(2), of InPrecedence], of _ "'' like ''"] by simp
  then show ?thesis using assms(1)
    by (auto simp: like_of_def e t_def x_def split_beta Let_def)
qed

section \<open>Every translation is closed\<close>

text \<open>The names of the fields of a parsed expression are identifiers.\<close>

fun identifiers :: "expr \<Rightarrow> bool" where
  "identifiers (Call n t es) \<longleftrightarrow> identifiers t \<and> list_all identifiers es"
| "identifiers (Select e f b) \<longleftrightarrow> identifiers e \<and> list_all word_char f"
| "identifiers (ListExpr es) \<longleftrightarrow> list_all identifiers es"
| "identifiers _ \<longleftrightarrow> True"

lemma translated_closed: "translated sc this e r \<Longrightarrow> identifiers e \<Longrightarrow> closed (sql r)"
proof (induction rule: translated.induct)
  case (t_InList e a ls bs t es)
  have "list_all (\<lambda>b. closed (sql b)) bs"
    using t_InList.hyps(2) by (induction rule: list_all2_induct) (simp_all add: closed_literal)
  then show ?case using t_InList by (simp add: closed_in_list)
next
  case (t_Like name p s t a e r)
  then show ?case using closed_like [of name e p s a r] by (auto simp: like_functions_def)
qed (auto intro: closed_ident closed_literal closed_select closed_binary closed_not closed_in_field)

text \<open>
  The text that the data access object puts around a filter: the parenthesis that it opens before the
  filter is the one that it closes after it, whatever the filter is.
\<close>

lemma closed_rendered:
  assumes "closed t"
  shows "\<exists>p. calm p \<and> lex (Code [] PNone) (CHR ''('' # t) = Code ''('' p"
    "lex (Code [] PNone) (CHR ''('' # t @ '')'') = Code [] PNone"
  using assms by (auto elim: closedE [of t "''(''"])

section \<open>The tenancy condition stays outside of the filter\<close>

text \<open>
  C17. Whatever the strings of a filter contain, its translation cannot escape from the parentheses that
  the data access object puts around it before it adds the tenancy condition: at the end of the filter
  exactly the opening parenthesis is open, outside of any literal and comment, and the closing one
  closes it, so that \<open>and tenants && ...\<close> applies to the whole filter.
\<close>

theorem filter_stays_inside:
  assumes "translate sc this e = Ok r" "identifiers e"
  shows "(\<exists>p. calm p \<and> lex (Code [] PNone) (CHR ''('' # sql r) = Code ''('' p)
    \<and> lex (Code [] PNone) (take (length (sql r) + 2) (render (And (FilterText (sql r)) (TenantsOverlap n))))
      = Code [] PNone
    \<and> drop (length (sql r) + 2) (render (And (FilterText (sql r)) (TenantsOverlap n)))
      = '' and '' @ render (TenantsOverlap n)"
  using closed_rendered [OF translated_closed [OF translate_translated [OF assms(1)] assms(2)]]
  by simp

definition attack :: expr where
  "attack = Call ''_==_'' (OtherExpr 0) [Select (Ident ''this'') ''id'' False,
     Literal (StrLit (List.map of_char (''x'' @ [CHR 0x27] @ '') or true --'')))]"

definition attack_sql :: string where
  "attack_sql = ''id = e'' @ quoted (''x'' @ [backslash, quote_char] @ '') or true --'')"

theorem filter_stays_inside_witness:
  "\<exists>r. translate (\<lambda>_. []) ''T'' attack = Ok r \<and> sql r = attack_sql
     \<and> (\<exists>p. calm p \<and> lex (Code [] PNone) (CHR ''('' # attack_sql) = Code ''('' p)"
proof -
  have "identifiers attack" by (simp add: attack_def word_char_def)
  moreover have "translate (\<lambda>_. []) ''T'' attack = Ok (result_of attack_sql ComparisonPrecedence BooleanK)"
    by (simp add: attack_def attack_sql_def binary_operators_def filter_evaluation
        char_of_eq backslash_def quote_char_def)
  ultimately show ?thesis using filter_stays_inside [of "\<lambda>_. []" "''T''" attack] by fastforce
qed

end
