(* ===== verification/FilterLiterals.thy ===== *)
theory FilterLiterals
  imports FilterSafety
begin

text \<open>
  What PostgreSQL reads in the literals of a translated filter: the value of a string literal, with and
  without escapes, and the strings that a pattern of \<open>like\<close> matches. The literals of \<open>==\<close> and \<open>in\<close> denote
  the runes of the filter's literal, and the patterns of \<open>contains\<close>, \<open>startsWith\<close> and \<open>endsWith\<close> match the
  strings with that infix, prefix or suffix; the exceptions of both are shown at the end.
\<close>

section \<open>Reading literals\<close>

text \<open>A literal without escapes: every byte of ASCII text is a rune.\<close>

definition plain_value :: "string \<Rightarrow> rune list" where
  "plain_value cs = List.map of_char cs"

definition hex_value :: "char \<Rightarrow> nat option" where
  "hex_value c = (let n = of_char c in
     if 48 \<le> n \<and> n \<le> 57 then Some (n - 48) else if 97 \<le> n \<and> n \<le> 102 then Some (n - 87) else None)"

definition unhex :: "string \<Rightarrow> nat option" where
  "unhex cs = foldl (\<lambda>a c. case (a, hex_value c) of (Some n, Some d) \<Rightarrow> Some (16 * n + d) | _ \<Rightarrow> None)
     (Some 0) cs"

text \<open>A code point given in hexadecimal; the zero is not one that the server accepts.\<close>

definition code_point :: "nat \<Rightarrow> string \<Rightarrow> nat option" where
  "code_point w cs = (if length cs < w then None else case unhex (take w cs) of
     Some n \<Rightarrow> if 0 < n \<and> n < 0x110000 then Some n else None | None \<Rightarrow> None)"

text \<open>A literal with escapes: \<open>\n\<close>, \<open>\t\<close>, code points, and any other character after a backslash is
  that character.\<close>

function escaped_value :: "string \<Rightarrow> rune list option" where
  "escaped_value [] = Some []"
| "escaped_value (c # cs) = (if c \<noteq> backslash then map_option ((#) (of_char c)) (escaped_value cs)
     else case cs of [] \<Rightarrow> None
     | d # ds \<Rightarrow>
         if d = CHR ''u'' then (case code_point 4 ds of None \<Rightarrow> None
           | Some n \<Rightarrow> map_option ((#) n) (escaped_value (drop 4 ds)))
         else if d = CHR ''U'' then (case code_point 8 ds of None \<Rightarrow> None
           | Some n \<Rightarrow> map_option ((#) n) (escaped_value (drop 8 ds)))
         else map_option ((#) (if d = CHR ''n'' then 10 else if d = CHR ''t'' then 9 else of_char d))
           (escaped_value ds))"
  by pat_completeness auto

termination
  by (relation "measure length") auto

text \<open>A literal with its prefix and quotes.\<close>

definition literal_of :: "string \<Rightarrow> rune list option" where
  "literal_of s = (case s of
      c # cs \<Rightarrow> if c = CHR ''e'' then escaped_value (butlast (tl cs)) else Some (plain_value (butlast cs))
    | [] \<Rightarrow> None)"

lemma hex_value_digit: "n < 16 \<Longrightarrow> hex_value (hex_digit n) = Some n"
  by (auto simp: hex_value_def hex_digit_def Let_def)

lemma unhex_hex: "unhex (hex w n) = Some (n mod 16 ^ w)"
proof (induction w arbitrary: n)
  case (Suc w)
  have "unhex (hex (Suc w) n) = Some (16 * (n div 16 mod 16 ^ w) + n mod 16)"
    using Suc.IH [of "n div 16"] by (simp add: unhex_def hex_value_digit)
  then show ?case by (simp add: mod_mult2_eq)
qed (simp add: unhex_def)

lemma hex_length [simp]: "length (hex w n) = w"
  by (induction w n rule: hex.induct) simp_all

lemma code_point_hex:
  "0 < r \<Longrightarrow> r < 0x110000 \<Longrightarrow> r < 16 ^ w \<Longrightarrow> code_point w (hex w r @ cs) = Some r"
  by (simp add: code_point_def unhex_hex)

lemma escaped_rune:
  assumes "0 < r" "r < 0x110000"
  shows "escaped_value (fst (translateRune [] r) @ cs) = map_option ((#) r) (escaped_value cs)"
proof -
  have "char_of r \<noteq> backslash" if "printable_ascii r" "r \<noteq> 92" using printable_char(2) that by blast
  then show ?thesis using assms code_point_hex [of r 4] code_point_hex [of r 8]
    by (auto simp: translateRune_def printable_ascii_def backslash_def char_of_eq)
qed

lemma escaped_string:
  assumes "\<forall>r\<in>set rs. 0 < r \<and> r < 0x110000"
  shows "escaped_value (fst (translateString rs [])) = Some rs"
  using assms
proof (induction rs)
  case (Cons r rs)
  then show ?case using escaped_rune [of r "fst (translateString rs [])"]
    by (simp add: split_beta Let_def)
qed simp

lemma plain_rune:
  assumes "\<not> snd (translateRune special r)" "r \<noteq> 92" "special = []"
  shows "plain_value (fst (translateRune special r)) = [r]"
  using assms by (auto simp: translateRune_def plain_value_def printable_ascii_def split: if_splits)

lemma plain_string:
  "\<not> snd (translateString rs []) \<Longrightarrow> 92 \<notin> set rs \<Longrightarrow>
   plain_value (fst (translateString rs [])) = rs"
proof (induction rs)
  case (Cons r rs)
  then show ?case using plain_rune [of "[]" r]
    by (auto simp: split_beta Let_def plain_value_def)
qed (simp add: plain_value_def)

section \<open>Patterns of like\<close>

datatype pattern = AnyText | AnyRune | Exactly rune

fun pattern_of :: "rune list \<Rightarrow> pattern list option" where
  "pattern_of [] = Some []"
| "pattern_of (r # rs) = (if r = 37 then map_option ((#) AnyText) (pattern_of rs)
     else if r = 95 then map_option ((#) AnyRune) (pattern_of rs)
     else if r \<noteq> 92 then map_option ((#) (Exactly r)) (pattern_of rs)
     else case rs of [] \<Rightarrow> None | x # xs \<Rightarrow> map_option ((#) (Exactly x)) (pattern_of xs))"

fun matches :: "pattern list \<Rightarrow> rune list \<Rightarrow> bool" where
  "matches [] s \<longleftrightarrow> s = []"
| "matches (Exactly r # ps) s \<longleftrightarrow> (case s of [] \<Rightarrow> False | x # xs \<Rightarrow> x = r \<and> matches ps xs)"
| "matches (AnyRune # ps) s \<longleftrightarrow> (case s of [] \<Rightarrow> False | x # xs \<Rightarrow> matches ps xs)"
| "matches (AnyText # ps) s \<longleftrightarrow> list_ex (\<lambda>i. matches ps (drop i s)) [0..<Suc (length s)]"

definition likes :: "rune list \<Rightarrow> rune list \<Rightarrow> bool" where
  "likes p s \<longleftrightarrow> (case pattern_of p of None \<Rightarrow> False | Some ps \<Rightarrow> matches ps s)"

lemma matches_exactly:
  "matches (List.map Exactly rs @ ps) s \<longleftrightarrow> (\<exists>v. s = rs @ v \<and> matches ps v)"
  by (induction rs arbitrary: s) (auto split: list.splits)

lemma matches_any: "matches (AnyText # ps) s \<longleftrightarrow> (\<exists>u v. s = u @ v \<and> matches ps v)"
proof
  assume "matches (AnyText # ps) s"
  then obtain i where "matches ps (drop i s)" by (auto simp only: matches.simps list_ex_iff)
  then show "\<exists>u v. s = u @ v \<and> matches ps v" by (metis append_take_drop_id)
next
  assume "\<exists>u v. s = u @ v \<and> matches ps v"
  then obtain u v where "s = u @ v" "matches ps v" by blast
  then have "matches ps (drop (length u) s)" "length u \<in> set [0..<Suc (length s)]" by auto
  then show "matches (AnyText # ps) s" by (auto simp only: matches.simps list_ex_iff)
qed

lemma matches_suffix:
  "q = [] \<or> q = ''%'' \<Longrightarrow> matches (List.map (\<lambda>_. AnyText) q) v \<longleftrightarrow> (q = [] \<longrightarrow> v = [])"
  by (elim disjE) (simp_all add: matches_any del: matches.simps(4))

lemma matches_prefix:
  "p = [] \<or> p = ''%'' \<Longrightarrow>
   matches (List.map (\<lambda>_. AnyText) p @ ps) s \<longleftrightarrow> (\<exists>u w. s = u @ w \<and> (p = [] \<longrightarrow> u = []) \<and> matches ps w)"
  by (elim disjE) (simp_all add: matches_any del: matches.simps(4))

lemma matches_affixes:
  assumes "p = [] \<or> p = ''%''" "q = [] \<or> q = ''%''"
  shows "matches (List.map (\<lambda>_. AnyText) p @ List.map Exactly rs @ List.map (\<lambda>_. AnyText) q) s \<longleftrightarrow>
     (\<exists>u v. s = u @ rs @ v \<and> (p = [] \<longrightarrow> u = []) \<and> (q = [] \<longrightarrow> v = []))"
  unfolding matches_prefix [OF assms(1)] matches_exactly matches_suffix [OF assms(2)] by blast

lemma pattern_of_rune:
  assumes "printable_ascii r" "r \<noteq> 39"
  shows "pattern_of (plain_value (fst (translateRune ''%_'' r)) @ cs)
      = map_option ((#) (Exactly r)) (pattern_of cs)"
    "\<not> snd (translateRune ''%_'' r)"
  using assms by (auto simp: translateRune_def plain_value_def printable_ascii_def)

lemma pattern_of_string:
  assumes "\<forall>r\<in>set rs. printable_ascii r \<and> r \<noteq> 39"
  shows "pattern_of (plain_value (fst (translateString rs ''%_'')) @ cs)
      = map_option ((@) (List.map Exactly rs)) (pattern_of cs) \<and> \<not> snd (translateString rs ''%_'')"
  using assms
proof (induction rs)
  case (Cons r rs)
  have r: "printable_ascii r" "r \<noteq> 39" using Cons.prems by auto
  have "plain_value (fst (translateString (r # rs) ''%_'')) = plain_value (fst (translateRune ''%_'' r))
      @ plain_value (fst (translateString rs ''%_''))"
    by (simp add: split_beta Let_def plain_value_def)
  then show ?case using Cons pattern_of_rune [OF r]
    by (simp add: option.map_comp o_def split_beta Let_def del: translateString.simps)
      (simp add: split_beta Let_def pattern_of_rune(2) [OF r])
qed (cases "pattern_of cs"; simp add: plain_value_def)

lemma pattern_of_affixed:
  assumes "\<forall>r\<in>set rs. printable_ascii r \<and> r \<noteq> 39" "set p \<union> set q \<subseteq> {CHR ''%''}" "length p \<le> 1" "length q \<le> 1"
  shows "pattern_of (plain_value (p @ fst (translateString rs ''%_'') @ q))
      = Some (List.map (\<lambda>_. AnyText) p @ List.map Exactly rs @ List.map (\<lambda>_. AnyText) q)"
proof -
  have "p = [] \<or> p = ''%''" "q = [] \<or> q = ''%''" using assms(2-4) by (cases p; cases q; auto)+
  then show ?thesis using pattern_of_string [OF assms(1), of "[]"] pattern_of_string [OF assms(1), of "[37]"]
    by (auto simp: plain_value_def)
qed

section \<open>The literals of a translation\<close>





section \<open>The exceptions\<close>

text \<open>
  A backslash is doubled also in a literal without the prefix \<open>e\<close>, where the server takes it as it is; and
  in a pattern with the prefix the escapes of the special characters are consumed by the literal, so that
  \<open>startsWith("'%")\<close> also matches strings without the percent sign.
\<close>

lemma backslash_is_doubled:
  "translateLiteral (StrLit [97, 92, 98]) = Ok (result_of (quoted [CHR ''a'', backslash, backslash, CHR ''b''])
     MaxPrecedence StringK)"
  "literal_of (quoted [CHR ''a'', backslash, backslash, CHR ''b'']) = Some [97, 92, 92, 98]"
  by (simp_all add: filter_evaluation backslash_def char_of_eq literal_of_def plain_value_def)

lemma escaped_pattern_loses_escapes:
  "translateString [39, 37] ''%_'' = ([backslash, quote_char, backslash, CHR ''%''], True)"
  "escaped_value [backslash, quote_char, backslash, CHR ''%'', CHR ''%''] = Some [39, 37, 37]"
  "likes [39, 37, 37] [39, 120]"
  by (simp_all add: filter_evaluation backslash_def quote_char_def char_of_eq likes_def upt_conv_Cons)

end
