(* ===== verification/FilterTypes.thy ===== *)
theory FilterTypes
  imports FilterTranslator
begin

text \<open>
  The types of filters. A judgement gives the types that the CEL checker assigns to the expressions that
  the translator is meant for; every expression with a type has a translation, whose inferred kind is
  the one of the type. The exceptions that the code has are shown at the end: a membership test keeps the
  kind of null, and a selection from the entries of a map panics.
\<close>

section \<open>Types\<close>

datatype ty = TThis | TMd | TMsg string | TBool | TInt | TDouble | TString | TTime | TStrings | TNull

fun kind_of :: "ty \<Rightarrow> rkind" where
  "kind_of TThis = ThisK"
| "kind_of TMd = MdK"
| "kind_of (TMsg _) = JsonK"
| "kind_of TBool = BooleanK"
| "kind_of TInt = NumericK"
| "kind_of TDouble = NumericK"
| "kind_of TString = StringK"
| "kind_of TTime = TimeK"
| "kind_of TStrings = StringK"
| "kind_of TNull = NullType"

fun literal_type :: "literal \<Rightarrow> ty option" where
  "literal_type NullLit = Some TNull"
| "literal_type (BoolLit _) = Some TBool"
| "literal_type (IntLit _) = Some TInt"
| "literal_type (StrLit _) = Some TString"
| "literal_type (OtherLit _) = None"

definition message_type :: "string \<Rightarrow> ty" where
  "message_type n = (if n = ''google.protobuf.Timestamp'' then TTime else TMsg n)"

definition field_type :: "field \<Rightarrow> ty option" where
  "field_type fd = (if fd_card fd \<noteq> Singular then None else case fd_kind fd of
      BoolKind \<Rightarrow> Some TBool | Int32Kind \<Rightarrow> Some TInt | Int64Kind \<Rightarrow> Some TInt
    | FloatKind \<Rightarrow> Some TDouble | DoubleKind \<Rightarrow> Some TDouble | StringKind \<Rightarrow> Some TString
    | MessageKind n \<Rightarrow> Some (message_type n) | _ \<Rightarrow> None)"

definition member_type :: "schema \<Rightarrow> string \<Rightarrow> string \<Rightarrow> ty option" where
  "member_type sc n f = (case ByName (sc n) f of None \<Rightarrow> None | Some fd \<Rightarrow> field_type fd)"

definition arithmetic :: "string set" where "arithmetic = {''_+_'', ''_-_'', ''_*_'', ''_/_'', ''_%_''}"
definition ordering :: "string set" where "ordering = {''_>_'', ''_>=_'', ''_<_'', ''_<=_''}"
definition equalities :: "string set" where "equalities = {''_==_'', ''_!=_''}"
definition connectives :: "string set" where "connectives = {''_&&_'', ''_||_''}"

lemmas operator_sets = arithmetic_def ordering_def equalities_def connectives_def

text \<open>Null compares with times and messages.\<close>

definition nullable :: "ty \<Rightarrow> bool" where
  "nullable t \<longleftrightarrow> (case t of TTime \<Rightarrow> True | TMsg _ \<Rightarrow> True | TNull \<Rightarrow> True | _ \<Rightarrow> False)"

definition comparable :: "ty \<Rightarrow> ty \<Rightarrow> bool" where
  "comparable s t \<longleftrightarrow> s = t \<or> (s = TNull \<and> nullable t) \<or> (t = TNull \<and> nullable s)"

inductive typed :: "schema \<Rightarrow> string \<Rightarrow> expr \<Rightarrow> ty \<Rightarrow> bool" for sc this where
  ty_this: "typed sc this (Ident ''this'') TThis"
| ty_now: "typed sc this (Ident ''now'') TTime"
| ty_literal: "literal_type v = Some t \<Longrightarrow> typed sc this (Literal v) t"
| ty_id: "typed sc this e TThis \<Longrightarrow> typed sc this (Select e ''id'' False) TString"
| ty_metadata: "typed sc this e TThis \<Longrightarrow> typed sc this (Select e ''metadata'' False) TMd"
| ty_time: "typed sc this e TMd \<Longrightarrow> f \<in> {''creation_timestamp'', ''deletion_timestamp''} \<Longrightarrow>
    typed sc this (Select e f False) TTime"
| ty_strings: "typed sc this e TMd \<Longrightarrow> f \<in> {''creators'', ''tenants''} \<Longrightarrow>
    typed sc this (Select e f False) TStrings"
| ty_field: "typed sc this e TThis \<Longrightarrow> f \<notin> {''id'', ''metadata''} \<Longrightarrow> member_type sc this f = Some t \<Longrightarrow>
    typed sc this (Select e f False) t"
| ty_nested: "typed sc this e (TMsg n) \<Longrightarrow> member_type sc n f = Some t \<Longrightarrow>
    typed sc this (Select e f False) t"
| ty_has: "typed sc this e TThis \<Longrightarrow> typed sc this (Select e f True) TBool"
| ty_has_nested: "typed sc this e (TMsg n) \<Longrightarrow> typed sc this (Select e f True) TBool"
| ty_has_time: "typed sc this e TMd \<Longrightarrow> f \<in> {''creation_timestamp'', ''deletion_timestamp''} \<Longrightarrow>
    typed sc this (Select e f True) TBool"
| ty_arith: "op \<in> arithmetic \<Longrightarrow> t \<in> {TInt, TDouble} \<Longrightarrow> typed sc this a t \<Longrightarrow> typed sc this b t \<Longrightarrow>
    typed sc this (Call op x [a, b]) t"
| ty_order: "op \<in> ordering \<Longrightarrow> t \<in> {TInt, TDouble, TString, TTime, TBool} \<Longrightarrow> typed sc this a t \<Longrightarrow>
    typed sc this b t \<Longrightarrow> typed sc this (Call op x [a, b]) TBool"
| ty_equal: "op \<in> equalities \<Longrightarrow> typed sc this a s \<Longrightarrow> typed sc this b t \<Longrightarrow> comparable s t \<Longrightarrow>
    typed sc this (Call op x [a, b]) TBool"
| ty_logic: "op \<in> connectives \<Longrightarrow> typed sc this a TBool \<Longrightarrow> typed sc this b TBool \<Longrightarrow>
    typed sc this (Call op x [a, b]) TBool"
| ty_not: "typed sc this a TBool \<Longrightarrow> typed sc this (Call ''!_'' x [a]) TBool"
| ty_in_list: "typed sc this a t \<Longrightarrow> list_all (\<lambda>v. literal_type v = Some t) vs \<Longrightarrow>
    typed sc this (Call ''@in'' x [a, ListExpr (map Literal vs)]) TBool"
| ty_in_field: "typed sc this a TString \<Longrightarrow> typed sc this (Select e f False) TStrings \<Longrightarrow>
    typed sc this (Call ''@in'' x [a, Select e f False]) TBool"
| ty_like: "(name, p, q) \<in> set like_functions \<Longrightarrow> typed sc this a TString \<Longrightarrow>
    typed sc this (Call name a [Literal (StrLit rs)]) TBool"

inductive_cases typed_memberE: "typed sc this (Select e f False) TStrings"

section \<open>Translations of typed expressions\<close>

text \<open>A membership test, whose kind the translator leaves null.\<close>

fun membership :: "expr \<Rightarrow> bool" where
  "membership (Call name _ _) \<longleftrightarrow> name = ''@in''"
| "membership _ \<longleftrightarrow> False"

text \<open>What a type says of the result of a translation.\<close>

definition fits :: "expr \<Rightarrow> ty \<Rightarrow> result \<Rightarrow> bool" where
  "fits e t r \<longleftrightarrow> rkind r = (if membership e then NullType else kind_of t)
     \<and> (\<forall>n. t = TMsg n \<longrightarrow> rdesc r = Some (MsgDesc n))"

lemma fits_simps [simp]:
  "fits (Select e f b) t r \<longleftrightarrow> rkind r = kind_of t \<and> (\<forall>n. t = TMsg n \<longrightarrow> rdesc r = Some (MsgDesc n))"
  "fits (Ident x) t r \<longleftrightarrow> rkind r = kind_of t \<and> (\<forall>n. t = TMsg n \<longrightarrow> rdesc r = Some (MsgDesc n))"
  "fits (Literal v) t r \<longleftrightarrow> rkind r = kind_of t \<and> (\<forall>n. t = TMsg n \<longrightarrow> rdesc r = Some (MsgDesc n))"
  by (simp_all add: fits_def)

lemma select_json_fits:
  assumes "ByName (sc n) f = Some fd" "field_type fd = Some t"
  shows "\<exists>r. translateSelectJsonField sc a (Some (MsgDesc n)) f False = Ok r \<and> rkind r = kind_of t
    \<and> (\<forall>n. t = TMsg n \<longrightarrow> rdesc r = Some (MsgDesc n))"
  using assms
  by (cases "fd_kind fd"; cases "fd_card fd")
    (auto simp: translateSelectJsonField_def Fields_def field_type_def field_Message_def message_type_def)

lemma membership_bool: "typed sc this e t \<Longrightarrow> membership e \<Longrightarrow> t = TBool"
  by (induction rule: typed.induct) (auto simp: operator_sets like_functions_def)

lemma fits_kind: "typed sc this e t \<Longrightarrow> fits e t r \<Longrightarrow> t \<noteq> TBool \<Longrightarrow>
    rkind r = kind_of t \<and> (\<forall>n. t = TMsg n \<longrightarrow> rdesc r = Some (MsgDesc n))"
  using membership_bool by (auto simp: fits_def)

lemma literal_fits: "literal_type v = Some t \<Longrightarrow> \<exists>r. translateLiteral v = Ok r \<and> fits (Literal v) t r"
  by (cases v) (auto simp: translateLiteral_def split_beta Let_def)

lemma select_this_fits:
  assumes "typed sc this e TThis" "fits e TThis a"
  shows "select_of sc this f b a =
      bindR (translateSelectThisField sc this f b) (\<lambda>r. Ok (r\<lparr>precedence := MaxPrecedence\<rparr>))"
  using fits_kind [OF assms] by (simp add: select_of_def)

lemma select_md_fits:
  assumes "typed sc this e TMd" "fits e TMd a"
  shows "select_of sc this f b a =
      bindR (translateSelectThisMdField f b) (\<lambda>r. Ok (r\<lparr>precedence := MaxPrecedence\<rparr>))"
  using fits_kind [OF assms] by (simp add: select_of_def)

lemma select_msg_fits:
  assumes "typed sc this e (TMsg n)" "fits e (TMsg n) a"
  shows "select_of sc this f b a =
      bindR (translateSelectJsonField sc (sql a) (Some (MsgDesc n)) f b)
        (\<lambda>r. Ok (r\<lparr>precedence := MaxPrecedence\<rparr>))"
  using fits_kind [OF assms] by (simp add: select_of_def)

lemma has_json: "\<exists>r. translateSelectJsonField sc a d f True = Ok r \<and> rkind r = BooleanK"
  by (simp add: translateSelectJsonField_def)

text \<open>The operators keep the kind of their left operand or give a boolean.\<close>

lemma binary_arith:
  assumes "op \<in> arithmetic"
  shows "op \<in> set binary_operators" "\<exists>r. binary_of op a b = Ok r \<and> rkind r = rkind a"
  using assms unfolding arithmetic_def
  by (elim insertE emptyE; simp add: binary_operators_def binary_of_def operator_of_def infix_sql_def)+

lemma binary_ordering:
  assumes "op \<in> ordering"
  shows "op \<in> set binary_operators" "\<exists>r. binary_of op a b = Ok r \<and> rkind r = BooleanK"
  using assms unfolding ordering_def
  by (elim insertE emptyE; simp add: binary_operators_def binary_of_def operator_of_def infix_sql_def)+

lemma equality_kind: "rkind (equality x y a b) = BooleanK"
  by (simp add: equality_def infix_sql_def Let_def)

lemma binary_equalities:
  assumes "op \<in> equalities"
  shows "op \<in> set binary_operators" "\<exists>r. binary_of op a b = Ok r \<and> rkind r = BooleanK"
  using assms unfolding equalities_def
  by (elim insertE emptyE; simp add: binary_operators_def binary_of_def equality_kind)+

lemma binary_connectives:
  assumes "op \<in> connectives"
  shows "op \<in> set binary_operators" "\<exists>r. binary_of op a b = Ok r \<and> rkind r = BooleanK"
  using assms unfolding connectives_def
  by (elim insertE emptyE; simp add: binary_operators_def binary_of_def operator_of_def infix_sql_def)+

lemma not_membership: "op \<in> set binary_operators \<Longrightarrow> fits (Call op x es) t r \<longleftrightarrow>
    rkind r = kind_of t \<and> (\<forall>n. t = TMsg n \<longrightarrow> rdesc r = Some (MsgDesc n))"
  using not_binary(2) by (auto simp: fits_def)

lemma fits_operator:
  assumes "op \<in> set binary_operators" "\<exists>r. binary_of op a b = Ok r \<and> rkind r = kind_of t"
    "translated sc this e1 a" "translated sc this e2 b" "\<And>n. t \<noteq> TMsg n"
  shows "\<exists>r. translated sc this (Call op x [e1, e2]) r \<and> fits (Call op x [e1, e2]) t r"
  using assms not_membership by (blast intro: t_Binary)

lemma literals_fit:
  "list_all (\<lambda>v. literal_type v = Some t) vs \<Longrightarrow>
   \<exists>bs. list_all2 (\<lambda>l b. translateLiteral l = Ok b) vs bs"
proof (induction vs)
  case (Cons v vs)
  then obtain b bs where "translateLiteral v = Ok b" "list_all2 (\<lambda>l b. translateLiteral l = Ok b) vs bs"
    using literal_fits by fastforce
  then show ?case by (intro exI [of _ "b # bs"]) simp
qed auto

lemma like_fits: "\<exists>r. like_of n (Literal (StrLit rs)) p q a = Ok r \<and> rkind r = BooleanK"
  by (simp add: like_of_def split_beta Let_def)

lemma select_step:
  assumes "translated sc this e a" "R = Ok r"
    "select_of sc this f b a = bindR R (\<lambda>r. Ok (r\<lparr>precedence := MaxPrecedence\<rparr>))"
    "rkind r = kind_of t" "\<forall>n. t = TMsg n \<longrightarrow> rdesc r = Some (MsgDesc n)"
  shows "\<exists>r. translated sc this (Select e f b) r \<and> fits (Select e f b) t r"
  using t_Select [OF assms(1), of f b "r\<lparr>precedence := MaxPrecedence\<rparr>"] assms(2-) by auto

lemma md_fields:
  "f \<in> {''creation_timestamp'', ''deletion_timestamp''} \<Longrightarrow>
     \<exists>r. translateSelectThisMdField f b = Ok r \<and> rkind r = (if b then BooleanK else TimeK)"
  "f \<in> {''creators'', ''tenants''} \<Longrightarrow> \<exists>r. translateSelectThisMdField f False = Ok r \<and> rkind r = StringK"
  "\<exists>r. translateSelectThisField sc this f True = Ok r \<and> rkind r = BooleanK"
  by (auto simp: translateSelectThisMdField_def translateSelectThisField_def has_json)

lemma typed_translated: "typed sc this e t \<Longrightarrow> \<exists>r. translated sc this e r \<and> fits e t r"
proof (induction rule: typed.induct)
  case (ty_literal v t)
  then show ?case using literal_fits by (blast intro: t_Literal)
next
  case (ty_id e)
  then obtain a where a: "translated sc this e a" "fits e TThis a" by blast
  show ?case by (rule select_step [OF a(1) _ select_this_fits [OF ty_id.hyps a(2)]])
    (auto simp: translateSelectThisField_def)
next
  case (ty_metadata e)
  then obtain a where a: "translated sc this e a" "fits e TThis a" by blast
  show ?case by (rule select_step [OF a(1) _ select_this_fits [OF ty_metadata.hyps a(2)]])
    (auto simp: translateSelectThisField_def)
next
  case (ty_time e f)
  then obtain a where a: "translated sc this e a" "fits e TMd a" by blast
  obtain r where "translateSelectThisMdField f False = Ok r" "rkind r = TimeK"
    using md_fields(1) [OF ty_time.hyps(2), of False] by auto
  then show ?case by (intro select_step [OF a(1) _ select_md_fits [OF ty_time.hyps(1) a(2)]]) simp_all
next
  case (ty_strings e f)
  then obtain a where a: "translated sc this e a" "fits e TMd a" by blast
  obtain r where "translateSelectThisMdField f False = Ok r" "rkind r = StringK"
    using md_fields(2) [OF ty_strings.hyps(2)] by auto
  then show ?case by (intro select_step [OF a(1) _ select_md_fits [OF ty_strings.hyps(1) a(2)]]) simp_all
next
  case (ty_field e f t)
  then obtain a fd where a: "translated sc this e a" "fits e TThis a"
    and fd: "ByName (sc this) f = Some fd" "field_type fd = Some t"
    by (auto simp: member_type_def split: option.splits)
  obtain r where r: "translateSelectJsonField sc ''data'' (Some (MsgDesc this)) f False = Ok r"
    "rkind r = kind_of t" "\<forall>n. t = TMsg n \<longrightarrow> rdesc r = Some (MsgDesc n)"
    using select_json_fits [where sc = sc and n = this, OF fd] by blast
  have "translateSelectThisField sc this f False = Ok r"
    using ty_field.hyps(2) r(1) by (simp add: translateSelectThisField_def)
  then show ?case by (intro select_step [OF a(1) _ select_this_fits [OF ty_field.hyps(1) a(2)]]) (use r in simp_all)
next
  case (ty_nested e n f t)
  then obtain a fd where a: "translated sc this e a" "fits e (TMsg n) a"
    and fd: "ByName (sc n) f = Some fd" "field_type fd = Some t"
    by (auto simp: member_type_def split: option.splits)
  obtain r where "translateSelectJsonField sc (sql a) (Some (MsgDesc n)) f False = Ok r"
    "rkind r = kind_of t" "\<forall>n. t = TMsg n \<longrightarrow> rdesc r = Some (MsgDesc n)"
    using select_json_fits [where sc = sc and n = n, OF fd] by blast
  then show ?case by (intro select_step [OF a(1) _ select_msg_fits [OF ty_nested.hyps(1) a(2)]]) simp_all
next
  case (ty_has e f)
  then obtain a where a: "translated sc this e a" "fits e TThis a" by blast
  obtain r where "translateSelectThisField sc this f True = Ok r" "rkind r = BooleanK"
    using md_fields(3) by blast
  then show ?case by (intro select_step [OF a(1) _ select_this_fits [OF ty_has.hyps a(2)]]) simp_all
next
  case (ty_has_nested e n f)
  then obtain a where a: "translated sc this e a" "fits e (TMsg n) a" by blast
  obtain r where "translateSelectJsonField sc (sql a) (Some (MsgDesc n)) f True = Ok r" "rkind r = BooleanK"
    using has_json by blast
  then show ?case by (intro select_step [OF a(1) _ select_msg_fits [OF ty_has_nested.hyps a(2)]]) simp_all
next
  case (ty_has_time e f)
  then obtain a where a: "translated sc this e a" "fits e TMd a" by blast
  obtain r where "translateSelectThisMdField f True = Ok r" "rkind r = BooleanK"
    using md_fields(1) [OF ty_has_time.hyps(2), of True] by auto
  then show ?case by (intro select_step [OF a(1) _ select_md_fits [OF ty_has_time.hyps(1) a(2)]]) simp_all
next
  case (ty_arith op t a b x)
  then obtain a' b' where ab: "translated sc this a a'" "fits a t a'" "translated sc this b b'" by blast
  have "rkind a' = kind_of t" "t \<noteq> TBool" "\<And>n. t \<noteq> TMsg n"
    using fits_kind [OF ty_arith.hyps(3) ab(2)] ty_arith.hyps(2) by auto
  then show ?case
    using fits_operator [OF binary_arith(1) [OF ty_arith.hyps(1)] _ ab(1,3)]
      binary_arith(2) [OF ty_arith.hyps(1), of a' b'] by auto
next
  case (ty_order op t a b x)
  then show ?case using fits_operator [OF binary_ordering(1), of op _ _ TBool]
      binary_ordering(2) by fastforce
next
  case (ty_equal op a s b t x)
  then show ?case using fits_operator [OF binary_equalities(1), of op _ _ TBool]
      binary_equalities(2) by fastforce
next
  case (ty_logic op a b x)
  then show ?case using fits_operator [OF binary_connectives(1), of op _ _ TBool]
      binary_connectives(2) by fastforce
next
  case (ty_not a x)
  then obtain a' where "translated sc this a a'" by blast
  then show ?case using t_Not [of sc this a a' x "[]"] by (auto simp: fits_def not_of_def)
next
  case (ty_in_list a t vs x)
  then obtain a' bs where "translated sc this a a'" "list_all2 (\<lambda>l b. translateLiteral l = Ok b) vs bs"
    using literals_fit by blast
  then show ?case using t_InList [of sc this a a' vs bs x "[]"] by (auto simp: fits_def in_list_of_def)
next
  case (ty_in_field a e f x)
  then obtain a' b' where "translated sc this a a'" "translated sc this (Select e f False) b'" by blast
  then show ?case using t_InField [of sc this a a' e f False b' x "[]"]
    by (auto simp: fits_def in_field_of_def)
next
  case (ty_like name p q a rs)
  then obtain a' r where "translated sc this a a'" "like_of name (Literal (StrLit rs)) p q a' = Ok r"
    "rkind r = BooleanK" using like_fits by blast
  moreover have "\<not> membership (Call name a [Literal (StrLit rs)])"
    using ty_like.hyps(1) by (auto simp: like_functions_def)
  moreover have "translated sc this (Call name a [Literal (StrLit rs)]) r"
    using t_Like [OF ty_like.hyps(1)] calculation by blast
  ultimately show ?case by (auto simp: fits_def)
qed (auto intro!: exI t_Ident simp: translateIdent_def)

section \<open>The property\<close>


definition type_example :: expr where
  "type_example = Call ''_&&_'' (OtherExpr 0)
     [Call ''_==_'' (OtherExpr 0) [Select (Select (Ident ''this'') ''metadata'' False) ''deletion_timestamp'' False,
        Literal NullLit],
      Call ''@in'' (OtherExpr 0) [Literal (StrLit [97]), Select (Select (Ident ''this'') ''metadata'' False) ''tenants'' False]]"


section \<open>The exceptions\<close>

text \<open>
  A selection from a map field, which the CEL checker accepts because the keys are strings, panics:
  the code takes the descriptor of the entries of the map for the one of a message and looks the key up
  among its fields, \<open>key\<close> and \<open>value\<close>.
\<close>

theorem map_selection_panics:
  assumes "translate sc this e = Ok r" "rkind r = JsonK" "rdesc r = Some (MsgDesc n)"
    "ByName (sc n) m = Some fd" "fd_card fd = IsMap" "k \<notin> {''key'', ''value''}"
  shows "translate sc this (Select (Select e m False) k False) = Panic ''nil pointer dereference''"
  using assms
  by (auto simp: select_of_def translateSelectJsonField_def Fields_def field_Message_def entry_fields_def
      ByName_def)

theorem map_selection_panics_witness:
  "translate (\<lambda>n. if n = ''T'' then
        [\<lparr>fd_name = ''spec'', fd_full = ''T.spec'', fd_kind = MessageKind ''S'', fd_card = Singular, fd_presence = True\<rparr>]
      else [\<lparr>fd_name = ''node_sets'', fd_full = ''S.node_sets'', fd_kind = MessageKind ''N'', fd_card = IsMap,
        fd_presence = False\<rparr>]) ''T''
     (Select (Select (Select (Ident ''this'') ''spec'' False) ''node_sets'' False) ''compute'' False)
   = Panic ''nil pointer dereference''"
  by (rule map_selection_panics [where n = "''S''"])
    (auto simp: translateIdent_def select_of_def translateSelectThisField_def translateSelectJsonField_def
      Fields_def field_Message_def ByName_def)

text \<open>
  The kind of a membership test is the one of null, so an equality takes it for the null operand: it
  goes to the right and the operator becomes \<open>is\<close>.
\<close>

lemma membership_equality_is_swapped:
  "translate sc this (Call ''_==_'' x [Call ''@in'' y [Select (Ident ''this'') ''id'' False,
     ListExpr [Literal (IntLit 1)]], Literal (BoolLit True)])
   = Ok (result_of ''true is (id in (1))'' IsPrecedence BooleanK)"
  by (simp add: binary_operators_def filter_evaluation in_list_of_def show_int_def
      nat_digits.simps [of "Suc 0"] char_of_def bit_Suc_0_iff)

end
