(* ===== verification/FilterMeaning.thy ===== *)
theory FilterMeaning
  imports FilterTypes
begin

text \<open>
  The structure of a translated filter. PostgreSQL reads the text of an expression by the precedence and
  associativity of its operators; the grammar below is the fragment of its documentation that the
  translator uses. The theorem is that the text of a filter, read in that way, has the meaning of the
  filter's own syntax tree, up to the associativity of \<open>and\<close> and \<open>or\<close>. The filters whose text is read in
  another way are shown at the end.
\<close>

section \<open>Trees of operators and how text is read\<close>

datatype tree = Atom string | Bin string tree tree | Neg tree | Suffix tree string | Has string tree

text \<open>
  The levels of PostgreSQL: \<open>or\<close>, \<open>and\<close>, \<open>not\<close>, \<open>is\<close>, the comparisons, \<open>in\<close> and \<open>like\<close>, the other operators, the
  additive and the multiplicative ones and the primary expressions. Comparisons do not associate.
\<close>

definition left_operators :: "(string \<times> nat) set" where
  "left_operators = {(''or'', 0), (''and'', 1), (''+'', 7), (''-'', 7), (''*'', 8), (''/'', 8), (''%'', 8)}"

definition comparisons :: "string set" where
  "comparisons = {''='', ''!='', ''<'', ''<='', ''>'', ''>=''}"

definition infix_text :: "string \<Rightarrow> string \<Rightarrow> string \<Rightarrow> string" where
  "infix_text op s t = s @ '' '' @ op @ '' '' @ t"

inductive reads :: "(string \<times> nat) set \<Rightarrow> nat \<Rightarrow> tree \<Rightarrow> string \<Rightarrow> bool" for atoms where
  r_atom: "(s, n) \<in> atoms \<Longrightarrow> 4 \<le> n \<Longrightarrow> reads atoms n (Atom s) s"
| r_paren: "reads atoms 0 x s \<Longrightarrow> reads atoms 9 x (''('' @ s @ '')'')"
| r_left: "(op, n) \<in> left_operators \<Longrightarrow> reads atoms n x s \<Longrightarrow> reads atoms (Suc n) y t \<Longrightarrow>
    reads atoms n (Bin op x y) (infix_text op s t)"
| r_comparison: "op \<in> comparisons \<Longrightarrow> reads atoms 5 x s \<Longrightarrow> reads atoms 5 y t \<Longrightarrow>
    reads atoms 4 (Bin op x y) (infix_text op s t)"
| r_not: "reads atoms 2 x s \<Longrightarrow> reads atoms 2 (Neg x) (''not '' @ s)"
| r_is: "reads atoms 4 x s \<Longrightarrow> q \<in> {'' is null'', '' is not null''} \<Longrightarrow>
    reads atoms 3 (Suffix x q) (s @ q)"
| r_in: "reads atoms 6 x s \<Longrightarrow> q = '' in '' @ u \<or> q = '' like '' @ u \<Longrightarrow>
    reads atoms 5 (Suffix x q) (s @ q)"
| r_has: "reads atoms 6 (Atom v) v \<Longrightarrow> reads atoms 0 x s \<Longrightarrow>
    reads atoms 6 (Has v x) (v @ '' @> array['' @ s @ '']'')"
| r_weaken: "reads atoms (Suc n) x s \<Longrightarrow> reads atoms n x s"

lemma reads_down_add: "reads atoms (m + k) x s \<Longrightarrow> reads atoms m x s"
  by (induction k) (auto dest: r_weaken)

lemma reads_down: "reads atoms n x s \<Longrightarrow> m \<le> n \<Longrightarrow> reads atoms m x s"
  using reads_down_add [of atoms m "n - m" x s] by simp

text \<open>The meaning of a tree in an interpretation of its operators.\<close>

record 'v sem =
  atom_sem :: "string \<Rightarrow> 'v"
  bin_sem :: "string \<Rightarrow> 'v \<Rightarrow> 'v \<Rightarrow> 'v"
  neg_sem :: "'v \<Rightarrow> 'v"
  suffix_sem :: "'v \<Rightarrow> string \<Rightarrow> 'v"
  has_sem :: "string \<Rightarrow> 'v \<Rightarrow> 'v"

fun eval :: "'v sem \<Rightarrow> tree \<Rightarrow> 'v" where
  "eval m (Atom s) = atom_sem m s"
| "eval m (Bin op x y) = bin_sem m op (eval m x) (eval m y)"
| "eval m (Neg x) = neg_sem m (eval m x)"
| "eval m (Suffix x q) = suffix_sem m (eval m x) q"
| "eval m (Has v x) = has_sem m v (eval m x)"

definition connectives_assoc :: "'v sem \<Rightarrow> bool" where
  "connectives_assoc m \<longleftrightarrow> (\<forall>op\<in>{''and'', ''or''}. \<forall>x y z.
     bin_sem m op (bin_sem m op x y) z = bin_sem m op x (bin_sem m op y z))"

text \<open>A chain of one connective is read from the left, with the same meaning.\<close>

lemma reads_chain:
  assumes "reads atoms n y t" "(op, n) \<in> {(''or'', 0), (''and'', 1)}" "reads atoms n x s"
    "connectives_assoc m"
  shows "\<exists>z. reads atoms n z (infix_text op s t) \<and> eval m z = eval m (Bin op x y)"
  using assms
proof (induction n y t arbitrary: rule: reads.induct)
  case (r_left op' n y1 t1 y2 t2)
  have [simp]: "op' = op" using r_left.hyps(1) r_left.prems(1) by (auto simp: left_operators_def)
  obtain z where z: "reads atoms n z (infix_text op s t1)" "eval m z = eval m (Bin op x y1)"
    using r_left by blast
  have "reads atoms n (Bin op z y2) (infix_text op (infix_text op s t1) t2)"
    using reads.r_left [OF _ z(1) r_left.hyps(3)] r_left.hyps(1) by simp
  moreover have "eval m (Bin op z y2) = eval m (Bin op x (Bin op y1 y2))"
    using z(2) r_left.prems(1,3) by (auto simp: connectives_assoc_def)
  ultimately show ?case by (intro exI [of _ "Bin op z y2"]) (simp add: infix_text_def)
next
  case (r_weaken n y t)
  then have "reads atoms n (Bin op x y) (infix_text op s t)"
    by (intro reads.r_left) (auto simp: left_operators_def)
  then show ?case by blast
qed auto

section \<open>What a filter means\<close>

definition sql_operator :: "string \<Rightarrow> string" where
  "sql_operator op = (case operator_of op NullType of Some (s, _, _) \<Rightarrow> s
     | None \<Rightarrow> if op = ''_==_'' then ''='' else ''!='')"

definition null_test :: "string \<Rightarrow> string" where
  "null_test op = (if op = ''_==_'' then '' is null'' else '' is not null'')"

text \<open>The operator at the top of an expression, if it is an arithmetic one.\<close>

definition multiplicative :: "expr \<Rightarrow> bool" where
  "multiplicative e \<longleftrightarrow> (case e of Call op _ _ \<Rightarrow> op \<in> {''_*_'', ''_/_'', ''_%_''} | _ \<Rightarrow> False)"

definition additive :: "expr \<Rightarrow> bool" where
  "additive e \<longleftrightarrow> (case e of Call op _ _ \<Rightarrow> op \<in> {''_+_'', ''_-_''} | _ \<Rightarrow> False)"

fun leaf :: "expr \<Rightarrow> bool" where
  "leaf (Ident _) \<longleftrightarrow> True" | "leaf (Literal _) \<longleftrightarrow> True" | "leaf (Select _ _ _) \<longleftrightarrow> True" | "leaf _ \<longleftrightarrow> False"

text \<open>
  The tree that a typed filter means. The right operand of an arithmetic operator must not be one of the
  same level, and comparisons are between values that are not booleans: of the others the translator
  leaves out parentheses that the text needs.
\<close>

inductive means :: "schema \<Rightarrow> string \<Rightarrow> expr \<Rightarrow> ty \<Rightarrow> tree \<Rightarrow> bool" for sc this where
  m_leaf: "typed sc this e t \<Longrightarrow> leaf e \<Longrightarrow> translate sc this e = Ok r \<Longrightarrow> means sc this e t (Atom (sql r))"
| m_sum: "op \<in> {''_+_'', ''_-_''} \<Longrightarrow> t \<in> {TInt, TDouble} \<Longrightarrow> means sc this a t x \<Longrightarrow> means sc this b t y \<Longrightarrow>
    \<not> additive b \<Longrightarrow> means sc this (Call op z [a, b]) t (Bin (sql_operator op) x y)"
| m_product: "op \<in> {''_*_'', ''_/_'', ''_%_''} \<Longrightarrow> t \<in> {TInt, TDouble} \<Longrightarrow> means sc this a t x \<Longrightarrow>
    means sc this b t y \<Longrightarrow> \<not> multiplicative b \<Longrightarrow> means sc this (Call op z [a, b]) t (Bin (sql_operator op) x y)"
| m_compare: "op \<in> ordering \<union> equalities \<Longrightarrow> t \<in> {TInt, TDouble, TString, TTime} \<Longrightarrow> means sc this a t x \<Longrightarrow>
    means sc this b t y \<Longrightarrow> means sc this (Call op z [a, b]) TBool (Bin (sql_operator op) x y)"
| m_null_right: "op \<in> equalities \<Longrightarrow> nullable t \<Longrightarrow> t \<noteq> TNull \<Longrightarrow> means sc this a t x \<Longrightarrow>
    means sc this (Call op z [a, Literal NullLit]) TBool (Suffix x (null_test op))"
| m_null_left: "op \<in> equalities \<Longrightarrow> nullable t \<Longrightarrow> t \<noteq> TNull \<Longrightarrow> means sc this a t x \<Longrightarrow>
    means sc this (Call op z [Literal NullLit, a]) TBool (Suffix x (null_test op))"
| m_logic: "op \<in> connectives \<Longrightarrow> means sc this a TBool x \<Longrightarrow> means sc this b TBool y \<Longrightarrow>
    means sc this (Call op z [a, b]) TBool (Bin (sql_operator op) x y)"
| m_not: "means sc this a TBool x \<Longrightarrow> means sc this (Call ''!_'' z [a]) TBool (Neg x)"
| m_in_list: "means sc this a t x \<Longrightarrow> t \<in> {TInt, TDouble, TString, TTime} \<Longrightarrow>
    list_all (\<lambda>v. literal_type v = Some t) vs \<Longrightarrow> list_all2 (\<lambda>l b. translateLiteral l = Ok b) vs bs \<Longrightarrow>
    means sc this (Call ''@in'' z [a, ListExpr (map Literal vs)]) TBool
      (Suffix x ('' in ('' @ join '', '' (map sql bs) @ '')''))"
| m_in_field: "means sc this a TString x \<Longrightarrow> typed sc this (Select e f False) TStrings \<Longrightarrow>
    translate sc this (Select e f False) = Ok r \<Longrightarrow>
    means sc this (Call ''@in'' z [a, Select e f False]) TBool (Has (sql r) x)"
| m_like: "(name, p, q) \<in> set like_functions \<Longrightarrow> means sc this a TString x \<Longrightarrow>
    translateString rs ''%_'' = (t, b) \<Longrightarrow>
    means sc this (Call name a [Literal (StrLit rs)]) TBool
      (Suffix x ('' like '' @ (if b then ''e'' else []) @ quoted (p @ t @ q)))"

text \<open>The level of the text of a leaf: a test of presence is a comparison or an operator on documents,
  a field of a document is a path, and numbers, literals and columns are primary.\<close>

definition leaf_level :: "expr \<Rightarrow> ty \<Rightarrow> nat" where
  "leaf_level e t = (if t \<in> {TInt, TDouble} then 9 else if t = TBool then 4 else 6)"

definition leaf_texts :: "schema \<Rightarrow> string \<Rightarrow> (string \<times> nat) set" where
  "leaf_texts sc this = {(sql r, leaf_level e t) | e t r. typed sc this e t \<and> leaf e \<and> translate sc this e = Ok r}"

lemma means_typed: "means sc this e t x \<Longrightarrow> typed sc this e t"
proof (induction rule: means.induct)
  case (m_sum op t a x b y z)
  then show ?case by (intro ty_arith) (auto simp: arithmetic_def)
next
  case (m_product op t a x b y z)
  then show ?case by (intro ty_arith) (auto simp: arithmetic_def)
next
  case (m_compare op t a x b y z)
  then show ?case
    by (cases "op \<in> ordering") (auto intro: ty_order [where t = t] ty_equal [where s = t and t = t] simp: comparable_def)
next
  case (m_null_right op t a x z)
  then show ?case by (intro ty_equal [where s = t and t = TNull]) (auto simp: comparable_def intro: ty_literal)
next
  case (m_null_left op t a x z)
  then show ?case by (intro ty_equal [where s = TNull and t = t]) (auto simp: comparable_def intro: ty_literal)
qed (auto intro: typed.intros)

section \<open>The operators of the translator\<close>

lemma infix_sql_text: "sql (infix_sql op p k a b) = infix_text op (paren p a) (paren p b)"
    "precedence (infix_sql op p k a b) = p"
  by (simp_all add: infix_sql_def infix_text_def)

lemma sum_operator:
  assumes "op \<in> {''_+_'', ''_-_''}"
  shows "binary_of op a b = Ok (infix_sql (sql_operator op) 7 (rkind a) a b)"
    "(sql_operator op, 7) \<in> left_operators" "op \<in> set binary_operators" "additive (Call op z es)"
  using assms
  by (elim insertE emptyE; simp add: binary_of_def operator_of_def sql_operator_def precedences
      left_operators_def binary_operators_def additive_def)+

lemma product_operator:
  assumes "op \<in> {''_*_'', ''_/_'', ''_%_''}"
  shows "binary_of op a b = Ok (infix_sql (sql_operator op) 8 (rkind a) a b)"
    "(sql_operator op, 8) \<in> left_operators" "op \<in> set binary_operators" "multiplicative (Call op z es)"
  using assms
  by (elim insertE emptyE; simp add: binary_of_def operator_of_def sql_operator_def precedences
      left_operators_def binary_operators_def multiplicative_def)+

lemma logic_operator:
  assumes "op \<in> connectives"
  shows "\<exists>n. binary_of op a b = Ok (infix_sql (sql_operator op) n BooleanK a b)
    \<and> (sql_operator op, n) \<in> {(''or'', 0), (''and'', 1)}" "op \<in> set binary_operators"
  using assms unfolding connectives_def
  by (elim insertE emptyE; simp add: binary_of_def operator_of_def sql_operator_def precedences
      binary_operators_def)+

lemma ordering_operator:
  assumes "op \<in> ordering"
  shows "binary_of op a b = Ok (infix_sql (sql_operator op) 3 BooleanK a b)"
    "sql_operator op \<in> comparisons" "op \<in> set binary_operators"
  using assms unfolding ordering_def
  by (elim insertE emptyE; simp add: binary_of_def operator_of_def sql_operator_def precedences
      binary_operators_def comparisons_def)+

lemma equality_operator:
  assumes "op \<in> equalities" "rkind a \<noteq> NullType" "rkind b \<noteq> NullType"
  shows "binary_of op a b = Ok (infix_sql (sql_operator op) 3 BooleanK a b)"
    "sql_operator op \<in> comparisons" "op \<in> set binary_operators"
  using assms unfolding equalities_def
  by (elim insertE emptyE; simp add: binary_of_def equality_def operator_of_def sql_operator_def
      precedences binary_operators_def comparisons_def)+

lemma compare_operator:
  assumes "op \<in> ordering \<union> equalities" "rkind a \<noteq> NullType" "rkind b \<noteq> NullType"
  shows "binary_of op a b = Ok (infix_sql (sql_operator op) 3 BooleanK a b)"
    "sql_operator op \<in> comparisons" "op \<in> set binary_operators"
  using assms ordering_operator equality_operator by blast+

lemma null_operator:
  assumes "op \<in> equalities" "rkind a \<noteq> NullType" "rkind b = NullType" "sql b = ''null''" "6 \<le> precedence b"
  shows "\<exists>r. binary_of op a b = Ok r \<and> binary_of op b a = Ok r \<and> sql r = paren 6 a @ null_test op
    \<and> precedence r = 6" "op \<in> set binary_operators"
  using assms unfolding equalities_def
  by (elim insertE emptyE; simp add: binary_of_def equality_def precedences binary_operators_def
      infix_sql_def null_test_def paren_def)+

section \<open>Translations are read with their meaning\<close>

text \<open>How the precedence that the translator assigns to a text relates to its level.\<close>

definition level_ok :: "expr \<Rightarrow> ty \<Rightarrow> nat \<Rightarrow> nat \<Rightarrow> bool" where
  "level_ok e t p n \<longleftrightarrow> (
     if t \<in> {TInt, TDouble} then (p = 7 \<and> n = 7) \<or> (p = 8 \<and> n = 8) \<or> (p = MaxPrecedence \<and> n = 9)
     else if t = TBool then (p, n) \<in> {(0, 0), (1, 1), (2, 2), (6, 3), (3, 4), (4, 5), (MaxPrecedence, 4)}
     else p = MaxPrecedence \<and> n = 6)
   \<and> (p = 7 \<longrightarrow> additive e) \<and> (p = 8 \<longrightarrow> multiplicative e)"

definition read_as :: "schema \<Rightarrow> string \<Rightarrow> 'v sem \<Rightarrow> expr \<Rightarrow> ty \<Rightarrow> tree \<Rightarrow> result \<Rightarrow> bool" where
  "read_as sc this m e t x r \<longleftrightarrow> (\<exists>y n. reads (leaf_texts sc this) n y (sql r) \<and> eval m y = eval m x
     \<and> level_ok e t (precedence r) n)"

lemma max_precedence [simp]: "MaxPrecedence \<noteq> 0" "9 < MaxPrecedence" "6 < MaxPrecedence"
    "MaxPrecedence \<noteq> 7" "MaxPrecedence \<noteq> 8"
  by (simp_all add: MaxPrecedence_def)

lemma reads_paren:
  assumes "reads A n y (sql r)"
  shows "reads A (if precedence r < p then 9 else n) y (paren p r)"
  using r_paren [OF reads_down [OF assms]] assms by (simp add: paren_def)

text \<open>An operand has the level that its place asks for.\<close>

lemma operand:
  assumes "read_as sc this m e t x r"
    "\<And>n. level_ok e t (precedence r) n \<Longrightarrow> \<not> precedence r < p \<Longrightarrow> k \<le> n" "k \<le> 9"
  shows "\<exists>y. reads (leaf_texts sc this) k y (paren p r) \<and> eval m y = eval m x"
proof -
  obtain y n where y: "reads (leaf_texts sc this) n y (sql r)" "eval m y = eval m x"
    "level_ok e t (precedence r) n" using assms(1) by (auto simp: read_as_def)
  then have "k \<le> (if precedence r < p then 9 else n)" using assms(2,3) by auto
  then show ?thesis using reads_down [OF reads_paren [OF y(1)]] y(2) by blast
qed

lemma leaf_precedence: "leaf e \<Longrightarrow> translate sc this e = Ok r \<Longrightarrow> precedence r = MaxPrecedence"
  by (cases e) (auto simp: translateIdent_def translateLiteral_def select_of_def bindR_eq_Ok split_beta
      Let_def split: if_splits literal.splits)

lemma numeric_levels:
  assumes "level_ok e t p n" "t \<in> {TInt, TDouble}"
  shows "(p = 7 \<and> n = 7 \<and> additive e) \<or> (p = 8 \<and> n = 8 \<and> multiplicative e) \<or> (p = MaxPrecedence \<and> n = 9)"
  using assms by (auto simp: level_ok_def)

lemma value_levels:
  assumes "level_ok e t p n" "t \<noteq> TBool"
  shows "6 \<le> n \<and> 6 < p"
  using assms by (cases t) (auto simp: level_ok_def)

lemma boolean_levels:
  assumes "level_ok e TBool p n"
  shows "(p, n) \<in> {(0, 0), (1, 1), (2, 2), (6, 3), (3, 4), (4, 5), (MaxPrecedence, 4)}"
  using assms by (simp add: level_ok_def)

lemma boolean_levelI:
  "(p, n) \<in> {(0, 0), (1, 1), (2, 2), (6, 3), (3, 4), (4, 5)} \<Longrightarrow> level_ok e TBool p n"
  by (auto simp: level_ok_def)

lemma value_operand:
  assumes "read_as sc this m e t x r" "t \<noteq> TBool" "k \<le> 6"
  shows "\<exists>y. reads (leaf_texts sc this) k y (paren p r) \<and> eval m y = eval m x"
  by (rule operand [OF assms(1)]) (use value_levels assms(2,3) in fastforce)+

lemma value_kind: "typed sc this e t \<Longrightarrow> translate sc this e = Ok r \<Longrightarrow> t \<notin> {TBool, TNull} \<Longrightarrow> rkind r \<noteq> NullType"
proof -
  assume e: "typed sc this e t" "translate sc this e = Ok r" "t \<notin> {TBool, TNull}"
  then obtain r' where "translate sc this e = Ok r'" "fits e t r'"
    using typed_translated translated_translate by blast
  then show ?thesis using fits_kind [OF e(1)] e by (cases t) auto
qed

lemma read_left:
  assumes "translate sc this a = Ok r" "translate sc this b = Ok s" "binary_of op r s = Ok u"
    "op \<in> set binary_operators" "sql u = infix_text q (paren p r) (paren p s)" "(q, k) \<in> left_operators"
    "read_as sc this m a t x r" "read_as sc this m b t' y s"
    "\<And>n. level_ok a t (precedence r) n \<Longrightarrow> \<not> precedence r < p \<Longrightarrow> k \<le> n"
    "\<And>n. level_ok b t' (precedence s) n \<Longrightarrow> \<not> precedence s < p \<Longrightarrow> Suc k \<le> n"
    "level_ok (Call op z [a, b]) t'' (precedence u) k" "k \<le> 8"
  shows "\<exists>r. translate sc this (Call op z [a, b]) = Ok r
    \<and> read_as sc this m (Call op z [a, b]) t'' (Bin q x y) r"
proof -
  obtain x' where x': "reads (leaf_texts sc this) k x' (paren p r)" "eval m x' = eval m x"
    using operand [OF assms(7,9)] assms(12) by auto
  obtain y' where y': "reads (leaf_texts sc this) (Suc k) y' (paren p s)" "eval m y' = eval m y"
    using operand [OF assms(8,10)] assms(12) by auto
  have "translate sc this (Call op z [a, b]) = Ok u"
    using assms(1-4) by simp
  moreover have "reads (leaf_texts sc this) k (Bin q x' y') (sql u)"
    unfolding assms(5) using assms(6) x'(1) y'(1) by (rule r_left)
  ultimately show ?thesis using assms(11) x'(2) y'(2)
    by (auto simp: read_as_def intro!: exI [of _ "Bin q x' y'"] exI [of _ k])
qed

lemma read_logic:
  assumes "translate sc this a = Ok r" "translate sc this b = Ok s" "op \<in> connectives"
    "read_as sc this m a TBool x r" "read_as sc this m b TBool y s" "connectives_assoc m"
  shows "\<exists>r. translate sc this (Call op z [a, b]) = Ok r
    \<and> read_as sc this m (Call op z [a, b]) TBool (Bin (sql_operator op) x y) r"
proof -
  obtain k where k: "binary_of op r s = Ok (infix_sql (sql_operator op) k BooleanK r s)"
    "(sql_operator op, k) \<in> {(''or'', 0), (''and'', 1)}"
    using logic_operator(1) [OF assms(3)] by blast
  let ?u = "infix_sql (sql_operator op) k BooleanK r s"
  have "k \<in> {0, 1}" using k(2) by auto
  then have lv: "level_ok e TBool p n \<Longrightarrow> \<not> p < k \<Longrightarrow> k \<le> n" for e p n
    using boolean_levels [of e p n] by auto
  obtain x' where x': "reads (leaf_texts sc this) k x' (paren k r)" "eval m x' = eval m x"
    using operand [OF assms(4), of k k] lv \<open>k \<in> {0, 1}\<close> by force
  obtain y' where y': "reads (leaf_texts sc this) k y' (paren k s)" "eval m y' = eval m y"
    using operand [OF assms(5), of k k] lv \<open>k \<in> {0, 1}\<close> by force
  obtain w where "reads (leaf_texts sc this) k w (sql ?u)" "eval m w = eval m (Bin (sql_operator op) x' y')"
    using reads_chain [OF y'(1) k(2) x'(1) assms(6)] by (auto simp: infix_sql_text)
  moreover have "level_ok (Call op z [a, b]) TBool k k" using \<open>k \<in> {0, 1}\<close> by (intro boolean_levelI) auto
  moreover have "translate sc this (Call op z [a, b]) = Ok ?u"
    using assms(1,2) k(1) logic_operator(2) [OF assms(3)] by simp
  ultimately show ?thesis using x'(2) y'(2) by (auto simp: read_as_def infix_sql_text)
qed

lemma read_suffix:
  assumes "read_as sc this m a t x r" "t \<noteq> TBool" "q = '' in '' @ u \<or> q = '' like '' @ u"
    "sql s = paren 4 r @ q" "precedence s = 4"
  shows "read_as sc this m e TBool (Suffix x q) s"
proof -
  obtain y where "reads (leaf_texts sc this) 6 y (paren 4 r)" "eval m y = eval m x"
    using value_operand [OF assms(1,2), of 6 4] by auto
  then show ?thesis using r_in [OF _ assms(3)] assms(4,5)
    by (auto simp: read_as_def intro!: exI [of _ "Suffix y q"] exI [of _ 5] boolean_levelI)
qed

lemma read_null:
  assumes "op \<in> equalities" "nullable t" "t \<noteq> TNull" "means sc this a t x"
    "\<exists>r. translate sc this a = Ok r \<and> read_as sc this m a t x r"
  shows "\<exists>r. translate sc this (Call op z [a, Literal NullLit]) = Ok r
      \<and> read_as sc this m (Call op z [a, Literal NullLit]) TBool (Suffix x (null_test op)) r"
    "\<exists>r. translate sc this (Call op z [Literal NullLit, a]) = Ok r
      \<and> read_as sc this m (Call op z [Literal NullLit, a]) TBool (Suffix x (null_test op)) r"
proof -
  obtain r where r: "translate sc this a = Ok r" "read_as sc this m a t x r" using assms(5) by blast
  have t: "t \<noteq> TBool" using assms(2) by (auto simp: nullable_def)
  let ?n = "result_of ''null'' MaxPrecedence NullType"
  have n: "translate sc this (Literal NullLit) = Ok ?n" by (simp add: translateLiteral_def)
  have "rkind r \<noteq> NullType" using value_kind [OF means_typed [OF assms(4)] r(1)] t assms(3) by blast
  then obtain u where u: "binary_of op r ?n = Ok u" "binary_of op ?n r = Ok u" "sql u = paren 6 r @ null_test op"
    "precedence u = 6" "op \<in> set binary_operators"
    using null_operator [OF assms(1), of r ?n] less_imp_le [OF max_precedence(3)] by auto
  obtain y where "reads (leaf_texts sc this) 4 y (paren 6 r)" "eval m y = eval m x"
    using value_operand [OF r(2) t, of 4 6] by auto
  then have "reads (leaf_texts sc this) 3 (Suffix y (null_test op)) (sql u)"
    "eval m (Suffix y (null_test op)) = eval m (Suffix x (null_test op))"
    unfolding u(3) using r_is [of _ y "paren 6 r" "null_test op"] by (auto simp: null_test_def)
  then have "read_as sc this m e TBool (Suffix x (null_test op)) u" for e
    using u(4) unfolding read_as_def by (intro exI conjI boolean_levelI) auto
  then show "\<exists>r. translate sc this (Call op z [a, Literal NullLit]) = Ok r
      \<and> read_as sc this m (Call op z [a, Literal NullLit]) TBool (Suffix x (null_test op)) r"
    "\<exists>r. translate sc this (Call op z [Literal NullLit, a]) = Ok r
      \<and> read_as sc this m (Call op z [Literal NullLit, a]) TBool (Suffix x (null_test op)) r"
    using u n r(1) by auto
qed

lemma means_read:
  assumes "connectives_assoc m"
  shows "means sc this e t x \<Longrightarrow> \<exists>r. translate sc this e = Ok r \<and> read_as sc this m e t x r"
proof (induction rule: means.induct)
  case (m_leaf e t r)
  let ?n = "leaf_level e t"
  have "(sql r, ?n) \<in> leaf_texts sc this" using m_leaf by (auto simp: leaf_texts_def)
  then have "reads (leaf_texts sc this) ?n (Atom (sql r)) (sql r)"
    by (rule r_atom) (simp add: leaf_level_def)
  moreover have "level_ok e t (precedence r) ?n"
    using leaf_precedence [OF m_leaf.hyps(2,3)] by (auto simp: level_ok_def leaf_level_def)
  ultimately show ?case using m_leaf.hyps(3) unfolding read_as_def by blast
next
  case (m_sum op t a x b y z)
  then obtain r s where r: "translate sc this a = Ok r" "read_as sc this m a t x r"
    and s: "translate sc this b = Ok s" "read_as sc this m b t y s" by blast
  note op = sum_operator [OF m_sum.hyps(1)]
  show ?case
  proof (rule read_left [OF r(1) s(1) op(1) op(3) _ op(2) r(2) s(2)])
    show "level_ok (Call op z [a, b]) t (precedence (infix_sql (sql_operator op) 7 (rkind r) r s)) 7"
      using m_sum.hyps(2) op(4) by (auto simp: level_ok_def infix_sql_text)
  qed (use numeric_levels [OF _ m_sum.hyps(2)] m_sum.hyps(5) in \<open>fastforce simp: infix_sql_text\<close>)+
next
  case (m_product op t a x b y z)
  then obtain r s where r: "translate sc this a = Ok r" "read_as sc this m a t x r"
    and s: "translate sc this b = Ok s" "read_as sc this m b t y s" by blast
  note op = product_operator [OF m_product.hyps(1)]
  show ?case
  proof (rule read_left [OF r(1) s(1) op(1) op(3) _ op(2) r(2) s(2)])
    show "level_ok (Call op z [a, b]) t (precedence (infix_sql (sql_operator op) 8 (rkind r) r s)) 8"
      using m_product.hyps(2) op(4) by (auto simp: level_ok_def infix_sql_text)
  qed (use numeric_levels [OF _ m_product.hyps(2)] m_product.hyps(5) in \<open>fastforce simp: infix_sql_text\<close>)+
next
  case (m_compare op t a x b y z)
  then obtain r s where r: "translate sc this a = Ok r" "read_as sc this m a t x r"
    and s: "translate sc this b = Ok s" "read_as sc this m b t y s" by blast
  have t: "t \<noteq> TBool" "t \<notin> {TBool, TNull}" using m_compare.hyps(2) by auto
  note kinds = value_kind [OF means_typed [OF m_compare.hyps(3)] r(1) t(2)]
    value_kind [OF means_typed [OF m_compare.hyps(4)] s(1) t(2)]
  note op = compare_operator [OF m_compare.hyps(1) kinds]
  let ?u = "infix_sql (sql_operator op) 3 BooleanK r s"
  obtain x' where x': "reads (leaf_texts sc this) 5 x' (paren 3 r)" "eval m x' = eval m x"
    using value_operand [OF r(2) t(1), of 5] by auto
  obtain y' where y': "reads (leaf_texts sc this) 5 y' (paren 3 s)" "eval m y' = eval m y"
    using value_operand [OF s(2) t(1), of 5] by auto
  have "reads (leaf_texts sc this) 4 (Bin (sql_operator op) x' y') (sql ?u)"
    using r_comparison [OF op(2) x'(1) y'(1)] by (simp add: infix_sql_text)
  moreover have "translate sc this (Call op z [a, b]) = Ok ?u" using r(1) s(1) op(1,3) by simp
  ultimately show ?case using x'(2) y'(2)
    by (auto simp: read_as_def infix_sql_text intro!: exI [of _ "Bin (sql_operator op) x' y'"] exI [of _ 4] boolean_levelI)
next
  case (m_null_right op t a x z)
  then show ?case using read_null by blast
next
  case (m_null_left op t a x z)
  then show ?case using read_null by blast
next
  case (m_logic op a x b y z)
  then show ?case using read_logic [OF _ _ m_logic.hyps(1) _ _ assms] by blast
next
  case (m_not a x z)
  then obtain r where r: "translate sc this a = Ok r" "read_as sc this m a TBool x r" by blast
  obtain x' where x': "reads (leaf_texts sc this) 2 x' (paren 2 r)" "eval m x' = eval m x"
    using operand [OF r(2), of 2 2] boolean_levels by force
  have "translate sc this (Call ''!_'' z [a]) = Ok (not_of r)" using r(1) by (simp add: not_binary)
  moreover have "reads (leaf_texts sc this) 2 (Neg x') (sql (not_of r))"
    using r_not [OF x'(1)] by (simp add: not_of_def precedences)
  ultimately show ?case using x'(2)
    by (auto simp: read_as_def not_of_def precedences intro!: exI [of _ "Neg x'"] exI [of _ 2] boolean_levelI)
next
  case (m_in_list a t x vs bs z)
  then obtain r where r: "translate sc this a = Ok r" "read_as sc this m a t x r" by blast
  have "translate sc this (Call ''@in'' z [a, ListExpr (map Literal vs)]) = Ok (in_list_of r bs)"
    using t_InList [OF translate_translated [OF r(1)] m_in_list.hyps(4)] translated_translate by blast
  moreover have "t \<noteq> TBool" using m_in_list.hyps(2) by auto
  ultimately show ?case using read_suffix [OF r(2)]
    by (auto simp: in_list_of_def precedences)
next
  case (m_in_field a x e f r z)
  then obtain s y n where s: "translate sc this a = Ok s" "reads (leaf_texts sc this) n y (sql s)"
    "eval m y = eval m x" by (auto simp: read_as_def)
  have "(sql r, 6) \<in> leaf_texts sc this" using m_in_field.hyps(2,3)
    by (force simp: leaf_texts_def leaf_level_def)
  then have "reads (leaf_texts sc this) 6 (Atom (sql r)) (sql r)" by (rule r_atom) simp
  then have "reads (leaf_texts sc this) 6 (Has (sql r) y) (sql (in_field_of s r))"
    using r_has reads_down [OF s(2)] by (force simp: in_field_of_def)
  then have "reads (leaf_texts sc this) 5 (Has (sql r) y) (sql (in_field_of s r))"
    by (rule reads_down) simp
  moreover have "translate sc this (Call ''@in'' z [a, Select e f False]) = Ok (in_field_of s r)"
    using t_InField translate_translated s(1) m_in_field.hyps(3) translated_translate by blast
  ultimately show ?case using s(3)
    by (auto simp: read_as_def in_field_of_def precedences intro!: exI [of _ "Has (sql r) y"] exI [of _ 5] boolean_levelI)
next
  case (m_like name p q a x rs t b)
  then obtain r where r: "translate sc this a = Ok r" "read_as sc this m a TString x r" by blast
  let ?u = "result_of (paren InPrecedence r @ '' like '' @ (if b then ''e'' else []) @ quoted (p @ t @ q))
      InPrecedence BooleanK"
  have "like_of name (Literal (StrLit rs)) p q r = Ok ?u"
    using m_like.hyps(3) by (simp add: like_of_def)
  then have "translate sc this (Call name a [Literal (StrLit rs)]) = Ok ?u"
    using t_Like [OF m_like.hyps(1) translate_translated [OF r(1)]] translated_translate by blast
  then show ?case using read_suffix [OF r(2)] by (auto simp: precedences)
qed



definition meaning_example :: expr where
  "meaning_example = Call ''_&&_'' (OtherExpr 0)
     [Literal (BoolLit True), Call ''_&&_'' (OtherExpr 0)
        [Call ''!_'' (OtherExpr 0) [Literal (BoolLit False)],
         Call ''_<_'' (OtherExpr 0) [Ident ''now'', Ident ''now'']]]"

definition text_sem :: "string sem" where
  "text_sem = \<lparr>atom_sem = (\<lambda>s. s), bin_sem = (\<lambda>op x y. x @ op @ y), neg_sem = (\<lambda>x. ''~'' @ x),
     suffix_sem = (@), has_sem = (@)\<rparr>"


section \<open>Filters that are read in another way\<close>

text \<open>
  The parentheses of a right operand of the same precedence are left out, so that two filters with
  different meanings have the same text; and a comparison of booleans becomes a chain of comparisons,
  which the server rejects.
\<close>

lemma subtraction_loses_parentheses:
  fixes one two three :: expr
  defines "one \<equiv> Literal (IntLit 1)" and "two \<equiv> Literal (IntLit 2)" and "three \<equiv> Literal (IntLit 3)"
  shows "translate sc this (Call ''_-_'' z [one, Call ''_-_'' z [two, three]])
    = translate sc this (Call ''_-_'' z [Call ''_-_'' z [one, two], three])"
  by (simp add: assms binary_operators_def filter_evaluation)

lemma comparison_of_comparisons:
  "translate sc this (Call ''_==_'' z [Call ''_<_'' z [Ident ''now'', Ident ''now''], Literal (BoolLit True)])
   = Ok (result_of ''now() < now() = true'' ComparisonPrecedence BooleanK)"
  by (simp add: binary_operators_def filter_evaluation)

end
