(* ===== verification/Mapper.thy ===== *)
theory Mapper
  imports Protobuf
begin

text \<open>
  The mapper between the private and the public representation of the objects,
  \<open>internal/servers/generic_mapper.go\<close>. It works by reflection on the schema: the fields of the source
  are copied to, or merged into, the fields of the target with the same name.
\<close>

section \<open>The mapper and its builder\<close>

text \<open>The types of values that \<open>AddIgnoredFields\<close> takes; \<open>IgnoreOther t\<close> is a value of another type.\<close>

datatype ignored_field = IgnoreString string | IgnoreName string | IgnoreFullName string | IgnoreOther string

record mapper =
  strict :: bool
  ignoredFieldNames :: "string list"
  ignoredFieldFullNames :: "string list"

text \<open>The loop of \<open>Build\<close> over the ignored fields, with their index.\<close>

fun ignored_sets :: "nat \<Rightarrow> ignored_field list \<Rightarrow> (string list \<times> string list) res" where
  "ignored_sets i [] = Ok ([], [])"
| "ignored_sets i (IgnoreString s # fs) = bindR (ignored_sets (Suc i) fs) (\<lambda>(ns, ls).
     Ok (if CHR ''.'' \<in> set s then (ns, s # ls) else (s # ns, ls)))"
| "ignored_sets i (IgnoreName s # fs) = bindR (ignored_sets (Suc i) fs) (\<lambda>(ns, ls). Ok (s # ns, ls))"
| "ignored_sets i (IgnoreFullName s # fs) = bindR (ignored_sets (Suc i) fs) (\<lambda>(ns, ls). Ok (ns, s # ls))"
| "ignored_sets i (IgnoreOther t # fs) = Err (Fmt (''ignored fields should be strings or protocol ''
     @ ''buffers field names, but value '' @ show_int (int i) @ '' is of type '' @ quoted t))"

text \<open>The value of \<open>SetStrict\<close> is not passed on to the mapper.\<close>

definition mapper_Build :: "'l option \<Rightarrow> bool \<Rightarrow> ignored_field list \<Rightarrow> mapper res" where
  "mapper_Build logger strict' fs = (if logger = None then Err (Fmt ''logger is mandatory'')
     else bindR (ignored_sets 0 fs) (\<lambda>(ns, ls).
       Ok \<lparr>strict = False, ignoredFieldNames = ns, ignoredFieldFullNames = ls\<rparr>))"

definition shouldIgnore :: "mapper \<Rightarrow> field \<Rightarrow> bool" where
  "shouldIgnore mp f \<longleftrightarrow> fd_name f \<in> set (ignoredFieldNames mp) \<or> fd_full f \<in> set (ignoredFieldFullNames mp)"

definition cloneBytes :: "pvalue \<Rightarrow> pvalue res" where
  "cloneBytes v = (case v of VBytes b \<Rightarrow> Ok (VBytes b) | _ \<Rightarrow> Panic ''type mismatch'')"

text \<open>\<open>Append\<close> and \<open>Set\<close> of a list and a map check the type of the element.\<close>

definition element :: "field \<Rightarrow> pvalue \<Rightarrow> pvalue res" where
  "element g v = (if kind_ok (fd_kind g) v then Ok v else Panic ''type mismatch'')"

text \<open>\<open>Message()\<close> of \<open>NewElement\<close>, \<open>NewValue\<close> or \<open>Mutable\<close>: the type of a message field.\<close>

definition message_kind :: "field \<Rightarrow> string res" where
  "message_kind g = (case fd_kind g of MessageKind n \<Rightarrow> Ok n | _ \<Rightarrow> Panic ''type mismatch'')"

definition missing_field :: "string \<Rightarrow> field \<Rightarrow> error" where
  "missing_field tn f = Fmt (''type '' @ quoted tn @ '' doesn't have a '' @ quoted (fd_name f) @ '' field'')"

text \<open>The entries of a map in the order of their keys; Go's order is unspecified.\<close>

definition keys_of :: "(string, pvalue) fmap \<Rightarrow> string list" where
  "keys_of m = sorted_list_of_fset (fmdom m)"

lemma set_keys_of [simp]: "set (keys_of m) = {k. fmlookup m k \<noteq> None}"
  by (auto simp: keys_of_def fmlookup_dom_iff)

definition with_entries :: "(string, pvalue) fmap \<Rightarrow> (string \<times> pvalue) list \<Rightarrow> (string, pvalue) fmap" where
  "with_entries m es = m ++\<^sub>f fmap_of_list es"

section \<open>Copy\<close>

lemma size_element: "x \<in> set xs \<Longrightarrow> size x < size (VList xs)"
  by (induction xs) auto

text \<open>
  \<open>copyValue\<close> is the body of the loops of \<open>copyList\<close> and \<open>copyMap\<close>: the element of the target that is made
  from one of the source. The fields of the source are taken in the order of its descriptor.
\<close>

function (sequential)
  copyMessage :: "schema \<Rightarrow> mapper \<Rightarrow> string \<Rightarrow> string \<Rightarrow> msg \<Rightarrow> msg \<Rightarrow> msg res" and
  copyFields :: "schema \<Rightarrow> mapper \<Rightarrow> field list \<Rightarrow> string \<Rightarrow> msg \<Rightarrow> msg \<Rightarrow> msg res" and
  copyField :: "schema \<Rightarrow> mapper \<Rightarrow> field \<Rightarrow> field \<Rightarrow> pvalue \<Rightarrow> msg \<Rightarrow> msg res" and
  copyValue :: "schema \<Rightarrow> mapper \<Rightarrow> field \<Rightarrow> field \<Rightarrow> pvalue \<Rightarrow> pvalue res" and
  copyList :: "schema \<Rightarrow> mapper \<Rightarrow> field \<Rightarrow> field \<Rightarrow> pvalue list \<Rightarrow> pvalue list res" and
  copyMap :: "schema \<Rightarrow> mapper \<Rightarrow> field \<Rightarrow> field \<Rightarrow> (string, pvalue) fmap \<Rightarrow> (string, pvalue) fmap
     \<Rightarrow> (string, pvalue) fmap res"
where
  "copyMessage sc mp fn tn from to = copyFields sc mp (sc fn) tn from to"

| "copyFields sc mp [] tn from to = Ok to"
| "copyFields sc mp (f # fs) tn from to = bindR
     (if shouldIgnore mp f then Ok to
      else case ByName (sc tn) (fd_name f) of
        None \<Rightarrow> if strict mp then Err (missing_field tn f) else Ok to
      | Some g \<Rightarrow> if shouldIgnore mp g then Ok to
          else case fmlookup from (fd_name f) of
            None \<Rightarrow> Ok (mClear g to)
          | Some v \<Rightarrow> copyField sc mp f g v to)
     (\<lambda>to. copyFields sc mp fs tn from to)"

| "copyField sc mp f g v to = (case fd_card f of
      IsList \<Rightarrow> bindR (as_list (mGet to g)) (\<lambda>_. (case v of
          VList xs \<Rightarrow> bindR (copyList sc mp f g xs) (\<lambda>ys. Ok (mPut g (VList ys) to))
        | _ \<Rightarrow> Panic ''type mismatch''))
    | IsMap \<Rightarrow> bindR (as_map (mGet to g)) (\<lambda>old. (case v of
          VMap m \<Rightarrow> bindR (copyMap sc mp f g m old) (\<lambda>m'. Ok (mPut g (VMap m') to))
        | _ \<Rightarrow> Panic ''type mismatch''))
    | Singular \<Rightarrow> (case fd_kind f of
          MessageKind n \<Rightarrow> bindR (message_kind g) (\<lambda>n'. bindR (as_msg (mGet to g)) (\<lambda>old. (case v of
              VMsg x \<Rightarrow> bindR (copyMessage sc mp n n' x old) (\<lambda>y. Ok (mPut g (VMsg y) to))
            | _ \<Rightarrow> Panic ''type mismatch'')))
        | BytesKind \<Rightarrow> bindR (cloneBytes v) (\<lambda>b. mSet g b to)
        | _ \<Rightarrow> mSet g v to))"

| "copyValue sc mp f g v = (case fd_kind f of
      MessageKind n \<Rightarrow> bindR (message_kind g) (\<lambda>n'. (case v of
          VMsg x \<Rightarrow> bindR (copyMessage sc mp n n' x fmempty) (\<lambda>y. Ok (VMsg y))
        | _ \<Rightarrow> Panic ''type mismatch''))
    | BytesKind \<Rightarrow> bindR (cloneBytes v) (element g)
    | _ \<Rightarrow> element g v)"

| "copyList sc mp f g xs = mapR (\<lambda>x. copyValue sc mp f g x) xs"

| "copyMap sc mp f g m old = bindR (mapR (\<lambda>k. case fmlookup m k of
      None \<Rightarrow> Panic ''type mismatch''
    | Some v \<Rightarrow> bindR (copyValue sc mp f g v) (\<lambda>y. Ok (k, y))) (keys_of m))
    (\<lambda>es. Ok (with_entries old es))"
  by pat_completeness auto

termination
  by (relation "measures [case_sum
        (case_sum (\<lambda>(_, _, _, _, m, _). size (VMsg m)) (case_sum (\<lambda>(_, _, _, _, m, _). size (VMsg m)) (\<lambda>(_, _, _, _, v, _). size v)))
        (case_sum (\<lambda>(_, _, _, _, v). size v) (case_sum (\<lambda>(_, _, _, _, xs). size (VList xs)) (\<lambda>(_, _, _, _, m, _). size (VMap m)))),
      case_sum
        (case_sum (\<lambda>_. 1) (case_sum (\<lambda>_. 0) (\<lambda>_. 2)))
        (case_sum (\<lambda>_. 2) (case_sum (\<lambda>_. 0) (\<lambda>_. 0))),
      case_sum (case_sum (\<lambda>_. 0) (case_sum (\<lambda>(_, _, fs, _). length fs) (\<lambda>_. 0))) (\<lambda>_. 0)]")
    (auto dest: size_fmlookup size_element)

section \<open>Merge\<close>

text \<open>\<open>mergeEntry\<close> is the body of the loop of \<open>mergeMap\<close>: an existing message is merged in place.\<close>

function (sequential)
  mergeMessage :: "schema \<Rightarrow> mapper \<Rightarrow> string \<Rightarrow> string \<Rightarrow> msg \<Rightarrow> msg \<Rightarrow> msg res" and
  mergeFields :: "schema \<Rightarrow> mapper \<Rightarrow> field list \<Rightarrow> string \<Rightarrow> msg \<Rightarrow> msg \<Rightarrow> msg res" and
  mergeField :: "schema \<Rightarrow> mapper \<Rightarrow> field \<Rightarrow> field \<Rightarrow> pvalue \<Rightarrow> msg \<Rightarrow> msg res" and
  mergeEntry :: "schema \<Rightarrow> mapper \<Rightarrow> field \<Rightarrow> field \<Rightarrow> pvalue \<Rightarrow> pvalue option \<Rightarrow> pvalue res" and
  mergeMap :: "schema \<Rightarrow> mapper \<Rightarrow> field \<Rightarrow> field \<Rightarrow> (string, pvalue) fmap \<Rightarrow> (string, pvalue) fmap
     \<Rightarrow> (string, pvalue) fmap res"
where
  "mergeMessage sc mp fn tn from to = mergeFields sc mp (sc fn) tn from to"

| "mergeFields sc mp [] tn from to = Ok to"
| "mergeFields sc mp (f # fs) tn from to = bindR
     (if shouldIgnore mp f then Ok to
      else case ByName (sc tn) (fd_name f) of
        None \<Rightarrow> if strict mp then Err (missing_field tn f) else Ok to
      | Some g \<Rightarrow> if shouldIgnore mp g then Ok to
          else case fmlookup from (fd_name f) of
            None \<Rightarrow> Ok to
          | Some v \<Rightarrow> mergeField sc mp f g v to)
     (\<lambda>to. mergeFields sc mp fs tn from to)"

| "mergeField sc mp f g v to = (case fd_card f of
      IsList \<Rightarrow> bindR (as_list (mGet to g)) (\<lambda>old. bindR (as_list v) (\<lambda>xs.
        bindR (copyList sc mp f g xs) (\<lambda>ys. Ok (mPut g (VList (old @ ys)) to))))
    | IsMap \<Rightarrow> bindR (as_map (mGet to g)) (\<lambda>old. (case v of
          VMap m \<Rightarrow> bindR (mergeMap sc mp f g m old) (\<lambda>m'. Ok (mPut g (VMap m') to))
        | _ \<Rightarrow> Panic ''type mismatch''))
    | Singular \<Rightarrow> (case fd_kind f of
          MessageKind n \<Rightarrow> bindR (message_kind g) (\<lambda>n'. bindR (as_msg (mGet to g)) (\<lambda>old. (case v of
              VMsg x \<Rightarrow> bindR (mergeMessage sc mp n n' x old) (\<lambda>y. Ok (mPut g (VMsg y) to))
            | _ \<Rightarrow> Panic ''type mismatch'')))
        | BytesKind \<Rightarrow> bindR (cloneBytes v) (\<lambda>b. mSet g b to)
        | _ \<Rightarrow> mSet g v to))"

| "mergeEntry sc mp f g v old = (case fd_kind f of
      MessageKind n \<Rightarrow> (case old of
          Some o' \<Rightarrow> bindR (message_kind g) (\<lambda>n'. bindR (as_msg o') (\<lambda>y. (case v of
              VMsg x \<Rightarrow> bindR (mergeMessage sc mp n n' x y) (\<lambda>z. Ok (VMsg z))
            | _ \<Rightarrow> Panic ''type mismatch'')))
        | None \<Rightarrow> copyValue sc mp f g v)
    | _ \<Rightarrow> copyValue sc mp f g v)"

| "mergeMap sc mp f g m old = bindR (mapR (\<lambda>k. case fmlookup m k of
      None \<Rightarrow> Panic ''type mismatch''
    | Some v \<Rightarrow> bindR (mergeEntry sc mp f g v (fmlookup old k)) (\<lambda>y. Ok (k, y))) (keys_of m))
    (\<lambda>es. Ok (with_entries old es))"
  by pat_completeness auto

termination
  by (relation "measures [case_sum
        (case_sum (\<lambda>(_, _, _, _, m, _). size (VMsg m)) (\<lambda>(_, _, _, _, m, _). size (VMsg m)))
        (case_sum (\<lambda>(_, _, _, _, v, _). size v) (case_sum (\<lambda>(_, _, _, _, v, _). size v) (\<lambda>(_, _, _, _, m, _). size (VMap m)))),
      case_sum (case_sum (\<lambda>_. 1) (\<lambda>_. 0)) (case_sum (\<lambda>_. 2) (case_sum (\<lambda>_. 2) (\<lambda>_. 0))),
      case_sum (case_sum (\<lambda>_. 0) (\<lambda>(_, _, fs, _). length fs)) (\<lambda>_. 0)]")
    (auto dest: size_fmlookup)

text \<open>
  \<open>Copy\<close> and \<open>Merge\<close> of the objects; the types are the names of the two messages. A nil message is not
  valid and leaves the target as it is.
\<close>

definition Copy :: "schema \<Rightarrow> mapper \<Rightarrow> string \<Rightarrow> string \<Rightarrow> msg option \<Rightarrow> msg option \<Rightarrow> msg option res" where
  "Copy sc mp fn tn from to = (case (from, to) of
      (Some x, Some y) \<Rightarrow> bindR (copyMessage sc mp fn tn x y) (\<lambda>z. Ok (Some z)) | _ \<Rightarrow> Ok to)"

definition Merge :: "schema \<Rightarrow> mapper \<Rightarrow> string \<Rightarrow> string \<Rightarrow> msg option \<Rightarrow> msg option \<Rightarrow> msg option res" where
  "Merge sc mp fn tn from to = (case (from, to) of
      (Some x, Some y) \<Rightarrow> bindR (mergeMessage sc mp fn tn x y) (\<lambda>z. Ok (Some z)) | _ \<Rightarrow> Ok to)"

lemmas copy_merge_simps [simp del] = copyMessage.simps copyField.simps copyValue.simps copyList.simps
  copyMap.simps mergeMessage.simps mergeField.simps mergeEntry.simps mergeMap.simps

end
