(* ===== verification/MapperProofs.thy ===== *)
theory MapperProofs
  imports Mapper
begin

text \<open>
  What the mapper keeps and what it copies: the fields of the target that the mapper ignores, or that the
  source does not have, are not touched; and a public object that is copied to the private representation
  and back is the object itself.
\<close>

section \<open>The fields that the mapper does not touch\<close>

text \<open>A field of the source that goes to no field of the target.\<close>

definition skipped :: "schema \<Rightarrow> mapper \<Rightarrow> string \<Rightarrow> field \<Rightarrow> bool" where
  "skipped sc mp tn f \<longleftrightarrow> shouldIgnore mp f \<or>
     (case ByName (sc tn) (fd_name f) of None \<Rightarrow> True | Some g \<Rightarrow> shouldIgnore mp g)"

lemma bindR_Ok_E: "bindR r k = Ok y \<Longrightarrow> (\<And>x. r = Ok x \<Longrightarrow> k x = Ok y \<Longrightarrow> P) \<Longrightarrow> P"
  by (cases r) auto

lemma copyField_other:
  "copyField sc mp f g v to = Ok to' \<Longrightarrow> n \<noteq> fd_name g \<Longrightarrow> fmlookup to' n = fmlookup to n"
  by (auto simp: copyField.simps mPut_other mSet_other
      split: cardinality.splits kind.splits pvalue.splits elim!: bindR_Ok_E)

lemma mergeField_other:
  "mergeField sc mp f g v to = Ok to' \<Longrightarrow> n \<noteq> fd_name g \<Longrightarrow> fmlookup to' n = fmlookup to n"
  by (auto simp: mergeField.simps mPut_other mSet_other
      split: cardinality.splits kind.splits pvalue.splits elim!: bindR_Ok_E)

lemma copyFields_other:
  "copyFields sc mp fs tn from to = Ok to' \<Longrightarrow> \<forall>f\<in>set fs. fd_name f = n \<longrightarrow> skipped sc mp tn f \<Longrightarrow>
   fmlookup to' n = fmlookup to n"
proof (induction fs arbitrary: to)
  case (Cons f fs)
  obtain to1 where step: "(if shouldIgnore mp f then Ok to
      else case ByName (sc tn) (fd_name f) of
        None \<Rightarrow> if strict mp then Err (missing_field tn f) else Ok to
      | Some g \<Rightarrow> if shouldIgnore mp g then Ok to
          else case fmlookup from (fd_name f) of
            None \<Rightarrow> Ok (mClear g to)
          | Some v \<Rightarrow> copyField sc mp f g v to) = Ok to1" "copyFields sc mp fs tn from to1 = Ok to'"
    using Cons.prems(1) by (auto elim: bindR_Ok_E)
  have "fmlookup to1 n = fmlookup to n"
  proof (cases "fd_name f = n")
    case True
    then have "skipped sc mp tn f" using Cons.prems(2) by simp
    then show ?thesis using step(1) by (auto simp: skipped_def split: if_splits option.splits)
  next
    case False
    have "n \<noteq> fd_name g" if "ByName (sc tn) (fd_name f) = Some g" for g
      using that ByName_Some False by metis
    then show ?thesis using step(1) copyField_other [of sc mp f _ _ to to1 n]
      by (auto simp: mClear_other split: if_splits option.splits)
  qed
  then show ?case using Cons.IH [OF step(2)] Cons.prems(2) by simp
qed simp

lemma mergeFields_other:
  "mergeFields sc mp fs tn from to = Ok to' \<Longrightarrow> \<forall>f\<in>set fs. fd_name f = n \<longrightarrow> skipped sc mp tn f \<Longrightarrow>
   fmlookup to' n = fmlookup to n"
proof (induction fs arbitrary: to)
  case (Cons f fs)
  obtain to1 where step: "(if shouldIgnore mp f then Ok to
      else case ByName (sc tn) (fd_name f) of
        None \<Rightarrow> if strict mp then Err (missing_field tn f) else Ok to
      | Some g \<Rightarrow> if shouldIgnore mp g then Ok to
          else case fmlookup from (fd_name f) of
            None \<Rightarrow> Ok to
          | Some v \<Rightarrow> mergeField sc mp f g v to) = Ok to1" "mergeFields sc mp fs tn from to1 = Ok to'"
    using Cons.prems(1) by (auto elim: bindR_Ok_E)
  have "fmlookup to1 n = fmlookup to n"
  proof (cases "fd_name f = n")
    case True
    then have "skipped sc mp tn f" using Cons.prems(2) by simp
    then show ?thesis using step(1) by (auto simp: skipped_def split: if_splits option.splits)
  next
    case False
    have "n \<noteq> fd_name g" if "ByName (sc tn) (fd_name f) = Some g" for g
      using that ByName_Some False by metis
    then show ?thesis using step(1) mergeField_other [of sc mp f _ _ to to1 n]
      by (auto split: if_splits option.splits)
  qed
  then show ?case using Cons.IH [OF step(2)] Cons.prems(2) by simp
qed simp

text \<open>
  C22. Copying and merging leave a field of the target as it is when every field of the source with its
  name is ignored or has no counterpart: what the public servers ignore on input, like the status, never
  reaches the private object.
\<close>

theorem mapper_keeps_other_fields:
  assumes "Copy sc mp fn tn (Some from) (Some to) = Ok (Some to') \<or> Merge sc mp fn tn (Some from) (Some to) = Ok (Some to')"
    "\<forall>f\<in>set (sc fn). fd_name f = n \<longrightarrow> skipped sc mp tn f"
  shows "fmlookup to' n = fmlookup to n"
  using assms copyFields_other mergeFields_other
  by (fastforce simp: Copy_def Merge_def copyMessage.simps mergeMessage.simps elim!: bindR_Ok_E)

section \<open>Well-formed messages\<close>

text \<open>The messages that the generated types can hold: known fields, values of their types, and no field
  without presence that has its default value.\<close>

inductive wf :: "schema \<Rightarrow> kind \<Rightarrow> cardinality \<Rightarrow> pvalue \<Rightarrow> bool" for sc where
  wf_scalar: "kind_ok k v \<Longrightarrow> \<forall>n. k \<noteq> MessageKind n \<Longrightarrow> wf sc k Singular v"
| wf_message: "\<forall>k v. fmlookup m k = Some v \<longrightarrow> (\<exists>f\<in>set (sc n). fd_name f = k \<and>
      wf sc (fd_kind f) (fd_card f) v \<and> \<not> (implicit_presence f \<and> v = field_default f)) \<Longrightarrow>
    wf sc (MessageKind n) Singular (VMsg m)"
| wf_list: "\<forall>x\<in>set xs. wf sc k Singular x \<Longrightarrow> wf sc k IsList (VList xs)"
| wf_map: "\<forall>key v. fmlookup m key = Some v \<longrightarrow> wf sc k Singular v \<Longrightarrow> wf sc k IsMap (VMap m)"

text \<open>
  \<open>(a, x, y)\<close> in \<open>T\<close>: the type \<open>x\<close> and the type \<open>y\<close> have all the fields of the type \<open>a\<close>, with the same types, and
  the mapper ignores none of them.
\<close>

definition kinds_match :: "(string \<times> string \<times> string) set \<Rightarrow> kind \<Rightarrow> kind \<Rightarrow> kind \<Rightarrow> bool" where
  "kinds_match T k kx ky \<longleftrightarrow> (case k of
      MessageKind a \<Rightarrow> \<exists>x y. kx = MessageKind x \<and> ky = MessageKind y \<and> (a, x, y) \<in> T
    | EnumKind _ \<Rightarrow> \<exists>x y. kx = EnumKind x \<and> ky = EnumKind y
    | _ \<Rightarrow> kx = k \<and> ky = k)"

definition fields_match :: "mapper \<Rightarrow> (string \<times> string \<times> string) set \<Rightarrow> field \<Rightarrow> field \<Rightarrow> field \<Rightarrow> bool" where
  "fields_match mp T f fx fy \<longleftrightarrow> \<not> shouldIgnore mp fx \<and> \<not> shouldIgnore mp fy \<and> fd_card fx = fd_card f
     \<and> fd_card fy = fd_card f \<and> fd_presence fy = fd_presence f \<and> fd_name fy = fd_name f
     \<and> kinds_match T (fd_kind f) (fd_kind fx) (fd_kind fy)"

definition types_match :: "schema \<Rightarrow> mapper \<Rightarrow> (string \<times> string \<times> string) set \<Rightarrow> bool" where
  "types_match sc mp T \<longleftrightarrow> \<not> strict mp \<and> (\<forall>(a, x, y)\<in>T. distinct (map fd_name (sc x)) \<and>
     (\<forall>f\<in>set (sc a). \<exists>fx fy. fx \<in> set (sc x) \<and> fd_name fx = fd_name f \<and> ByName (sc y) (fd_name f) = Some fy
        \<and> fields_match mp T f fx fy))"

lemma implicit_match:
  assumes "fields_match mp T f fx fy"
  shows "implicit_presence fy = implicit_presence f" "field_default fy = field_default f"
  using assms
  by (auto simp: fields_match_def kinds_match_def implicit_presence_def field_default_def
      split: cardinality.splits kind.splits)

lemma put_match:
  assumes "fields_match mp T f fx fy" "\<not> (implicit_presence f \<and> v = field_default f)"
  shows "mPut fy v to = fmupd (fd_name f) v to"
  using assms implicit_match [OF assms(1)] by (auto simp: mPut_def fields_match_def)

lemma map_fst_keys_of: "keys_of m = map fst (map (\<lambda>k. (k, the (fmlookup m k))) (keys_of m))"
  by (simp add: o_def)

lemma with_entries_keys:
  assumes "es = map (\<lambda>k. (k, the (fmlookup m k))) (keys_of m)"
  shows "with_entries fmempty es = m"
proof (rule fmap_ext)
  fix k
  have "map_of es k = fmlookup m k"
  proof (cases "fmlookup m k")
    case None
    then have "k \<notin> set (keys_of m)" by simp
    then show ?thesis using None assms by (simp add: map_of_map_keys map_of_eq_None_iff image_iff)
  next
    case (Some v)
    then have "k \<in> set (keys_of m)" by simp
    then show ?thesis using Some assms by (induction "keys_of m" arbitrary: m) (auto simp: map_of_map_restrict)
  qed
  then show "fmlookup (with_entries fmempty es) k = fmlookup m k"
    by (simp add: with_entries_def fmlookup_of_list)
qed

section \<open>Copies of a message\<close>

text \<open>A copy of a value into a field of a target without that field.\<close>

definition copies :: "schema \<Rightarrow> mapper \<Rightarrow> field \<Rightarrow> field \<Rightarrow> cardinality \<Rightarrow> pvalue \<Rightarrow> bool" where
  "copies sc mp fx fy c v \<longleftrightarrow> (case c of
      Singular \<Rightarrow> copyValue sc mp fx fy v = Ok v
    | IsList \<Rightarrow> (\<exists>xs. v = VList xs \<and> copyList sc mp fx fy xs = Ok xs)
    | IsMap \<Rightarrow> (\<exists>m. v = VMap m \<and> copyMap sc mp fx fy m fmempty = Ok m))"

lemma element_Ok: "element g v = Ok w \<longleftrightarrow> w = v \<and> kind_ok (fd_kind g) v"
  by (auto simp: element_def)

lemma copyField_copies:
  assumes "copies sc mp fx fy (fd_card fx) v" "fd_card fy = fd_card fx" "fmlookup to (fd_name fy) = None"
  shows "copyField sc mp fx fy v to = Ok (mPut fy v to)"
proof (cases "fd_card fx")
  case IsList
  then show ?thesis using assms
    by (auto simp: copies_def copyField.simps mGet_def field_default_def)
next
  case IsMap
  then show ?thesis using assms
    by (auto simp: copies_def copyField.simps mGet_def field_default_def)
next
  case Singular
  have v: "copyValue sc mp fx fy v = Ok v" using assms(1) Singular by (simp add: copies_def)
  show ?thesis
  proof (cases "fd_kind fx")
    case (MessageKind n)
    then obtain n' x where "fd_kind fy = MessageKind n'" "v = VMsg x" "copyMessage sc mp n n' x fmempty = Ok x"
      using v by (auto simp: copyValue.simps message_kind_def split: kind.splits pvalue.splits elim!: bindR_Ok_E)
    then show ?thesis using Singular MessageKind assms(2,3)
      by (simp add: copyField.simps message_kind_def mGet_def field_default_def)
  qed (use v Singular assms(2) in \<open>auto simp: copyField.simps copyValue.simps element_Ok mSet_def field_ok_def
      elim!: bindR_Ok_E\<close>)
qed

text \<open>The step of \<open>copyFields\<close> for one field of the source.\<close>

lemma copyFields_copies:
  assumes "\<not> strict mp" "distinct (map fd_name fs)"
    "\<forall>f\<in>set fs. fmlookup to (fd_name f) = None"
    "\<forall>fx\<in>set fs. \<forall>v. fmlookup m (fd_name fx) = Some v \<longrightarrow> \<not> shouldIgnore mp fx \<and>
       (\<exists>fy. ByName (sc y) (fd_name fx) = Some fy \<and> \<not> shouldIgnore mp fy \<and>
         (\<forall>to. fmlookup to (fd_name fx) = None \<longrightarrow> copyField sc mp fx fy v to = Ok (fmupd (fd_name fx) v to)))"
  shows "copyFields sc mp fs y m to = Ok (to ++\<^sub>f fmrestrict_set (fd_name ` set fs) m)"
  using assms(2-4)
proof (induction fs arbitrary: to)
  case (Cons fx fs)
  show ?case
  proof (cases "fmlookup m (fd_name fx)")
    case None
    have "mClear g to = to" if "ByName (sc y) (fd_name fx) = Some g" for g
      using ByName_Some [OF that] Cons.prems(2) by (intro fmap_ext) (simp add: mClear_def)
    then have "copyFields sc mp (fx # fs) y m to = copyFields sc mp fs y m to"
      using None assms(1) by (auto split: option.splits)
    also have "\<dots> = Ok (to ++\<^sub>f fmrestrict_set (fd_name ` set fs) m)"
      using Cons by simp
    also have "fmrestrict_set (fd_name ` set fs) m = fmrestrict_set (fd_name ` set (fx # fs)) m"
      using None by (intro fmap_ext) auto
    finally show ?thesis .
  next
    case (Some v)
    then obtain fy where fy: "\<not> shouldIgnore mp fx" "ByName (sc y) (fd_name fx) = Some fy" "\<not> shouldIgnore mp fy"
      "copyField sc mp fx fy v to = Ok (fmupd (fd_name fx) v to)"
      using Cons.prems(2,3) by fastforce
    then have "copyFields sc mp (fx # fs) y m to = copyFields sc mp fs y m (fmupd (fd_name fx) v to)"
      using Some by simp
    also have "\<dots> = Ok (fmupd (fd_name fx) v to ++\<^sub>f fmrestrict_set (fd_name ` set fs) m)"
      using Cons.prems by (intro Cons.IH) auto
    also have "fmupd (fd_name fx) v to ++\<^sub>f fmrestrict_set (fd_name ` set fs) m
        = to ++\<^sub>f fmrestrict_set (fd_name ` set (fx # fs)) m"
      using Some Cons.prems(1) by (intro fmap_ext) (auto simp: fmlookup_dom_iff)
    finally show ?thesis .
  qed
qed (auto intro: fmap_ext)

lemma wf_copies:
  assumes T: "types_match sc mp T"
  shows "wf sc k c v \<Longrightarrow> kinds_match T k (fd_kind fx) (fd_kind fy) \<Longrightarrow> copies sc mp fx fy c v"
proof (induction arbitrary: fx fy rule: wf.induct)
  case (wf_scalar k v)
  then show ?case
    by (cases k; cases v) (auto simp: copies_def copyValue.simps kinds_match_def element_def cloneBytes_def)
next
  case (wf_message m n)
  obtain x y where xy: "fd_kind fx = MessageKind x" "fd_kind fy = MessageKind y" "(n, x, y) \<in> T"
    using wf_message.prems by (auto simp: kinds_match_def)
  have distinct: "distinct (map fd_name (sc x))" and strict: "\<not> strict mp"
    using T xy(3) by (auto simp: types_match_def)
  have step: "\<not> shouldIgnore mp gx \<and> (\<exists>gy. ByName (sc y) (fd_name gx) = Some gy \<and> \<not> shouldIgnore mp gy \<and>
      (\<forall>to. fmlookup to (fd_name gx) = None \<longrightarrow> copyField sc mp gx gy v to = Ok (fmupd (fd_name gx) v to)))"
    if gx: "gx \<in> set (sc x)" "fmlookup m (fd_name gx) = Some v" for gx v
  proof -
    obtain f where f: "f \<in> set (sc n)" "fd_name f = fd_name gx" "\<not> (implicit_presence f \<and> v = field_default f)"
      and IH: "\<And>fx fy. kinds_match T (fd_kind f) (fd_kind fx) (fd_kind fy) \<Longrightarrow> copies sc mp fx fy (fd_card f) v"
      using wf_message.IH gx(2) by blast
    obtain hx gy where h: "hx \<in> set (sc x)" "fd_name hx = fd_name f" "ByName (sc y) (fd_name f) = Some gy"
      "fields_match mp T f hx gy" using T xy(3) f(1) by (fastforce simp: types_match_def)
    have "hx = gx" using distinct gx(1) h(1,2) f(2) by (metis distinct_map inj_onD)
    then have m: "fields_match mp T f gx gy" using h(4) by simp
    then have "copyField sc mp gx gy v to = Ok (fmupd (fd_name gx) v to)" if "fmlookup to (fd_name gx) = None" for to
      using copyField_copies [of sc mp gx gy v to] IH [of gx gy] that put_match [OF m f(3)] f(2)
      by (simp add: fields_match_def)
    then show ?thesis using m h(3) f(2) by (auto simp: fields_match_def)
  qed
  have "fmrestrict_set (fd_name ` set (sc x)) m = m"
  proof (rule fmap_ext)
    fix k
    have "k \<in> fd_name ` set (sc x)" if lk: "fmlookup m k = Some v" for v
    proof -
      obtain f where "f \<in> set (sc n)" "fd_name f = k" using wf_message.IH lk by blast
      then obtain gx where "gx \<in> set (sc x)" "fd_name gx = k" using T xy(3) by (fastforce simp: types_match_def)
      then show ?thesis by blast
    qed
    then show "fmlookup (fmrestrict_set (fd_name ` set (sc x)) m) k = fmlookup m k"
      by (cases "fmlookup m k") auto
  qed
  then have "copyMessage sc mp x y m fmempty = Ok m"
    using copyFields_copies [OF strict distinct, where to = fmempty and m = m and y = y] step by (simp add: copyMessage.simps)
  then show ?case using xy by (simp add: copies_def copyValue.simps message_kind_def)
next
  case (wf_list xs k)
  then have "copyValue sc mp fx fy x = Ok x" if "x \<in> set xs" for x
    using that by (auto simp: copies_def)
  then show ?case using mapR_all_Ok [of xs "copyValue sc mp fx fy" "\<lambda>x. x"]
    by (simp add: copies_def copyList.simps)
next
  case (wf_map m k)
  have "copyValue sc mp fx fy v = Ok v" if "fmlookup m key = Some v" for key v
    using wf_map that by (auto simp: copies_def)
  then have "mapR (\<lambda>k. case fmlookup m k of None \<Rightarrow> Panic ''type mismatch''
        | Some v \<Rightarrow> bindR (copyValue sc mp fx fy v) (\<lambda>y. Ok (k, y))) (keys_of m)
      = Ok (map (\<lambda>k. (k, the (fmlookup m k))) (keys_of m))"
    by (intro mapR_all_Ok) auto
  then show ?case using with_entries_keys [OF refl] by (simp add: copies_def copyMap.simps)
qed

lemma copy_identity:
  assumes "types_match sc mp T" "(a, x, y) \<in> T" "wf sc (MessageKind a) Singular (VMsg m)"
  shows "copyMessage sc mp x y m fmempty = Ok m"
proof -
  define g where "g n = \<lparr>fd_name = [], fd_full = [], fd_kind = MessageKind n, fd_card = Singular, fd_presence = True\<rparr>" for n
  have "copies sc mp (g x) (g y) Singular (VMsg m)"
    by (rule wf_copies [OF assms(1,3)]) (use assms(2) in \<open>auto simp: kinds_match_def g_def\<close>)
  then show ?thesis
    by (auto simp: copies_def copyValue.simps g_def message_kind_def elim: bindR_Ok_E)
qed


section \<open>An example and an exception\<close>

text \<open>
  The public cluster has an identifier and a map of node sets, the private one also a hub; the types of
  the node sets are the same.
\<close>

definition fld :: "string \<Rightarrow> kind \<Rightarrow> cardinality \<Rightarrow> field" where
  "fld n k c = \<lparr>fd_name = n, fd_full = n, fd_kind = k, fd_card = c, fd_presence = False\<rparr>"

definition mapper_schema :: schema where
  "mapper_schema n = (
     if n = ''Cluster'' then [fld ''id'' StringKind Singular, fld ''node_sets'' (MessageKind ''NodeSet'') IsMap]
     else if n = ''PrivateCluster'' then [fld ''id'' StringKind Singular, fld ''hub'' StringKind Singular,
       fld ''node_sets'' (MessageKind ''NodeSet'') IsMap]
     else [fld ''size'' Int32Kind Singular])"

definition plain_mapper :: mapper where
  "plain_mapper = \<lparr>strict = False, ignoredFieldNames = [], ignoredFieldFullNames = []\<rparr>"

lemma mapper_schema_simps:
  "mapper_schema ''Cluster'' = [fld ''id'' StringKind Singular, fld ''node_sets'' (MessageKind ''NodeSet'') IsMap]"
  "mapper_schema ''PrivateCluster'' = [fld ''id'' StringKind Singular, fld ''hub'' StringKind Singular,
     fld ''node_sets'' (MessageKind ''NodeSet'') IsMap]"
  "mapper_schema ''NodeSet'' = [fld ''size'' Int32Kind Singular]"
  by (simp_all add: mapper_schema_def)

lemma fields_match_fld:
  "fields_match plain_mapper T (fld n k c) (fld n k c) (fld n k c) \<longleftrightarrow> kinds_match T k k k"
  by (simp add: fields_match_def fld_def plain_mapper_def shouldIgnore_def)

lemma ByName_fld: "ByName (fld n k c # fs) m = (if n = m then Some (fld n k c) else ByName fs m)"
  by (simp add: ByName_def fld_def)

lemma fld_name [simp]: "fd_name (fld n k c) = n" "fd_kind (fld n k c) = k" "fd_card (fld n k c) = c"
  by (simp_all add: fld_def)

lemma types_match_fld:
  assumes "\<forall>(a, x, y)\<in>T. distinct (map fd_name (mapper_schema x)) \<and>
    (\<forall>f\<in>set (mapper_schema a). f \<in> set (mapper_schema x) \<and> ByName (mapper_schema y) (fd_name f) = Some f
      \<and> fields_match plain_mapper T f f f)"
  shows "types_match mapper_schema plain_mapper T"
  using assms unfolding types_match_def by (fastforce simp: plain_mapper_def)

lemma mapper_schema_match:
  "types_match mapper_schema plain_mapper {(''Cluster'', ''Cluster'', ''PrivateCluster''), (''NodeSet'', ''NodeSet'', ''NodeSet'')}"
  "types_match mapper_schema plain_mapper {(''Cluster'', ''PrivateCluster'', ''Cluster''), (''NodeSet'', ''NodeSet'', ''NodeSet'')}"
  by (rule types_match_fld; simp add: mapper_schema_simps fields_match_fld kinds_match_def ByName_fld)+

definition node_sets_example :: pvalue where
  "node_sets_example = VMap (fmap_of_list [(''compute'', VMsg (fmap_of_list [(''size'', VNum 3)]))])"

definition cluster_example :: msg where
  "cluster_example = fmap_of_list [(''id'', VStr ''123''), (''node_sets'', node_sets_example)]"

lemma fmlookup_single: "fmlookup (fmap_of_list [(a, x)]) k = Some v \<longleftrightarrow> k = a \<and> v = x"
  by (auto simp: fmlookup_of_list)

lemma node_sets_example_wf: "wf mapper_schema (MessageKind ''NodeSet'') IsMap node_sets_example"
proof -
  have "wf mapper_schema Int32Kind Singular (VNum 3)" by (rule wf_scalar) simp_all
  then have "wf mapper_schema (MessageKind ''NodeSet'') Singular (VMsg (fmap_of_list [(''size'', VNum 3)]))"
    by (intro wf_message) (simp add: mapper_schema_def fld_def fmlookup_single field_default_def)
  then show ?thesis unfolding node_sets_example_def
    by (intro wf_map) (simp add: fmlookup_single)
qed

lemma node_sets_example_not_empty: "node_sets_example \<noteq> VMap fmempty"
  unfolding node_sets_example_def
  by (metis fmempty_lookup fmap_of_list_simps(2) fmupd_lookup option.distinct(1) pvalue.inject(10))

lemma cluster_example_wf: "wf mapper_schema (MessageKind ''Cluster'') Singular (VMsg cluster_example)"
proof (rule wf_message, intro allI impI)
  fix k v assume "fmlookup cluster_example k = Some v"
  then consider "k = ''id''" "v = VStr ''123''" | "k = ''node_sets''" "v = node_sets_example"
    by (auto simp: cluster_example_def fmlookup_of_list split: if_splits)
  then show "\<exists>f\<in>set (mapper_schema ''Cluster''). fd_name f = k \<and> wf mapper_schema (fd_kind f) (fd_card f) v
      \<and> \<not> (implicit_presence f \<and> v = field_default f)"
  proof cases
    case 1
    then show ?thesis
      by (simp add: mapper_schema_def fld_def wf_scalar field_default_def)
  next
    case 2
    then show ?thesis using node_sets_example_wf node_sets_example_not_empty
      by (simp add: mapper_schema_def fld_def field_default_def)
  qed
qed


theorem mapper_keeps_other_fields_witness:
  "\<exists>m. Copy mapper_schema plain_mapper ''Cluster'' ''PrivateCluster'' (Some fmempty)
      (Some (fmap_of_list [(''hub'', VStr ''h'')])) = Ok (Some m) \<and> fmlookup m ''hub'' = Some (VStr ''h'')"
proof -
  have "\<exists>m. Copy mapper_schema plain_mapper ''Cluster'' ''PrivateCluster'' (Some fmempty)
      (Some (fmap_of_list [(''hub'', VStr ''h'')])) = Ok (Some m)"
    by (simp add: Copy_def copyMessage.simps mapper_schema_def fld_def shouldIgnore_def plain_mapper_def ByName_def)
  then obtain m where m: "Copy mapper_schema plain_mapper ''Cluster'' ''PrivateCluster'' (Some fmempty)
      (Some (fmap_of_list [(''hub'', VStr ''h'')])) = Ok (Some m)" by blast
  have "fmlookup m ''hub'' = fmlookup (fmap_of_list [(''hub'', VStr ''h'')]) ''hub''"
    by (rule mapper_keeps_other_fields [OF disjI1 [OF m]]) (simp add: mapper_schema_def fld_def)
  then show ?thesis using m by simp
qed

lemma mapR_keys:
  "mapR F ks = Ok es \<Longrightarrow> (\<And>k y. F k = Ok y \<Longrightarrow> fst y = k) \<Longrightarrow> map fst es = ks"
  by (induction ks arbitrary: es) (auto elim!: bindR_Ok_E)

text \<open>
  Copy truncates the lists of the target and clears the fields that the source does not have, but it
  keeps the entries of a populated map: a key of the target that the source does not have survives the
  copy, so a copy of a cluster without one of the node sets does not remove it.
\<close>

theorem copy_keeps_stale_entries:
  assumes "copyMap sc mp f g m old = Ok m'" "fmlookup m k = None"
  shows "fmlookup m' k = fmlookup old k"
proof -
  obtain es where es: "mapR (\<lambda>k. case fmlookup m k of None \<Rightarrow> Panic ''type mismatch''
      | Some v \<Rightarrow> bindR (copyValue sc mp f g v) (\<lambda>y. Ok (k, y))) (keys_of m) = Ok es"
    "m' = with_entries old es"
    using assms(1) by (auto simp: copyMap.simps elim: bindR_Ok_E)
  have "map fst es = keys_of m"
    by (rule mapR_keys [OF es(1)]) (auto split: option.splits elim: bindR_Ok_E)
  then have "fst ` set es = set (keys_of m)" by (metis set_map)
  then have "k \<notin> fst ` set es" using assms(2) by auto
  then show ?thesis using es(2)
    by (auto simp: with_entries_def fset_of_list.rep_eq)
qed

text \<open>A copy of one node set over a cluster with another one.\<close>

lemma example_size_copied:
  "copyValue mapper_schema plain_mapper (fld ''node_sets'' (MessageKind ''NodeSet'') IsMap)
     (fld ''node_sets'' (MessageKind ''NodeSet'') IsMap) (VMsg fmempty) = Ok (VMsg fmempty)"
  by (simp add: copy_merge_simps fld_def message_kind_def mapper_schema_simps shouldIgnore_def plain_mapper_def ByName_def
      mClear_def)

theorem copy_keeps_stale_entries_witness:
  "\<exists>m'. copyMap mapper_schema plain_mapper (fld ''node_sets'' (MessageKind ''NodeSet'') IsMap)
      (fld ''node_sets'' (MessageKind ''NodeSet'') IsMap) (fmupd ''compute'' (VMsg fmempty) fmempty)
      (fmupd ''gpu'' (VMsg fmempty) fmempty) = Ok m' \<and> fmlookup m' ''gpu'' = Some (VMsg fmempty)"
proof -
  let ?f = "fld ''node_sets'' (MessageKind ''NodeSet'') IsMap"
  let ?m = "fmupd ''compute'' (VMsg fmempty) fmempty" and ?old = "fmupd ''gpu'' (VMsg fmempty) fmempty"
  have "keys_of ?m = [''compute'']" by (simp add: keys_of_def sorted_list_of_fset.rep_eq)
  then have c: "copyMap mapper_schema plain_mapper ?f ?f ?m ?old = Ok (with_entries ?old [(''compute'', VMsg fmempty)])"
    by (simp add: copyMap.simps example_size_copied)
  have "fmlookup ?m ''gpu'' = None" by simp
  from copy_keeps_stale_entries [OF c this] c show ?thesis by simp
qed

end
