(* ===== verification/TemplateParams.thy ===== *)
theory TemplateParams
  imports Protobuf
begin

text \<open>
  Parameters of templates, \<open>internal/utils/template_parameters.go\<close>: their validation against the
  definitions of a template and the application of defaults. Templates and values of type \<open>Any\<close> are
  messages. The order in which Go visits a map is not specified; the model visits the keys in their order,
  which only matters for which of several errors is reported. The formatting of series of words belongs
  to the humanize library and is an argument, as are the conversions of \<open>Any\<close> values.
\<close>

section \<open>Accessors\<close>

definition GetMap :: "string \<Rightarrow> msg \<Rightarrow> (string, pvalue) fmap" where
  "GetMap n m = (case fmlookup m n of Some (VMap x) \<Rightarrow> x | _ \<Rightarrow> fmempty)"

definition SetMap :: "string \<Rightarrow> (string, pvalue) fmap \<Rightarrow> msg \<Rightarrow> msg" where
  "SetMap n x m = (if x = fmempty then fmdrop n m else fmupd n (VMap x) m)"

fun messages_of :: "pvalue list \<Rightarrow> msg list" where
  "messages_of [] = []"
| "messages_of (VMsg m # vs) = m # messages_of vs"
| "messages_of (_ # vs) = messages_of vs"

definition GetMessages :: "string \<Rightarrow> msg \<Rightarrow> msg list" where
  "GetMessages n m = (case fmlookup m n of Some (VList vs) \<Rightarrow> messages_of vs | _ \<Rightarrow> [])"

definition GetBool :: "string \<Rightarrow> msg \<Rightarrow> bool" where
  "GetBool n m = (case fmlookup m n of Some (VBool b) \<Rightarrow> b | _ \<Rightarrow> False)"

definition GetNum :: "string \<Rightarrow> msg \<Rightarrow> int" where
  "GetNum n m = (case fmlookup m n of Some (VNum i) \<Rightarrow> i | _ \<Rightarrow> 0)"

definition GetEnum :: "string \<Rightarrow> msg \<Rightarrow> int" where
  "GetEnum n m = (case fmlookup m n of Some (VEnum i) \<Rightarrow> i | _ \<Rightarrow> 0)"

text \<open>The message at a key of a map of messages; a nil message is \<open>None\<close>.\<close>

definition entry :: "(string, pvalue) fmap \<Rightarrow> string \<Rightarrow> msg option" where
  "entry m k = (case fmlookup m k of Some (VMsg x) \<Rightarrow> Some x | _ \<Rightarrow> None)"

definition map_keys :: "(string, pvalue) fmap \<Rightarrow> string list" where
  "map_keys m = sorted_list_of_fset (fmdom m)"

lemma set_map_keys [simp]: "set (map_keys m) = {k. fmlookup m k \<noteq> None}"
  by (auto simp: map_keys_def fmlookup_dom_iff)

lemma GetMap_SetMap [simp]: "GetMap n (SetMap n x m) = x"
  by (simp add: GetMap_def SetMap_def)

section \<open>Definitions of parameters\<close>

record parameter_def =
  pd_name :: string
  pd_required :: bool
  pd_type :: string
  pd_default :: "msg option"

text \<open>The adapters of both kinds of templates give the parameters of the message.\<close>

definition GetParameters :: "msg \<Rightarrow> parameter_def list" where
  "GetParameters template = map (\<lambda>p. \<lparr>pd_name = GetString ''name'' p, pd_required = GetBool ''required'' p,
     pd_type = GetString ''type'' p, pd_default = GetMessage ''default'' p\<rparr>) (GetMessages ''parameters'' template)"

section \<open>Validation\<close>

definition invalid_argument :: "string \<Rightarrow> 'a res" where
  "invalid_argument text = Err (Status InvalidArgument text)"

definition invalidNames :: "parameter_def list \<Rightarrow> (string, pvalue) fmap \<Rightarrow> string list" where
  "invalidNames ds provided = filter (\<lambda>n. n \<notin> pd_name ` set ds) (map_keys provided)"

definition unknown_parameters ::
  "(string list \<Rightarrow> string) \<Rightarrow> string \<Rightarrow> parameter_def list \<Rightarrow> string list \<Rightarrow> string" where
  "unknown_parameters series tid ds names =
     (let valid = series (map quoted (sort (map pd_name ds))) in
      if length names = 1 then ''template parameter '' @ quoted (hd names) @ '' doesn't exist, valid values ''
        @ ''for template '' @ quoted tid @ '' are '' @ valid
      else ''template parameters '' @ series (map quoted (sort names)) @ '' don't exist, valid values ''
        @ ''for template '' @ quoted tid @ '' are '' @ valid)"

text \<open>The loops over the definitions and over the provided values stop at the first error.\<close>

definition checkMandatory :: "string \<Rightarrow> parameter_def list \<Rightarrow> (string, pvalue) fmap \<Rightarrow> unit list res" where
  "checkMandatory tid ds provided = mapR (\<lambda>d.
     if pd_required d \<and> entry provided (pd_name d) = None
     then invalid_argument (''parameter '' @ quoted (pd_name d) @ '' of template '' @ quoted tid @ '' is mandatory'')
     else Ok ()) ds"

definition checkType :: "string \<Rightarrow> string \<Rightarrow> msg \<Rightarrow> parameter_def \<Rightarrow> unit res" where
  "checkType tid n v d = (
     if n = pd_name d \<and> GetString ''type_url'' v \<noteq> pd_type d
     then invalid_argument (''type of parameter '' @ quoted n @ '' of template '' @ quoted tid @ '' should be ''
       @ quoted (pd_type d) @ '', but it is '' @ quoted (GetString ''type_url'' v))
     else Ok ())"

definition checkTypes :: "string \<Rightarrow> parameter_def list \<Rightarrow> (string, pvalue) fmap \<Rightarrow> unit list list res" where
  "checkTypes tid ds provided =
     mapR (\<lambda>n. mapR (checkType tid n (case entry provided n of Some v \<Rightarrow> v | None \<Rightarrow> fmempty)) ds)
       (map_keys provided)"

definition ValidateTemplateParameters ::
  "(string list \<Rightarrow> string) \<Rightarrow> msg \<Rightarrow> (string, pvalue) fmap \<Rightarrow> unit res" where
  "ValidateTemplateParameters series template provided =
    (let ds = GetParameters template; tid = GetString ''id'' template; bad = invalidNames ds provided in
     if bad \<noteq> [] then invalid_argument (unknown_parameters series tid ds bad)
     else bindR (checkMandatory tid ds provided) (\<lambda>_.
       bindR (checkTypes tid ds provided) (\<lambda>_. Ok ())))"

section \<open>Defaults\<close>

fun processDefinitions ::
  "(string, pvalue) fmap \<Rightarrow> parameter_def list \<Rightarrow> (string, pvalue) fmap \<Rightarrow> (string, pvalue) fmap" where
  "processDefinitions provided [] actual = actual"
| "processDefinitions provided (d # ds) actual = processDefinitions provided ds
     (case entry provided (pd_name d) of
        Some v \<Rightarrow> fmupd (pd_name d) (VMsg v) actual
      | None \<Rightarrow> (case pd_default d of Some v \<Rightarrow> fmupd (pd_name d) (VMsg v) actual | None \<Rightarrow> actual))"

definition ProcessTemplateParametersWithDefaults ::
  "msg \<Rightarrow> (string, pvalue) fmap \<Rightarrow> (string, pvalue) fmap" where
  "ProcessTemplateParametersWithDefaults template provided =
     processDefinitions provided (GetParameters template) fmempty"

section \<open>JSON\<close>

text \<open>\<open>convert\<close> unmarshals a value and gives its JSON, \<open>marshal\<close> writes the object.\<close>

definition ConvertTemplateParametersToJSON ::
  "(msg \<Rightarrow> 'j res) \<Rightarrow> ((string \<times> 'j) list \<Rightarrow> string res) \<Rightarrow> (string, pvalue) fmap \<Rightarrow> string res" where
  "ConvertTemplateParametersToJSON convert marshal params =
    bindR (mapR (\<lambda>n. case convert (case entry params n of Some v \<Rightarrow> v | None \<Rightarrow> fmempty) of
        Err e \<Rightarrow> Err (Wrap (''failed to convert parameter '' @ quoted n) e)
      | Panic p \<Rightarrow> Panic p
      | Ok j \<Rightarrow> Ok (n, j)) (map_keys params))
    (\<lambda>es. case marshal es of Err e \<Rightarrow> Err (Wrap ''failed to marshal parameters to JSON'' e) | r \<Rightarrow> r)"

text \<open>\<open>convertTemplateParam\<close> with its three calls to the protobuf and JSON libraries.\<close>

definition convertTemplateParam ::
  "(msg \<Rightarrow> 'm res) \<Rightarrow> ('m \<Rightarrow> string res) \<Rightarrow> (string \<Rightarrow> 'j res) \<Rightarrow> msg \<Rightarrow> 'j res" where
  "convertTemplateParam unmarshalNew protojson unmarshal v = (case unmarshalNew v of
      Err e \<Rightarrow> Err (Wrap ''failed to unmarshal parameter'' e)
    | Panic p \<Rightarrow> Panic p
    | Ok m \<Rightarrow> (case protojson m of
        Err e \<Rightarrow> Err (Wrap ''failed to marshal parameter to JSON'' e)
      | Panic p \<Rightarrow> Panic p
      | Ok bytes \<Rightarrow> (case unmarshal bytes of
          Err e \<Rightarrow> Err (Wrap ''failed to unmarshal parameter from JSON'' e) | r \<Rightarrow> r)))"

section \<open>What validation accepts\<close>

text \<open>The values of a map of messages that was decoded from the wire are never nil.\<close>

definition any_map :: "(string, pvalue) fmap \<Rightarrow> bool" where
  "any_map m \<longleftrightarrow> (\<forall>k. fmlookup m k \<noteq> None \<longrightarrow> entry m k \<noteq> None)"

definition valid_parameters :: "parameter_def list \<Rightarrow> (string, pvalue) fmap \<Rightarrow> bool" where
  "valid_parameters ds m \<longleftrightarrow>
     (\<forall>k. fmlookup m k \<noteq> None \<longrightarrow> k \<in> pd_name ` set ds) \<and>
     (\<forall>d\<in>set ds. pd_required d \<longrightarrow> entry m (pd_name d) \<noteq> None) \<and>
     (\<forall>d\<in>set ds. \<forall>v. entry m (pd_name d) = Some v \<longrightarrow> GetString ''type_url'' v = pd_type d)"

lemma mapR_unit_Ok: "(\<exists>us. mapR f xs = Ok us) \<longleftrightarrow> (\<forall>x\<in>set xs. \<exists>u. f x = Ok u)"
  by (induction xs) (auto simp: bindR_eq_Ok)

lemma mapR_no_Panic: "\<forall>x\<in>set xs. \<not> is_Panic (f x) \<Longrightarrow> \<not> is_Panic (mapR f xs)"
proof (induction xs)
  case (Cons x xs)
  then show ?case by (cases "f x"; cases "mapR f xs") auto
qed simp

lemma entry_Some: "entry m k = Some v \<Longrightarrow> fmlookup m k = Some (VMsg v)"
  by (auto simp: entry_def split: option.splits pvalue.splits)

lemma entry_fmupd [simp]:
  "entry (fmupd k (VMsg v) m) n = (if n = k then Some v else entry m n)"
  by (simp add: entry_def)

lemma validation_Ok:
  assumes "any_map provided"
  shows "ValidateTemplateParameters series template provided = Ok ()
    \<longleftrightarrow> valid_parameters (GetParameters template) provided"
proof -
  let ?ds = "GetParameters template" and ?t = "GetString ''id'' template"
  have known: "invalidNames ?ds provided = [] \<longleftrightarrow> (\<forall>k. fmlookup provided k \<noteq> None \<longrightarrow> k \<in> pd_name ` set ?ds)"
    by (auto simp: invalidNames_def filter_empty_conv)
  have mandatory: "(\<exists>u. checkMandatory ?t ?ds provided = Ok u) \<longleftrightarrow>
      (\<forall>d\<in>set ?ds. pd_required d \<longrightarrow> entry provided (pd_name d) \<noteq> None)"
    by (auto simp: checkMandatory_def mapR_unit_Ok invalid_argument_def)
  have types: "(\<exists>u. checkTypes ?t ?ds provided = Ok u) \<longleftrightarrow>
      (\<forall>d\<in>set ?ds. \<forall>v. entry provided (pd_name d) = Some v \<longrightarrow> GetString ''type_url'' v = pd_type d)"
  proof -
    have "(\<exists>u. checkTypes ?t ?ds provided = Ok u) \<longleftrightarrow>
        (\<forall>n v. entry provided n = Some v \<longrightarrow> (\<forall>d\<in>set ?ds. \<exists>u. checkType ?t n v d = Ok u))"
      using assms unfolding checkTypes_def mapR_unit_Ok any_map_def
      by (fastforce dest: entry_Some simp: mapR_unit_Ok split: option.splits)
    also have "\<dots> \<longleftrightarrow> (\<forall>d\<in>set ?ds. \<forall>v. entry provided (pd_name d) = Some v \<longrightarrow>
        GetString ''type_url'' v = pd_type d)"
      by (auto simp: checkType_def invalid_argument_def)
    finally show ?thesis .
  qed
  show ?thesis unfolding valid_parameters_def known [symmetric] mandatory [symmetric] types [symmetric]
    by (auto simp: ValidateTemplateParameters_def Let_def invalid_argument_def bindR_eq_Ok)
qed

text \<open>
  C24. Validation accepts exactly the values of known parameters, of the type of their definition, with
  no mandatory parameter missing.
\<close>

theorem validation_accepts:
  assumes "any_map provided"
  shows "ValidateTemplateParameters series template provided = Ok ()
    \<longleftrightarrow> valid_parameters (GetParameters template) provided"
  using assms by (rule validation_Ok)

theorem validation_accepts_witness:
  "ValidateTemplateParameters concat
     (fmap_of_list [(''parameters'', VList [VMsg (fmap_of_list [(''name'', VStr ''p''), (''type'', VStr ''t'')])])])
     (fmap_of_list [(''p'', VMsg (fmap_of_list [(''type_url'', VStr ''t'')]))]) = Ok ()"
  by (subst validation_accepts) (auto simp: any_map_def entry_def valid_parameters_def GetParameters_def
      GetMessages_def GetString_def GetBool_def split: if_splits)

section \<open>What the defaults give\<close>

lemma process_other: "k \<notin> pd_name ` set ds \<Longrightarrow>
    fmlookup (processDefinitions provided ds actual) k = fmlookup actual k"
  by (induction ds arbitrary: actual) (auto split: option.splits)

lemma process_messages:
  "\<forall>k. fmlookup actual k = map_option VMsg (entry actual k) \<Longrightarrow>
   fmlookup (processDefinitions provided ds actual) k = map_option VMsg (entry (processDefinitions provided ds actual) k)"
  by (induction ds arbitrary: actual) (auto split: option.splits)

lemma process_entry:
  assumes "distinct (map pd_name ds)" "d \<in> set ds" "entry actual (pd_name d) = None"
  shows "entry (processDefinitions provided ds actual) (pd_name d) =
    (case entry provided (pd_name d) of Some v \<Rightarrow> Some v | None \<Rightarrow> pd_default d)"
  using assms
proof (induction ds arbitrary: actual)
  case (Cons x ds)
  show ?case
  proof (cases "x = d")
    case True
    then have "pd_name d \<notin> pd_name ` set ds" using Cons.prems(1) by auto
    then show ?thesis using True Cons.prems(3) process_other [of "pd_name d" ds provided]
      by (auto simp: entry_def split: option.splits)
  next
    case False
    then have "pd_name x \<noteq> pd_name d" using Cons.prems(1,2) by (auto simp: image_iff)
    then show ?thesis using False Cons by (auto split: option.splits)
  qed
qed simp

text \<open>
  The defaults complete a valid set of parameters: what was provided is kept, every definition with a
  default has a value, the result is valid again if the defaults have the declared types, and applying
  the defaults a second time changes nothing.
\<close>

theorem defaults_complete:
  assumes "any_map provided" "valid_parameters (GetParameters template) provided"
    "distinct (map pd_name (GetParameters template))"
    "\<forall>d\<in>set (GetParameters template). \<forall>v. pd_default d = Some v \<longrightarrow> GetString ''type_url'' v = pd_type d"
  shows "ValidateTemplateParameters series template (ProcessTemplateParametersWithDefaults template provided) = Ok ()
    \<and> (\<forall>k v. entry provided k = Some v \<longrightarrow> entry (ProcessTemplateParametersWithDefaults template provided) k = Some v)
    \<and> (\<forall>d\<in>set (GetParameters template). pd_default d \<noteq> None \<longrightarrow>
        entry (ProcessTemplateParametersWithDefaults template provided) (pd_name d) \<noteq> None)
    \<and> ProcessTemplateParametersWithDefaults template (ProcessTemplateParametersWithDefaults template provided)
      = ProcessTemplateParametersWithDefaults template provided"
proof -
  let ?ds = "GetParameters template"
  let ?P = "ProcessTemplateParametersWithDefaults template"
  have at: "entry (?P m) (pd_name d) = (case entry m (pd_name d) of Some v \<Rightarrow> Some v | None \<Rightarrow> pd_default d)"
    if "d \<in> set ?ds" for m d
    using process_entry [OF assms(3) that, of fmempty]
    by (simp add: ProcessTemplateParametersWithDefaults_def entry_def)
  have other: "fmlookup (?P m) k = None" if "k \<notin> pd_name ` set ?ds" for m k
    using process_other [OF that] by (simp add: ProcessTemplateParametersWithDefaults_def)
  have any: "fmlookup (?P m) k = map_option VMsg (entry (?P m) k)" for m k
    unfolding ProcessTemplateParametersWithDefaults_def by (rule process_messages) (simp add: entry_def)
  have "any_map (?P provided)" using any by (simp add: any_map_def)
  moreover have "valid_parameters ?ds (?P provided)"
    using assms(2,4) at other by (fastforce simp: valid_parameters_def split: option.splits)
  ultimately have 1: "ValidateTemplateParameters series template (?P provided) = Ok ()"
    using validation_Ok by blast
  have 2: "entry (?P provided) k = Some v" if "entry provided k = Some v" for k v
  proof -
    have "k \<in> pd_name ` set ?ds" using assms(2) entry_Some [OF that] by (auto simp: valid_parameters_def)
    then show ?thesis using at that by auto
  qed
  have 3: "?P (?P provided) = ?P provided"
  proof (rule fmap_ext)
    fix k
    have "entry (?P (?P provided)) k = entry (?P provided) k"
      using at other [of k] any [of _ k]
      by (cases "k \<in> pd_name ` set ?ds") (auto split: option.splits)
    then show "fmlookup (?P (?P provided)) k = fmlookup (?P provided) k" by (simp add: any)
  qed
  show ?thesis using 1 2 3 at by (auto split: option.splits)
qed

theorem defaults_complete_witness:
  "\<exists>t. GetParameters t = [\<lparr>pd_name = ''p'', pd_required = False, pd_type = ''t'',
      pd_default = Some (fmap_of_list [(''type_url'', VStr ''t'')])\<rparr>] \<and>
    ValidateTemplateParameters concat t (ProcessTemplateParametersWithDefaults t fmempty) = Ok ()"
proof -
  define tt where "tt = (fmap_of_list [(''parameters'', VList [VMsg (fmap_of_list [(''name'', VStr ''p''), (''type'', VStr ''t''),
      (''default'', VMsg (fmap_of_list [(''type_url'', VStr ''t'')]))])])] :: msg)"
  have t: "GetParameters tt = [\<lparr>pd_name = ''p'', pd_required = False, pd_type = ''t'',
      pd_default = Some (fmap_of_list [(''type_url'', VStr ''t'')])\<rparr>]"
    by (simp add: tt_def GetParameters_def GetMessages_def GetString_def GetBool_def GetMessage_def)
  have "ValidateTemplateParameters concat tt (ProcessTemplateParametersWithDefaults tt fmempty) = Ok ()"
    by (rule defaults_complete [THEN conjunct1])
      (simp_all add: t any_map_def valid_parameters_def entry_def GetString_def)
  then show ?thesis using t by blast
qed

end
