(* ===== verification/PrivateServers.thy ===== *)
theory PrivateServers
  imports GenericServer TemplateParams
begin

text \<open>
  The private servers, \<open>internal/servers/private_*_server.go\<close>: each builds a generic server for its type and
  table and delegates to it. The servers of clusters and virtual machines validate the objects first,
  against the templates that they read with a data access object of their own.
\<close>

section \<open>Servers of a type of object\<close>

text \<open>The methods of the private services; a response is the object that it carries.\<close>

record 'd private_server =
  ps_List :: "ctx \<Rightarrow> list_request \<Rightarrow> ('d db session, list_response) act"
  ps_Get :: "ctx \<Rightarrow> string \<Rightarrow> ('d db session, msg) act"
  ps_Create :: "ctx \<Rightarrow> msg option \<Rightarrow> ('d db session, msg) act"
  ps_Update :: "ctx \<Rightarrow> msg option \<Rightarrow> string list option \<Rightarrow> ('d db session, msg option) act"
  ps_Delete :: "ctx \<Rightarrow> string \<Rightarrow> ('d db session, unit) act"

definition generic_methods :: "'d generic_server \<Rightarrow> 'd private_server" where
  "generic_methods g = \<lparr>ps_List = server_List g, ps_Get = server_Get g, ps_Create = server_Create g,
     ps_Update = server_Update g, ps_Delete = server_Delete g\<rparr>"

text \<open>The checks of the builders, and the generic server for a service, a table and a type.\<close>

definition private_generic ::
  "string \<Rightarrow> string \<Rightarrow> string \<Rightarrow> schema \<Rightarrow> 'd codec \<Rightarrow> 'd server_builder \<Rightarrow> 'd generic_server res" where
  "private_generic service tbl ty sc k b =
    (if \<not> sb_logger b then Err (Fmt ''logger is mandatory'')
     else case sb_tenancy b of None \<Rightarrow> Err (Fmt ''tenancy logic is mandatory'')
     | Some _ \<Rightarrow> server_Build sc ty k (b\<lparr>sb_service := service, sb_table := tbl\<rparr>))"

definition PrivateHostsServer :: "schema \<Rightarrow> 'd codec \<Rightarrow> 'd server_builder \<Rightarrow> 'd private_server res" where
  "PrivateHostsServer sc k b =
     bindR (private_generic ''private.v1.Hosts'' ''hosts'' ''private.v1.Host'' sc k b)
       (\<lambda>g. Ok (generic_methods g))"

definition PrivateHostPoolsServer :: "schema \<Rightarrow> 'd codec \<Rightarrow> 'd server_builder \<Rightarrow> 'd private_server res" where
  "PrivateHostPoolsServer sc k b =
     bindR (private_generic ''private.v1.HostPools'' ''host_pools'' ''private.v1.HostPool'' sc k b)
       (\<lambda>g. Ok (generic_methods g))"

definition PrivateHostClassesServer :: "schema \<Rightarrow> 'd codec \<Rightarrow> 'd server_builder \<Rightarrow> 'd private_server res" where
  "PrivateHostClassesServer sc k b =
     bindR (private_generic ''private.v1.HostClasses'' ''host_classes'' ''private.v1.HostClass'' sc k b)
       (\<lambda>g. Ok (generic_methods g))"

definition PrivateHubsServer :: "schema \<Rightarrow> 'd codec \<Rightarrow> 'd server_builder \<Rightarrow> 'd private_server res" where
  "PrivateHubsServer sc k b =
     bindR (private_generic ''private.v1.Hubs'' ''hubs'' ''private.v1.Hub'' sc k b)
       (\<lambda>g. Ok (generic_methods g))"

definition PrivateClusterTemplatesServer :: "schema \<Rightarrow> 'd codec \<Rightarrow> 'd server_builder \<Rightarrow> 'd private_server res"
where
  "PrivateClusterTemplatesServer sc k b =
     bindR (private_generic ''private.v1.ClusterTemplates'' ''cluster_templates'' ''private.v1.ClusterTemplate'' sc k b)
       (\<lambda>g. Ok (generic_methods g))"

definition PrivateVirtualMachineTemplatesServer ::
  "schema \<Rightarrow> 'd codec \<Rightarrow> 'd server_builder \<Rightarrow> 'd private_server res" where
  "PrivateVirtualMachineTemplatesServer sc k b =
     bindR (private_generic ''private.v1.VirtualMachineTemplates'' ''virtual_machine_templates''
         ''private.v1.VirtualMachineTemplate'' sc k b)
       (\<lambda>g. Ok (generic_methods g))"

section \<open>Clusters\<close>

text \<open>The data access object of the templates has no event callbacks.\<close>

definition templates_dao :: "string \<Rightarrow> string \<Rightarrow> schema \<Rightarrow> 'd codec \<Rightarrow> 'd server_builder \<Rightarrow> 'd dao res" where
  "templates_dao tbl ty sc k b =
    dao_Build sc ty k (NewGenericDAO\<lparr>b_logger := sb_logger b, b_table := tbl,
      b_attributionLogic := sb_attribution b, b_tenancyLogic := sb_tenancy b\<rparr>)"

record 'd private_clusters =
  pc_templatesDao :: "'d dao"
  pc_generic :: "'d generic_server"

text \<open>
  \<open>name\<close> is the generated text of a condition type. The types that were seen are kept in a bit set; enums
  are open, so a type can be negative, and adding it to the set panics.
\<close>

fun check_conditions :: "(int \<Rightarrow> string) \<Rightarrow> int list \<Rightarrow> msg list \<Rightarrow> unit res" where
  "check_conditions name seen [] = Ok ()"
| "check_conditions name seen (c # cs) = (let t = GetEnum ''type'' c in
     if t \<in> set seen then invalid_argument (''condition '' @ quoted (name t) @ '' is duplicated'')
     else if t < 0 then Panic ''index exceeds the capacity of the set''
     else check_conditions name (t # seen) cs)"

text \<open>The getters of a nil message return the zero values.\<close>

definition sub :: "string \<Rightarrow> msg option \<Rightarrow> msg option" where
  "sub n m = (case m of None \<Rightarrow> None | Some x \<Rightarrow> GetMessage n x)"

definition fields_of :: "msg option \<Rightarrow> msg" where
  "fields_of m = (case m of None \<Rightarrow> fmempty | Some x \<Rightarrow> x)"

definition validateNoDuplicateConditions :: "(int \<Rightarrow> string) \<Rightarrow> msg option \<Rightarrow> unit res" where
  "validateNoDuplicateConditions name object =
     check_conditions name [] (GetMessages ''conditions'' (fields_of (sub ''status'' object)))"

text \<open>The checks of the node sets, each a loop over those of the cluster. \<open>series\<close> is \<open>english.WordSeries\<close>.\<close>

definition node_set :: "(string, pvalue) fmap \<Rightarrow> string \<Rightarrow> msg" where
  "node_set m k = fields_of (entry m k)"

definition check_known :: "(string list \<Rightarrow> string) \<Rightarrow> string \<Rightarrow> (string, pvalue) fmap \<Rightarrow> string \<Rightarrow> unit res" where
  "check_known series tid templateNodeSets k =
    (if entry templateNodeSets k = None
     then invalid_argument (''node set '' @ quoted k @ '' doesn't exist, valid values for template '' @ quoted tid
       @ '' are '' @ series (map quoted (map_keys templateNodeSets)))
     else Ok ())"

definition check_host_class ::
  "string \<Rightarrow> (string, pvalue) fmap \<Rightarrow> (string, pvalue) fmap \<Rightarrow> string \<Rightarrow> unit res" where
  "check_host_class tid templateNodeSets clusterNodeSets k =
    (let c = GetString ''host_class'' (node_set clusterNodeSets k);
         t = GetString ''host_class'' (node_set templateNodeSets k) in
     if c = [] then Ok ()
     else if c \<noteq> t
     then invalid_argument (''host class for node set '' @ quoted k @ '' should be empty or '' @ quoted t
       @ '', like in template '' @ quoted tid @ '', but it is '' @ quoted c)
     else Ok ())"

definition check_size :: "(string, pvalue) fmap \<Rightarrow> string \<Rightarrow> unit res" where
  "check_size clusterNodeSets k =
    (let n = GetNum ''size'' (node_set clusterNodeSets k) in
     if n \<le> 0
     then invalid_argument (''size for node set '' @ quoted k @ '' should be greater than zero, but it is '' @ show_int n)
     else Ok ())"

definition actual_node_set :: "(string, pvalue) fmap \<Rightarrow> (string, pvalue) fmap \<Rightarrow> string \<Rightarrow> msg" where
  "actual_node_set templateNodeSets clusterNodeSets k =
    (let n = (case entry clusterNodeSets k of
         Some c \<Rightarrow> GetNum ''size'' c | None \<Rightarrow> GetNum ''size'' (node_set templateNodeSets k))
     in put_num ''size'' n (SetString ''host_class'' (GetString ''host_class'' (node_set templateNodeSets k)) fmempty))"

definition actual_node_sets :: "(string, pvalue) fmap \<Rightarrow> (string, pvalue) fmap \<Rightarrow> (string, pvalue) fmap" where
  "actual_node_sets templateNodeSets clusterNodeSets = fmap_of_list
     (map (\<lambda>k. (k, VMsg (actual_node_set templateNodeSets clusterNodeSets k))) (map_keys templateNodeSets))"

text \<open>What is done with the template once it has been read.\<close>

definition transformWith :: "(string list \<Rightarrow> string) \<Rightarrow> string \<Rightarrow> msg \<Rightarrow> msg \<Rightarrow> msg \<Rightarrow> msg res" where
  "transformWith series tid template cluster spec =
    (if fmlookup (fields_of (GetMessage ''metadata'' template)) ''deletion_timestamp'' \<noteq> None
     then invalid_argument (''template '' @ quoted tid @ '' has been deleted'')
     else (let tns = GetMap ''node_sets'' template; cns = GetMap ''node_sets'' spec in
       bindR (mapR (check_known series tid tns) (map_keys cns)) (\<lambda>_.
       bindR (mapR (check_host_class tid tns cns) (map_keys cns)) (\<lambda>_.
       bindR (mapR (check_size cns) (map_keys cns)) (\<lambda>_.
       (let spec1 = SetMap ''node_sets'' (actual_node_sets tns cns) spec;
            params = GetMap ''template_parameters'' spec1 in
        bindR (ValidateTemplateParameters series template params) (\<lambda>_.
        Ok (SetMessage ''spec'' (Some (SetMap ''template_parameters''
          (ProcessTemplateParametersWithDefaults template params) spec1)) cluster))))))))"

definition validateAndTransformCluster ::
  "(string list \<Rightarrow> string) \<Rightarrow> 'd private_clusters \<Rightarrow> ctx \<Rightarrow> msg option \<Rightarrow> ('d db session, msg) act" where
  "validateAndTransformCluster series p c object = (case object of
      None \<Rightarrow> fail (Status InvalidArgument ''object is mandatory'')
    | Some cluster \<Rightarrow>
       (let spec = fields_of (GetMessage ''spec'' cluster); tid = GetString ''template'' spec in
        if tid = [] then fail (Status InvalidArgument ''template is mandatory'')
        else bind (catch (dao_Get (pc_templatesDao p) c tid)
            (\<lambda>e. fail (Status Internal (''failed to get template '' @ quoted tid)))) (\<lambda>x.
          (case x of
             None \<Rightarrow> fail (Status InvalidArgument (''template '' @ quoted tid @ '' doesn't exist''))
           | Some template \<Rightarrow> lift (transformWith series tid template cluster spec)))))"

definition clusters_Create ::
  "(string list \<Rightarrow> string) \<Rightarrow> (int \<Rightarrow> string) \<Rightarrow> 'd private_clusters \<Rightarrow> ctx \<Rightarrow> msg option \<Rightarrow> ('d db session, msg) act"
where
  "clusters_Create series name p c object =
     bind (lift (validateNoDuplicateConditions name object)) (\<lambda>_.
     bind (validateAndTransformCluster series p c object) (\<lambda>cluster.
     server_Create (pc_generic p) c (Some cluster)))"

definition clusters_Update ::
  "(int \<Rightarrow> string) \<Rightarrow> 'd private_clusters \<Rightarrow> ctx \<Rightarrow> msg option \<Rightarrow> string list option \<Rightarrow> ('d db session, msg option) act"
where
  "clusters_Update name p c object paths =
     bind (lift (validateNoDuplicateConditions name object)) (\<lambda>_.
     server_Update (pc_generic p) c object paths)"

definition clusters_methods ::
  "(string list \<Rightarrow> string) \<Rightarrow> (int \<Rightarrow> string) \<Rightarrow> 'd private_clusters \<Rightarrow> 'd private_server" where
  "clusters_methods series name p = (generic_methods (pc_generic p))
     \<lparr>ps_Create := clusters_Create series name p, ps_Update := clusters_Update name p\<rparr>"

definition PrivateClustersServer :: "schema \<Rightarrow> 'd codec \<Rightarrow> 'd server_builder \<Rightarrow> 'd private_clusters res" where
  "PrivateClustersServer sc k b =
    (if \<not> sb_logger b then Err (Fmt ''logger is mandatory'')
     else case sb_tenancy b of None \<Rightarrow> Err (Fmt ''tenancy logic is mandatory'')
     | Some _ \<Rightarrow> bindR (templates_dao ''cluster_templates'' ''private.v1.ClusterTemplate'' sc k b) (\<lambda>d.
         bindR (private_generic ''private.v1.Clusters'' ''clusters'' ''private.v1.Cluster'' sc k b) (\<lambda>g.
         Ok \<lparr>pc_templatesDao = d, pc_generic = g\<rparr>)))"

section \<open>Virtual machines\<close>

definition validateTemplate ::
  "(string list \<Rightarrow> string) \<Rightarrow> 'd private_clusters \<Rightarrow> ctx \<Rightarrow> msg option \<Rightarrow> ('d db session, msg) act" where
  "validateTemplate series p c object = (case object of
      None \<Rightarrow> fail (Status InvalidArgument ''virtual machine is mandatory'')
    | Some vm \<Rightarrow> (case GetMessage ''spec'' vm of
        None \<Rightarrow> fail (Status InvalidArgument ''virtual machine spec is mandatory'')
      | Some spec \<Rightarrow> (let tid = GetString ''template'' spec in
          if tid = [] then fail (Status InvalidArgument ''template ID is mandatory'')
          else bind (catch (dao_Get (pc_templatesDao p) c tid)
              (\<lambda>e. fail (Status Internal (''failed to retrieve template '' @ quoted tid)))) (\<lambda>x.
            (case x of
               None \<Rightarrow> fail (Status InvalidArgument (''template '' @ quoted tid @ '' does not exist''))
             | Some template \<Rightarrow> (let params = GetMap ''template_parameters'' spec in
                 bind (lift (ValidateTemplateParameters series template params)) (\<lambda>_.
                 ret (SetMessage ''spec'' (Some (SetMap ''template_parameters''
                   (ProcessTemplateParametersWithDefaults template params) spec)) vm))))))))"

definition vms_Create ::
  "(string list \<Rightarrow> string) \<Rightarrow> 'd private_clusters \<Rightarrow> ctx \<Rightarrow> msg option \<Rightarrow> ('d db session, msg) act" where
  "vms_Create series p c object =
     bind (validateTemplate series p c object) (\<lambda>vm. server_Create (pc_generic p) c (Some vm))"

definition vms_Update ::
  "(string list \<Rightarrow> string) \<Rightarrow> 'd private_clusters \<Rightarrow> ctx \<Rightarrow> msg option \<Rightarrow> string list option \<Rightarrow> ('d db session, msg option) act"
where
  "vms_Update series p c object paths =
     bind (validateTemplate series p c object) (\<lambda>vm. server_Update (pc_generic p) c (Some vm) paths)"

definition vms_methods :: "(string list \<Rightarrow> string) \<Rightarrow> 'd private_clusters \<Rightarrow> 'd private_server" where
  "vms_methods series p = (generic_methods (pc_generic p))
     \<lparr>ps_Create := vms_Create series p, ps_Update := vms_Update series p\<rparr>"

definition PrivateVirtualMachinesServer :: "schema \<Rightarrow> 'd codec \<Rightarrow> 'd server_builder \<Rightarrow> 'd private_clusters res"
where
  "PrivateVirtualMachinesServer sc k b =
    (if \<not> sb_logger b then Err (Fmt ''logger is mandatory'')
     else case sb_tenancy b of None \<Rightarrow> Err (Fmt ''tenancy logic is mandatory'')
     | Some _ \<Rightarrow> bindR (templates_dao ''virtual_machine_templates'' ''private.v1.VirtualMachineTemplate'' sc k b) (\<lambda>d.
         bindR (private_generic ''private.v1.VirtualMachines'' ''virtual_machines'' ''private.v1.VirtualMachine'' sc k b)
           (\<lambda>g. Ok \<lparr>pc_templatesDao = d, pc_generic = g\<rparr>)))"

section \<open>What is stored\<close>

lemma check_conditions_Ok:
  "check_conditions name seen cs = Ok () \<longleftrightarrow> (\<forall>c\<in>set cs. 0 \<le> GetEnum ''type'' c) \<and>
     distinct (map (GetEnum ''type'') cs) \<and> set seen \<inter> set (map (GetEnum ''type'') cs) = {}"
  by (induction cs arbitrary: seen) (auto simp: invalid_argument_def Let_def)

text \<open>
  The private server of clusters accepts an object exactly when no two of the conditions of its
  status have the same type and none has a negative one.
\<close>

theorem duplicated_conditions_are_rejected:
  "validateNoDuplicateConditions name object = Ok () \<longleftrightarrow>
     (let types = map (GetEnum ''type'') (GetMessages ''conditions'' (fields_of (sub ''status'' object)))
      in distinct types \<and> list_all (\<lambda>t. 0 \<le> t) types)"
  by (auto simp: validateNoDuplicateConditions_def check_conditions_Ok Let_def list_all_iff)

lemma mapR_unit_iff: "mapR f xs = Ok us \<Longrightarrow> \<forall>x\<in>set xs. f x = Ok ()"
  for f :: "'a \<Rightarrow> unit res"
  by (induction xs arbitrary: us) (auto simp: bindR_eq_Ok)

text \<open>The node sets of a stored cluster: those of the template, with the sizes that the cluster asked for.\<close>

definition follows_template :: "msg \<Rightarrow> msg \<Rightarrow> msg \<Rightarrow> bool" where
  "follows_template template asked stored \<longleftrightarrow> (let tns = GetMap ''node_sets'' template;
      cns = GetMap ''node_sets'' asked; ns = GetMap ''node_sets'' stored in
    (\<forall>k. entry ns k = (case entry tns k of None \<Rightarrow> None | Some t \<Rightarrow>
       Some (put_num ''size'' (case entry cns k of Some c \<Rightarrow> GetNum ''size'' c | None \<Rightarrow> GetNum ''size'' t)
         (SetString ''host_class'' (GetString ''host_class'' t) fmempty)))) \<and>
    (\<forall>k c. entry cns k = Some c \<longrightarrow> 0 < GetNum ''size'' c \<and>
       (\<exists>t. entry tns k = Some t \<and> GetString ''host_class'' c \<in> {[], GetString ''host_class'' t})))"

lemma entry_actual:
  assumes "any_map tns"
  shows "entry (actual_node_sets tns cns) k = (case entry tns k of None \<Rightarrow> None
    | Some t \<Rightarrow> Some (actual_node_set tns cns k))"
proof (cases "entry tns k")
  case None
  then have "fmlookup tns k = None" using assms by (auto simp: any_map_def)
  then have "k \<notin> set (map_keys tns)" by simp
  then have "map_of (map (\<lambda>k. (k, VMsg (actual_node_set tns cns k))) (map_keys tns)) k = None"
    by (simp only: map_of_eq_None_iff) (simp add: image_image del: set_map_keys)
  then show ?thesis using None by (simp add: actual_node_sets_def entry_def fmlookup_of_list)
next
  case (Some t)
  then have "k \<in> set (map_keys tns)" using entry_Some by fastforce
  then have "map_of (map (\<lambda>k. (k, VMsg (actual_node_set tns cns k))) (map_keys tns)) k
      = Some (VMsg (actual_node_set tns cns k))"
    by (simp add: map_of_map_restrict)
  then show ?thesis using Some by (simp add: actual_node_sets_def entry_def fmlookup_of_list)
qed

lemma GetMap_SetMap_other [simp]: "n \<noteq> k \<Longrightarrow> GetMap n (SetMap k x m) = GetMap n m"
  by (simp add: GetMap_def SetMap_def)

lemma transformWith_follows:
  assumes "transformWith series tid template cluster spec = Ok cluster'" "any_map (GetMap ''node_sets'' template)"
  shows "\<exists>spec'. cluster' = SetMessage ''spec'' (Some spec') cluster \<and> follows_template template spec spec'"
proof -
  let ?tns = "GetMap ''node_sets'' template" and ?cns = "GetMap ''node_sets'' spec"
  obtain us vs ws where checks: "mapR (check_known series tid ?tns) (map_keys ?cns) = Ok us"
    "mapR (check_host_class tid ?tns ?cns) (map_keys ?cns) = Ok vs" "mapR (check_size ?cns) (map_keys ?cns) = Ok ws"
    and c: "cluster' = SetMessage ''spec'' (Some (SetMap ''template_parameters''
       (ProcessTemplateParametersWithDefaults template (GetMap ''template_parameters''
          (SetMap ''node_sets'' (actual_node_sets ?tns ?cns) spec)))
       (SetMap ''node_sets'' (actual_node_sets ?tns ?cns) spec))) cluster"
    using assms(1) by (auto simp: transformWith_def Let_def bindR_eq_Ok invalid_argument_def split: if_splits)
  have asked: "0 < GetNum ''size'' x \<and> (\<exists>t. entry ?tns k = Some t \<and>
      GetString ''host_class'' x \<in> {[], GetString ''host_class'' t})" if x: "entry ?cns k = Some x" for k x
  proof -
    have "k \<in> set (map_keys ?cns)" using entry_Some [OF x] by simp
    then have "check_known series tid ?tns k = Ok ()" "check_host_class tid ?tns ?cns k = Ok ()"
      "check_size ?cns k = Ok ()" using checks [THEN mapR_unit_iff] by blast+
    then show ?thesis using x
      by (auto simp: check_known_def check_host_class_def check_size_def node_set_def fields_of_def
          invalid_argument_def Let_def split: if_splits)
  qed
  have "entry (actual_node_sets ?tns ?cns) k = (case entry ?tns k of None \<Rightarrow> None | Some t \<Rightarrow>
       Some (put_num ''size'' (case entry ?cns k of Some c \<Rightarrow> GetNum ''size'' c | None \<Rightarrow> GetNum ''size'' t)
         (SetString ''host_class'' (GetString ''host_class'' t) fmempty)))" for k
    using entry_actual [OF assms(2)]
    by (auto simp: actual_node_set_def node_set_def fields_of_def Let_def split: option.splits)
  then show ?thesis using c asked by (fastforce simp: follows_template_def Let_def)
qed

end
