(* ===== verification/ClusterCreation.thy ===== *)
theory ClusterCreation
  imports ServerExample PrivateServers
begin

text \<open>
  What the private server of clusters stores when it creates a cluster: the request after the template
  has been applied to it.
\<close>

section \<open>A cluster is created from its template\<close>

text \<open>
  C25. When a cluster passes the checks of its creation, the object that goes to the generic server has
  the node sets of a template that exists and is not deleted, with their host classes, and with the
  positive sizes that the request gave or those of the template.
\<close>

theorem created_cluster_follows_template:
  assumes "validateNoDuplicateConditions name (Some cluster) = Ok ()"
    "validateAndTransformCluster series p c (Some cluster) s = (Ok cluster', s1)"
  shows "\<exists>template. dao_Get (pc_templatesDao p) c (GetString ''template'' (fields_of (GetMessage ''spec'' cluster))) s
      = (Ok (Some template), s1)
    \<and> clusters_Create series name p c (Some cluster) s = server_Create (pc_generic p) c (Some cluster') s1
    \<and> fmlookup (fields_of (GetMessage ''metadata'' template)) ''deletion_timestamp'' = None
    \<and> (any_map (GetMap ''node_sets'' template) \<longrightarrow> (\<exists>spec'. cluster' = SetMessage ''spec'' (Some spec') cluster
        \<and> follows_template template (fields_of (GetMessage ''spec'' cluster)) spec'))"
proof -
  let ?spec = "fields_of (GetMessage ''spec'' cluster)"
  let ?tid = "GetString ''template'' ?spec"
  obtain template where "dao_Get (pc_templatesDao p) c ?tid s = (Ok (Some template), s1)"
    and tr: "transformWith series ?tid template cluster ?spec = Ok cluster'"
    using assms(2) by (auto simp: validateAndTransformCluster_def Let_def bind_Ok_iff catch_Ok_iff fail_def lift_def
        split: if_splits option.splits)
  moreover have "fmlookup (fields_of (GetMessage ''metadata'' template)) ''deletion_timestamp'' = None"
    using tr by (auto simp: transformWith_def invalid_argument_def split: if_splits)
  moreover have "clusters_Create series name p c (Some cluster) s = server_Create (pc_generic p) c (Some cluster') s1"
    using assms by (simp add: clusters_Create_def bind_def lift_def)
  ultimately show ?thesis using transformWith_follows [OF tr] by blast
qed

text \<open>A template with two node sets, and a cluster that asks for five nodes in one of them.\<close>

definition example_template :: msg where
  "example_template = fmupd ''node_sets'' (VMap (fmap_of_list
     [(''compute'', VMsg (fmupd ''size'' (VNum 3) (fmupd ''host_class'' (VStr ''large'') fmempty))),
      (''gpu'', VMsg (fmupd ''size'' (VNum 2) (fmupd ''host_class'' (VStr ''fast'') fmempty)))])) fmempty"

definition example_template_row :: "msg row" where
  "example_template_row = (example_row ''shared'')\<lparr>row_data := example_template\<rparr>"

definition example_templates :: "msg db" where
  "example_templates = example_db\<lparr>tables := (tables example_db)(''cluster_templates'' := [(''t'', example_template_row)])\<rparr>"

definition example_clusters :: "msg private_clusters" where
  "example_clusters = \<lparr>pc_templatesDao = example_dao\<lparr>table := ''cluster_templates''\<rparr>, pc_generic = example_server\<rparr>"

definition example_spec :: msg where
  "example_spec = fmupd ''template'' (VStr ''t'') (fmupd ''node_sets''
     (VMap (fmap_of_list [(''compute'', VMsg (fmupd ''size'' (VNum 5) fmempty))])) fmempty)"

definition example_order :: msg where
  "example_order = fmupd ''spec'' (VMsg example_spec) fmempty"

definition example_stored_template :: msg where
  "example_stored_template = setMetadata (Some (makeMetadata (10 ^ 6) 0 [] [''jane''] [''shared''])) (SetId ''t'' example_template)"

lemma example_template_of:
  "object_of (pc_templatesDao example_clusters) ''t'' example_template_row = Ok example_stored_template"
  by (simp add: object_of_def unmarshalData_def example_unmarshal_def newObject_def example_template_row_def
      example_row_def example_clusters_def example_stored_template_def)

lemma example_get_template:
  "dao_Get (pc_templatesDao example_clusters) example_jwt_ctx ''t'' (begun 0 (example_session example_templates)) =
     (Ok (Some example_stored_template), (begun 0 (example_session example_templates))\<lparr>tx_real := Some example_templates\<rparr>)"
proof -
  let ?s = "begun 0 (example_session example_templates)"
  have rows: "rows_of (pc_templatesDao example_clusters) (view ?s) = [(''t'', example_template_row)]"
    by (simp add: rows_of_def example_clusters_def example_templates_def)
  then have "rows_ok (rows_of (pc_templatesDao example_clusters) (view ?s))"
    by (simp add: rows_ok_def example_template_row_def example_row_def live_def unix_def)
  moreover have "can_see [''a'', ''b'', ''shared''] example_template_row"
    by (simp add: can_see_def example_template_row_def example_row_def)
  moreover have "tenancyLogic (pc_templatesDao example_clusters) = DefaultTenancyLogic"
    by (simp add: example_clusters_def)
  ultimately show ?thesis
    using get_calm [of example_jwt_ctx ?s "''t''" "pc_templatesDao example_clusters" "Some [''a'', ''b'', ''shared'']"
        example_template_row example_stored_template] rows example_template_of example_visible
    by simp
qed

lemma example_stored_simps [simp]:
  "GetMessage ''metadata'' example_stored_template = Some (makeMetadata (10 ^ 6) 0 [] [''jane''] [''shared''])"
  "GetMap ''node_sets'' example_stored_template = GetMap ''node_sets'' example_template"
  "GetParameters example_stored_template = []"
  by (simp_all add: example_stored_template_def setMetadata_def SetMessage_def SetId_def SetString_def GetMessage_def
      GetMap_def GetParameters_def GetMessages_def example_template_def makeMetadata_def)

lemma example_transform:
  "\<exists>cluster'. transformWith series ''t'' example_stored_template example_order example_spec = Ok cluster'"
proof -
  let ?tns = "GetMap ''node_sets'' example_template" and ?cns = "GetMap ''node_sets'' example_spec"
  have keys: "k \<in> set (map_keys ?cns) \<Longrightarrow> k = ''compute''" for k
    by (auto simp: GetMap_def example_spec_def fmlookup_of_list split: if_splits)
  have "check_known series ''t'' ?tns ''compute'' = Ok ()" "check_host_class ''t'' ?tns ?cns ''compute'' = Ok ()"
    "check_size ?cns ''compute'' = Ok ()"
    by (simp_all add: check_known_def check_host_class_def check_size_def node_set_def fields_of_def entry_def
        GetMap_def example_spec_def example_template_def fmlookup_of_list GetString_def GetNum_def)
  then have "mapR (check_known series ''t'' ?tns) (map_keys ?cns) = Ok (map (\<lambda>_. ()) (map_keys ?cns))"
    "mapR (check_host_class ''t'' ?tns ?cns) (map_keys ?cns) = Ok (map (\<lambda>_. ()) (map_keys ?cns))"
    "mapR (check_size ?cns) (map_keys ?cns) = Ok (map (\<lambda>_. ()) (map_keys ?cns))"
    using keys by (auto intro!: mapR_all_Ok)
  moreover have "GetMap ''template_parameters'' example_spec = fmempty"
    by (simp add: GetMap_def example_spec_def)
  then have "GetMap ''template_parameters'' (SetMap ''node_sets'' (actual_node_sets ?tns ?cns) example_spec) = fmempty"
    by simp
  moreover have "ValidateTemplateParameters series example_stored_template fmempty = Ok ()"
    by (simp add: ValidateTemplateParameters_def invalidNames_def map_keys_def checkMandatory_def checkTypes_def
        sorted_list_of_fset.rep_eq)
  ultimately show ?thesis
    by (simp add: transformWith_def Let_def fields_of_def makeMetadata_def unix_def)
qed

theorem created_cluster_follows_template_witness:
  "\<exists>template cluster' s1. dao_Get (pc_templatesDao example_clusters) example_jwt_ctx ''t''
      (begun 0 (example_session example_templates)) = (Ok (Some template), s1)
    \<and> clusters_Create (\<lambda>_. []) (\<lambda>_. []) example_clusters example_jwt_ctx (Some example_order)
        (begun 0 (example_session example_templates)) =
      server_Create example_server example_jwt_ctx (Some cluster') s1
    \<and> (\<exists>spec'. cluster' = SetMessage ''spec'' (Some spec') example_order \<and> follows_template template example_spec spec')"
proof -
  let ?s = "begun 0 (example_session example_templates)"
  let ?s1 = "?s\<lparr>tx_real := Some example_templates\<rparr>"
  have f: "fields_of (GetMessage ''spec'' example_order) = example_spec" "GetString ''template'' example_spec = ''t''"
    by (simp_all add: fields_of_def GetMessage_def example_order_def example_spec_def GetString_def)
  have n: "validateNoDuplicateConditions (\<lambda>_. []) (Some example_order) = Ok ()"
    by (simp add: validateNoDuplicateConditions_def sub_def GetMessage_def example_order_def fields_of_def GetMessages_def)
  obtain cluster' where t: "transformWith (\<lambda>_. []) ''t'' example_stored_template example_order example_spec = Ok cluster'"
    using example_transform by blast
  have v: "validateAndTransformCluster (\<lambda>_. []) example_clusters example_jwt_ctx (Some example_order) ?s = (Ok cluster', ?s1)"
    using example_get_template t by (simp add: validateAndTransformCluster_def f Let_def bind_def catch_def lift_def)
  have any: "any_map (GetMap ''node_sets'' example_template)"
    by (auto simp: any_map_def GetMap_def example_template_def fmlookup_of_list split: if_splits)
  have s: "GetMap ''node_sets'' example_stored_template = GetMap ''node_sets'' example_template" by simp
  have g: "pc_generic example_clusters = example_server" by (simp add: example_clusters_def)
  show ?thesis
    using created_cluster_follows_template [OF n v] example_get_template any s unfolding f g by auto
qed

end
