(* ===== verification/PublicServers.thy ===== *)
theory PublicServers
  imports PrivateServers Mapper
begin

text \<open>
  The public servers, \<open>internal/servers/*_server.go\<close>: each maps the objects of its requests to the private type,
  delegates to the private server, and maps what it returns to the public type. The server of clusters also
  reads kubeconfigs and passwords from the clusters that host them; its client for Kubernetes and the two
  queries with which it reads objects are arguments.
\<close>

section \<open>Mapping and delegation\<close>

record 'd public_server =
  pub_delegate :: "'d private_server"
  pub_schema :: schema
  pub_type :: string
  priv_type :: string
  inMapper :: mapper
  outMapper :: mapper

text \<open>An error of a mapper is logged and hidden.\<close>

definition failed_to_process :: "string \<Rightarrow> 'a res \<Rightarrow> 'a res" where
  "failed_to_process noun r = (case r of Err e \<Rightarrow> Err (Status Internal (''failed to process '' @ noun)) | _ \<Rightarrow> r)"

text \<open>The copy of a private object, nil or not, to a new public one, and of a public object to a private one.\<close>

definition to_public :: "'d public_server \<Rightarrow> msg option \<Rightarrow> msg res" where
  "to_public p x = bindR (Copy (pub_schema p) (outMapper p) (priv_type p) (pub_type p) x (Some fmempty))
     (\<lambda>y. Ok (fields_of y))"

definition to_private :: "'d public_server \<Rightarrow> msg \<Rightarrow> msg \<Rightarrow> msg res" where
  "to_private p x old = bindR (Copy (pub_schema p) (inMapper p) (pub_type p) (priv_type p) (Some x) (Some old))
     (\<lambda>y. Ok (fields_of y))"

definition public_List ::
  "'d public_server \<Rightarrow> string \<Rightarrow> ctx \<Rightarrow> list_request \<Rightarrow> ('d db session, list_response) act" where
  "public_List p nouns c q = bind (ps_List (pub_delegate p) c q) (\<lambda>r.
     bind (lift (failed_to_process nouns (mapR (\<lambda>x. to_public p (Some x)) (Items r)))) (\<lambda>xs.
     ret \<lparr>Size = Size r, Total = Total r, Items = xs\<rparr>))"

definition public_Get :: "'d public_server \<Rightarrow> string \<Rightarrow> ctx \<Rightarrow> string \<Rightarrow> ('d db session, msg) act" where
  "public_Get p noun c i = bind (ps_Get (pub_delegate p) c i) (\<lambda>x.
     lift (failed_to_process noun (to_public p (Some x))))"

definition public_Create :: "'d public_server \<Rightarrow> string \<Rightarrow> ctx \<Rightarrow> msg option \<Rightarrow> ('d db session, msg) act" where
  "public_Create p noun c x = (case x of
      None \<Rightarrow> fail (Status InvalidArgument ''object is mandatory'')
    | Some pub \<Rightarrow> bind (lift (failed_to_process noun (to_private p pub fmempty))) (\<lambda>priv.
        bind (ps_Create (pub_delegate p) c (Some priv)) (\<lambda>created.
        lift (failed_to_process noun (to_public p (Some created))))))"

text \<open>
  There are two ways to update: the servers of hosts and host pools send a new private object with the fields of
  the public one, the others change the object that they get from the private server. Only those of hosts,
  host pools and clusters pass the mask.
\<close>

definition public_Update_replace ::
  "'d public_server \<Rightarrow> string \<Rightarrow> ctx \<Rightarrow> msg option \<Rightarrow> string list option \<Rightarrow> ('d db session, msg option) act" where
  "public_Update_replace p noun c x paths = (case x of
      None \<Rightarrow> fail (Status InvalidArgument ''object is mandatory'')
    | Some pub \<Rightarrow> bind (lift (failed_to_process noun (to_private p pub fmempty))) (\<lambda>priv.
        bind (ps_Update (pub_delegate p) c (Some priv) paths) (\<lambda>updated.
        bind (lift (failed_to_process noun (to_public p updated))) (\<lambda>y. ret (Some y)))))"

definition public_Update_merge ::
  "'d public_server \<Rightarrow> bool \<Rightarrow> string \<Rightarrow> ctx \<Rightarrow> msg option \<Rightarrow> string list option \<Rightarrow> ('d db session, msg option) act"
where
  "public_Update_merge p usesMask noun c x paths = (case x of
      None \<Rightarrow> fail (Status InvalidArgument ''object is mandatory'')
    | Some pub \<Rightarrow> if GetId pub = [] then fail (Status InvalidArgument ''object identifier is mandatory'')
        else bind (ps_Get (pub_delegate p) c (GetId pub)) (\<lambda>existing.
          bind (lift (failed_to_process noun (to_private p pub existing))) (\<lambda>priv.
          bind (ps_Update (pub_delegate p) c (Some priv) (if usesMask then paths else None)) (\<lambda>updated.
          bind (lift (failed_to_process noun (to_public p updated))) (\<lambda>y. ret (Some y))))))"

definition public_Delete :: "'d public_server \<Rightarrow> ctx \<Rightarrow> string \<Rightarrow> ('d db session, unit) act" where
  "public_Delete p c i = bind (ps_Delete (pub_delegate p) c i) (\<lambda>_. ret ())"

section \<open>The builders\<close>

text \<open>Users don't have permission to change the status, so some servers ignore it on input.\<close>

definition status_field :: "schema \<Rightarrow> string \<Rightarrow> ignored_field list res" where
  "status_field sc ty = (case ByName (sc ty) ''status'' of
      None \<Rightarrow> Err (Fmt (''failed to find the status field of type '' @ quoted ty))
    | Some f \<Rightarrow> Ok [IgnoreFullName (fd_full f)])"

definition no_fields :: "ignored_field list res" where
  "no_fields = Ok []"

definition public_Build :: "schema \<Rightarrow> string \<Rightarrow> string \<Rightarrow> ignored_field list res \<Rightarrow> 'd server_builder \<Rightarrow>
    'd private_server res \<Rightarrow> 'd public_server res" where
  "public_Build sc pub priv ignored b delegate =
    (if \<not> sb_logger b then Err (Fmt ''logger is mandatory'')
     else case sb_tenancy b of None \<Rightarrow> Err (Fmt ''tenancy logic is mandatory'')
     | Some _ \<Rightarrow> bindR ignored (\<lambda>fs.
         bindR (mapper_Build (Some ()) True fs) (\<lambda>i.
         bindR (mapper_Build (Some ()) False []) (\<lambda>o'.
         bindR delegate (\<lambda>d. Ok \<lparr>pub_delegate = d, pub_schema = sc, pub_type = pub, priv_type = priv,
           inMapper = i, outMapper = o'\<rparr>)))))"

definition public_methods :: "'d public_server \<Rightarrow> string \<Rightarrow> string \<Rightarrow>
    (ctx \<Rightarrow> msg option \<Rightarrow> string list option \<Rightarrow> ('d db session, msg option) act) \<Rightarrow> 'd private_server" where
  "public_methods p noun nouns update = \<lparr>ps_List = public_List p nouns, ps_Get = public_Get p noun,
     ps_Create = public_Create p noun, ps_Update = update, ps_Delete = public_Delete p\<rparr>"

definition HostsServer ::
  "schema \<Rightarrow> 'd codec \<Rightarrow> 'd server_builder \<Rightarrow> 'd public_server res" where
  "HostsServer sc k b = public_Build sc ''fulfillment.v1.Host'' ''private.v1.Host'' (status_field sc ''fulfillment.v1.Host'') b
     (PrivateHostsServer sc k b)"

definition HostsServer_methods :: "'d public_server \<Rightarrow> 'd private_server" where
  "HostsServer_methods p = public_methods p ''host'' ''hosts''
     (public_Update_replace p ''host'')"

definition HostPoolsServer ::
  "schema \<Rightarrow> 'd codec \<Rightarrow> 'd server_builder \<Rightarrow> 'd public_server res" where
  "HostPoolsServer sc k b = public_Build sc ''fulfillment.v1.HostPool'' ''private.v1.HostPool'' (status_field sc ''fulfillment.v1.HostPool'') b
     (PrivateHostPoolsServer sc k b)"

definition HostPoolsServer_methods :: "'d public_server \<Rightarrow> 'd private_server" where
  "HostPoolsServer_methods p = public_methods p ''host pool'' ''host pools''
     (public_Update_replace p ''host pool'')"

definition HostClassesServer ::
  "schema \<Rightarrow> 'd codec \<Rightarrow> 'd server_builder \<Rightarrow> 'd public_server res" where
  "HostClassesServer sc k b = public_Build sc ''fulfillment.v1.HostClass'' ''private.v1.HostClass'' (no_fields) b
     (PrivateHostClassesServer sc k b)"

definition HostClassesServer_methods :: "'d public_server \<Rightarrow> 'd private_server" where
  "HostClassesServer_methods p = public_methods p ''host class'' ''host classes''
     (public_Update_merge p False ''host class'')"

definition ClusterTemplatesServer ::
  "schema \<Rightarrow> 'd codec \<Rightarrow> 'd server_builder \<Rightarrow> 'd public_server res" where
  "ClusterTemplatesServer sc k b = public_Build sc ''fulfillment.v1.ClusterTemplate'' ''private.v1.ClusterTemplate'' (no_fields) b
     (PrivateClusterTemplatesServer sc k b)"

definition ClusterTemplatesServer_methods :: "'d public_server \<Rightarrow> 'd private_server" where
  "ClusterTemplatesServer_methods p = public_methods p ''cluster template'' ''cluster templates''
     (public_Update_merge p False ''cluster template'')"

definition VirtualMachineTemplatesServer ::
  "schema \<Rightarrow> 'd codec \<Rightarrow> 'd server_builder \<Rightarrow> 'd public_server res" where
  "VirtualMachineTemplatesServer sc k b = public_Build sc ''fulfillment.v1.VirtualMachineTemplate'' ''private.v1.VirtualMachineTemplate'' (no_fields) b
     (PrivateVirtualMachineTemplatesServer sc k b)"

definition VirtualMachineTemplatesServer_methods :: "'d public_server \<Rightarrow> 'd private_server" where
  "VirtualMachineTemplatesServer_methods p = public_methods p ''virtual machine template'' ''virtual machine templates''
     (public_Update_merge p False ''virtual machine template'')"

definition VirtualMachinesServer ::
  "(string list \<Rightarrow> string) \<Rightarrow> schema \<Rightarrow> 'd codec \<Rightarrow> 'd server_builder \<Rightarrow> 'd public_server res" where
  "VirtualMachinesServer series sc k b = public_Build sc ''fulfillment.v1.VirtualMachine'' ''private.v1.VirtualMachine'' (no_fields) b
     (bindR (PrivateVirtualMachinesServer sc k b) (\<lambda>d. Ok (vms_methods series d)))"

definition VirtualMachinesServer_methods :: "'d public_server \<Rightarrow> 'd private_server" where
  "VirtualMachinesServer_methods p = public_methods p ''virtual machine'' ''virtual machines''
     (public_Update_merge p False ''virtual machine'')"

text \<open>The server of clusters has a data access object for the hubs besides its private server.\<close>

record 'd clusters_server =
  cs_public :: "'d public_server"
  cs_hubsDao :: "'d dao"

definition hubs_dao :: "schema \<Rightarrow> 'd codec \<Rightarrow> 'd server_builder \<Rightarrow> 'd dao res" where
  "hubs_dao sc k b = dao_Build sc ''private.v1.Hub'' k (NewGenericDAO\<lparr>b_logger := sb_logger b, b_table := ''hubs'',
      b_tenancyLogic := sb_tenancy b\<rparr>)"

definition ClustersServer :: "(string list \<Rightarrow> string) \<Rightarrow> (int \<Rightarrow> string) \<Rightarrow> schema \<Rightarrow> 'd codec \<Rightarrow> 'd server_builder \<Rightarrow>
    'd clusters_server res" where
  "ClustersServer series name sc k b =
    (if \<not> sb_logger b then Err (Fmt ''logger is mandatory'')
     else case sb_tenancy b of None \<Rightarrow> Err (Fmt ''tenancy logic is mandatory'')
     | Some _ \<Rightarrow> bindR (hubs_dao sc k b) (\<lambda>h.
         bindR (public_Build sc ''fulfillment.v1.Cluster'' ''private.v1.Cluster'' (status_field sc ''fulfillment.v1.Cluster'') b
           (bindR (PrivateClustersServer sc k b) (\<lambda>d. Ok (clusters_methods series name d)))) (\<lambda>p.
         Ok \<lparr>cs_public = p, cs_hubsDao = h\<rparr>)))"

definition ClustersServer_methods :: "'d clusters_server \<Rightarrow> 'd private_server" where
  "ClustersServer_methods s = public_methods (cs_public s) ''cluster'' ''clusters''
     (public_Update_merge (cs_public s) True ''cluster'')"

section \<open>Kubeconfigs and passwords\<close>

text \<open>
  The libraries: creation of a client from a kubeconfig, list of the cluster orders with an identifier,
  lookup of a hosted cluster and of a secret by namespace and name, and the two queries.
\<close>

record ('cl, 'o) hub_lib =
  create_client :: "string \<Rightarrow> 'cl res"
  list_orders :: "'cl \<Rightarrow> string \<Rightarrow> string \<Rightarrow> 'o list res"
  get_hosted_cluster :: "'cl \<Rightarrow> string \<times> string \<Rightarrow> 'o res"
  get_secret :: "'cl \<Rightarrow> string \<times> string \<Rightarrow> (string \<Rightarrow> string option) res"
  IsNotFound :: "error \<Rightarrow> bool"
  query_reference :: "'o \<Rightarrow> (string \<times> string) res"
  query_name :: "string \<Rightarrow> 'o \<Rightarrow> string res"
  GetNamespace :: "'o \<Rightarrow> string"

text \<open>The clients of the hubs are kept by the identifier of the hub, beside the session of the call.\<close>

type_synonym ('cl, 'd) hub_state = "(string \<Rightarrow> 'cl option) \<times> 'd db session"

definition on_session :: "('s, 'a) act \<Rightarrow> ('c \<times> 's, 'a) act" where
  "on_session m x = (case m (snd x) of (r, t) \<Rightarrow> (r, (fst x, t)))"

definition GetBytes :: "string \<Rightarrow> msg \<Rightarrow> string" where
  "GetBytes n m = (case fmlookup m n of Some (VBytes b) \<Rightarrow> b | _ \<Rightarrow> [])"

definition getKubeClient :: "('cl, 'o) hub_lib \<Rightarrow> msg \<Rightarrow> (('cl, 'd) hub_state, 'cl) act" where
  "getKubeClient lib hub x = (case fst x (GetId hub) of
      Some cl \<Rightarrow> (Ok cl, x)
    | None \<Rightarrow> (case create_client lib (GetBytes ''kubeconfig'' hub) of
        Ok cl \<Rightarrow> (Ok cl, ((fst x)(GetId hub \<mapsto> cl), snd x))
      | Err e \<Rightarrow> (Err e, x)
      | Panic q \<Rightarrow> (Panic q, x)))"

definition getKubeClusterOrder :: "('cl, 'o) hub_lib \<Rightarrow> 'cl \<Rightarrow> string \<Rightarrow> string \<Rightarrow> 'o res" where
  "getKubeClusterOrder lib cl namespace i = bindR (list_orders lib cl namespace i) (\<lambda>items.
     (case items of [x] \<Rightarrow> Ok x
      | _ \<Rightarrow> Err (Fmt (''expected exactly one cluster order with identifier '' @ quoted i @ '' but found ''
          @ show_int (int (length items))))))"

text \<open>An object that isn't found is nil.\<close>

definition unless_missing :: "('cl, 'o) hub_lib \<Rightarrow> 'a res \<Rightarrow> 'a option res" where
  "unless_missing lib r = (case r of Ok x \<Rightarrow> Ok (Some x)
    | Err e \<Rightarrow> if IsNotFound lib e then Ok None else Err e | Panic q \<Rightarrow> Panic q)"

definition getKubeHostedCluster :: "('cl, 'o) hub_lib \<Rightarrow> 'cl \<Rightarrow> string \<times> string \<Rightarrow> 'o option res" where
  "getKubeHostedCluster lib cl key = unless_missing lib (get_hosted_cluster lib cl key)"

definition getKubeSecret :: "('cl, 'o) hub_lib \<Rightarrow> 'cl \<Rightarrow> string \<times> string \<Rightarrow> (string \<Rightarrow> string option) option res" where
  "getKubeSecret lib cl key = unless_missing lib (get_secret lib cl key)"

definition getHostedClusterSecret :: "('cl, 'o) hub_lib \<Rightarrow> 'd clusters_server \<Rightarrow> ctx \<Rightarrow> string \<Rightarrow> string \<Rightarrow>
    (('cl, 'd) hub_state, (string \<Rightarrow> string option) option) act" where
  "getHostedClusterSecret lib p c i secretField =
    bind (on_session (ps_Get (pub_delegate (cs_public p)) c i)) (\<lambda>cluster.
    (let hid = GetString ''hub'' (fields_of (GetMessage ''status'' cluster)) in
     if hid = [] then ret None
     else bind (on_session (dao_Get (cs_hubsDao p) c hid)) (\<lambda>h.
      (case h of None \<Rightarrow> ret None
       | Some hub \<Rightarrow> bind (getKubeClient lib hub) (\<lambda>cl.
          bind (lift (getKubeClusterOrder lib cl (GetString ''namespace'' hub) (GetId cluster))) (\<lambda>order.
          bind (lift (query_reference lib order)) (\<lambda>key.
          bind (lift (getKubeHostedCluster lib cl key)) (\<lambda>hc.
          (case hc of None \<Rightarrow> ret None
           | Some o' \<Rightarrow> bind (lift (query_name lib secretField o')) (\<lambda>name.
               lift (getKubeSecret lib cl (GetNamespace lib o', name))))))))))))"

text \<open>\<open>getKubeconfig\<close> and \<open>getPassword\<close> hide every error of the hub.\<close>

definition getKubeconfig ::
  "('cl, 'o) hub_lib \<Rightarrow> 'd clusters_server \<Rightarrow> ctx \<Rightarrow> string \<Rightarrow> (('cl, 'd) hub_state, string) act" where
  "getKubeconfig lib p c i =
    (if i = [] then fail (Status InvalidArgument ''cluster identifier is mandatory'')
     else (let internal = Status Internal (''failed to get kubeconfig for cluster with identifier '' @ quoted i) in
       bind (catch (getHostedClusterSecret lib p c i ''.status.kubeconfig.name'') (\<lambda>e. fail internal)) (\<lambda>secret.
       (case secret of
          None \<Rightarrow> fail (Status NotFound (''kubeconfig for cluster with identifier '' @ quoted i @ '' isn't yet available''))
        | Some entries \<Rightarrow> (case entries ''kubeconfig'' of
            None \<Rightarrow> fail internal
          | Some bytes \<Rightarrow> if length bytes = 0 then fail internal else ret bytes)))))"

definition getPassword ::
  "('cl, 'o) hub_lib \<Rightarrow> 'd clusters_server \<Rightarrow> ctx \<Rightarrow> string \<Rightarrow> (('cl, 'd) hub_state, string) act" where
  "getPassword lib p c i =
    (if i = [] then fail (Status InvalidArgument ''cluster identifier is mandatory'')
     else (let internal = Status Internal (''failed to get password for cluster with identifier '' @ quoted i) in
       bind (catch (getHostedClusterSecret lib p c i ''.status.kubeadminPassword.name'') (\<lambda>e. fail internal)) (\<lambda>secret.
       (case secret of
          None \<Rightarrow> fail (Status NotFound (''password for cluster with identifier '' @ quoted i @ '' isn't available yet''))
        | Some entries \<Rightarrow> (case entries ''password'' of
            None \<Rightarrow> fail internal
          | Some bytes \<Rightarrow> if length bytes = 0 then fail internal else ret bytes)))))"

text \<open>The methods of the service, for gRPC and with the type of content for HTTP.\<close>

definition GetKubeconfig :: "('cl, 'o) hub_lib \<Rightarrow> 'd clusters_server \<Rightarrow> ctx \<Rightarrow> string \<Rightarrow> (('cl, 'd) hub_state, string) act" where
  "GetKubeconfig lib p c i = bind (getKubeconfig lib p c i) ret"

definition GetKubeconfigViaHttp ::
  "('cl, 'o) hub_lib \<Rightarrow> 'd clusters_server \<Rightarrow> ctx \<Rightarrow> string \<Rightarrow> (('cl, 'd) hub_state, string \<times> string) act" where
  "GetKubeconfigViaHttp lib p c i = bind (getKubeconfig lib p c i) (\<lambda>k. ret (''application/yaml'', k))"

definition GetPassword :: "('cl, 'o) hub_lib \<Rightarrow> 'd clusters_server \<Rightarrow> ctx \<Rightarrow> string \<Rightarrow> (('cl, 'd) hub_state, string) act" where
  "GetPassword lib p c i = bind (getPassword lib p c i) ret"

definition GetPasswordViaHttp ::
  "('cl, 'o) hub_lib \<Rightarrow> 'd clusters_server \<Rightarrow> ctx \<Rightarrow> string \<Rightarrow> (('cl, 'd) hub_state, string \<times> string) act" where
  "GetPasswordViaHttp lib p c i = bind (getPassword lib p c i) (\<lambda>k. ret (''text/plain'', k))"

end
