(* ===== verification/PublicProofs.thy ===== *)
theory PublicProofs
  imports PublicServers MapperProofs ServerExample
begin

text \<open>
  What users can do through the public servers: the servers that ignore the status keep it, the others
  don't, and kubeconfigs and passwords are only given for clusters that the user can see.
\<close>

section \<open>The status\<close>

lemma to_private_other:
  assumes "to_private p pub old = Ok priv" "n \<notin> fd_name ` set (pub_schema p (pub_type p)) \<or>
    (\<forall>f\<in>set (pub_schema p (pub_type p)). fd_name f = n \<longrightarrow> shouldIgnore (inMapper p) f)"
  shows "fmlookup priv n = fmlookup old n"
proof -
  obtain y where y: "copyFields (pub_schema p) (inMapper p) (pub_schema p (pub_type p)) (priv_type p) pub old = Ok y" "priv = y"
    using assms(1) by (auto simp: to_private_def Copy_def copyMessage.simps fields_of_def elim!: bindR_Ok_E)
  show ?thesis
    using copyFields_other [OF y(1), of n] y(2) assms(2) by (auto simp: skipped_def)
qed

lemma public_Build_Ok:
  assumes "public_Build sc pub priv ignored b delegate = Ok p"
  shows "pub_schema p = sc" "pub_type p = pub" "priv_type p = priv"
    "delegate = Ok (pub_delegate p)" "\<exists>fs. ignored = Ok fs \<and> mapper_Build (Some ()) True fs = Ok (inMapper p)"
  using assms by (auto simp: public_Build_def split: if_splits option.splits elim!: bindR_Ok_E)

lemma status_ignored:
  assumes "public_Build sc pub priv (status_field sc pub) b delegate = Ok p" "distinct (map fd_name (sc pub))"
    "f \<in> set (sc pub)" "fd_name f = ''status''"
  shows "shouldIgnore (inMapper p) f"
proof -
  obtain g where g: "ByName (sc pub) ''status'' = Some g" "mapper_Build (Some ()) True [IgnoreFullName (fd_full g)] = Ok (inMapper p)"
    using public_Build_Ok(5) [OF assms(1)] by (auto simp: status_field_def split: option.splits)
  have "g = f"
    using ByName_Some [OF g(1)] assms(2-4) by (metis distinct_map inj_on_def)
  moreover have "inMapper p = \<lparr>strict = False, ignoredFieldNames = [], ignoredFieldFullNames = [fd_full g]\<rparr>"
    using g(2) by (simp add: mapper_Build_def)
  ultimately show ?thesis by (simp add: shouldIgnore_def)
qed

lemma hidden_Ok [simp]: "failed_to_process n r = Ok x \<longleftrightarrow> r = Ok x"
  by (cases r) (auto simp: failed_to_process_def)

lemma update_merge_Ok:
  assumes "public_Update_merge p usesMask noun c (Some pub) paths s = (Ok r, t)"
  obtains existing s1 priv u where "ps_Get (pub_delegate p) c (GetId pub) s = (Ok existing, s1)"
    "to_private p pub existing = Ok priv"
    "ps_Update (pub_delegate p) c (Some priv) (if usesMask then paths else None) s1 = (Ok u, t)"
  using assms
  by (auto simp: public_Update_merge_def bind_Ok_iff lift_def ret_def fail_def split: if_splits)

text \<open>
  C26. Users cannot change the status of a cluster: when an update of the public server succeeds, what the
  private server was asked to store has the status, and every other field that the public type does not
  have, of the object that the private server had returned for that user.
\<close>

theorem update_keeps_private_fields:
  assumes "public_Build sc pub priv (status_field sc pub) b delegate = Ok p" "distinct (map fd_name (sc pub))"
    "public_Update_merge p usesMask noun c (Some x) paths s = (Ok r, t)"
  shows "\<exists>existing s1 stored u. ps_Get (pub_delegate p) c (GetId x) s = (Ok existing, s1) \<and>
    ps_Update (pub_delegate p) c (Some stored) (if usesMask then paths else None) s1 = (Ok u, t) \<and>
    (\<forall>n. n = ''status'' \<or> n \<notin> fd_name ` set (sc pub) \<longrightarrow> fmlookup stored n = fmlookup existing n)"
proof -
  obtain existing s1 stored u where 1: "ps_Get (pub_delegate p) c (GetId x) s = (Ok existing, s1)"
    and 2: "to_private p x existing = Ok stored"
    and 3: "ps_Update (pub_delegate p) c (Some stored) (if usesMask then paths else None) s1 = (Ok u, t)"
    using update_merge_Ok [OF assms(3)] by metis
  have "fmlookup stored n = fmlookup existing n" if "n = ''status'' \<or> n \<notin> fd_name ` set (sc pub)" for n
    using to_private_other [OF 2, of n] status_ignored [OF assms(1,2)] public_Build_Ok(1,2) [OF assms(1)] that
    by auto
  with 1 3 show ?thesis by blast
qed

text \<open>Jane changes the state of a cluster of hers with a mask.\<close>

definition example_public_schema :: schema where
  "example_public_schema t = (if t = ''fulfillment.v1.Cluster''
     then [fld ''id'' StringKind Singular, fld ''state'' StringKind Singular, fld ''status'' StringKind Singular]
     else example_server_schema t)"

definition example_public_server :: "msg public_server" where
  "example_public_server = \<lparr>pub_delegate = generic_methods example_server, pub_schema = example_public_schema,
     pub_type = ''fulfillment.v1.Cluster'', priv_type = ''private.v1.Cluster'',
     inMapper = \<lparr>strict = False, ignoredFieldNames = [], ignoredFieldFullNames = [''status'']\<rparr>,
     outMapper = plain_mapper\<rparr>"

lemma example_public_Build:
  "public_Build example_public_schema ''fulfillment.v1.Cluster'' ''private.v1.Cluster''
     (status_field example_public_schema ''fulfillment.v1.Cluster'') example_server_builder
     (Ok (generic_methods example_server)) = Ok example_public_server"
  by (simp add: public_Build_def example_server_builder_def status_field_def example_public_schema_def ByName_def
      fld_def mapper_Build_def example_public_server_def plain_mapper_def)

lemma example_schemas:
  "example_public_schema ''fulfillment.v1.Cluster'' =
     [fld ''id'' StringKind Singular, fld ''state'' StringKind Singular, fld ''status'' StringKind Singular]"
  "example_public_schema ''private.v1.Cluster'' = example_schema ''Cluster''"
  by (simp_all add: example_public_schema_def example_server_schema_def)

lemmas example_copy_simps = example_public_server_def Copy_def copy_merge_simps example_schemas example_schema_def
  ByName_def shouldIgnore_def fld_def plain_mapper_def mSet_def mPut_def mGet_def mClear_def field_ok_def
  implicit_presence_def field_default_def kind_ok_def

lemma example_to_private:
  "\<exists>x. to_private example_public_server example_change (example_object ''x'' ''a'') = Ok x \<and> GetId x = ''x'' \<and>
     fmlookup x ''state'' = Some (VStr ''ready'')"
  by (simp add: to_private_def example_copy_simps example_change_def fields_of_def GetId_def GetString_def SetId_def SetString_def)

lemma example_to_public: "\<exists>x. to_public example_public_server (Some example_updated) = Ok x"
  by (simp add: to_public_def example_copy_simps example_updated_def example_changed_def fields_of_def SetId_def SetString_def
      setMetadata_def SetMessage_def)

lemma update_merge_run:
  assumes "GetId x \<noteq> []" "ps_Get (pub_delegate p) c (GetId x) s = (Ok existing, s1)" "to_private p x existing = Ok stored"
    "ps_Update (pub_delegate p) c (Some stored) (if usesMask then paths else None) s1 = (Ok u, t)" "to_public p u = Ok y"
  shows "public_Update_merge p usesMask noun c (Some x) paths s = (Ok (Some y), t)"
  using assms by (simp add: public_Update_merge_def bind_def lift_def failed_to_process_def ret_def)

lemma example_public_update:
  "\<exists>r t. public_Update_merge example_public_server True ''cluster'' example_jwt_ctx (Some example_change) (Some [''state''])
     (begun 0 (example_session example_db)) = (Ok r, t)"
proof -
  let ?s = "begun 0 (example_session example_db)"
  let ?s1 = "?s\<lparr>tx_real := Some example_db\<rparr>"
  let ?d = "generic_methods example_server"
  have d: "pub_delegate example_public_server = ?d" by (simp add: example_public_server_def)
  have "dao_Get (g_dao example_server) example_jwt_ctx ''x'' ?s = (Ok (Some (example_object ''x'' ''a'')), ?s1)"
    by (intro example_server_get) simp_all
  then have g: "ps_Get ?d example_jwt_ctx ''x'' ?s = (Ok (example_object ''x'' ''a''), ?s1)"
    by (simp add: generic_methods_def server_Get_def bind_def catch_def ret_def)
  obtain x where x: "to_private example_public_server example_change (example_object ''x'' ''a'') = Ok x" "GetId x = ''x''"
    "fmlookup x ''state'' = Some (VStr ''ready'')" using example_to_private by blast
  have "\<exists>t. server_Update example_server example_jwt_ctx (Some x) (Some [''state'']) ?s1 = (Ok (Some example_updated), t)"
    by (rule example_update_from) (simp_all add: x example_session_def)
  then obtain t where u: "ps_Update ?d example_jwt_ctx (Some x) (Some [''state'']) ?s1 = (Ok (Some example_updated), t)"
    by (auto simp: generic_methods_def)
  obtain y where y: "to_public example_public_server (Some example_updated) = Ok y" using example_to_public by blast
  have i: "GetId example_change = ''x''" by (simp add: example_change_def GetId_def SetId_def GetString_def SetString_def)
  have "GetId example_change \<noteq> []" by (simp add: i)
  from update_merge_run [OF this _ x(1) _ y, of "example_jwt_ctx" ?s ?s1 True "Some [''state'']" t "''cluster''"] g u
  show ?thesis unfolding d i by auto
qed

theorem update_keeps_private_fields_witness:
  "\<exists>existing s1 stored u t. ps_Get (generic_methods example_server) example_jwt_ctx ''x''
       (begun 0 (example_session example_db)) = (Ok existing, s1) \<and>
     ps_Update (generic_methods example_server) example_jwt_ctx (Some stored) (Some [''state'']) s1 = (Ok u, t) \<and>
     fmlookup stored ''status'' = fmlookup existing ''status'' \<and> fmlookup stored ''metadata'' = fmlookup existing ''metadata''"
proof -
  obtain r t where u: "public_Update_merge example_public_server True ''cluster'' example_jwt_ctx (Some example_change)
      (Some [''state'']) (begun 0 (example_session example_db)) = (Ok r, t)" using example_public_update by blast
  have d: "distinct (map fd_name (example_public_schema ''fulfillment.v1.Cluster''))"
    by (simp add: example_schemas fld_def)
  have i: "GetId example_change = ''x''" by (simp add: example_change_def GetId_def SetId_def GetString_def SetString_def)
  have p: "pub_delegate example_public_server = generic_methods example_server" by (simp add: example_public_server_def)
  have m: "''metadata'' \<notin> fd_name ` set (example_public_schema ''fulfillment.v1.Cluster'')" by (simp add: example_schemas fld_def)
  obtain existing s1 stored v where 1: "ps_Get (generic_methods example_server) example_jwt_ctx ''x''
       (begun 0 (example_session example_db)) = (Ok existing, s1)"
    and 2: "ps_Update (generic_methods example_server) example_jwt_ctx (Some stored) (Some [''state'']) s1 = (Ok v, t)"
    and 3: "\<forall>n. n = ''status'' \<or> n \<notin> fd_name ` set (example_public_schema ''fulfillment.v1.Cluster'') \<longrightarrow>
       fmlookup stored n = fmlookup existing n"
    using update_keeps_private_fields [OF example_public_Build d u] unfolding i p by (auto simp only: if_True)
  from 3 m have "fmlookup stored ''status'' = fmlookup existing ''status''"
    "fmlookup stored ''metadata'' = fmlookup existing ''metadata''" by blast+
  with 1 2 show ?thesis by blast
qed

text \<open>
  The servers of hosts and host pools send an object without a status, with or without a mask, so that
  an update without a mask removes the status that the private server has.
\<close>

lemma update_replace_has_no_status:
  assumes "public_Build sc pub priv (status_field sc pub) b delegate = Ok p" "distinct (map fd_name (sc pub))"
    "public_Update_replace p noun c (Some x) paths s = (Ok r, t)"
  shows "\<exists>stored u. ps_Update (pub_delegate p) c (Some stored) paths s = (Ok u, t) \<and> fmlookup stored ''status'' = None"
proof -
  obtain stored u where 2: "to_private p x fmempty = Ok stored" and 3: "ps_Update (pub_delegate p) c (Some stored) paths s = (Ok u, t)"
    using assms(3) by (auto simp: public_Update_replace_def bind_Ok_iff lift_def ret_def)
  have "fmlookup stored ''status'' = fmlookup fmempty ''status''"
    using to_private_other [OF 2, of "''status''"] status_ignored [OF assms(1,2)] public_Build_Ok(1,2) [OF assms(1)]
    by auto
  with 3 show ?thesis by auto
qed

section \<open>Credentials\<close>

lemma on_session_Ok: "on_session m x = (Ok y, z) \<longleftrightarrow> (\<exists>t. m (snd x) = (Ok y, t) \<and> z = (fst x, t))"
  by (auto simp: on_session_def split: prod.splits)

lemma server_Get_Ok: "server_Get g c i s = (Ok x, t) \<Longrightarrow> dao_Get (g_dao g) c i s = (Ok (Some x), t)"
  by (auto simp: server_Get_def bind_Ok_iff catch_fail_Ok fail_def ret_def split: if_splits option.splits)

text \<open>A secret comes from a cluster that the private server found.\<close>

lemma secret_of_cluster:
  assumes "getHostedClusterSecret lib p c i field x = (Ok (Some e), y)"
  shows "\<exists>cluster t. ps_Get (pub_delegate (cs_public p)) c i (snd x) = (Ok cluster, t)"
  using assms by (auto simp: getHostedClusterSecret_def bind_Ok_iff on_session_Ok)

definition credential_errors :: "string \<Rightarrow> error set" where
  "credential_errors i = {Status InvalidArgument ''cluster identifier is mandatory'',
     Status Internal (''failed to get kubeconfig for cluster with identifier '' @ quoted i),
     Status NotFound (''kubeconfig for cluster with identifier '' @ quoted i @ '' isn't yet available''),
     Status Internal (''failed to get password for cluster with identifier '' @ quoted i),
     Status NotFound (''password for cluster with identifier '' @ quoted i @ '' isn't available yet'')}"

text \<open>The shape that both operations share.\<close>

definition credential :: "error \<Rightarrow> error \<Rightarrow> string \<Rightarrow> ('s, (string \<Rightarrow> string option) option) act \<Rightarrow> ('s, string) act" where
  "credential internal missing key m = bind (catch m (\<lambda>e. fail internal)) (\<lambda>secret.
     (case secret of None \<Rightarrow> fail missing
      | Some entries \<Rightarrow> (case entries key of None \<Rightarrow> fail internal
         | Some bytes \<Rightarrow> if length bytes = 0 then fail internal else ret bytes)))"

lemma credential_Ok: "credential internal missing key m x = (Ok k, y) \<Longrightarrow> k \<noteq> [] \<and> (\<exists>e z. m x = (Ok (Some e), z))"
  by (auto simp: credential_def bind_Ok_iff catch_fail_Ok fail_def ret_def split: if_splits option.splits)

lemma credential_Err: "credential internal missing key m x = (Err e, y) \<Longrightarrow> e \<in> {internal, missing}"
  by (auto simp: credential_def bind_Err_iff catch_fail_Ok catch_fail_Err fail_def ret_def split: if_splits option.splits)

lemma getKubeconfig_eq:
  "getKubeconfig lib p c i = (if i = [] then fail (Status InvalidArgument ''cluster identifier is mandatory'')
     else credential (Status Internal (''failed to get kubeconfig for cluster with identifier '' @ quoted i))
       (Status NotFound (''kubeconfig for cluster with identifier '' @ quoted i @ '' isn't yet available'')) ''kubeconfig''
       (getHostedClusterSecret lib p c i ''.status.kubeconfig.name''))"
  by (simp only: getKubeconfig_def credential_def Let_def)

lemma getPassword_eq:
  "getPassword lib p c i = (if i = [] then fail (Status InvalidArgument ''cluster identifier is mandatory'')
     else credential (Status Internal (''failed to get password for cluster with identifier '' @ quoted i))
       (Status NotFound (''password for cluster with identifier '' @ quoted i @ '' isn't available yet'')) ''password''
       (getHostedClusterSecret lib p c i ''.status.kubeadminPassword.name''))"
  by (simp only: getPassword_def credential_def Let_def)

lemma kubeconfig_Ok:
  assumes "getKubeconfig lib p c i x = (Ok k, y)"
  shows "k \<noteq> [] \<and> (\<exists>e z. getHostedClusterSecret lib p c i ''.status.kubeconfig.name'' x = (Ok (Some e), z))"
proof (cases "i = []")
  case False
  with assms show ?thesis unfolding getKubeconfig_eq by (simp only: if_False) (erule credential_Ok)
qed (use assms in \<open>simp add: getKubeconfig_eq fail_def\<close>)

lemma password_Ok:
  assumes "getPassword lib p c i x = (Ok k, y)"
  shows "k \<noteq> [] \<and> (\<exists>e z. getHostedClusterSecret lib p c i ''.status.kubeadminPassword.name'' x = (Ok (Some e), z))"
proof (cases "i = []")
  case False
  with assms show ?thesis unfolding getPassword_eq by (simp only: if_False) (erule credential_Ok)
qed (use assms in \<open>simp add: getPassword_eq fail_def\<close>)

lemma kubeconfig_Err:
  assumes "getKubeconfig lib p c i x = (Err e, y)"
  shows "e \<in> credential_errors i"
proof (cases "i = []")
  case True
  then have "e = Status InvalidArgument ''cluster identifier is mandatory''"
    using assms unfolding getKubeconfig_eq by (simp only: simp_thms if_True fail_def prod.inject res.inject)
  then show ?thesis unfolding credential_errors_def by blast
next
  case False
  with assms show ?thesis unfolding getKubeconfig_eq credential_errors_def
    by (simp only: if_False) (drule credential_Err, blast)
qed

lemma password_Err:
  assumes "getPassword lib p c i x = (Err e, y)"
  shows "e \<in> credential_errors i"
proof (cases "i = []")
  case True
  then have "e = Status InvalidArgument ''cluster identifier is mandatory''"
    using assms unfolding getPassword_eq by (simp only: simp_thms if_True fail_def prod.inject res.inject)
  then show ?thesis unfolding credential_errors_def by blast
next
  case False
  with assms show ?thesis unfolding getPassword_eq credential_errors_def
    by (simp only: if_False) (drule credential_Err, blast)
qed

lemma credentials_Ok:
  assumes "getKubeconfig lib p c i x = (Ok k, y) \<or> getPassword lib p c i x = (Ok k, y)"
  shows "k \<noteq> [] \<and> (\<exists>cluster t. ps_Get (pub_delegate (cs_public p)) c i (snd x) = (Ok cluster, t))"
  using assms kubeconfig_Ok [of lib p c i x k y] password_Ok [of lib p c i x k y] secret_of_cluster [of lib p c i _ x]
  by metis

text \<open>
  C27. A kubeconfig or a password is only returned for a cluster of the table that belongs to a tenant of the user,
  and it is never empty; a failure is one of the errors with the identifier of the request, so no
  error of the database or of a hub reaches the user.
\<close>

theorem credentials_respect_tenancy:
  assumes "pub_delegate (cs_public p) = clusters_methods series name pc"
    "tenancyLogic (g_dao (pc_generic pc)) = DefaultTenancyLogic" "DetermineVisibleTenants DefaultTenancyLogic c = Ok v"
    "m = getKubeconfig lib p c i \<or> m = getPassword lib p c i" "m x = (r, y)"
  shows "case r of
      Ok k \<Rightarrow> k \<noteq> [] \<and> (\<exists>row. (i, row) \<in> set (rows_of (g_dao (pc_generic pc)) (view (snd x))) \<and>
        set (tenants row) \<inter> set (slice_list v) \<noteq> {})
    | Err e \<Rightarrow> e \<in> credential_errors i
    | Panic q \<Rightarrow> True"
proof (cases r)
  case (Ok k)
  then obtain cluster t where k: "k \<noteq> []" and g: "ps_Get (pub_delegate (cs_public p)) c i (snd x) = (Ok cluster, t)"
    using credentials_Ok assms(4,5) by metis
  from g have "server_Get (pc_generic pc) c i (snd x) = (Ok cluster, t)"
    by (simp add: assms(1) clusters_methods_def generic_methods_def)
  then obtain ts row where "DetermineVisibleTenants (tenancyLogic (g_dao (pc_generic pc))) c = Ok ts"
    and row: "(i, row) \<in> set (rows_of (g_dao (pc_generic pc)) (view (snd x)))" "can_see (slice_list ts) row"
    using get_row [OF server_Get_Ok] by metis
  then have "ts = v" using assms(2,3) by simp
  have "default_DetermineVisibleTenants c = Ok v" using assms(3) by (simp add: default_visible)
  from default.seen_overlap [OF this, of row] row \<open>ts = v\<close> k Ok show ?thesis by auto
next
  case (Err e)
  then have "e \<in> credential_errors i" using kubeconfig_Err password_Err assms(4,5) by metis
  with Err show ?thesis by simp
qed simp

text \<open>Jane gets the kubeconfig of a cluster of hers.\<close>

definition example_hub_db :: "msg db" where
  "example_hub_db = example_db\<lparr>tables := (tables example_db)
     (''clusters'' := [(''x'', (example_row ''a'')\<lparr>row_data := fmupd ''status'' (VMsg (fmupd ''hub'' (VStr ''h'') fmempty)) fmempty\<rparr>)],
      ''hubs'' := [(''h'', example_row ''shared'')])\<rparr>"

definition example_hub_lib :: "(unit, string) hub_lib" where
  "example_hub_lib = \<lparr>create_client = (\<lambda>k. Ok ()), list_orders = (\<lambda>cl n i. Ok [''order'']),
     get_hosted_cluster = (\<lambda>cl key. Ok ''hosted''), get_secret = (\<lambda>cl key. Ok [''kubeconfig'' \<mapsto> ''kc'']),
     IsNotFound = (\<lambda>e. False), query_reference = (\<lambda>o'. Ok (''ns'', o')), query_name = (\<lambda>f o'. Ok o'), GetNamespace = (\<lambda>o'. ''ns'')\<rparr>"

definition example_public_clusters :: "msg clusters_server" where
  "example_public_clusters = \<lparr>cs_public = \<lparr>pub_delegate = clusters_methods (\<lambda>_. []) (\<lambda>_. [])
       \<lparr>pc_templatesDao = example_dao, pc_generic = \<lparr>g_dao = example_dao, g_schema = mapper_schema, g_type = ''PrivateCluster''\<rparr>\<rparr>,
       pub_schema = mapper_schema, pub_type = ''Cluster'', priv_type = ''PrivateCluster'', inMapper = plain_mapper,
       outMapper = plain_mapper\<rparr>, cs_hubsDao = example_dao\<lparr>table := ''hubs''\<rparr>\<rparr>"

lemma example_hub_get:
  assumes "d = example_dao\<lparr>table := tb\<rparr>" "rows_of d example_hub_db = [(i, (example_row t)\<lparr>row_data := m\<rparr>)]"
    "t \<in> {''a'', ''b'', ''shared''}" "i \<noteq> []" "outcomes s = []" "view s = example_hub_db"
  shows "\<exists>o'. dao_Get d example_jwt_ctx i s = (Ok (Some o'), s\<lparr>tx_real := Some example_hub_db\<rparr>) \<and>
    (\<forall>n. n \<noteq> ''id'' \<and> n \<noteq> ''metadata'' \<longrightarrow> fmlookup o' n = fmlookup m n)"
proof -
  let ?r = "(example_row t)\<lparr>row_data := m\<rparr>"
  let ?o = "setMetadata (Some (makeMetadata (10 ^ 6) 0 [] [''jane''] [t])) (SetId i m)"
  have o': "object_of d i ?r = Ok ?o"
    by (simp add: object_of_def unmarshalData_def example_unmarshal_def newObject_def example_row_def assms(1))
  have "rows_ok (rows_of d (view s))"
    by (simp add: assms(2,6) rows_ok_def example_row_def live_def unix_def)
  moreover have "can_see [''a'', ''b'', ''shared''] ?r"
    using assms(3) by (auto simp: can_see_def example_row_def)
  moreover have "tenancyLogic d = DefaultTenancyLogic" by (simp add: assms(1))
  ultimately have "dao_Get d example_jwt_ctx i s = (Ok (Some ?o), s\<lparr>tx_real := Some example_hub_db\<rparr>)"
    using get_calm [of example_jwt_ctx s i d "Some [''a'', ''b'', ''shared'']" ?r ?o] assms o' example_visible by simp
  moreover have "\<forall>n. n \<noteq> ''id'' \<and> n \<noteq> ''metadata'' \<longrightarrow> fmlookup ?o n = fmlookup m n"
    by (simp add: setMetadata_def SetMessage_def SetId_def SetString_def)
  ultimately show ?thesis by blast
qed

lemma example_kubeconfig:
  "\<exists>y. getKubeconfig example_hub_lib example_public_clusters example_jwt_ctx ''x''
     (Map.empty, begun 0 (example_session example_hub_db)) = (Ok ''kc'', y)"
proof -
  let ?s = "begun 0 (example_session example_hub_db)"
  let ?s1 = "?s\<lparr>tx_real := Some example_hub_db\<rparr>"
  let ?m = "fmupd ''status'' (VMsg (fmupd ''hub'' (VStr ''h'') fmempty)) fmempty"
  have d: "example_dao = example_dao\<lparr>table := ''clusters''\<rparr>" by (simp add: example_dao_def)
  have rows1: "rows_of example_dao example_hub_db = [(''x'', (example_row ''a'')\<lparr>row_data := ?m\<rparr>)]"
    by (simp add: rows_of_def example_hub_db_def)
  have "\<exists>o'. dao_Get example_dao example_jwt_ctx ''x'' ?s = (Ok (Some o'), ?s1) \<and>
      (\<forall>n. n \<noteq> ''id'' \<and> n \<noteq> ''metadata'' \<longrightarrow> fmlookup o' n = fmlookup ?m n)"
    by (rule example_hub_get [OF d rows1]) simp_all
  then obtain cluster where c: "dao_Get example_dao example_jwt_ctx ''x'' ?s = (Ok (Some cluster), ?s1)"
    and other: "\<forall>n. n \<noteq> ''id'' \<and> n \<noteq> ''metadata'' \<longrightarrow> fmlookup cluster n = fmlookup ?m n" by blast
  from other have status: "fmlookup cluster ''status'' = Some (VMsg (fmupd ''hub'' (VStr ''h'') fmempty))" by simp
  let ?h = "example_dao\<lparr>table := ''hubs''\<rparr>"
  have e: "example_row ''shared'' = (example_row ''shared'')\<lparr>row_data := fmempty\<rparr>" by (simp add: example_row_def)
  have "rows_of ?h example_hub_db = [(''h'', example_row ''shared'')]"
    by (simp add: rows_of_def example_hub_db_def)
  then have rows2: "rows_of ?h example_hub_db = [(''h'', (example_row ''shared'')\<lparr>row_data := fmempty\<rparr>)]"
    by (simp only: e [symmetric])
  have "\<exists>o'. dao_Get ?h example_jwt_ctx ''h'' ?s1 = (Ok (Some o'), ?s1\<lparr>tx_real := Some example_hub_db\<rparr>) \<and>
      (\<forall>n. n \<noteq> ''id'' \<and> n \<noteq> ''metadata'' \<longrightarrow> fmlookup o' n = fmlookup fmempty n)"
    by (rule example_hub_get [OF refl rows2]) simp_all
  then obtain hub where h: "dao_Get ?h example_jwt_ctx ''h'' ?s1 = (Ok (Some hub), ?s1)" by auto
  have g: "ps_Get (pub_delegate (cs_public example_public_clusters)) example_jwt_ctx ''x'' ?s = (Ok cluster, ?s1)"
    using c by (simp add: example_public_clusters_def clusters_methods_def generic_methods_def server_Get_def bind_def
        catch_def ret_def)
  have hid: "GetString ''hub'' (fields_of (GetMessage ''status'' cluster)) = ''h''"
    using status by (simp add: GetString_def GetMessage_def fields_of_def)
  have hubs: "cs_hubsDao example_public_clusters = ?h" by (simp add: example_public_clusters_def)
  have k: "getKubeClient example_hub_lib hub (Map.empty, ?s1) = (Ok (), ([GetId hub \<mapsto> ()], ?s1))"
    by (simp add: getKubeClient_def example_hub_lib_def)
  have lib: "getKubeClusterOrder example_hub_lib () n j = Ok ''order''" "query_reference example_hub_lib ''order'' = Ok (''ns'', ''order'')"
    "getKubeHostedCluster example_hub_lib () q = Ok (Some ''hosted'')" "query_name example_hub_lib f ''hosted'' = Ok ''hosted''"
    "getKubeSecret example_hub_lib () q = Ok (Some [''kubeconfig'' \<mapsto> ''kc''])" for n j q f
    by (simp_all add: getKubeClusterOrder_def getKubeHostedCluster_def getKubeSecret_def unless_missing_def example_hub_lib_def)
  have "getHostedClusterSecret example_hub_lib example_public_clusters example_jwt_ctx ''x'' ''.status.kubeconfig.name''
      (Map.empty, ?s) = (Ok (Some [''kubeconfig'' \<mapsto> ''kc'']), ([GetId hub \<mapsto> ()], ?s1))"
    unfolding getHostedClusterSecret_def Let_def
    by (simp add: bind_def on_session_def g hid hubs h k lib lift_def)
  then show ?thesis by (simp add: getKubeconfig_def Let_def bind_def catch_def ret_def)
qed

theorem credentials_respect_tenancy_witness:
  "\<exists>k y. getKubeconfig example_hub_lib example_public_clusters example_jwt_ctx ''x''
       (Map.empty, begun 0 (example_session example_hub_db)) = (Ok k, y) \<and> k \<noteq> [] \<and>
     (\<exists>row. (''x'', row) \<in> set (rows_of example_dao example_hub_db) \<and> set (tenants row) \<inter> {''a'', ''b'', ''shared''} \<noteq> {})"
proof -
  let ?x = "(Map.empty, begun 0 (example_session example_hub_db)) :: (unit, msg) hub_state"
  let ?pc = "\<lparr>pc_templatesDao = example_dao, pc_generic = \<lparr>g_dao = example_dao, g_schema = mapper_schema, g_type = ''PrivateCluster''\<rparr>\<rparr>"
  obtain y where y: "getKubeconfig example_hub_lib example_public_clusters example_jwt_ctx ''x'' ?x = (Ok ''kc'', y)"
    using example_kubeconfig by blast
  have "pub_delegate (cs_public example_public_clusters) = clusters_methods (\<lambda>_. []) (\<lambda>_. []) ?pc"
    by (simp add: example_public_clusters_def)
  from credentials_respect_tenancy [OF this _ example_visible disjI1 [OF refl] y] y
  show ?thesis by auto
qed

end
