(* ===== verification/Jq.thy ===== *)
theory Jq
  imports Prelude
begin

text \<open>
  The JQ tool, \<open>internal/jq\<close>: queries are compiled once and kept in a cache, and evaluated on values that
  are converted to JSON and back. The parser, the compiler and the interpreter of the gojq library and the
  JSON codec are arguments. The interpreter is an iterator that may never end; not returning is the
  value \<open>None\<close>.
\<close>

section \<open>The libraries and the state\<close>

text \<open>
  \<open>compile_code\<close> is \<open>gojq.Parse\<close> and \<open>gojq.Compile\<close> with the names of the variables and the option of the
  tool, \<open>run_code\<close> the iterator of \<open>Run\<close> and \<open>next_result\<close> its \<open>Next\<close>; \<open>to_json\<close> and \<open>of_json\<close> are
  the two halves of \<open>clone\<close> (the target decides how to read a value), \<open>json_list\<close> the array of several values.
\<close>

record ('c, 'i, 'j, 'x, 'o) gojq =
  compile_code :: "string \<Rightarrow> string list \<Rightarrow> 'c res"
  run_code :: "'c \<Rightarrow> 'j \<Rightarrow> 'j list \<Rightarrow> 'i"
  next_result :: "'i \<Rightarrow> ((error + 'j) \<times> 'i) option"
  to_json :: "'x \<Rightarrow> 'j res"
  of_json :: "'j \<Rightarrow> 'o res"
  json_list :: "'j list \<Rightarrow> 'j"
  parse_json :: "string \<Rightarrow> 'x res"

record 'c query =
  q_source :: string
  q_variables :: slice
  q_code :: 'c

type_synonym 'c cache = "string \<Rightarrow> 'c query option"

record 'j variable =
  var_name :: string
  var_value :: 'j

text \<open>What \<open>reflect.TypeOf(output)\<close> says of the output.\<close>

datatype target = NilOutput | NotPointer string | ToSlice | ToOther

section \<open>Compilation\<close>

definition jq_sort :: "slice \<Rightarrow> slice" where
  "jq_sort vs = map_option sort vs"

definition different_variables :: "slice \<Rightarrow> slice \<Rightarrow> error" where
  "different_variables vs ws = Fmt (''query was compiled with variables ['' @ concat (map (\<lambda>v. v @ '' '') (slice_list vs))
     @ ''] but used with ['' @ concat (map (\<lambda>v. v @ '' '') (slice_list ws)) @ '']'')"

definition jq_lookup :: "'c cache \<Rightarrow> string \<Rightarrow> slice \<Rightarrow> 'c query option res" where
  "jq_lookup cache source variables = (case cache source of
      None \<Rightarrow> Ok None
    | Some q \<Rightarrow> if slice_list variables \<noteq> slice_list (q_variables q)
        then Err (different_variables (q_variables q) variables) else Ok (Some q))"

definition jq_compile :: "('c, 'i, 'j, 'x, 'o) gojq \<Rightarrow> string \<Rightarrow> slice \<Rightarrow> 'c query res" where
  "jq_compile lib source variables = bindR (compile_code lib source (slice_list variables)) (\<lambda>c.
     Ok \<lparr>q_source = source, q_variables = variables, q_code = c\<rparr>)"

definition Compile_query ::
  "('c, 'i, 'j, 'x, 'o) gojq \<Rightarrow> string \<Rightarrow> slice \<Rightarrow> ('c cache, 'c query) act" where
  "Compile_query lib source variables cache = (let vs = jq_sort variables in
     (case jq_lookup cache source vs of
        Ok (Some q) \<Rightarrow> (Ok q, cache)
      | Ok None \<Rightarrow> (case jq_compile lib source vs of
          Ok q \<Rightarrow> (Ok q, cache(source \<mapsto> q))
        | Err e \<Rightarrow> (Err e, cache)
        | Panic p \<Rightarrow> (Panic p, cache))
      | Err e \<Rightarrow> (Err e, cache)
      | Panic p \<Rightarrow> (Panic p, cache)))"

section \<open>Evaluation\<close>

text \<open>The loop over the results of the iterator.\<close>

partial_function (option) jq_results ::
  "('i \<Rightarrow> ((error + 'j) \<times> 'i) option) \<Rightarrow> 'i \<Rightarrow> 'j list \<Rightarrow> 'j list res option" where
  "jq_results next iter results = (case next iter of
      None \<Rightarrow> Some (Ok results)
    | Some (Inl e, _) \<Rightarrow> Some (Err e)
    | Some (Inr r, iter') \<Rightarrow> jq_results next iter' (results @ [r]))"

text \<open>The value that is copied to the output: all the results, or only the first.\<close>

definition jq_result :: "('c, 'i, 'j, 'x, 'o) gojq \<Rightarrow> target \<Rightarrow> 'j list \<Rightarrow> 'o res" where
  "jq_result lib out results = (
     if out = ToSlice then of_json lib (json_list lib results)
     else case results of [] \<Rightarrow> Err (Fmt ''query produced no results'') | r # _ \<Rightarrow> of_json lib r)"

definition jq_evaluate ::
  "('c, 'i, 'j, 'x, 'o) gojq \<Rightarrow> 'c query \<Rightarrow> 'x \<Rightarrow> target \<Rightarrow> 'j list \<Rightarrow> 'o res option" where
  "jq_evaluate lib q input out values = (case out of
      NilOutput \<Rightarrow> Some (Panic ''invalid memory address or nil pointer dereference'')
    | NotPointer t \<Rightarrow> Some (Err (Fmt (''output should be a pointer, but it is of type '' @ quoted t)))
    | _ \<Rightarrow> (case to_json lib input of
        Err e \<Rightarrow> Some (Err e)
      | Panic p \<Rightarrow> Some (Panic p)
      | Ok j \<Rightarrow> map_option (\<lambda>rs. bindR rs (jq_result lib out)) (jq_results (next_result lib) (run_code lib (q_code q) j values) [])))"

definition by_name :: "'j variable list \<Rightarrow> 'j variable list" where
  "by_name vars = sort_key var_name vars"

text \<open>\<open>reflect.DeepEqual\<close> tells a nil slice from an empty one; the names are never nil.\<close>

definition Query_Evaluate ::
  "('c, 'i, 'j, 'x, 'o) gojq \<Rightarrow> 'c query \<Rightarrow> 'x \<Rightarrow> target \<Rightarrow> 'j variable list \<Rightarrow> 'o res option" where
  "Query_Evaluate lib q input out vars = (let names = Some (map var_name (by_name vars)) in
     if names \<noteq> q_variables q then Some (Err (different_variables (q_variables q) names))
     else jq_evaluate lib q input out (map var_value (by_name vars)))"

definition Tool_Evaluate ::
  "('c, 'i, 'j, 'x, 'o) gojq \<Rightarrow> 'c cache \<Rightarrow> string \<Rightarrow> 'x \<Rightarrow> target \<Rightarrow> 'j variable list \<Rightarrow> 'o res option \<times> 'c cache" where
  "Tool_Evaluate lib cache source input out vars =
    (case Compile_query lib source (Some (map var_name (by_name vars))) cache of
       (Ok q, cache') \<Rightarrow> (jq_evaluate lib q input out (map var_value (by_name vars)), cache')
     | (Err e, cache') \<Rightarrow> (Some (Err e), cache')
     | (Panic p, cache') \<Rightarrow> (Some (Panic p), cache'))"

definition EvaluateString ::
  "('c, 'i, 'j, 'x, 'o) gojq \<Rightarrow> 'c cache \<Rightarrow> string \<Rightarrow> string \<Rightarrow> target \<Rightarrow> 'j variable list \<Rightarrow> 'o res option \<times> 'c cache" where
  "EvaluateString lib cache source input out vars = (case parse_json lib input of
      Ok x \<Rightarrow> Tool_Evaluate lib cache source x out vars
    | Err e \<Rightarrow> (Some (Err e), cache)
    | Panic p \<Rightarrow> (Some (Panic p), cache))"

section \<open>The cache\<close>

text \<open>The caches that a tool can have: empty when it is built, then changed by the calls of \<open>Compile\<close>.\<close>

inductive tool_cache :: "('c, 'i, 'j, 'x, 'o) gojq \<Rightarrow> 'c cache \<Rightarrow> bool" for lib where
  built: "tool_cache lib Map.empty"
| compiled: "tool_cache lib cache \<Longrightarrow> tool_cache lib (snd (Compile_query lib source variables cache))"

inductive_cases tool_cacheE: "tool_cache lib cache"

definition cache_ok :: "('c, 'i, 'j, 'x, 'o) gojq \<Rightarrow> 'c cache \<Rightarrow> bool" where
  "cache_ok lib cache \<longleftrightarrow> (\<forall>s q. cache s = Some q \<longrightarrow> q_source q = s \<and>
     compile_code lib s (slice_list (q_variables q)) = Ok (q_code q))"

lemma Compile_query_cache:
  "snd (Compile_query lib source variables cache) = cache \<or> (\<exists>q. snd (Compile_query lib source variables cache) =
     cache(source \<mapsto> q) \<and> jq_compile lib source (jq_sort variables) = Ok q \<and> cache source = None)"
  by (auto simp: Compile_query_def Let_def jq_lookup_def split: res.splits option.splits if_splits)

lemma tool_cache_ok: "tool_cache lib cache \<Longrightarrow> cache_ok lib cache"
proof (induction rule: tool_cache.induct)
  case built
  then show ?case by (simp add: cache_ok_def)
next
  case (compiled cache source variables)
  then show ?case using Compile_query_cache [of lib source variables cache]
    by (auto simp: cache_ok_def jq_compile_def bindR_eq_Ok split: if_splits)
qed

lemma names_sorted: "jq_sort (Some (map var_name (by_name vars))) = Some (map var_name (by_name vars))"
  by (simp add: jq_sort_def by_name_def sorted_sort_id)

text \<open>
  The cache of the tool does not change what a query computes: whatever was compiled before, evaluating a
  query gives the result of a new tool, except that a source which was compiled with other variables
  is rejected.
\<close>

theorem cache_is_transparent:
  assumes "tool_cache lib cache"
  shows "fst (Tool_Evaluate lib cache source input out vars) =
    (case cache source of
       Some q \<Rightarrow> if slice_list (q_variables q) \<noteq> map var_name (by_name vars)
         then Some (Err (different_variables (q_variables q) (Some (map var_name (by_name vars)))))
         else fst (Tool_Evaluate lib Map.empty source input out vars)
     | None \<Rightarrow> fst (Tool_Evaluate lib Map.empty source input out vars))"
proof (cases "cache source")
  case None
  then show ?thesis
    by (simp add: Tool_Evaluate_def Compile_query_def Let_def names_sorted jq_lookup_def split: res.splits)
next
  case (Some q)
  then have c: "compile_code lib source (slice_list (q_variables q)) = Ok (q_code q)"
    using tool_cache_ok [OF assms] by (simp add: cache_ok_def)
  have e: "jq_evaluate lib q input out vs = jq_evaluate lib q' input out vs" if "q_code q' = q_code q" for q' vs
    using that by (cases out; simp add: jq_evaluate_def split: res.splits)
  show ?thesis
    using Some c
    by (auto simp: Tool_Evaluate_def Compile_query_def Let_def names_sorted jq_lookup_def jq_compile_def intro!: e)
qed

text \<open>A library whose queries give their input.\<close>

definition identity_gojq :: "(string, string list, string, string, string) gojq" where
  "identity_gojq = \<lparr>compile_code = (\<lambda>s vs. Ok s), run_code = (\<lambda>c j vs. [j]),
     next_result = (\<lambda>i. case i of [] \<Rightarrow> None | x # xs \<Rightarrow> Some (Inr x, xs)), to_json = Ok, of_json = Ok,
     json_list = concat, parse_json = Ok\<rparr>"

theorem cache_is_transparent_witness:
  "\<exists>cache q. cache ''.'' = Some q \<and>
     fst (Tool_Evaluate identity_gojq cache ''.'' ''42'' ToOther []) =
     fst (Tool_Evaluate identity_gojq Map.empty ''.'' ''42'' ToOther [])"
proof -
  let ?q = "\<lparr>q_source = ''.'', q_variables = None, q_code = ''.''\<rparr>"
  have c: "snd (Compile_query identity_gojq ''.'' None Map.empty) = Map.empty(''.'' \<mapsto> ?q)"
    by (simp add: Compile_query_def jq_lookup_def jq_sort_def jq_compile_def identity_gojq_def)
  have "tool_cache identity_gojq (Map.empty(''.'' \<mapsto> ?q))"
    using tool_cache.compiled [OF tool_cache.built, of identity_gojq "''.''" None] c by simp
  from cache_is_transparent [OF this, of "''.''" "''42''" ToOther "[]"]
  show ?thesis by (intro exI [of _ "Map.empty(''.'' \<mapsto> ?q)"] exI [of _ ?q]) (simp add: by_name_def)
qed

section \<open>Termination\<close>

text \<open>The results that an iterator gives before it ends or fails.\<close>

fun yields :: "('i \<Rightarrow> ((error + 'j) \<times> 'i) option) \<Rightarrow> nat \<Rightarrow> 'i \<Rightarrow> bool" where
  "yields next 0 i = True"
| "yields next (Suc n) i = (case next i of Some (Inr r, i') \<Rightarrow> yields next n i' | _ \<Rightarrow> False)"

lemma results_end: "\<not> yields next n i \<Longrightarrow> jq_results next i rs \<noteq> None"
proof (induction n arbitrary: i rs)
  case (Suc n)
  show ?case
  proof (cases "next i")
    case None
    then show ?thesis by (simp add: jq_results.simps)
  next
    case (Some x)
    obtain r i' where x: "x = (r, i')" by (cases x)
    show ?thesis
      using Suc Some x by (cases r) (simp_all add: jq_results.simps [of "next" i])
  qed
qed simp

lemma results_bounded:
  assumes ret: "jq_results next i rs = Some y"
  shows "\<exists>n. \<not> yields next n i"
proof (rule jq_results.raw_induct [where P = "\<lambda>next i rs y. \<exists>n. \<not> yields next n i", OF _ ret])
  fix f "next" i rs y
  assume IH: "\<And>next i rs y. f next i rs = Some y \<Longrightarrow> \<exists>n. \<not> yields next n i"
    and eq: "(case next i of None \<Rightarrow> Some (Ok rs) | Some (Inl e, _) \<Rightarrow> Some (Err e)
      | Some (Inr r, iter') \<Rightarrow> f next iter' (rs @ [r])) = Some y"
  show "\<exists>n. \<not> yields next n i"
  proof (cases "\<exists>r i'. next i = Some (Inr r, i')")
    case True
    then obtain r i' where n: "next i = Some (Inr r, i')" by blast
    with eq have "f next i' (rs @ [r]) = Some y" by simp
    from IH [OF this] obtain n where "\<not> yields next n i'" by blast
    with n have "\<not> yields next (Suc n) i" by simp
    then show ?thesis by blast
  next
    case False
    then have "\<not> yields next (Suc 0) i" by (auto split: option.splits sum.splits)
    then show ?thesis by blast
  qed
qed

lemma results_None: "jq_results next i rs = None \<longleftrightarrow> (\<forall>n. yields next n i)"
proof (cases "jq_results next i rs")
  case None
  then show ?thesis using results_end by metis
next
  case (Some y)
  then show ?thesis using results_bounded [OF Some] by auto
qed

text \<open>
  Evaluating a query returns, with a value or an error, unless the query compiles, the output is a
  pointer, the input can be converted and the interpreter yields results without end.
\<close>

theorem evaluate_terminates:
  "fst (Tool_Evaluate lib cache source input out vars) = None \<longleftrightarrow>
     (\<exists>q j. fst (Compile_query lib source (Some (map var_name (by_name vars))) cache) = Ok q \<and>
        out \<in> {ToSlice, ToOther} \<and> to_json lib input = Ok j \<and>
        (\<forall>n. yields (next_result lib) n (run_code lib (q_code q) j (map var_value (by_name vars)))))"
  by (cases "Compile_query lib source (Some (map var_name (by_name vars))) cache"; cases out)
    (auto simp: Tool_Evaluate_def jq_evaluate_def results_None split: res.splits)

text \<open>A query that was compiled without variables cannot be evaluated without variables.\<close>

lemma compiled_without_variables:
  assumes "fst (Compile_query lib source None Map.empty) = Ok q"
  shows "Query_Evaluate lib q input out [] = Some (Err (different_variables None (Some [])))"
  using assms
  by (auto simp: Compile_query_def Let_def jq_lookup_def jq_sort_def jq_compile_def bindR_eq_Ok Query_Evaluate_def by_name_def
      split: res.splits)

end
