(* ===== verification/Listener.thy ===== *)
theory Listener
  imports Prelude
begin

text \<open>
  The listener of the notifications of the database, \<open>internal/database/database_listener.go\<close>. The rest of the world
  (the database server, the clock, the cancellation of the context) is a script of the replies to the requests
  of the listener, in their order; when the script ends the listener is still running, so a computation has no
  result yet. A theorem about every script is a theorem about the listener at every moment of its life. The
  decoders of protocol buffers and the callbacks are arguments.
\<close>

section \<open>Requests and replies\<close>

datatype request =
    CloseConn
  | Connect string
  | ExecListen string
  | WaitForNotification
  | SelectPayload string
  | Sleep int

text \<open>A reply is an error or data: the identifier of a notification or the bytes of a payload.\<close>

type_synonym reply = "error + string"

text \<open>The state of the listener, what was exchanged until now and the state of the callbacks.\<close>

record 's listening =
  conn :: bool
  script :: "reply list"
  exchanged :: "(request \<times> reply) list"
  world :: 's

type_synonym ('s, 'a) io = "'s listening \<Rightarrow> 'a res option \<times> 's listening"

definition request_reply :: "request \<Rightarrow> ('s, string) io" where
  "request_reply q l = (case script l of
      [] \<Rightarrow> (None, l)
    | a # as \<Rightarrow> (Some (case a of Inl e \<Rightarrow> Err e | Inr x \<Rightarrow> Ok x),
        l\<lparr>script := as, exchanged := exchanged l @ [(q, a)]\<rparr>))"

definition bindIO :: "('s, 'a) io \<Rightarrow> ('a \<Rightarrow> ('s, 'b) io) \<Rightarrow> ('s, 'b) io" where
  "bindIO m k l = (case m l of
      (None, t) \<Rightarrow> (None, t)
    | (Some (Ok x), t) \<Rightarrow> k x t
    | (Some (Err e), t) \<Rightarrow> (Some (Err e), t)
    | (Some (Panic p), t) \<Rightarrow> (Some (Panic p), t))"

section \<open>The listener and its builder\<close>

text \<open>Durations are in nanoseconds. A callback gets a payload and can change the state of the callbacks.\<close>

record ('p, 's) listener =
  url :: string
  channel :: string
  readyCallbacks :: "('s, unit) act list"
  payloadCallbacks :: "('p \<Rightarrow> ('s, unit) act) list"
  waitTimeout :: int
  retryInterval :: int

definition NewListener :: "('p, 's) listener" where
  "NewListener = \<lparr>url = [], channel = [], readyCallbacks = [], payloadCallbacks = [],
     waitTimeout = 5 * 60 * 10 ^ 9, retryInterval = 5 * 10 ^ 9\<rparr>"

definition AddReadyCallback :: "('s, unit) act \<Rightarrow> ('p, 's) listener \<Rightarrow> ('p, 's) listener" where
  "AddReadyCallback f b = b\<lparr>readyCallbacks := readyCallbacks b @ [f]\<rparr>"

definition AddPayloadCallback :: "('p \<Rightarrow> ('s, unit) act) \<Rightarrow> ('p, 's) listener \<Rightarrow> ('p, 's) listener" where
  "AddPayloadCallback f b = b\<lparr>payloadCallbacks := payloadCallbacks b @ [f]\<rparr>"

text \<open>\<open>show\<close> is the text of a duration.\<close>

definition listener_Build :: "(int \<Rightarrow> string) \<Rightarrow> bool \<Rightarrow> ('p, 's) listener \<Rightarrow> ('p, 's) listener res" where
  "listener_Build show' logger b =
    (if \<not> logger then Err (Fmt ''logger is mandatory'')
     else if url b = [] then Err (Fmt ''database connection URL is mandatory'')
     else if channel b = [] then Err (Fmt ''channel is mandatory'')
     else if length (payloadCallbacks b) = 0 then Err (Fmt ''at least one payload callback is mandatory'')
     else if waitTimeout b \<le> 0 then Err (Fmt (''wait timeout should be positive, but it is '' @ show' (waitTimeout b)))
     else if retryInterval b \<le> 0 then Err (Fmt (''retry interval should be positive, but it is '' @ show' (retryInterval b)))
     else Ok b)"

section \<open>Callbacks\<close>

text \<open>The errors of the callbacks are only logged.\<close>

fun run_all :: "('s, unit) act list \<Rightarrow> ('s, unit) act" where
  "run_all [] = ret ()"
| "run_all (f # fs) = bind (catch f (\<lambda>e. ret ())) (\<lambda>_. run_all fs)"

definition on_world :: "('s, 'a) act \<Rightarrow> ('s, 'a) io" where
  "on_world m l = (case m (world l) of (r, w) \<Rightarrow> (Some r, l\<lparr>world := w\<rparr>))"

definition runReadyCallbacks :: "('p, 's) listener \<Rightarrow> ('s, unit) io" where
  "runReadyCallbacks li = on_world (run_all (readyCallbacks li))"

definition runPayloadCallbacks :: "('p, 's) listener \<Rightarrow> 'p \<Rightarrow> ('s, unit) io" where
  "runPayloadCallbacks li p = on_world (run_all (map (\<lambda>f. f p) (payloadCallbacks li)))"

section \<open>Notifications\<close>

text \<open>\<open>decode\<close> unmarshals the bytes to an \<open>Any\<close> and that to the payload; its errors are only logged.\<close>

definition processNotification :: "(string \<Rightarrow> 'p res) \<Rightarrow> ('p, 's) listener \<Rightarrow> string \<Rightarrow> ('s, unit) io" where
  "processNotification decode li i l = (case request_reply (SelectPayload i) l of
      (None, t) \<Rightarrow> (None, t)
    | (Some (Ok data), t) \<Rightarrow> (case decode data of
          Ok p \<Rightarrow> runPayloadCallbacks li p t
        | Err e \<Rightarrow> (Some (Ok ()), t)
        | Panic q \<Rightarrow> (Some (Panic q), t))
    | (Some (Err e), t) \<Rightarrow> (Some (Ok ()), t)
    | (Some (Panic q), t) \<Rightarrow> (Some (Panic q), t))"

definition wait :: "(string \<Rightarrow> 'p res) \<Rightarrow> ('p, 's) listener \<Rightarrow> ('s, unit) io" where
  "wait decode li = bindIO (request_reply WaitForNotification) (\<lambda>i. processNotification decode li i)"

text \<open>Every computation consumes the script.\<close>

lemma request_script:
  "request_reply q l = (r, t) \<Longrightarrow> length (script t) \<le> length (script l) \<and> (r \<noteq> None \<longrightarrow> length (script t) < length (script l))"
  by (auto simp: request_reply_def split: list.splits)

lemma on_world_script: "on_world m l = (r, t) \<Longrightarrow> script t = script l"
  by (auto simp: on_world_def split: prod.splits)

lemma process_script: "processNotification decode li i l = (r, t) \<Longrightarrow> length (script t) \<le> length (script l)"
  by (auto simp: processNotification_def runPayloadCallbacks_def split: prod.splits option.splits res.splits
      dest!: request_script on_world_script)

lemma wait_script: "wait decode li l = (Some r, t) \<Longrightarrow> length (script t) < length (script l)"
  by (auto simp: wait_def bindIO_def split: prod.splits option.splits res.splits dest!: request_script process_script)

section \<open>The loops\<close>

function waitLoop :: "(string \<Rightarrow> 'p res) \<Rightarrow> ('p, 's) listener \<Rightarrow> ('s, unit) io" where
  "waitLoop decode li l = (case wait decode li l of
      (Some (Ok u), t) \<Rightarrow> waitLoop decode li t
    | r \<Rightarrow> r)"
  by pat_completeness auto
termination
  by (relation "measure (\<lambda>(_, _, l). length (script l))") (auto dest!: wait_script [OF sym])

text \<open>\<open>listen\<close> closes the connection that it has, whose error is only logged, and makes a new one.\<close>

definition close_conn :: "('s, unit) io" where
  "close_conn l = (if conn l then (case request_reply CloseConn l of
        (None, t) \<Rightarrow> (None, t) | (Some _, t) \<Rightarrow> (Some (Ok ()), t\<lparr>conn := False\<rparr>))
     else (Some (Ok ()), l))"

definition listen :: "('p, 's) listener \<Rightarrow> ('s, unit) io" where
  "listen li = bindIO close_conn (\<lambda>_. bindIO (request_reply (Connect (url li))) (\<lambda>_ l.
     bindIO (request_reply (ExecListen (''listen '' @ channel li))) (\<lambda>_ l. (Some (Ok ()), l)) (l\<lparr>conn := True\<rparr>)))"

definition sleepBeforeRetry :: "('p, 's) listener \<Rightarrow> ('s, unit) io" where
  "sleepBeforeRetry li l = (case request_reply (Sleep (retryInterval li)) l of
      (None, t) \<Rightarrow> (None, t)
    | (Some (Ok x), t) \<Rightarrow> (Some (Ok ()), t)
    | (Some _, t) \<Rightarrow> (Some (Err Canceled), t))"

lemma listen_script: "listen li l = (Some r, t) \<Longrightarrow> length (script t) < length (script l)"
  by (auto simp: listen_def bindIO_def close_conn_def split: prod.splits option.splits res.splits if_splits
      dest!: request_script)

lemma sleep_script: "sleepBeforeRetry li l = (r, t) \<Longrightarrow> length (script t) \<le> length (script l)"
  by (auto simp: sleepBeforeRetry_def split: prod.splits option.splits res.splits dest!: request_script)

function listenLoop :: "('p, 's) listener \<Rightarrow> ('s, unit) io" where
  "listenLoop li l = (case listen li l of
      (Some (Err e), t) \<Rightarrow> (case sleepBeforeRetry li t of
          (Some (Ok u), t') \<Rightarrow> listenLoop li t'
        | r \<Rightarrow> r)
    | r \<Rightarrow> r)"
  by pat_completeness auto
termination
  by (relation "measure (\<lambda>(_, l). length (script l))") (auto dest!: listen_script [OF sym] sleep_script [OF sym])

text \<open>\<open>errors.Is\<close> sees through the errors that wrap others.\<close>

fun is_error :: "error \<Rightarrow> error \<Rightarrow> bool" where
  "is_error e (Wrap s f) = (e = Wrap s f \<or> is_error e f)"
| "is_error e f = (e = f)"

definition DeadlineExceeded :: error where
  "DeadlineExceeded = ExtError ''context deadline exceeded''"

lemma waitLoop_script: "waitLoop decode li l = (Some r, t) \<Longrightarrow> length (script t) < length (script l)"
proof (induction decode li l arbitrary: r t rule: waitLoop.induct)
  case (1 decode li l)
  obtain r1 t1 where w: "wait decode li l = (r1, t1)" by (cases "wait decode li l")
  show ?case
  proof (cases "\<exists>u. r1 = Some (Ok u)")
    case True
    then obtain u where u: "wait decode li l = (Some (Ok u), t1)" using w by auto
    then have "waitLoop decode li t1 = (Some r, t)" using 1(2) by (simp add: waitLoop.simps [of decode li l])
    from 1(1) [OF u [symmetric] refl refl this] wait_script [OF u] show ?thesis by simp
  next
    case False
    then have "(r1, t1) = (Some r, t)" using 1(2) w
      by (auto simp: waitLoop.simps [of decode li l] split: option.splits res.splits)
    with wait_script [of decode li l] w show ?thesis by simp
  qed
qed

lemma listenLoop_script: "listenLoop li l = (Some r, t) \<Longrightarrow> length (script t) < length (script l)"
proof (induction li l arbitrary: r t rule: listenLoop.induct)
  case (1 li l)
  obtain r1 t1 where w: "listen li l = (r1, t1)" by (cases "listen li l")
  obtain r2 t2 where z: "sleepBeforeRetry li t1 = (r2, t2)" by (cases "sleepBeforeRetry li t1")
  show ?case
  proof (cases "(\<exists>e. r1 = Some (Err e)) \<and> (\<exists>u. r2 = Some (Ok u))")
    case True
    then obtain e u where e: "listen li l = (Some (Err e), t1)" and u: "sleepBeforeRetry li t1 = (Some (Ok u), t2)"
      using w z by auto
    then have "listenLoop li t2 = (Some r, t)" using 1(2) by (simp add: listenLoop.simps [of li l])
    from 1(1) [OF e [symmetric] refl refl u [symmetric] refl refl this] listen_script [OF e] sleep_script [OF u]
    show ?thesis by simp
  next
    case False
    then have "t = t1 \<and> r1 \<noteq> None \<or> (\<exists>e. r1 = Some (Err e)) \<and> t = t2" using 1(2) w z
      by (auto simp: listenLoop.simps [of li l] split: option.splits res.splits)
    then show ?thesis using listen_script [of li l] sleep_script [OF z] w by (cases r1) fastforce+
  qed
qed

declare waitLoop.simps [simp del] listenLoop.simps [simp del]

function listen_forever :: "(string \<Rightarrow> 'p res) \<Rightarrow> ('p, 's) listener \<Rightarrow> ('s, unit) io" where
  "listen_forever decode li l = (case waitLoop decode li l of
      (Some (Ok u), t) \<Rightarrow> listen_forever decode li t
    | (Some (Err e), t) \<Rightarrow>
        if is_error DeadlineExceeded e then listen_forever decode li t
        else if is_error Canceled e then (Some (Err e), t)
        else (case sleepBeforeRetry li t of
            (Some (Ok u), t1) \<Rightarrow> (case listenLoop li t1 of
                (Some (Ok u), t2) \<Rightarrow> listen_forever decode li t2
              | r \<Rightarrow> r)
          | r \<Rightarrow> r)
    | r \<Rightarrow> r)"
  by pat_completeness auto
termination
  by (relation "measure (\<lambda>(_, _, l). length (script l))")
    (auto dest!: waitLoop_script [OF sym] sleep_script [OF sym] listenLoop_script [OF sym])

text \<open>The connection is closed, when there is one, however the function returns.\<close>

definition Listen :: "(string \<Rightarrow> 'p res) \<Rightarrow> ('p, 's) listener \<Rightarrow> ('s, unit) io" where
  "Listen decode li l =
    (case bindIO (listenLoop li) (\<lambda>_. bindIO (runReadyCallbacks li) (\<lambda>_. listen_forever decode li)) l of
       (None, t) \<Rightarrow> (None, t)
     | (Some r, t) \<Rightarrow> (case close_conn t of (None, t') \<Rightarrow> (None, t') | (Some _, t') \<Rightarrow> (Some r, t')))"

declare listen_forever.simps [simp del]

section \<open>When the listener stops\<close>

definition stopped :: "'a res option \<Rightarrow> bool" where
  "stopped r \<longleftrightarrow> (case r of Some (Ok x) \<Rightarrow> False | Some (Err e) \<Rightarrow> is_error Canceled e | _ \<Rightarrow> True)"

lemma stoppedI: "(\<And>x. r \<noteq> Some (Ok x)) \<Longrightarrow> (\<And>e. r = Some (Err e) \<Longrightarrow> is_error Canceled e) \<Longrightarrow> stopped r"
  unfolding stopped_def by (cases r) (simp_all split: res.split)

lemma sleep_stops: "sleepBeforeRetry li l = (Some (Err e), t) \<Longrightarrow> e = Canceled"
  by (auto simp: sleepBeforeRetry_def split: prod.splits option.splits res.splits)

lemma listenLoop_stops: "listenLoop li l = (r, t) \<Longrightarrow> r = Some (Ok ()) \<or> stopped r"
proof (induction li l arbitrary: r t rule: listenLoop.induct)
  case (1 li l)
  obtain r1 t1 where w: "listen li l = (r1, t1)" by (cases "listen li l")
  show ?case
  proof (cases "\<exists>e. r1 = Some (Err e)")
    case True
    then obtain e where e: "listen li l = (Some (Err e), t1)" using w by auto
    obtain r2 t2 where z: "sleepBeforeRetry li t1 = (r2, t2)" by (cases "sleepBeforeRetry li t1")
    show ?thesis
    proof (cases "\<exists>u. r2 = Some (Ok u)")
      case True
      then obtain u where u: "sleepBeforeRetry li t1 = (Some (Ok u), t2)" using z by auto
      then have "listenLoop li t2 = (r, t)" using 1(2) e by (simp add: listenLoop.simps [of li l])
      from 1(1) [OF e [symmetric] refl refl u [symmetric] refl refl this] show ?thesis .
    next
      case False
      then have "r = r2" using 1(2) e z by (auto simp: listenLoop.simps [of li l] split: option.splits res.splits)
      moreover have "is_error Canceled e" if "r2 = Some (Err e)" for e
        using sleep_stops [of li t1 e t2] z that by simp
      ultimately show ?thesis using stoppedI [of r2] False by blast
    qed
  next
    case False
    then have "r = r1" using 1(2) w by (auto simp: listenLoop.simps [of li l] split: option.splits res.splits)
    then show ?thesis using False by (auto simp: stopped_def split: option.splits res.splits)
  qed
qed

lemma waitLoop_stops: "waitLoop decode li l = (r, t) \<Longrightarrow> r \<noteq> Some (Ok ())"
proof (induction decode li l arbitrary: r t rule: waitLoop.induct)
  case (1 decode li l)
  obtain r1 t1 where w: "wait decode li l = (r1, t1)" by (cases "wait decode li l")
  show ?case
  proof (cases "\<exists>u. r1 = Some (Ok u)")
    case True
    then obtain u where u: "wait decode li l = (Some (Ok u), t1)" using w by auto
    then have "waitLoop decode li t1 = (r, t)" using 1(2) by (simp add: waitLoop.simps [of decode li l])
    from 1(1) [OF u [symmetric] refl refl this] show ?thesis .
  next
    case False
    then show ?thesis using 1(2) w by (auto simp: waitLoop.simps [of decode li l] split: option.splits res.splits)
  qed
qed

text \<open>One round of the outer loop: what it gives, or the state from which the next one starts.\<close>

definition round :: "(string \<Rightarrow> 'p res) \<Rightarrow> ('p, 's) listener \<Rightarrow> 's listening \<Rightarrow>
    (unit res option \<times> 's listening) + 's listening" where
  "round decode li l = (case waitLoop decode li l of
      (Some (Ok u), t) \<Rightarrow> Inr t
    | (Some (Err e), t) \<Rightarrow> if is_error DeadlineExceeded e then Inr t
        else if is_error Canceled e then Inl (Some (Err e), t)
        else (case sleepBeforeRetry li t of
            (Some (Ok u), t1) \<Rightarrow> (case listenLoop li t1 of (Some (Ok u), t2) \<Rightarrow> Inr t2 | r \<Rightarrow> Inl r)
          | r \<Rightarrow> Inl r)
    | r \<Rightarrow> Inl r)"

lemma listen_forever_round:
  "listen_forever decode li l = (case round decode li l of Inl r \<Rightarrow> r | Inr t \<Rightarrow> listen_forever decode li t)"
  by (subst listen_forever.simps) (auto simp: round_def split: prod.splits option.splits res.splits)

lemma round_script: "round decode li l = Inr t \<Longrightarrow> length (script t) < length (script l)"
  by (auto simp: round_def split: prod.splits option.splits res.splits if_splits
      dest!: waitLoop_script sleep_script listenLoop_script)

lemma listen_forever_induct [consumes 1, case_names stop again]:
  assumes "listen_forever decode li l = x"
    and "\<And>l. round decode li l = Inl x \<Longrightarrow> P l"
    and "\<And>l t. round decode li l = Inr t \<Longrightarrow> listen_forever decode li t = x \<Longrightarrow> P t \<Longrightarrow> P l"
  shows "P l"
  using assms(1)
proof (induction "length (script l)" arbitrary: l rule: less_induct)
  case less
  show ?case
  proof (cases "round decode li l")
    case (Inl a)
    then show ?thesis using less.prems listen_forever_round [of decode li l] assms(2) by simp
  next
    case (Inr t)
    then have "listen_forever decode li t = x" using less.prems listen_forever_round [of decode li l] by simp
    with less.hyps [OF round_script [OF Inr] this] assms(3) Inr show ?thesis by blast
  qed
qed

lemma listenLoop_Err: "listenLoop li l = (Some (Err e), t) \<Longrightarrow> is_error Canceled e"
  using listenLoop_stops [of li l "Some (Err e)" t] by (simp add: stopped_def)

lemma round_stops: "round decode li l = Inl (r, t) \<Longrightarrow> stopped r"
  by (auto simp: round_def stopped_def split: prod.splits option.splits res.splits if_splits
      dest: waitLoop_stops sleep_stops listenLoop_Err)

section \<open>A rule for the loops\<close>

text \<open>
  What holds of the basic computations and is transitive holds of the loops. The flag says whether the
  computation returned.
\<close>

definition does :: "(bool \<Rightarrow> 's listening \<Rightarrow> 's listening \<Rightarrow> bool) \<Rightarrow> ('s, 'a) io \<Rightarrow> bool" where
  "does R m \<longleftrightarrow> (\<forall>l r t. m l = (r, t) \<longrightarrow> R (r \<noteq> None) l t)"

definition transitive :: "(bool \<Rightarrow> 's listening \<Rightarrow> 's listening \<Rightarrow> bool) \<Rightarrow> bool" where
  "transitive R \<longleftrightarrow> (\<forall>l u b t. R True l u \<longrightarrow> R b u t \<longrightarrow> R b l t)"

lemma doesD: "does R m \<Longrightarrow> m l = (r, t) \<Longrightarrow> R (r \<noteq> None) l t"
  by (simp add: does_def)

lemma doesD_Some: "does R m \<Longrightarrow> m l = (Some x, t) \<Longrightarrow> R True l t"
  using doesD [of R m l "Some x" t] by simp

lemma transitiveD: "transitive R \<Longrightarrow> R True l u \<Longrightarrow> R b u t \<Longrightarrow> R b l t"
  by (auto simp: transitive_def)

lemma does_bindIO:
  assumes "transitive R" "does R m" "\<And>x. does R (k x)"
  shows "does R (bindIO m k)"
  unfolding does_def
proof (intro allI impI)
  fix l r t
  assume run: "bindIO m k l = (r, t)"
  obtain r1 u where m: "m l = (r1, u)" by (cases "m l")
  show "R (r \<noteq> None) l t"
  proof (cases "\<exists>x. r1 = Some (Ok x)")
    case True
    then obtain x where x: "m l = (Some (Ok x), u)" using m by auto
    then have "k x u = (r, t)" using run by (simp add: bindIO_def)
    from transitiveD [OF assms(1) doesD_Some [OF assms(2) x] doesD [OF assms(3) this]] show ?thesis .
  next
    case False
    then have "t = u \<and> (r = None) = (r1 = None)"
      using run m by (auto simp: bindIO_def split: option.splits res.splits)
    then show ?thesis using doesD [OF assms(2) m] by simp
  qed
qed

lemma does_listenLoop:
  assumes "transitive R" "does R (listen li)" "does R (sleepBeforeRetry li)"
  shows "does R (listenLoop li)"
proof -
  have "R (r \<noteq> None) l t" if "listenLoop li l = (r, t)" for l r t
    using that
  proof (induction "length (script l)" arbitrary: l rule: less_induct)
    case less
    obtain r1 t1 where w: "listen li l = (r1, t1)" by (cases "listen li l")
    obtain r2 t2 where z: "sleepBeforeRetry li t1 = (r2, t2)" by (cases "sleepBeforeRetry li t1")
    note R1 = doesD [OF assms(2) w] and R2 = doesD [OF assms(3) z]
    show ?case
    proof (cases "\<exists>e. r1 = Some (Err e)")
      case True
      then obtain e where e: "listen li l = (Some (Err e), t1)" using w by auto
      then have R1': "R True l t1" using R1 w by auto
      show ?thesis
      proof (cases "\<exists>u. r2 = Some (Ok u)")
        case True
        then obtain u where u: "sleepBeforeRetry li t1 = (Some (Ok u), t2)" using z by auto
        have "length (script t2) < length (script l)" using listen_script [OF e] sleep_script [OF u] by simp
        moreover have "listenLoop li t2 = (r, t)" using less.prems e u by (simp add: listenLoop.simps [of li l])
        ultimately have "R (r \<noteq> None) t2 t" by (rule less.hyps)
        moreover have "R True l t2" using transitiveD [OF assms(1) R1'] R2 u z by auto
        ultimately show ?thesis using transitiveD [OF assms(1)] by blast
      next
        case False
        then have "t = t2 \<and> r = r2" using less.prems e z
          by (auto simp: listenLoop.simps [of li l] split: option.splits res.splits)
        then show ?thesis using transitiveD [OF assms(1) R1' R2] by simp
      qed
    next
      case False
      then have "t = t1 \<and> r = r1" using less.prems w
        by (auto simp: listenLoop.simps [of li l] split: option.splits res.splits)
      then show ?thesis using R1 by simp
    qed
  qed
  then show ?thesis by (simp add: does_def)
qed

lemma does_waitLoop:
  assumes "transitive R" "does R (wait decode li)"
  shows "does R (waitLoop decode li)"
proof -
  have "R (r \<noteq> None) l t" if "waitLoop decode li l = (r, t)" for l r t
    using that
  proof (induction "length (script l)" arbitrary: l rule: less_induct)
    case less
    obtain r1 t1 where w: "wait decode li l = (r1, t1)" by (cases "wait decode li l")
    show ?case
    proof (cases "\<exists>u. r1 = Some (Ok u)")
      case True
      then obtain u where u: "wait decode li l = (Some (Ok u), t1)" using w by auto
      moreover have "waitLoop decode li t1 = (r, t)" using less.prems u by (simp add: waitLoop.simps [of decode li l])
      ultimately have "R (r \<noteq> None) t1 t" using less.hyps wait_script by blast
      then show ?thesis using transitiveD [OF assms(1) doesD_Some [OF assms(2) u]] by blast
    next
      case False
      then have "t = t1 \<and> r = r1" using less.prems w
        by (auto simp: waitLoop.simps [of decode li l] split: option.splits res.splits)
      then show ?thesis using doesD [OF assms(2) w] by simp
    qed
  qed
  then show ?thesis by (simp add: does_def)
qed

lemma does_round:
  assumes tr: "transitive R" and w: "does R (waitLoop decode li)" and sl: "does R (sleepBeforeRetry li)"
    and ll: "does R (listenLoop li)"
  shows "case round decode li l of Inl (r, t) \<Rightarrow> R (r \<noteq> None) l t | Inr t \<Rightarrow> R True l t"
proof -
  obtain r1 t1 where 1: "waitLoop decode li l = (r1, t1)" by (cases "waitLoop decode li l")
  obtain r2 t2 where 2: "sleepBeforeRetry li t1 = (r2, t2)" by (cases "sleepBeforeRetry li t1")
  obtain r3 t3 where 3: "listenLoop li t2 = (r3, t3)" by (cases "listenLoop li t2")
  note R1 = doesD [OF w 1] and R2 = doesD [OF sl 2] and R3 = doesD [OF ll 3]
  have R12: "r1 \<noteq> None \<Longrightarrow> R (r2 \<noteq> None) l t2" using transitiveD [OF tr _ R2] R1 by simp
  then have R123: "r1 \<noteq> None \<Longrightarrow> r2 \<noteq> None \<Longrightarrow> R (r3 \<noteq> None) l t3" using transitiveD [OF tr _ R3] by simp
  show ?thesis
    using R1 R12 R123 by (auto simp: round_def 1 2 3 split: option.splits res.splits)
qed

lemma does_forever:
  assumes "transitive R" "does R (waitLoop decode li)" "does R (sleepBeforeRetry li)" "does R (listenLoop li)"
  shows "does R (listen_forever decode li)"
proof -
  have "R (fst x \<noteq> None) l (snd x)" if "listen_forever decode li l = x" for l x
    using that
  proof (induction rule: listen_forever_induct)
    case (stop l)
    then show ?case using does_round [OF assms, of l] by (cases x) simp
  next
    case (again l t)
    then show ?case using does_round [OF assms, of l] transitiveD [OF assms(1)] by simp
  qed
  from this [OF refl] show ?thesis unfolding does_def by (metis fst_conv snd_conv)
qed

lemma does_Listen:
  assumes tr: "transitive R" and cl: "does R close_conn" and li: "does R (listen li)" and w: "does R (wait decode li)"
    and sl: "does R (sleepBeforeRetry li)" and rd: "does R (runReadyCallbacks li)"
  shows "does R (Listen decode li)"
  unfolding does_def
proof (intro allI impI)
  fix l r t
  assume run: "Listen decode li l = (r, t)"
  let ?m = "bindIO (listenLoop li) (\<lambda>_. bindIO (runReadyCallbacks li) (\<lambda>_. listen_forever decode li))"
  have "does R (listenLoop li)" using does_listenLoop tr li sl by blast
  then have m: "does R ?m"
    using does_forever [OF tr does_waitLoop [OF tr w] sl] by (intro does_bindIO tr rd)
  obtain r1 t1 where 1: "?m l = (r1, t1)" by (cases "?m l")
  obtain r2 t2 where 2: "close_conn t1 = (r2, t2)" by (cases "close_conn t1")
  note R1 = doesD [OF m 1] and R2 = doesD [OF cl 2]
  show "R (r \<noteq> None) l t"
    using run transitiveD [OF tr _ R2] R1 R2 by (auto simp: Listen_def 1 2 split: option.splits)
qed

lemma run_all_no_Err: "run_all fs w \<noteq> (Err e, w')"
proof (induction fs arbitrary: w)
  case (Cons f fs)
  then show ?case by (auto simp: bind_def catch_def ret_def split: prod.splits res.splits)
qed (simp add: ret_def)


section \<open>What is delivered\<close>

text \<open>The identifiers that were notified, those whose payload was asked for, and the payloads, of an exchange.\<close>

fun notified_ids :: "(request \<times> reply) list \<Rightarrow> string list" where
  "notified_ids [] = []"
| "notified_ids ((WaitForNotification, Inr i) # xs) = i # notified_ids xs"
| "notified_ids (_ # xs) = notified_ids xs"

fun selected_ids :: "(request \<times> reply) list \<Rightarrow> string list" where
  "selected_ids [] = []"
| "selected_ids ((SelectPayload i, a) # xs) = i # selected_ids xs"
| "selected_ids (_ # xs) = selected_ids xs"

fun payloads :: "(string \<Rightarrow> 'p res) \<Rightarrow> (request \<times> reply) list \<Rightarrow> 'p list" where
  "payloads decode [] = []"
| "payloads decode ((SelectPayload i, Inr data) # xs) =
     (case decode data of Ok p \<Rightarrow> p # payloads decode xs | _ \<Rightarrow> payloads decode xs)"
| "payloads decode (_ # xs) = payloads decode xs"

lemma exchange_append [simp]:
  "notified_ids (xs @ ys) = notified_ids xs @ notified_ids ys"
  "selected_ids (xs @ ys) = selected_ids xs @ selected_ids ys"
  "payloads decode (xs @ ys) = payloads decode xs @ payloads decode ys"
proof -
  show "notified_ids (xs @ ys) = notified_ids xs @ notified_ids ys"
    by (induction xs rule: notified_ids.induct) auto
  show "selected_ids (xs @ ys) = selected_ids xs @ selected_ids ys"
    by (induction xs rule: selected_ids.induct) auto
  show "payloads decode (xs @ ys) = payloads decode xs @ payloads decode ys"
    by (induction decode xs rule: payloads.induct) (auto split: res.splits)
qed

text \<open>All the callbacks on one payload.\<close>

definition handle :: "('p, 's) listener \<Rightarrow> 'p \<Rightarrow> 's \<Rightarrow> 's" where
  "handle li p w = snd (run_all (map (\<lambda>f. f p) (payloadCallbacks li)) w)"

definition delivers :: "(string \<Rightarrow> 'p res) \<Rightarrow> ('p, 's) listener \<Rightarrow> bool \<Rightarrow> 's listening \<Rightarrow> 's listening \<Rightarrow> bool" where
  "delivers decode li done l t \<longleftrightarrow> (\<exists>xs. exchanged t = exchanged l @ xs \<and>
     world t = fold (handle li) (payloads decode xs) (world l) \<and>
     (if done then selected_ids xs = notified_ids xs
      else \<exists>ys. length ys \<le> 1 \<and> notified_ids xs = selected_ids xs @ ys))"

lemma delivers_transitive: "transitive (delivers decode li)"
  unfolding transitive_def
proof (intro allI impI)
  fix l u b t
  assume "delivers decode li True l u" "delivers decode li b u t"
  then show "delivers decode li b l t"
    unfolding delivers_def by (cases b) fastforce+
qed

lemma delivers_same: "exchanged t = exchanged l \<Longrightarrow> world t = world l \<Longrightarrow> delivers decode li b l t"
  unfolding delivers_def by (rule exI [of _ "[]"]) auto

lemma delivers_request:
  "q \<noteq> WaitForNotification \<Longrightarrow> \<forall>i. q \<noteq> SelectPayload i \<Longrightarrow> does (delivers decode li) (request_reply q)"
  by (cases q) (fastforce simp: does_def request_reply_def delivers_def split: list.splits)+

lemma delivers_from:
  "exchanged l' = exchanged l \<Longrightarrow> world l' = world l \<Longrightarrow> delivers decode li b l' t = delivers decode li b l t"
  by (simp add: delivers_def)

lemma delivers_to:
  "exchanged t' = exchanged t \<Longrightarrow> world t' = world t \<Longrightarrow> delivers decode li b l t' = delivers decode li b l t"
  by (simp add: delivers_def)

lemma delivers_connected:
  assumes "does (delivers decode li) m"
  shows "does (delivers decode li) (\<lambda>l. m (l\<lparr>conn := True\<rparr>))"
proof -
  have "delivers decode li (r \<noteq> None) l t" if "m (l\<lparr>conn := True\<rparr>) = (r, t)" for l r t
    using doesD [OF assms that] delivers_from [of "l\<lparr>conn := True\<rparr>" l decode li "r \<noteq> None" t] by simp
  then show ?thesis unfolding does_def by blast
qed

lemma delivers_close:
  fixes li :: "('p, 's) listener"
  shows "does (delivers decode li) close_conn"
  unfolding does_def
proof (intro allI impI)
  fix l :: "'s listening" and r t
  assume run: "close_conn l = (r, t)"
  obtain r1 t1 where 1: "request_reply CloseConn l = (r1, t1)" by (cases "request_reply CloseConn l")
  have "does (delivers decode li) (request_reply CloseConn)" by (rule delivers_request) simp_all
  from doesD [OF this 1] have "delivers decode li (r1 \<noteq> None) l t1" .
  moreover have "(r = None) = (r1 = None) \<and> (t = t1 \<or> t = t1\<lparr>conn := False\<rparr>)" if "conn l"
    using run 1 that by (auto simp: close_conn_def split: option.splits)
  moreover have "t = l" if "\<not> conn l" using run that by (simp add: close_conn_def)
  ultimately show "delivers decode li (r \<noteq> None) l t"
    using delivers_to [of t t1 decode li] delivers_same [of l l decode li] by (cases "conn l") auto
qed

lemma delivers_listen: "does (delivers decode li) (listen li)"
proof -
  let ?k = "\<lambda>l. bindIO (request_reply (ExecListen (''listen '' @ channel li))) (\<lambda>_ l. (Some (Ok ()), l)) (l\<lparr>conn := True\<rparr>)"
  have ret: "does (delivers decode li) (\<lambda>l. (Some (Ok ()), l))"
    by (simp add: does_def delivers_same)
  have "does (delivers decode li) (bindIO (request_reply (ExecListen (''listen '' @ channel li))) (\<lambda>_ l. (Some (Ok ()), l)))"
    by (intro does_bindIO delivers_transitive delivers_request ret) simp_all
  from delivers_connected [OF this] have "does (delivers decode li) ?k" .
  moreover have "does (delivers decode li) (request_reply (Connect (url li)))" by (rule delivers_request) simp_all
  ultimately show ?thesis
    unfolding listen_def by (intro does_bindIO delivers_transitive delivers_close)
qed

lemma delivers_sleep: "does (delivers decode li) (sleepBeforeRetry li)"
  unfolding does_def
proof (intro allI impI)
  fix l r t
  assume run: "sleepBeforeRetry li l = (r, t)"
  obtain r1 t1 where 1: "request_reply (Sleep (retryInterval li)) l = (r1, t1)" by (cases "request_reply (Sleep (retryInterval li)) l")
  have "does (delivers decode li) (request_reply (Sleep (retryInterval li)))" by (rule delivers_request) simp_all
  from doesD [OF this 1] have "delivers decode li (r1 \<noteq> None) l t1" .
  moreover have "t = t1 \<and> (r = None) = (r1 = None)"
    using run 1 by (auto simp: sleepBeforeRetry_def split: option.splits res.splits)
  ultimately show "delivers decode li (r \<noteq> None) l t" by simp
qed

lemma delivers_wait: "does (delivers decode li) (wait decode li)"
  unfolding does_def
proof (intro allI impI)
  fix l r t
  assume "wait decode li l = (r, t)"
  then show "delivers decode li (r \<noteq> None) l t"
    by (auto simp: wait_def bindIO_def processNotification_def request_reply_def delivers_def runPayloadCallbacks_def
        on_world_def handle_def split: prod.splits option.splits res.splits list.splits sum.splits)
qed

lemma delivers_Listen:
  assumes "readyCallbacks li = []"
  shows "does (delivers decode li) (Listen decode li)"
proof -
  have "does (delivers decode li) (runReadyCallbacks li)"
    using assms by (simp add: does_def runReadyCallbacks_def on_world_def ret_def delivers_same)
  then show ?thesis
    by (intro does_Listen delivers_transitive delivers_close delivers_listen delivers_wait delivers_sleep)
qed

text \<open>
  C29. Every notification that the listener receives is handled once, in the order of their arrival: the
  listener asks for the payload of each exactly once, and every payload that it gets and can decode goes to all
  the callbacks, whatever they return and however often the connection was lost in between. Only for
  the last notification the reply can be missing yet.
\<close>

theorem notifications_are_handled_once:
  assumes "readyCallbacks li = []" "exchanged l = []" "Listen decode li l = (r, t)"
  shows "world t = fold (handle li) (payloads decode (exchanged t)) (world l) \<and>
    (\<exists>ys. notified_ids (exchanged t) = selected_ids (exchanged t) @ ys \<and> length ys \<le> (if r = None then 1 else 0))"
  using doesD [OF delivers_Listen [OF assms(1)] assms(3)] assms(2) by (auto simp: delivers_def split: if_splits)

text \<open>Two notifications, with a timeout and a lost connection between them; then the context is canceled.\<close>

definition example_listener :: "(string, string list) listener" where
  "example_listener = \<lparr>url = ''postgres'', channel = ''events'', readyCallbacks = [],
     payloadCallbacks = [\<lambda>p w. (Ok (), w @ [p])], waitTimeout = 1, retryInterval = 1\<rparr>"

definition example_script :: "reply list" where
  "example_script = [Inr [], Inr [], Inr ''n1'', Inr ''one'', Inl DeadlineExceeded, Inl (ExtError ''closed''), Inr [],
     Inr [], Inr [], Inr [], Inr ''n2'', Inr ''two'', Inl Canceled, Inr []]"

lemma example_listens:
  "\<exists>t. Listen Ok example_listener \<lparr>conn = False, script = example_script, exchanged = [], world = []\<rparr> =
     (Some (Err Canceled), t) \<and> world t = [''one'', ''two''] \<and> notified_ids (exchanged t) = [''n1'', ''n2'']"
  by (simp add: Listen_def example_listener_def example_script_def bindIO_def listenLoop.simps listen_def close_conn_def
      request_reply_def runReadyCallbacks_def on_world_def ret_def listen_forever.simps waitLoop.simps wait_def
      processNotification_def runPayloadCallbacks_def bind_def catch_def sleepBeforeRetry_def DeadlineExceeded_def)

theorem notifications_are_handled_once_witness:
  "\<exists>t. Listen Ok example_listener \<lparr>conn = False, script = example_script, exchanged = [], world = []\<rparr> =
       (Some (Err Canceled), t) \<and>
     fold (handle example_listener) (payloads Ok (exchanged t)) [] = [''one'', ''two''] \<and>
     selected_ids (exchanged t) = [''n1'', ''n2'']"
proof -
  let ?l = "\<lparr>conn = False, script = example_script, exchanged = [], world = []\<rparr>"
  obtain t where t: "Listen Ok example_listener ?l = (Some (Err Canceled), t)" "world t = [''one'', ''two'']"
    "notified_ids (exchanged t) = [''n1'', ''n2'']" using example_listens by blast
  from notifications_are_handled_once [OF _ _ t(1)] t show ?thesis by (auto simp: example_listener_def)
qed

end
