(* ===== verification/Events.thy ===== *)
theory Events
  imports GenericServer Mapper Listener
begin

text \<open>
  The servers that let clients watch events, \<open>internal/servers/events_server.go\<close> and
  \<open>private_events_server.go\<close>: the subscriptions, their filters, the check of the tenancy and the delivery of the
  payloads of the listener. The environment of the CEL library is an argument: what it compiles and what
  a program gives for an event. The concurrent part is a relation between states: the goroutine that
  delivers an event holds the lock of the subscriptions for reading, and a watcher needs it to leave.
\<close>

section \<open>Filters\<close>

datatype cel_value = CelBool bool | CelOther string

record 'prg cel_env =
  cel_compile :: "string \<Rightarrow> 'prg res"
  cel_eval :: "'prg \<Rightarrow> msg \<Rightarrow> cel_value res"

definition compileFilter :: "'prg cel_env \<Rightarrow> string \<Rightarrow> 'prg res" where
  "compileFilter env src = cel_compile env src"

definition evalFilter :: "'prg cel_env \<Rightarrow> 'prg \<Rightarrow> msg \<Rightarrow> bool res" where
  "evalFilter env prg event = bindR (cel_eval env prg event) (\<lambda>v. (case v of
      CelBool b \<Rightarrow> Ok b
    | CelOther t \<Rightarrow> Err (Fmt (''result of filter should be a boolean, but it is of type '' @ quoted t))))"

text \<open>The constants of the environment: the values of the enums of the packages of the server.\<close>

record enum_desc =
  en_package :: string
  en_values :: "(string \<times> int) list"

definition cel_constants :: "string list \<Rightarrow> enum_desc list \<Rightarrow> (string \<times> int) list" where
  "cel_constants packages enums = concat (map en_values (filter (\<lambda>e. en_package e \<in> set packages) enums))"

text \<open>\<open>newEnv\<close> makes an environment with those constants and a variable \<open>event\<close> of the type of the event.\<close>

definition eventsServerPackages :: "string list" where
  "eventsServerPackages = [''events.v1'', ''fulfillment.v1'']"

definition createCelEnv ::
  "((string \<times> int) list \<Rightarrow> string \<Rightarrow> 'prg cel_env res) \<Rightarrow> enum_desc list \<Rightarrow> 'prg cel_env res" where
  "createCelEnv newEnv enums = newEnv (cel_constants eventsServerPackages enums) ''events.v1.Event''"

section \<open>Subscriptions\<close>

record 'prg sub_info =
  sub_subject :: subject
  filterSrc :: string
  filterPrg :: "'prg option"

record 'prg events_server =
  es_cel :: "'prg cel_env"
  es_schema :: schema
  es_mapper :: mapper
  es_tenancy :: tenancy_logic

text \<open>The first half of \<open>Watch\<close>: the subject, and the program of the filter when there is one.\<close>

definition watch_filter :: "'prg cel_env \<Rightarrow> string option \<Rightarrow> (string \<times> 'prg option) res" where
  "watch_filter env src = (case src of
      None \<Rightarrow> Ok ([], None)
    | Some s \<Rightarrow> if s = [] then Ok ([], None)
        else (case compileFilter env s of
            Ok prg \<Rightarrow> Ok (s, Some prg)
          | Err e \<Rightarrow> Err (Status InvalidArgument (''failed to compile filter '' @ quoted s))
          | Panic q \<Rightarrow> Panic q))"

definition watch_sub :: "'prg events_server \<Rightarrow> ctx \<Rightarrow> string option \<Rightarrow> 'prg sub_info res" where
  "watch_sub es c src = bindR (SubjectFromContext c) (\<lambda>subj.
     bindR (watch_filter (es_cel es) src) (\<lambda>(s, prg).
     Ok \<lparr>sub_subject = subj, filterSrc = s, filterPrg = prg\<rparr>))"

section \<open>Tenancy\<close>

text \<open>The fields of the payload of an event, in the order of the cases.\<close>

definition payload_fields :: "string list" where
  "payload_fields = [''cluster'', ''cluster_template'', ''host_class'', ''host'', ''host_pool'',
     ''virtual_machine_template'', ''virtual_machine'']"

definition extractMetadata :: "msg \<Rightarrow> msg option" where
  "extractMetadata event = (case find (\<lambda>f. fmlookup event f \<noteq> None) payload_fields of
      None \<Rightarrow> None
    | Some f \<Rightarrow> (case GetMessage f event of None \<Rightarrow> None | Some o' \<Rightarrow> GetMessage ''metadata'' o'))"

definition extractTenants :: "msg \<Rightarrow> string list" where
  "extractTenants event = (case extractMetadata event of None \<Rightarrow> [] | Some m \<Rightarrow> GetStrings ''tenants'' m)"

definition checkTenancy :: "tenancy_logic \<Rightarrow> ctx \<Rightarrow> msg \<Rightarrow> bool res" where
  "checkTenancy logic c event = (case DetermineVisibleTenants logic c of
      Err e \<Rightarrow> Err (Wrap ''failed to determine visible tenants'' e)
    | Panic q \<Rightarrow> Panic q
    | Ok visible \<Rightarrow> if length (slice_list visible) = 0 then Ok True
        else Ok (\<exists>t\<in>set (extractTenants event). t \<in> set (slice_list visible)))"

section \<open>Delivery\<close>

text \<open>What the loop of \<open>processEvent\<close> does with one subscription.\<close>

datatype verdict = Forward | Reject | Hidden

definition filter_accepts :: "'prg cel_env \<Rightarrow> 'prg option \<Rightarrow> msg \<Rightarrow> bool res" where
  "filter_accepts env prg event = (case prg of
      None \<Rightarrow> Ok True
    | Some p \<Rightarrow> (case evalFilter env p event of Err e \<Rightarrow> Ok False | r \<Rightarrow> r))"

definition judge :: "'prg events_server \<Rightarrow> ctx \<Rightarrow> 'prg sub_info \<Rightarrow> msg \<Rightarrow> msg \<Rightarrow> verdict res" where
  "judge es c sub public private =
     (case checkTenancy (es_tenancy es) (ContextWithSubject c (sub_subject sub)) private of
        Err e \<Rightarrow> Err (Wrap ''failed to check tenancy'' e)
      | Panic q \<Rightarrow> Panic q
      | Ok visible \<Rightarrow> if \<not> visible then Ok Hidden
          else bindR (filter_accepts (es_cel es) (filterPrg sub) public) (\<lambda>b. Ok (if b then Forward else Reject)))"

text \<open>
  The subscriptions, in the order in which the loop visits them (Go's order is unspecified), and what was sent to
  the channel of each.
\<close>

record 'sub subscriptions =
  subs :: "(string \<times> 'sub) list"
  sent :: "(string \<times> msg) list"

definition send :: "string \<Rightarrow> msg \<Rightarrow> ('sub subscriptions, unit) act" where
  "send i e s = (Ok (), s\<lparr>sent := sent s @ [(i, e)]\<rparr>)"

text \<open>A subscription that can't see the event ends the loop.\<close>

fun process_subs :: "'prg events_server \<Rightarrow> ctx \<Rightarrow> msg \<Rightarrow> msg \<Rightarrow> (string \<times> 'prg sub_info) list \<Rightarrow>
    ('prg sub_info subscriptions, unit) act" where
  "process_subs es c public private [] = ret ()"
| "process_subs es c public private ((i, sub) # rest) = bind (lift (judge es c sub public private)) (\<lambda>v. (case v of
      Hidden \<Rightarrow> ret ()
    | Forward \<Rightarrow> bind (send i public) (\<lambda>_. process_subs es c public private rest)
    | Reject \<Rightarrow> process_subs es c public private rest))"

definition processEvent :: "'prg events_server \<Rightarrow> ctx \<Rightarrow> msg \<Rightarrow> msg \<Rightarrow> ('prg sub_info subscriptions, unit) act" where
  "processEvent es c public private s = process_subs es c public private (subs s) s"

datatype payload = EventPayload msg | OtherPayload string

text \<open>The public event of a private one; events of hubs have none.\<close>

definition public_event :: "'prg events_server \<Rightarrow> msg \<Rightarrow> msg res" where
  "public_event es private = (case Copy (es_schema es) (es_mapper es) ''private.v1.Event'' ''events.v1.Event''
       (Some private) (Some fmempty) of
      Ok (Some public) \<Rightarrow> Ok public
    | Ok None \<Rightarrow> Ok fmempty
    | Err e \<Rightarrow> Err (Wrap ''failed to translate event'' e)
    | Panic q \<Rightarrow> Panic q)"

definition processPayload :: "'prg events_server \<Rightarrow> ctx \<Rightarrow> payload \<Rightarrow> ('prg sub_info subscriptions, unit) act" where
  "processPayload es c p = (case p of
      OtherPayload t \<Rightarrow> ret ()
    | EventPayload private \<Rightarrow> if fmlookup private ''hub'' \<noteq> None then ret ()
        else bind (lift (public_event es private)) (\<lambda>public. processEvent es c public private))"

section \<open>The builder\<close>

record 'prg events_builder =
  eb_logger :: bool
  eb_dbUrl :: string
  eb_tenancy :: "tenancy_logic option"

text \<open>The server and its listener; the empty tenancy logic is the default.\<close>

definition EventsServer_Build :: "(int \<Rightarrow> string) \<Rightarrow> ctx \<Rightarrow> schema \<Rightarrow> 'prg cel_env res \<Rightarrow> 'prg events_builder \<Rightarrow>
    ('prg events_server \<times> (payload, 'prg sub_info subscriptions) listener) res" where
  "EventsServer_Build show' c sc celEnv b =
    (if \<not> eb_logger b then Err (Fmt ''logger is mandatory'')
     else if eb_dbUrl b = [] then Err (Fmt ''database connection URL is mandatory'')
     else (case celEnv of
        Err e \<Rightarrow> Err (Wrap ''failed to create CEL environment'' e)
      | Panic q \<Rightarrow> Panic q
      | Ok env \<Rightarrow> (case mapper_Build (Some ()) False [] of
          Err e \<Rightarrow> Err (Wrap ''failed to create mapper'' e)
        | Panic q \<Rightarrow> Panic q
        | Ok mp \<Rightarrow>
            (let es = \<lparr>es_cel = env, es_schema = sc, es_mapper = mp,
                   es_tenancy = (case eb_tenancy b of Some t \<Rightarrow> t | None \<Rightarrow> EmptyTenancyLogic)\<rparr> in
             case listener_Build show' True (AddPayloadCallback (processPayload es c)
                 (NewListener\<lparr>url := eb_dbUrl b, channel := ''events''\<rparr>)) of
               Err e \<Rightarrow> Err (Wrap ''failed to create notification listener'' e)
             | Panic q \<Rightarrow> Panic q
             | Ok li \<Rightarrow> Ok (es, li)))))"

definition EventsServer_Start ::
  "(string \<Rightarrow> payload res) \<Rightarrow> 'prg events_server \<times> (payload, 'prg sub_info subscriptions) listener \<Rightarrow>
    ('prg sub_info subscriptions, unit) io" where
  "EventsServer_Start decode s = Listen decode (snd s)"

section \<open>The private server\<close>

text \<open>It has no tenancy and sends the private events; a subscription is the program of its filter.\<close>

definition privateEventsServerPackages :: "string list" where
  "privateEventsServerPackages = [''private.v1'']"

definition private_createCelEnv ::
  "((string \<times> int) list \<Rightarrow> string \<Rightarrow> 'prg cel_env res) \<Rightarrow> enum_desc list \<Rightarrow> 'prg cel_env res" where
  "private_createCelEnv newEnv enums = newEnv (cel_constants privateEventsServerPackages enums) ''private.v1.Event''"

fun private_process_subs ::
  "'prg cel_env \<Rightarrow> msg \<Rightarrow> (string \<times> string \<times> 'prg option) list \<Rightarrow> ((string \<times> 'prg option) subscriptions, unit) act" where
  "private_process_subs env event [] = ret ()"
| "private_process_subs env event ((i, src, prg) # rest) = bind (lift (filter_accepts env prg event)) (\<lambda>accepted.
     bind (if accepted then send i event else ret ()) (\<lambda>_. private_process_subs env event rest))"

definition private_processEvent :: "'prg cel_env \<Rightarrow> msg \<Rightarrow> ((string \<times> 'prg option) subscriptions, unit) act" where
  "private_processEvent env event s = private_process_subs env event (subs s) s"

definition private_processPayload :: "'prg cel_env \<Rightarrow> payload \<Rightarrow> ((string \<times> 'prg option) subscriptions, unit) act" where
  "private_processPayload env p = (case p of OtherPayload t \<Rightarrow> ret () | EventPayload event \<Rightarrow> private_processEvent env event)"

definition private_watch_sub :: "'prg cel_env \<Rightarrow> string option \<Rightarrow> (string \<times> 'prg option) res" where
  "private_watch_sub env src = watch_filter env src"

definition PrivateEventsServer_Build :: "(int \<Rightarrow> string) \<Rightarrow> 'prg cel_env res \<Rightarrow> bool \<Rightarrow> string \<Rightarrow>
    ('prg cel_env \<times> (payload, (string \<times> 'prg option) subscriptions) listener) res" where
  "PrivateEventsServer_Build show' celEnv logger dbUrl =
    (if \<not> logger then Err (Fmt ''logger is mandatory'')
     else if dbUrl = [] then Err (Fmt ''database connection URL is mandatory'')
     else (case celEnv of
        Err e \<Rightarrow> Err (Wrap ''failed to create CEL environment'' e)
      | Panic q \<Rightarrow> Panic q
      | Ok env \<Rightarrow> (case listener_Build show' True (AddPayloadCallback (private_processPayload env)
             (NewListener\<lparr>url := dbUrl, channel := ''events''\<rparr>)) of
          Err e \<Rightarrow> Err (Wrap ''failed to create notification listener'' e)
        | Panic q \<Rightarrow> Panic q
        | Ok li \<Rightarrow> Ok (env, li))))"

section \<open>Watchers and the goroutine of the listener\<close>

text \<open>
  A watcher waits in its \<open>select\<close>, sends an event that it took from its channel to the client, or has left the loop
  and waits for the lock in order to remove its subscription. The goroutine of the listener is idle or delivers an
  event, with the lock held for reading, to the subscriptions that are left.
\<close>

datatype watcher = Selecting | Sending msg msg | Leaving

record 'prg watching =
  watchers :: "string \<Rightarrow> ('prg sub_info \<times> watcher) option"
  delivery :: "(string list \<times> msg \<times> msg) option"
  streamed :: "('prg sub_info \<times> msg \<times> msg) list"

definition watching_init :: "'prg watching" where
  "watching_init = \<lparr>watchers = Map.empty, delivery = None, streamed = []\<rparr>"

text \<open>\<open>c\<close> is the context of the listener. The lock excludes subscribing and leaving while an event is delivered.\<close>

inductive watch_step :: "'prg events_server \<Rightarrow> ctx \<Rightarrow> 'prg watching \<Rightarrow> 'prg watching \<Rightarrow> bool" for es c where
  subscribe: "delivery s = None \<Longrightarrow> watchers s i = None \<Longrightarrow> watch_sub es c' src = Ok sub \<Longrightarrow>
     watch_step es c s (s\<lparr>watchers := (watchers s)(i \<mapsto> (sub, Selecting))\<rparr>)"
| receive: "delivery s = None \<Longrightarrow> fmlookup private ''hub'' = None \<Longrightarrow> public_event es private = Ok public \<Longrightarrow>
     distinct ids \<Longrightarrow> set ids = dom (watchers s) \<Longrightarrow>
     watch_step es c s (s\<lparr>delivery := Some (ids, public, private)\<rparr>)"
| forward: "delivery s = Some (i # ids, public, private) \<Longrightarrow> watchers s i = Some (sub, Selecting) \<Longrightarrow>
     judge es c sub public private = Ok Forward \<Longrightarrow>
     watch_step es c s (s\<lparr>watchers := (watchers s)(i \<mapsto> (sub, Sending public private)),
       delivery := Some (ids, public, private)\<rparr>)"
| reject: "delivery s = Some (i # ids, public, private) \<Longrightarrow> watchers s i = Some (sub, w) \<Longrightarrow>
     judge es c sub public private = Ok Reject \<Longrightarrow>
     watch_step es c s (s\<lparr>delivery := Some (ids, public, private)\<rparr>)"
| give_up: "delivery s = Some (i # ids, public, private) \<Longrightarrow> watchers s i = Some (sub, w) \<Longrightarrow>
     judge es c sub public private = Ok Hidden \<or> (\<exists>e. judge es c sub public private = Err e) \<Longrightarrow>
     watch_step es c s (s\<lparr>delivery := None\<rparr>)"
| finished: "delivery s = Some ([], public, private) \<Longrightarrow> watch_step es c s (s\<lparr>delivery := None\<rparr>)"
| stream: "watchers s i = Some (sub, Sending public private) \<Longrightarrow>
     watch_step es c s (s\<lparr>watchers := (watchers s)(i \<mapsto> (sub, Selecting)), streamed := streamed s @ [(sub, public, private)]\<rparr>)"
| stream_fails: "watchers s i = Some (sub, Sending public private) \<Longrightarrow>
     watch_step es c s (s\<lparr>watchers := (watchers s)(i \<mapsto> (sub, Leaving))\<rparr>)"
| canceled: "watchers s i = Some (sub, Selecting) \<Longrightarrow>
     watch_step es c s (s\<lparr>watchers := (watchers s)(i \<mapsto> (sub, Leaving))\<rparr>)"
| leave: "delivery s = None \<Longrightarrow> watchers s i = Some (sub, Leaving) \<Longrightarrow>
     watch_step es c s (s\<lparr>watchers := (watchers s)(i := None)\<rparr>)"

inductive watch_run :: "'prg events_server \<Rightarrow> ctx \<Rightarrow> 'prg watching \<Rightarrow> 'prg watching \<Rightarrow> bool" for es c where
  refl: "watch_run es c s s"
| step: "watch_run es c s t \<Longrightarrow> watch_step es c t u \<Longrightarrow> watch_run es c s u"

end
