(* ===== verification/EventsProofs.thy ===== *)
theory EventsProofs
  imports Events DaoReads
begin

text \<open>
  What watchers get: only events that their subject can see and that their filter accepts, the events of
  the objects that they can see in the tables; how one watcher can stop the delivery to the others,
  because it leaves while an event is sent to it, or because it cannot see an event.
\<close>

section \<open>Visible events\<close>

definition sees :: "'prg events_server \<Rightarrow> ctx \<Rightarrow> 'prg sub_info \<Rightarrow> msg \<Rightarrow> bool" where
  "sees es c sub private \<longleftrightarrow> (\<exists>v. DetermineVisibleTenants (es_tenancy es) (ContextWithSubject c (sub_subject sub)) = Ok v \<and>
     (slice_list v = [] \<or> set (extractTenants private) \<inter> set (slice_list v) \<noteq> {}))"

lemma judge_Forward:
  "judge es c sub public private = Ok Forward \<longleftrightarrow> sees es c sub private \<and>
     filter_accepts (es_cel es) (filterPrg sub) public = Ok True"
  by (auto simp: judge_def checkTenancy_def sees_def bindR_eq_Ok split: res.splits if_splits)

definition watch_inv :: "'prg events_server \<Rightarrow> ctx \<Rightarrow> 'prg watching \<Rightarrow> bool" where
  "watch_inv es c s \<longleftrightarrow>
     (\<forall>ids public private. delivery s = Some (ids, public, private) \<longrightarrow> public_event es private = Ok public) \<and>
     (\<forall>i sub public private. watchers s i = Some (sub, Sending public private) \<longrightarrow>
        judge es c sub public private = Ok Forward \<and> public_event es private = Ok public) \<and>
     (\<forall>(sub, public, private)\<in>set (streamed s). judge es c sub public private = Ok Forward \<and>
        public_event es private = Ok public)"

lemma watch_inv_init: "watch_inv es c watching_init"
  by (simp add: watch_inv_def watching_init_def)

lemma watch_inv_step:
  assumes "watch_step es c s t" "watch_inv es c s"
  shows "watch_inv es c t"
  using assms by (induction rule: watch_step.induct) (fastforce simp: watch_inv_def split: if_splits)+

lemma watch_inv_run: "watch_run es c s t \<Longrightarrow> watch_inv es c s \<Longrightarrow> watch_inv es c t"
  by (induction rule: watch_run.induct) (auto intro: watch_inv_step)

text \<open>
  C30. Whatever the watchers and the listener do, and in any interleaving, an event is only streamed to a
  subscription whose subject sees a tenant of the object and whose filter accepts it, and it is the public
  form of the private event.
\<close>

theorem watchers_only_get_visible_events:
  assumes "watch_run es c watching_init s" "(sub, public, private) \<in> set (streamed s)"
  shows "sees es c sub private \<and> filter_accepts (es_cel es) (filterPrg sub) public = Ok True \<and>
    public_event es private = Ok public"
  using watch_inv_run [OF assms(1) watch_inv_init] assms(2) by (auto simp: watch_inv_def judge_Forward)

section \<open>The events of an object\<close>

lemma event_fields: "event_field ty = Some f \<Longrightarrow> ty \<noteq> ''private.v1.Hub'' \<Longrightarrow> f \<in> set payload_fields"
  by (auto simp: event_field_def payload_fields_def split: if_splits)

lemma event_message_tenants:
  assumes "event_field ty = Some f" "ty \<noteq> ''private.v1.Hub''"
  shows "set (extractTenants (event_message ty f eid k o')) = object_tenants o'"
proof -
  have f: "f \<in> set payload_fields" "f \<noteq> ''type''" "f \<noteq> ''id''"
    using event_fields [OF assms] by (auto simp: payload_fields_def)
  let ?e = "event_message ty f eid k o'"
  have look: "fmlookup ?e g \<noteq> None \<longleftrightarrow> g = f" if "g \<in> set payload_fields" for g
    using that f by (auto simp: event_message_def SetMessage_def SetString_def payload_fields_def split: if_splits)
  have "find (\<lambda>g. fmlookup ?e g \<noteq> None) payload_fields = Some f"
  proof -
    obtain g where g: "find (\<lambda>g. fmlookup ?e g \<noteq> None) payload_fields = Some g"
      using f(1) look by (cases "find (\<lambda>g. fmlookup ?e g \<noteq> None) payload_fields") (auto simp: find_None_iff)
    then have "g \<in> set payload_fields" "fmlookup ?e g \<noteq> None" by (auto simp: find_Some_iff)
    with look g show ?thesis by metis
  qed
  moreover have "GetMessage f ?e = Some o'"
    using assms(2) by (simp add: event_message_def event_object_def GetMessage_def SetMessage_def)
  ultimately show ?thesis
    by (simp add: extractTenants_def extractMetadata_def object_tenants_def getMetadata_def split: option.split)
qed

text \<open>
  C31. A change of an object, as the servers notify it, is visible to a watcher exactly when the object is
  visible to it in the table.
\<close>

theorem events_follow_the_tables:
  assumes "event_field ty = Some f" "ty \<noteq> ''private.v1.Hub''" "object_of d i r = Ok o'"
    "DetermineVisibleTenants (es_tenancy es) (ContextWithSubject c (sub_subject sub)) = Ok v"
  shows "sees es c sub (event_message ty f eid k o') \<longleftrightarrow> can_see (slice_list v) r"
  using event_message_tenants [OF assms(1,2)] object_of_tenants [OF assms(3)] assms(4)
  by (auto simp: sees_def can_see_def list_ex_iff)

section \<open>Watchers that stop the others\<close>

lemma blocked_step:
  assumes "watch_step es c t u" "delivery t = Some (i # ids, public, private)" "watchers t i = Some (sub, Leaving)"
    "judge es c sub public private = Ok Forward"
  shows "delivery u = Some (i # ids, public, private) \<and> watchers u i = Some (sub, Leaving)"
  using assms by (cases rule: watch_step.cases) auto

lemma blocked_run:
  assumes "watch_run es c s t" "delivery s = Some (i # ids, public, private)" "watchers s i = Some (sub, Leaving)"
    "judge es c sub public private = Ok Forward"
  shows "delivery t = Some (i # ids, public, private) \<and> watchers t i = Some (sub, Leaving)"
  using assms(1-3)
proof (induction rule: watch_run.induct)
  case (step s t u)
  then show ?case using blocked_step assms(4) by blast
qed simp

text \<open>
  C32. When a client goes away while the listener delivers an event and it is its turn, both wait for each other: the
  watcher for the lock that the listener holds, the listener for the watcher to take the event. From then on,
  whatever the others do, that event is being delivered and no other event is ever received.
\<close>

theorem leaving_watcher_blocks_the_events:
  assumes "delivery s = Some (i # ids, public, private)" "watchers s i = Some (sub, Leaving)"
    "judge es c sub public private = Ok Forward" "watch_run es c s t"
  shows "delivery t = delivery s \<and> watchers t i = watchers s i"
  using blocked_run [OF assms(4,1,2,3)] assms(1,2) by simp

text \<open>
  An example: two watchers of jane without filters, and the event of a cluster of hers.
\<close>

definition example_events :: "unit events_server" where
  "example_events = \<lparr>es_cel = \<lparr>cel_compile = (\<lambda>s. Ok ()), cel_eval = (\<lambda>p e. Ok (CelBool True))\<rparr>, es_schema = (\<lambda>n. []),
     es_mapper = \<lparr>strict = False, ignoredFieldNames = [], ignoredFieldFullNames = []\<rparr>, es_tenancy = DefaultTenancyLogic\<rparr>"

definition example_sub :: "unit sub_info" where
  "example_sub = \<lparr>sub_subject = \<lparr>source = ''jwt'', user = ''jane'', groups = Some [''a'', ''b'']\<rparr>, filterSrc = [], filterPrg = None\<rparr>"

definition example_event :: msg where
  "example_event = event_message ''private.v1.Cluster'' ''cluster'' ''u'' EventTypeCreated (example_object ''x'' ''a'')"

lemma example_watch_sub: "watch_sub example_events example_jwt_ctx None = Ok example_sub"
  by (simp add: watch_sub_def SubjectFromContext_def example_jwt_ctx_def watch_filter_def example_sub_def)

lemma example_public: "public_event example_events example_event = Ok fmempty"
  by (simp add: public_event_def Copy_def copyMessage.simps example_events_def)

lemma example_no_hub: "fmlookup example_event ''hub'' = None"
  by (simp add: example_event_def event_message_def SetMessage_def SetString_def)

lemma example_ctx_subject: "ContextWithSubject example_jwt_ctx (sub_subject example_sub) = example_jwt_ctx"
  by (simp add: ContextWithSubject_def example_jwt_ctx_def example_sub_def)

lemma example_sees: "sees example_events example_jwt_ctx example_sub example_event"
proof -
  have v: "DetermineVisibleTenants (es_tenancy example_events) (ContextWithSubject example_jwt_ctx (sub_subject example_sub)) =
      Ok (Some [''a'', ''b'', ''shared''])"
    by (simp only: example_ctx_subject) (simp add: example_events_def example_visible)
  have "object_of example_dao ''x'' (example_row ''a'') = Ok (example_object ''x'' ''a'')" by (rule example_object_of)
  moreover have "can_see [''a'', ''b'', ''shared''] (example_row ''a'')" by (simp add: can_see_def example_row_def)
  moreover have "event_field ''private.v1.Cluster'' = Some ''cluster''" by (simp add: event_field_def)
  ultimately have "''a'' \<in> set (extractTenants example_event)"
    using event_message_tenants [of "''private.v1.Cluster''" "''cluster''" "''u''" EventTypeCreated "example_object ''x'' ''a''"]
      object_of_tenants [of example_dao "''x''" "example_row ''a''" "example_object ''x'' ''a''"]
    by (simp add: example_event_def example_row_def)
  then show ?thesis using v by (force simp: sees_def)
qed

lemma example_judge: "judge example_events example_jwt_ctx example_sub fmempty example_event = Ok Forward"
  using example_sees by (simp add: judge_Forward filter_accepts_def example_sub_def)

lemma example_watch:
  "watch_run example_events example_jwt_ctx watching_init
     \<lparr>watchers = [''w'' \<mapsto> (example_sub, Selecting)], delivery = Some ([''w''], fmempty, example_event), streamed = []\<rparr>"
proof -
  have 1: "watch_step example_events example_jwt_ctx watching_init
      \<lparr>watchers = [''w'' \<mapsto> (example_sub, Selecting)], delivery = None, streamed = []\<rparr>"
    using watch_step.subscribe [of watching_init "''w''" example_events example_jwt_ctx None example_sub example_jwt_ctx]
    by (simp add: example_watch_sub watching_init_def)
  have 2: "watch_step example_events example_jwt_ctx \<lparr>watchers = [''w'' \<mapsto> (example_sub, Selecting)], delivery = None, streamed = []\<rparr>
     \<lparr>watchers = [''w'' \<mapsto> (example_sub, Selecting)], delivery = Some ([''w''], fmempty, example_event), streamed = []\<rparr>"
    using watch_step.receive [OF _ example_no_hub example_public,
        of "\<lparr>watchers = [''w'' \<mapsto> (example_sub, Selecting)], delivery = None, streamed = []\<rparr>" "[''w'']" example_jwt_ctx]
    by simp
  from watch_run.step [OF watch_run.step [OF watch_run.refl 1] 2] show ?thesis .
qed

text \<open>The event is taken and streamed, or the watcher leaves first.\<close>

lemma example_streamed:
  "\<exists>s. watch_run example_events example_jwt_ctx watching_init s \<and> (example_sub, fmempty, example_event) \<in> set (streamed s)"
proof -
  let ?s = "\<lparr>watchers = [''w'' \<mapsto> (example_sub, Selecting)], delivery = Some ([''w''], fmempty, example_event), streamed = []\<rparr>"
  let ?t = "?s\<lparr>watchers := (watchers ?s)(''w'' \<mapsto> (example_sub, Sending fmempty example_event)),
       delivery := Some ([], fmempty, example_event)\<rparr>"
  have "watch_step example_events example_jwt_ctx ?s ?t"
    by (rule watch_step.forward [OF _ _ example_judge]) simp_all
  moreover have "watch_step example_events example_jwt_ctx ?t (?t\<lparr>watchers := (watchers ?t)(''w'' \<mapsto> (example_sub, Selecting)),
      streamed := streamed ?t @ [(example_sub, fmempty, example_event)]\<rparr>)"
    by (rule watch_step.stream) simp
  ultimately have "watch_run example_events example_jwt_ctx watching_init (?t\<lparr>watchers := (watchers ?t)(''w'' \<mapsto> (example_sub, Selecting)),
      streamed := streamed ?t @ [(example_sub, fmempty, example_event)]\<rparr>)"
    using example_watch watch_run.step by blast
  then show ?thesis by (intro exI conjI) auto
qed

theorem watchers_only_get_visible_events_witness:
  "\<exists>s. watch_run example_events example_jwt_ctx watching_init s \<and> (example_sub, fmempty, example_event) \<in> set (streamed s) \<and>
     sees example_events example_jwt_ctx example_sub example_event"
  using example_streamed watchers_only_get_visible_events by blast

theorem events_follow_the_tables_witness:
  "sees example_events example_jwt_ctx example_sub (event_message ''private.v1.Cluster'' ''cluster'' ''u'' EventTypeDeleted
     (example_object ''y'' ''z'')) \<longleftrightarrow> can_see [''a'', ''b'', ''shared''] (example_row ''z'')"
proof -
  have f: "event_field ''private.v1.Cluster'' = Some ''cluster''" "''private.v1.Cluster'' \<noteq> ''private.v1.Hub''"
    by (simp_all add: event_field_def)
  have v: "DetermineVisibleTenants (es_tenancy example_events) (ContextWithSubject example_jwt_ctx (sub_subject example_sub)) =
      Ok (Some [''a'', ''b'', ''shared''])"
    by (simp only: example_ctx_subject) (simp add: example_events_def example_visible)
  show ?thesis
    using events_follow_the_tables [OF f example_object_of v, of "''u''" EventTypeDeleted "''z''" "''y''"] by simp
qed

theorem leaving_watcher_blocks_the_events_witness:
  "\<exists>s. watch_run example_events example_jwt_ctx watching_init s \<and> delivery s \<noteq> None \<and>
     (\<forall>t. watch_run example_events example_jwt_ctx s t \<longrightarrow> delivery t = delivery s)"
proof -
  let ?s = "\<lparr>watchers = [''w'' \<mapsto> (example_sub, Selecting)], delivery = Some ([''w''], fmempty, example_event), streamed = []\<rparr>"
  let ?t = "?s\<lparr>watchers := (watchers ?s)(''w'' \<mapsto> (example_sub, Leaving))\<rparr>"
  have "watch_step example_events example_jwt_ctx ?s ?t" by (rule watch_step.canceled) simp
  then have run: "watch_run example_events example_jwt_ctx watching_init ?t" using example_watch watch_run.step by blast
  have "delivery u = delivery ?t" if "watch_run example_events example_jwt_ctx ?t u" for u
    using leaving_watcher_blocks_the_events [OF _ _ example_judge that, of "''w''" "[]"] by simp
  with run show ?thesis by (intro exI [of _ ?t]) simp
qed

text \<open>A subscription that cannot see an event ends the loop, so those that are visited later don't get it.\<close>

lemma hidden_event_stops_delivery:
  "judge es c sub public private = Ok Hidden \<Longrightarrow>
   process_subs es c public private ((i, sub) # rest) s = (Ok (), s)"
  by (simp add: bind_def lift_def ret_def)

end
