(* ===== verification/Controllers.thy ===== *)
theory Controllers
  imports PublicServers
begin

text \<open>
  The controllers of \<open>internal/controllers\<close>: the cache of hubs and the functions that reconcile clusters, virtual
  machines, host pools and hosts with the Kubernetes objects of a hub. The gRPC clients of the private API, the
  client for Kubernetes and the conversion of the template parameters are arguments, as are the choices that Go leaves
  open, given for each call: random numbers and the orders in which maps are visited. The functions for clusters,
  virtual machines and host pools have the same text but for the constants collected in \<open>kube_kind\<close>.
\<close>

section \<open>Kubernetes objects\<close>

text \<open>Group, version and kind, \<open>internal/kubernetes/gvks\<close>, and labels, \<open>internal/kubernetes/labels\<close>.\<close>

type_synonym gvk = "string \<times> string \<times> string"

definition ClusterOrder :: gvk where
  "ClusterOrder = (''cloudkit.openshift.io'', ''v1alpha1'', ''ClusterOrder'')"

definition VirtualMachine :: gvk where
  "VirtualMachine = (''cloudkit.openshift.io'', ''v1alpha1'', ''VirtualMachine'')"

definition Host :: gvk where
  "Host = (''cloudkit.openshift.io'', ''v1alpha1'', ''Host'')"

definition HostPool :: gvk where
  "HostPool = (''cloudkit.openshift.io'', ''v1alpha1'', ''HostPool'')"

definition listGVK :: "gvk \<Rightarrow> gvk" where
  "listGVK g = (case g of (grp, version, k) \<Rightarrow> (grp, version, k @ ''List''))"

definition uuid_label :: "gvk \<Rightarrow> string \<Rightarrow> string" where
  "uuid_label g s = fst g @ ''/'' @ s"

definition ClusterOrderUuid :: string where
  "ClusterOrderUuid = uuid_label ClusterOrder ''clusterorder-uuid''"

definition VirtualMachineUuid :: string where
  "VirtualMachineUuid = uuid_label VirtualMachine ''virtualmachine-uuid''"

definition HostUuid :: string where
  "HostUuid = uuid_label Host ''host-uuid''"

definition HostPoolUuid :: string where
  "HostPoolUuid = uuid_label HostPool ''hostpool-uuid''"

text \<open>The values of unstructured objects that the controllers write, and the objects: metadata and other fields.\<close>

datatype jvalue =
    JString string
  | JInt int
  | JList "jvalue list"
  | JObject "(string, jvalue) fmap"

record kobj =
  ko_gvk :: gvk
  ko_namespace :: string
  ko_name :: string
  ko_generateName :: string
  ko_labels :: "(string, string) fmap"
  ko_fields :: "(string, jvalue) fmap"

definition SetNestedField_spec :: "(string, jvalue) fmap \<Rightarrow> kobj \<Rightarrow> kobj" where
  "SetNestedField_spec spec x = x\<lparr>ko_fields := fmupd ''spec'' (JObject spec) (ko_fields x)\<rparr>"

section \<open>What the controllers call\<close>

record ('cfg, 'cl, 'j, 'w) kube_lib =
  RESTConfigFromKubeConfig :: "string \<Rightarrow> 'cfg res"
  clnt_New :: "'cfg \<Rightarrow> 'cl res"
  kube_List :: "'cl \<Rightarrow> gvk \<Rightarrow> string \<Rightarrow> string \<times> string \<Rightarrow> ('w, kobj list) act"
  kube_Create :: "'cl \<Rightarrow> kobj \<Rightarrow> ('w, unit) act"
  kube_Patch :: "'cl \<Rightarrow> kobj \<Rightarrow> kobj \<Rightarrow> ('w, unit) act"
  kube_Delete :: "'cl \<Rightarrow> kobj \<Rightarrow> ('w, unit) act"
  convert_param :: "msg \<Rightarrow> 'j res"
  marshal_params :: "(string \<times> 'j) list \<Rightarrow> string res"

text \<open>
  The clients of the private API that a connection gives: \<open>Update\<close> of the type that is reconciled, \<open>List\<close> and
  \<open>Get\<close> of hubs, and \<open>Get\<close> of host pools.
\<close>

record 'w connection =
  api_Update :: "msg \<Rightarrow> ('w, msg option) act"
  hubs_List :: "('w, msg list) act"
  hubs_Get :: "string \<Rightarrow> ('w, msg option) act"
  hostPools_Get :: "string \<Rightarrow> ('w, msg option) act"

text \<open>\<open>rand.IntN\<close> and the orders in which the node sets and the types of conditions are visited.\<close>

record choices =
  IntN :: "nat \<Rightarrow> nat"
  visit_keys :: "string list \<Rightarrow> string list"
  visit_types :: "int list \<Rightarrow> int list"

definition SetEnum :: "string \<Rightarrow> int \<Rightarrow> msg \<Rightarrow> msg" where
  "SetEnum n i m = (if i = 0 then fmdrop n m else fmupd n (VEnum i) m)"

definition SetMessages :: "string \<Rightarrow> msg list \<Rightarrow> msg \<Rightarrow> msg" where
  "SetMessages n ms m = (if ms = [] then fmdrop n m else fmupd n (VList (map VMsg ms)) m)"

section \<open>The cache of hubs\<close>

record 'cl hub_entry =
  he_namespace :: string
  he_client :: 'cl

text \<open>The entries of the cache stand beside the rest of the world.\<close>

type_synonym ('cl, 'w) hubs_state = "(string \<Rightarrow> 'cl hub_entry option) \<times> 'w"

definition HubCache_Build :: "bool \<Rightarrow> 'w connection option \<Rightarrow> ('w connection \<times> (string \<Rightarrow> 'cl hub_entry option)) res" where
  "HubCache_Build logger conn = (if \<not> logger then Err (Fmt ''logger is mandatory'')
     else (case conn of None \<Rightarrow> Err (Fmt ''gRPC connection is mandatory'')
       | Some c \<Rightarrow> Ok (c, Map.empty)))"

definition HubCache_create ::
  "('cfg, 'cl, 'j, 'w) kube_lib \<Rightarrow> 'w connection \<Rightarrow> string \<Rightarrow> (('cl, 'w) hubs_state, 'cl hub_entry) act" where
  "HubCache_create lib conn i =
    bind (on_session (hubs_Get conn i)) (\<lambda>hub.
    bind (lift (RESTConfigFromKubeConfig lib (GetBytes ''kubeconfig'' (fields_of hub)))) (\<lambda>config.
    bind (lift (clnt_New lib config)) (\<lambda>cl.
    ret \<lparr>he_namespace = GetString ''namespace'' (fields_of hub), he_client = cl\<rparr>)))"

definition remember_hub :: "string \<Rightarrow> 'cl hub_entry \<Rightarrow> (('cl, 'w) hubs_state, unit) act" where
  "remember_hub i e x = (Ok (), ((fst x)(i \<mapsto> e), snd x))"

definition HubCache_Get ::
  "('cfg, 'cl, 'j, 'w) kube_lib \<Rightarrow> 'w connection \<Rightarrow> string \<Rightarrow> (('cl, 'w) hubs_state, 'cl hub_entry) act" where
  "HubCache_Get lib conn i x = (case fst x i of
      Some e \<Rightarrow> (Ok e, x)
    | None \<Rightarrow> bind (HubCache_create lib conn i) (\<lambda>e. bind (remember_hub i e) (\<lambda>_. ret e)) x)"

section \<open>What the functions share\<close>

record ('cfg, 'cl, 'j, 'w) kube_kind =
  objectPrefix :: string
  kk_gvk :: gvk
  kk_label :: string
  kk_text :: string
  state_progressing :: int
  condition_types :: "int list"
  kk_spec :: "('cfg, 'cl, 'j, 'w) kube_lib \<Rightarrow> choices \<Rightarrow> msg \<Rightarrow> (string, jvalue) fmap res"
  delete_selects_hub :: bool

definition function_Build :: "bool \<Rightarrow> 'w connection option \<Rightarrow> bool \<Rightarrow> 'w connection res" where
  "function_Build logger conn hubCache = (if \<not> logger then Err (Fmt ''logger is mandatory'')
     else (case conn of None \<Rightarrow> Err (Fmt ''client is mandatory'')
       | Some c \<Rightarrow> if \<not> hubCache then Err (Fmt ''hub cache is mandatory'') else Ok c))"

definition status_of :: "msg \<Rightarrow> msg" where
  "status_of o' = fields_of (GetMessage ''status'' o')"

definition SetStatus :: "msg \<Rightarrow> msg \<Rightarrow> msg" where
  "SetStatus st o' = SetMessage ''status'' (Some st) o'"

definition new_condition :: "int \<Rightarrow> msg" where
  "new_condition t = SetEnum ''status'' 2 (SetEnum ''type'' t fmempty)"

definition setConditionDefaults :: "int \<Rightarrow> msg \<Rightarrow> msg" where
  "setConditionDefaults t o' = (let cs = GetMessages ''conditions'' (status_of o') in
     if \<exists>c\<in>set cs. GetEnum ''type'' c = t then o'
     else SetStatus (SetMessages ''conditions'' (cs @ [new_condition t]) (status_of o')) o')"

definition setDefaults :: "('cfg, 'cl, 'j, 'w) kube_kind \<Rightarrow> choices \<Rightarrow> msg \<Rightarrow> msg" where
  "setDefaults k ch o' =
    (let o1 = SetStatus (status_of o') o';
         o2 = (if GetEnum ''state'' (status_of o1) = 0
               then SetStatus (SetEnum ''state'' (state_progressing k) (status_of o1)) o1 else o1)
     in fold setConditionDefaults (filter (\<lambda>t. t \<noteq> 0) (visit_types ch (condition_types k))) o2)"

text \<open>At most one object of the hub has the label with the identifier.\<close>

definition getKubeObject ::
  "('cfg, 'cl, 'j, 'w) kube_lib \<Rightarrow> ('cfg, 'cl, 'j, 'w) kube_kind \<Rightarrow> 'cl hub_entry \<Rightarrow> msg \<Rightarrow> ('w, kobj option) act" where
  "getKubeObject lib k hub o' =
    bind (kube_List lib (he_client hub) (listGVK (kk_gvk k)) (he_namespace hub) (kk_label k, GetId o')) (\<lambda>items.
      if length items > 1
      then fail (Fmt (''expected at most one '' @ kk_text k @ quoted (GetId o') @ '' but found ''
        @ show_int (int (length items))))
      else ret (case items of [] \<Rightarrow> None | x # _ \<Rightarrow> Some x))"

definition new_object ::
  "('cfg, 'cl, 'j, 'w) kube_kind \<Rightarrow> 'cl hub_entry \<Rightarrow> msg \<Rightarrow> (string, jvalue) fmap \<Rightarrow> kobj" where
  "new_object k hub o' spec = SetNestedField_spec spec \<lparr>ko_gvk = kk_gvk k, ko_namespace = he_namespace hub, ko_name = [],
     ko_generateName = objectPrefix k, ko_labels = fmupd (kk_label k) (GetId o') fmempty, ko_fields = fmempty\<rparr>"

text \<open>The last part of \<open>update\<close>: create the object, or patch the one that exists.\<close>

definition write_object :: "('cfg, 'cl, 'j, 'w) kube_lib \<Rightarrow> ('cfg, 'cl, 'j, 'w) kube_kind \<Rightarrow> 'cl hub_entry \<Rightarrow> msg \<Rightarrow>
    kobj option \<Rightarrow> (string, jvalue) fmap \<Rightarrow> ('w, unit) act" where
  "write_object lib k hub o' object spec = (case object of
      None \<Rightarrow> kube_Create lib (he_client hub) (new_object k hub o' spec)
    | Some x \<Rightarrow> kube_Patch lib (he_client hub) (SetNestedField_spec spec x) x)"

definition selectHub :: "('cfg, 'cl, 'j, 'w) kube_lib \<Rightarrow> 'w connection \<Rightarrow> choices \<Rightarrow> msg \<Rightarrow>
    (('cl, 'w) hubs_state, string \<times> 'cl hub_entry) act" where
  "selectHub lib conn ch o' =
    bind (let i = GetString ''hub'' (status_of o') in
      if i \<noteq> [] then ret i
      else bind (on_session (hubs_List conn)) (\<lambda>items.
        if length items = 0 then fail (Fmt ''there are no hubs'')
        else ret (GetId (items ! IntN ch (length items))))) (\<lambda>hubId.
    bind (HubCache_Get lib conn hubId) (\<lambda>hub. ret (hubId, hub)))"

definition getHub :: "('cfg, 'cl, 'j, 'w) kube_lib \<Rightarrow> 'w connection \<Rightarrow> msg \<Rightarrow> (('cl, 'w) hubs_state, 'cl hub_entry) act" where
  "getHub lib conn o' = HubCache_Get lib conn (GetString ''hub'' (status_of o'))"

definition reconcile_object :: "('cfg, 'cl, 'j, 'w) kube_lib \<Rightarrow> ('cfg, 'cl, 'j, 'w) kube_kind \<Rightarrow> 'cl hub_entry \<Rightarrow> msg \<Rightarrow>
    (string, jvalue) fmap res \<Rightarrow> (('cl, 'w) hubs_state, unit) act" where
  "reconcile_object lib k hub o' spec =
    bind (on_session (getKubeObject lib k hub o')) (\<lambda>object.
    bind (lift spec) (\<lambda>sp. on_session (write_object lib k hub o' object sp)))"

section \<open>Reconciliation\<close>

definition task_update :: "('cfg, 'cl, 'j, 'w) kube_lib \<Rightarrow> 'w connection \<Rightarrow> ('cfg, 'cl, 'j, 'w) kube_kind \<Rightarrow> choices \<Rightarrow> msg \<Rightarrow>
    (('cl, 'w) hubs_state, msg) act" where
  "task_update lib conn k ch o' =
    (let o1 = setDefaults k ch o' in
     if GetEnum ''state'' (status_of o1) \<noteq> state_progressing k then ret o1
     else bind (selectHub lib conn ch o1) (\<lambda>(hubId, hub).
       (let o2 = SetStatus (SetString ''hub'' hubId (status_of o1)) o1 in
        bind (reconcile_object lib k hub o2 (kk_spec k lib ch o2)) (\<lambda>_. ret o2))))"

definition delete_object :: "('cfg, 'cl, 'j, 'w) kube_lib \<Rightarrow> ('cfg, 'cl, 'j, 'w) kube_kind \<Rightarrow> 'cl hub_entry \<Rightarrow> msg \<Rightarrow>
    (('cl, 'w) hubs_state, unit) act" where
  "delete_object lib k hub o' =
    bind (on_session (getKubeObject lib k hub o')) (\<lambda>object.
      (case object of None \<Rightarrow> ret () | Some x \<Rightarrow> on_session (kube_Delete lib (he_client hub) x)))"

text \<open>The function of host pools selects a hub when there is none; the others do nothing then.\<close>

definition task_delete :: "('cfg, 'cl, 'j, 'w) kube_lib \<Rightarrow> 'w connection \<Rightarrow> ('cfg, 'cl, 'j, 'w) kube_kind \<Rightarrow> choices \<Rightarrow> msg \<Rightarrow>
    (('cl, 'w) hubs_state, unit) act" where
  "task_delete lib conn k ch o' =
    (if delete_selects_hub k
     then bind (selectHub lib conn ch o') (\<lambda>(hubId, hub). delete_object lib k hub o')
     else if GetString ''hub'' (status_of o') = [] then ret ()
     else bind (getHub lib conn o') (\<lambda>hub. delete_object lib k hub o'))"

text \<open>Whatever the object, it is sent back when there was no error.\<close>

definition function_run :: "('cfg, 'cl, 'j, 'w) kube_lib \<Rightarrow> 'w connection \<Rightarrow> ('cfg, 'cl, 'j, 'w) kube_kind \<Rightarrow> choices \<Rightarrow> msg \<Rightarrow>
    (('cl, 'w) hubs_state, unit) act" where
  "function_run lib conn k ch o' =
    bind (if fmlookup (fields_of (GetMessage ''metadata'' o')) ''deletion_timestamp'' \<noteq> None
          then bind (task_delete lib conn k ch o') (\<lambda>_. ret o')
          else task_update lib conn k ch o') (\<lambda>o1.
    bind (on_session (api_Update conn o1)) (\<lambda>_. ret ()))"

section \<open>Clusters, virtual machines and host pools\<close>

text \<open>The requests of nodes, in the order in which the node sets are visited.\<close>

definition set_request :: "string \<Rightarrow> string \<Rightarrow> msg \<Rightarrow> jvalue" where
  "set_request class_field size_field ns = JObject (fmupd class_field (JString (GetString ''host_class'' ns))
     (fmupd size_field (JInt (GetNum ''size'' ns)) fmempty))"

definition prepareNodeRequest :: "msg \<Rightarrow> jvalue" where
  "prepareNodeRequest = set_request ''resourceClass'' ''numberOfNodes''"

definition prepareNodeRequests :: "choices \<Rightarrow> msg \<Rightarrow> jvalue" where
  "prepareNodeRequests ch o' = (let sets = GetMap ''node_sets'' (fields_of (GetMessage ''spec'' o')) in
     JList (map (\<lambda>k. prepareNodeRequest (node_set sets k)) (visit_keys ch (map_keys sets))))"

definition prepareHostSetRequest :: "msg \<Rightarrow> jvalue" where
  "prepareHostSetRequest = set_request ''hostClass'' ''size''"

definition prepareHostSetRequests :: "choices \<Rightarrow> msg \<Rightarrow> jvalue" where
  "prepareHostSetRequests ch o' = (let sets = GetMap ''host_sets'' (fields_of (GetMessage ''spec'' o')) in
     JList (map (\<lambda>k. prepareHostSetRequest (node_set sets k)) (visit_keys ch (map_keys sets))))"

definition parameters_json :: "('cfg, 'cl, 'j, 'w) kube_lib \<Rightarrow> msg \<Rightarrow> string res" where
  "parameters_json lib o' = ConvertTemplateParametersToJSON (convert_param lib) (marshal_params lib)
     (GetMap ''template_parameters'' (fields_of (GetMessage ''spec'' o')))"

definition template_spec :: "msg \<Rightarrow> string \<Rightarrow> (string, jvalue) fmap" where
  "template_spec o' params = fmupd ''templateID'' (JString (GetString ''template'' (fields_of (GetMessage ''spec'' o'))))
     (fmupd ''templateParameters'' (JString params) fmempty)"

definition cluster_spec :: "('cfg, 'cl, 'j, 'w) kube_lib \<Rightarrow> choices \<Rightarrow> msg \<Rightarrow> (string, jvalue) fmap res" where
  "cluster_spec lib ch o' = bindR (parameters_json lib o') (\<lambda>params.
     Ok (fmupd ''nodeRequests'' (prepareNodeRequests ch o') (template_spec o' params)))"

definition vm_spec :: "('cfg, 'cl, 'j, 'w) kube_lib \<Rightarrow> choices \<Rightarrow> msg \<Rightarrow> (string, jvalue) fmap res" where
  "vm_spec lib ch o' = bindR (parameters_json lib o') (\<lambda>params. Ok (template_spec o' params))"

definition hostpool_spec :: "('cfg, 'cl, 'j, 'w) kube_lib \<Rightarrow> choices \<Rightarrow> msg \<Rightarrow> (string, jvalue) fmap res" where
  "hostpool_spec lib ch o' = Ok (fmupd ''hostSets'' (prepareHostSetRequests ch o') fmempty)"

text \<open>The number of the state that is progressing is the same in the three enums.\<close>

definition PROGRESSING :: int where
  "PROGRESSING = 1"

definition cluster_kind :: "('cfg, 'cl, 'j, 'w) kube_kind" where
  "cluster_kind = \<lparr>objectPrefix = ''order-'', kk_gvk = ClusterOrder, kk_label = ClusterOrderUuid,
     kk_text = ''cluster order with identifer '', state_progressing = PROGRESSING, condition_types = [0, 1, 2, 3, 4],
     kk_spec = cluster_spec, delete_selects_hub = False\<rparr>"

definition vm_kind :: "('cfg, 'cl, 'j, 'w) kube_kind" where
  "vm_kind = \<lparr>objectPrefix = ''vm-'', kk_gvk = VirtualMachine, kk_label = VirtualMachineUuid,
     kk_text = ''virtual machine with identifier '', state_progressing = PROGRESSING, condition_types = [0, 1, 2, 3, 4],
     kk_spec = vm_spec, delete_selects_hub = False\<rparr>"

definition hostpool_kind :: "('cfg, 'cl, 'j, 'w) kube_kind" where
  "hostpool_kind = \<lparr>objectPrefix = ''hostpool-'', kk_gvk = HostPool, kk_label = HostPoolUuid,
     kk_text = ''host pool with identifier '', state_progressing = PROGRESSING, condition_types = [0, 1, 2, 3, 4],
     kk_spec = hostpool_spec, delete_selects_hub = True\<rparr>"

text \<open>The methods of the tasks of virtual machines.\<close>

definition vm_setDefaults :: "choices \<Rightarrow> msg \<Rightarrow> msg" where
  "vm_setDefaults = setDefaults (vm_kind :: (unit, unit, unit, unit) kube_kind)"

definition vm_getKubeObject :: "('cfg, 'cl, 'j, 'w) kube_lib \<Rightarrow> 'cl hub_entry \<Rightarrow> msg \<Rightarrow> ('w, kobj option) act" where
  "vm_getKubeObject lib = getKubeObject lib vm_kind"

definition vm_update :: "('cfg, 'cl, 'j, 'w) kube_lib \<Rightarrow> 'w connection \<Rightarrow> choices \<Rightarrow> msg \<Rightarrow> (('cl, 'w) hubs_state, msg) act" where
  "vm_update lib conn = task_update lib conn vm_kind"

definition vm_delete :: "('cfg, 'cl, 'j, 'w) kube_lib \<Rightarrow> 'w connection \<Rightarrow> choices \<Rightarrow> msg \<Rightarrow> (('cl, 'w) hubs_state, unit) act" where
  "vm_delete lib conn = task_delete lib conn vm_kind"

text \<open>The methods of the tasks of host pools.\<close>

definition hostpool_setDefaults :: "choices \<Rightarrow> msg \<Rightarrow> msg" where
  "hostpool_setDefaults = setDefaults (hostpool_kind :: (unit, unit, unit, unit) kube_kind)"

definition hostpool_getKubeObject :: "('cfg, 'cl, 'j, 'w) kube_lib \<Rightarrow> 'cl hub_entry \<Rightarrow> msg \<Rightarrow> ('w, kobj option) act" where
  "hostpool_getKubeObject lib = getKubeObject lib hostpool_kind"

definition hostpool_update :: "('cfg, 'cl, 'j, 'w) kube_lib \<Rightarrow> 'w connection \<Rightarrow> choices \<Rightarrow> msg \<Rightarrow> (('cl, 'w) hubs_state, msg) act" where
  "hostpool_update lib conn = task_update lib conn hostpool_kind"

definition hostpool_delete :: "('cfg, 'cl, 'j, 'w) kube_lib \<Rightarrow> 'w connection \<Rightarrow> choices \<Rightarrow> msg \<Rightarrow> (('cl, 'w) hubs_state, unit) act" where
  "hostpool_delete lib conn = task_delete lib conn hostpool_kind"

text \<open>The functions that the three builders give.\<close>

definition cluster_function :: "('cfg, 'cl, 'j, 'w) kube_lib \<Rightarrow> bool \<Rightarrow> 'w connection option \<Rightarrow> bool \<Rightarrow>
    (choices \<Rightarrow> msg \<Rightarrow> (('cl, 'w) hubs_state, unit) act) res" where
  "cluster_function lib logger conn hubCache =
     bindR (function_Build logger conn hubCache) (\<lambda>c. Ok (function_run lib c cluster_kind))"

definition vm_function :: "('cfg, 'cl, 'j, 'w) kube_lib \<Rightarrow> bool \<Rightarrow> 'w connection option \<Rightarrow> bool \<Rightarrow>
    (choices \<Rightarrow> msg \<Rightarrow> (('cl, 'w) hubs_state, unit) act) res" where
  "vm_function lib logger conn hubCache =
     bindR (function_Build logger conn hubCache) (\<lambda>c. Ok (function_run lib c vm_kind))"

definition hostpool_function :: "('cfg, 'cl, 'j, 'w) kube_lib \<Rightarrow> bool \<Rightarrow> 'w connection option \<Rightarrow> bool \<Rightarrow>
    (choices \<Rightarrow> msg \<Rightarrow> (('cl, 'w) hubs_state, unit) act) res" where
  "hostpool_function lib logger conn hubCache =
     bindR (function_Build logger conn hubCache) (\<lambda>c. Ok (function_run lib c hostpool_kind))"

section \<open>Hosts\<close>

text \<open>Hosts have no state and no conditions; their hub is the one of their host pool.\<close>

definition powerState_String :: "int \<Rightarrow> string" where
  "powerState_String i = (if i = 0 then ''HOST_POWER_STATE_UNSPECIFIED'' else if i = 1 then ''HOST_POWER_STATE_ON''
     else if i = 2 then ''HOST_POWER_STATE_OFF'' else show_int i)"

definition host_spec :: "('cfg, 'cl, 'j, 'w) kube_lib \<Rightarrow> choices \<Rightarrow> msg \<Rightarrow> (string, jvalue) fmap res" where
  "host_spec lib ch o' = Ok (fmupd ''powerState''
     (JString (powerState_String (GetEnum ''power_state'' (fields_of (GetMessage ''spec'' o'))))) fmempty)"

definition host_kind :: "('cfg, 'cl, 'j, 'w) kube_kind" where
  "host_kind = \<lparr>objectPrefix = ''host-'', kk_gvk = Host, kk_label = HostUuid, kk_text = ''host with identifier '',
     state_progressing = 0, condition_types = [], kk_spec = host_spec, delete_selects_hub = True\<rparr>"

definition host_setDefaults :: "msg \<Rightarrow> msg" where
  "host_setDefaults o' = (let o1 = SetStatus (status_of o') o' in
     if GetEnum ''power_state'' (status_of o1) = 0 then SetStatus (SetEnum ''power_state'' 2 (status_of o1)) o1 else o1)"

definition host_selectHub :: "('cfg, 'cl, 'j, 'w) kube_lib \<Rightarrow> 'w connection \<Rightarrow> msg \<Rightarrow>
    (('cl, 'w) hubs_state, 'cl hub_entry) act" where
  "host_selectHub lib conn o' =
    (let poolId = GetString ''host_pool'' (status_of o') in
     if poolId = [] then fail (Fmt ''host is not associated with a host pool'')
     else bind (on_session (hostPools_Get conn poolId)) (\<lambda>pool.
       (let hubId = GetString ''hub'' (status_of (fields_of pool)) in
        if hubId = [] then fail (Fmt ''parent host pool is not associated with a hub'')
        else HubCache_Get lib conn hubId)))"

definition host_update :: "('cfg, 'cl, 'j, 'w) kube_lib \<Rightarrow> 'w connection \<Rightarrow> choices \<Rightarrow> msg \<Rightarrow> (('cl, 'w) hubs_state, msg) act" where
  "host_update lib conn ch o' =
    (let o1 = host_setDefaults o' in
     bind (host_selectHub lib conn o1) (\<lambda>hub.
     bind (reconcile_object lib host_kind hub o1 (host_spec lib ch o1)) (\<lambda>_. ret o1)))"

definition host_delete :: "('cfg, 'cl, 'j, 'w) kube_lib \<Rightarrow> 'w connection \<Rightarrow> msg \<Rightarrow> (('cl, 'w) hubs_state, unit) act" where
  "host_delete lib conn o' = bind (host_selectHub lib conn o') (\<lambda>hub. delete_object lib host_kind hub o')"

definition host_run :: "('cfg, 'cl, 'j, 'w) kube_lib \<Rightarrow> 'w connection \<Rightarrow> choices \<Rightarrow> msg \<Rightarrow> (('cl, 'w) hubs_state, unit) act" where
  "host_run lib conn ch o' =
    bind (if fmlookup (fields_of (GetMessage ''metadata'' o')) ''deletion_timestamp'' \<noteq> None
          then bind (host_delete lib conn o') (\<lambda>_. ret o') else host_update lib conn ch o') (\<lambda>o1.
    bind (on_session (api_Update conn o1)) (\<lambda>_. ret ()))"

definition host_function :: "('cfg, 'cl, 'j, 'w) kube_lib \<Rightarrow> bool \<Rightarrow> 'w connection option \<Rightarrow> bool \<Rightarrow>
    (choices \<Rightarrow> msg \<Rightarrow> (('cl, 'w) hubs_state, unit) act) res" where
  "host_function lib logger conn hubCache =
     bindR (function_Build logger conn hubCache) (\<lambda>c. Ok (host_run lib c))"

end
