(* ===== verification/ServiceRegistry.thy ===== *)
theory ServiceRegistry
  imports GenericServer
begin

text \<open>
  The end of the builder of the generic server: the lookup of its service in the registry of descriptors, and of the
  types of the requests and the responses of its methods. The registry is generated code and an argument: the
  services of the package \<open>private.v1\<close> in the order of its files, and the lookup of message types.
\<close>

section \<open>Descriptors\<close>

text \<open>A method with its service, and the names of the types of its request and its response.\<close>

record service_method =
  sm_service :: string
  sm_name :: string
  sm_input :: string
  sm_output :: string

record service =
  sv_name :: string
  sv_methods :: "service_method list"

definition findService :: "service list \<Rightarrow> 'd server_builder \<Rightarrow> service res" where
  "findService services b = (case find (\<lambda>s. sv_name s = sb_service b) services of
      None \<Rightarrow> Err (Fmt (''failed to find service '' @ quoted (sb_service b)))
    | Some s \<Rightarrow> Ok s)"

definition find_type :: "(string \<Rightarrow> 'm res) \<Rightarrow> string \<Rightarrow> string \<Rightarrow> 'm res" where
  "find_type FindMessageByName what n = (case FindMessageByName n of
      Err e \<Rightarrow> Err (Wrap (''failed to find '' @ what @ '' message type '' @ quoted n) e)
    | r \<Rightarrow> r)"

text \<open>The first method with the name.\<close>

definition findRequestAndResponse :: "(string \<Rightarrow> 'm res) \<Rightarrow> service \<Rightarrow> string \<Rightarrow> ('m \<times> 'm) res" where
  "findRequestAndResponse FindMessageByName sv methodName = (case find (\<lambda>m. sm_name m = methodName) (sv_methods sv) of
      None \<Rightarrow> Err (Fmt (''failed to find method '' @ quoted methodName @ '' in service '' @ quoted (sv_name sv)))
    | Some m \<Rightarrow> bindR (find_type FindMessageByName ''request'' (sm_input m)) (\<lambda>q.
        bindR (find_type FindMessageByName ''response'' (sm_output m)) (\<lambda>r. Ok (q, r))))"

text \<open>The templates of the requests and responses that the server clones, in the order in which they are found.\<close>

definition method_names :: "string list" where
  "method_names = [''List'', ''Get'', ''Create'', ''Delete'', ''Update'']"

definition registered_Build :: "service list \<Rightarrow> (string \<Rightarrow> 'm res) \<Rightarrow> schema \<Rightarrow> string \<Rightarrow> 'd codec \<Rightarrow> 'd server_builder \<Rightarrow>
    ('d generic_server \<times> ('m \<times> 'm) list) res" where
  "registered_Build services FindMessageByName sc ty k b =
    bindR (server_Build sc ty k b) (\<lambda>g.
    bindR (findService services b) (\<lambda>sv.
    bindR (mapR (findRequestAndResponse FindMessageByName sv) method_names) (\<lambda>templates. Ok (g, templates))))"

text \<open>The server that is built is the one without the lookups, and all its methods are registered.\<close>

lemma registered_Build_Ok:
  assumes "registered_Build services FindMessageByName sc ty k b = Ok (g, templates)"
  shows "server_Build sc ty k b = Ok g \<and> length templates = 5 \<and>
    (\<exists>sv\<in>set services. sv_name sv = sb_service b \<and> set method_names \<subseteq> sm_name ` set (sv_methods sv))"
proof -
  obtain sv where sv: "server_Build sc ty k b = Ok g" "findService services b = Ok sv"
      "mapR (findRequestAndResponse FindMessageByName sv) method_names = Ok templates"
    using assms by (auto simp: registered_Build_def bindR_eq_Ok)
  have "n \<in> sm_name ` set (sv_methods sv)" if f: "findRequestAndResponse FindMessageByName sv n = Ok p" for n p
  proof -
    obtain m where "find (\<lambda>m. sm_name m = n) (sv_methods sv) = Some m"
      using f by (auto simp: findRequestAndResponse_def split: option.splits)
    then have "m \<in> set (sv_methods sv) \<and> sm_name m = n" by (auto simp: find_Some_iff)
    then show ?thesis by blast
  qed
  moreover have "\<exists>p. findRequestAndResponse FindMessageByName sv n = Ok p" if "n \<in> set method_names" for n
    using sv(3) that unfolding mapR_Ok_iff by (auto simp: list_all2_conv_all_nth in_set_conv_nth)
  ultimately have "set method_names \<subseteq> sm_name ` set (sv_methods sv)" by blast
  moreover have "length templates = 5" using mapR_Ok_length [OF sv(3)] by (simp add: method_names_def)
  moreover have "sv \<in> set services \<and> sv_name sv = sb_service b"
    using sv(2) by (auto simp: findService_def find_Some_iff split: option.splits)
  ultimately show ?thesis using sv(1) by blast
qed

end
