(* ===== verification/Reconciler.thy ===== *)
theory Reconciler
  imports Controllers Listener ServiceRegistry
begin

text \<open>
  \<open>internal/controllers/reconciler.go\<close>: the builder, which finds the field of the events and the method that lists
  the objects, and the three goroutines, one that watches events, one that lists all the objects from time to time and
  one that calls the function with the objects that the others put in a channel without buffer. The goroutines are the
  components of a state whose steps interleave in any order. Times and durations are nanoseconds.
\<close>

section \<open>The builder\<close>

record ('c, 'f) reconciler_builder =
  rb_logger :: bool
  rb_client :: "'c option"
  rb_function :: "'f option"
  rb_eventFilter :: string
  rb_objectFilter :: string
  rb_syncInterval :: int
  rb_watchInterval :: int

record reconciler =
  eventFilter :: string
  objectFilter :: string
  syncInterval :: int
  watchInterval :: int
  payloadField :: string
  listMethod :: string

definition NewReconciler :: "('c, 'f) reconciler_builder" where
  "NewReconciler = \<lparr>rb_logger = False, rb_client = None, rb_function = None, rb_eventFilter = [], rb_objectFilter = [],
     rb_syncInterval = 3600 * 10 ^ 9, rb_watchInterval = 10 * 10 ^ 9\<rparr>"

text \<open>The first field of the event with the type of the objects; \<open>T\<close> is the name of their Go type.\<close>

definition findPayloadField :: "schema \<Rightarrow> string \<Rightarrow> string \<Rightarrow> string res" where
  "findPayloadField sc objectName T =
    (case find (\<lambda>f. fd_kind f = MessageKind objectName \<and> fd_card f \<noteq> IsMap) (sc ''private.v1.Event'') of
      Some f \<Rightarrow> Ok (fd_name f)
    | None \<Rightarrow> Err (Fmt (''failed to find event field for type '' @ quoted T)))"

text \<open>The methods of all the services of the files of the package, in the order of the registry.\<close>

fun first_list_method :: "schema \<Rightarrow> string \<Rightarrow> service_method list \<Rightarrow> service_method option res" where
  "first_list_method sc objectName [] = Ok None"
| "first_list_method sc objectName (m # ms) =
    (if sm_name m \<noteq> ''List'' then first_list_method sc objectName ms
     else (case ByName (sc (sm_output m)) ''items'' of
        None \<Rightarrow> first_list_method sc objectName ms
      | Some f \<Rightarrow> if fd_card f \<noteq> IsList then first_list_method sc objectName ms
          else (case fd_kind f of
              MessageKind n \<Rightarrow> if n = objectName then Ok (Some m) else first_list_method sc objectName ms
            | _ \<Rightarrow> Panic ''nil pointer dereference'')))"

text \<open>\<open>FindMessageByName\<close> is the registry of message types.\<close>

definition findListMethod :: "schema \<Rightarrow> service_method list \<Rightarrow> (string \<Rightarrow> 'm res) \<Rightarrow> string \<Rightarrow> string \<Rightarrow> (string \<times> 'm \<times> 'm) res" where
  "findListMethod sc methods FindMessageByName objectName T =
    bindR (first_list_method sc objectName methods) (\<lambda>m. (case m of
        None \<Rightarrow> Err (Fmt (''failed to find list method for type '' @ (CHR 0x27 # T)))
      | Some d \<Rightarrow> bindR (FindMessageByName (sm_input d)) (\<lambda>request.
          bindR (FindMessageByName (sm_output d)) (\<lambda>response.
          Ok (''/'' @ sm_service d @ ''/'' @ sm_name d, request, response)))))"

definition reconciler_Build :: "(int \<Rightarrow> string) \<Rightarrow> schema \<Rightarrow> service_method list \<Rightarrow> (string \<Rightarrow> 'm res) \<Rightarrow> string \<Rightarrow> string \<Rightarrow>
    ('c, 'f) reconciler_builder \<Rightarrow> (reconciler \<times> 'c \<times> 'f) res" where
  "reconciler_Build show' sc methods FindMessageByName objectName T b =
    (if \<not> rb_logger b then Err (Fmt ''logger is mandatory'')
     else (case rb_client b of None \<Rightarrow> Err (Fmt ''gRPC client is mandatory'')
     | Some c \<Rightarrow> (case rb_function b of None \<Rightarrow> Err (Fmt ''function is mandatory'')
     | Some f \<Rightarrow>
        if rb_syncInterval b \<le> 0
        then Err (Fmt (''sync interval should be positive, but it is '' @ show' (rb_syncInterval b)))
        else (case findPayloadField sc objectName T of
            Err e \<Rightarrow> Err (Wrap ''failed to find payload field'' e)
          | Panic q \<Rightarrow> Panic q
          | Ok field \<Rightarrow> (case findListMethod sc methods FindMessageByName objectName T of
              Err e \<Rightarrow> Err (Wrap ''failed to find list method'' e)
            | Panic q \<Rightarrow> Panic q
            | Ok (name, request, response) \<Rightarrow>
                Ok (\<lparr>eventFilter = (if rb_eventFilter b = [] then ''has(event.'' @ field @ '')'' else rb_eventFilter b),
                  objectFilter = rb_objectFilter b, syncInterval = rb_syncInterval b, watchInterval = rb_watchInterval b,
                  payloadField = field, listMethod = name\<rparr>, c, f))))))"

section \<open>Sleeping\<close>

text \<open>\<open>time.Since\<close> saturates; the zero time, \<open>None\<close>, is further back than the longest duration.\<close>

definition time_Since :: "int option \<Rightarrow> int \<Rightarrow> int" where
  "time_Since before now' = (case before of None \<Rightarrow> 2 ^ 63 - 1 | Some l \<Rightarrow> min (2 ^ 63 - 1) (now' - l))"

definition sleep_duration :: "int \<Rightarrow> int option \<Rightarrow> int \<Rightarrow> int" where
  "sleep_duration interval before now' = interval - time_Since before now'"

section \<open>The goroutines\<close>

text \<open>
  A goroutine that puts objects in the channel waits until the main loop takes them, one after the other; one that
  sleeps does so until a time.
\<close>

datatype syncer = Syncing | SyncOffering "msg list" | SyncSleeping int | SyncDone

datatype event_watcher = Starting | Streaming | WatchOffering "msg list" | WatchSleeping int | WatchDone

record 'x reconciling =
  clock :: int
  lastSync :: "int option"
  lastWatch :: "int option"
  rc_syncer :: syncer
  rc_watcher :: event_watcher
  rc_canceled :: bool
  rc_stopped :: bool
  rc_world :: 'x
  synced :: "int list"
  handled :: "msg list"

text \<open>\<open>synced\<close> are the times at which \<open>syncObjects\<close> was called by the loop, \<open>handled\<close> the objects given to the function.\<close>

definition reconciling_init :: "int \<Rightarrow> 'x \<Rightarrow> 'x reconciling" where
  "reconciling_init t x = \<lparr>clock = t, lastSync = None, lastWatch = None, rc_syncer = Syncing, rc_watcher = Starting,
     rc_canceled = False, rc_stopped = False, rc_world = x, synced = [t], handled = []\<rparr>"

definition begin_sync :: "'x reconciling \<Rightarrow> 'x reconciling" where
  "begin_sync s = s\<lparr>lastSync := Some (clock s), rc_syncer := Syncing, synced := synced s @ [clock s]\<rparr>"

definition sleepAfterSync :: "reconciler \<Rightarrow> 'x reconciling \<Rightarrow> 'x reconciling" where
  "sleepAfterSync r s = (let d = sleep_duration (syncInterval r) (lastSync s) (clock s) in
     if d \<le> 0 then begin_sync s else s\<lparr>rc_syncer := SyncSleeping (clock s + d)\<rparr>)"

definition begin_watch :: "'x reconciling \<Rightarrow> 'x reconciling" where
  "begin_watch s = s\<lparr>lastWatch := Some (clock s), rc_watcher := Starting\<rparr>"

definition sleepAfterWatch :: "reconciler \<Rightarrow> 'x reconciling \<Rightarrow> 'x reconciling" where
  "sleepAfterWatch r s = (let d = sleep_duration (watchInterval r) (lastWatch s) (clock s) in
     if d \<le> 0 then begin_watch s else s\<lparr>rc_watcher := WatchSleeping (clock s + d)\<rparr>)"

text \<open>What follows an error of \<open>syncObjects\<close> or of \<open>watchEvents\<close> in its loop.\<close>

definition sync_failed :: "reconciler \<Rightarrow> error \<Rightarrow> 'x reconciling \<Rightarrow> 'x reconciling" where
  "sync_failed r e s = (if is_error Canceled e then s\<lparr>rc_syncer := SyncDone\<rparr> else sleepAfterSync r s)"

definition watch_failed :: "reconciler \<Rightarrow> error \<Rightarrow> 'x reconciling \<Rightarrow> 'x reconciling" where
  "watch_failed r e s = (if is_error Canceled e then s\<lparr>rc_watcher := WatchDone\<rparr> else sleepAfterWatch r s)"

text \<open>The main loop takes an object and calls the function, whose error is only logged.\<close>

definition handle_object :: "(choices \<Rightarrow> msg \<Rightarrow> ('x, unit) act) \<Rightarrow> choices \<Rightarrow> msg \<Rightarrow> 'x reconciling \<Rightarrow> 'x reconciling" where
  "handle_object f ch o' s = s\<lparr>rc_world := snd (f ch o' (rc_world s)), handled := handled s @ [o']\<rparr>"

text \<open>
  The answers of the server are arbitrary: a response of the stream is an event, and a list has any items. Time only
  goes on.
\<close>

inductive reconciler_step :: "reconciler \<Rightarrow> (choices \<Rightarrow> msg \<Rightarrow> ('x, unit) act) \<Rightarrow> 'x reconciling \<Rightarrow> 'x reconciling \<Rightarrow> bool"
  for r f where
  time_passes: "clock s \<le> t \<Longrightarrow> reconciler_step r f s (s\<lparr>clock := t\<rparr>)"
| cancel: "reconciler_step r f s (s\<lparr>rc_canceled := True\<rparr>)"
| stop: "rc_canceled s \<Longrightarrow> reconciler_step r f s (s\<lparr>rc_stopped := True\<rparr>)"
| watch_starts: "rc_watcher s = Starting \<Longrightarrow> reconciler_step r f s (s\<lparr>rc_watcher := Streaming\<rparr>)"
| watch_fails: "rc_watcher s \<in> {Starting, Streaming} \<Longrightarrow> reconciler_step r f s (watch_failed r e s)"
| event: "rc_watcher s = Streaming \<Longrightarrow> GetMessage (payloadField r) ev = Some o' \<Longrightarrow>
     reconciler_step r f s (s\<lparr>rc_watcher := WatchOffering [o']\<rparr>)"
| other_event: "rc_watcher s = Streaming \<Longrightarrow> GetMessage (payloadField r) ev = None \<Longrightarrow>
     reconciler_step r f s (s\<lparr>rc_watcher := WatchOffering items\<rparr>)"
| watch_offers: "rc_watcher s = WatchOffering (o' # os) \<Longrightarrow> \<not> rc_stopped s \<Longrightarrow>
     reconciler_step r f s (handle_object f ch o' (s\<lparr>rc_watcher := WatchOffering os\<rparr>))"
| watch_goes_on: "rc_watcher s = WatchOffering [] \<Longrightarrow> reconciler_step r f s (s\<lparr>rc_watcher := Streaming\<rparr>)"
| watch_wakes: "rc_watcher s = WatchSleeping t \<Longrightarrow> t \<le> clock s \<Longrightarrow> reconciler_step r f s (begin_watch s)"
| watch_ends: "rc_watcher s = WatchSleeping t \<Longrightarrow> rc_canceled s \<Longrightarrow> reconciler_step r f s (s\<lparr>rc_watcher := WatchDone\<rparr>)"
| sync_lists: "rc_syncer s = Syncing \<Longrightarrow> reconciler_step r f s (s\<lparr>rc_syncer := SyncOffering items\<rparr>)"
| sync_fails: "rc_syncer s = Syncing \<Longrightarrow> reconciler_step r f s (sync_failed r e s)"
| sync_offers: "rc_syncer s = SyncOffering (o' # os) \<Longrightarrow> \<not> rc_stopped s \<Longrightarrow>
     reconciler_step r f s (handle_object f ch o' (s\<lparr>rc_syncer := SyncOffering os\<rparr>))"
| sync_sleeps: "rc_syncer s = SyncOffering [] \<Longrightarrow> reconciler_step r f s (sleepAfterSync r s)"
| sync_wakes: "rc_syncer s = SyncSleeping t \<Longrightarrow> t \<le> clock s \<Longrightarrow> reconciler_step r f s (begin_sync s)"
| sync_ends: "rc_syncer s = SyncSleeping t \<Longrightarrow> rc_canceled s \<Longrightarrow> reconciler_step r f s (s\<lparr>rc_syncer := SyncDone\<rparr>)"

inductive reconciler_run :: "reconciler \<Rightarrow> (choices \<Rightarrow> msg \<Rightarrow> ('x, unit) act) \<Rightarrow> 'x reconciling \<Rightarrow> 'x reconciling \<Rightarrow> bool"
  for r f where
  run_start: "reconciler_run r f s s"
| run_step: "reconciler_run r f s t \<Longrightarrow> reconciler_step r f t u \<Longrightarrow> reconciler_run r f s u"

text \<open>A step of a goroutine leaves what is not its own.\<close>

lemma loops_world [simp]:
  "rc_world (begin_sync s) = rc_world s" "rc_world (begin_watch s) = rc_world s"
  "rc_world (sleepAfterSync r s) = rc_world s" "rc_world (sleepAfterWatch r s) = rc_world s"
  "rc_world (sync_failed r e s) = rc_world s" "rc_world (watch_failed r e s) = rc_world s"
  by (simp_all add: begin_sync_def begin_watch_def sleepAfterSync_def sleepAfterWatch_def sync_failed_def watch_failed_def Let_def)

section \<open>Functions that keep a property of the world\<close>

text \<open>What the function keeps, the reconciler keeps, whatever the events, the lists and the interleaving.\<close>

locale reconciled_world =
  fixes f :: "choices \<Rightarrow> msg \<Rightarrow> ('x, unit) act" and P :: "'x \<Rightarrow> bool"
  assumes function_keeps: "keeps P (f ch o')"

context reconciled_world
begin

lemma step_keeps: "reconciler_step r f s t \<Longrightarrow> P (rc_world s) \<Longrightarrow> P (rc_world t)"
  by (cases rule: reconciler_step.cases) (use function_keeps in \<open>auto simp: handle_object_def keeps_def\<close>)

lemma run_keeps: "reconciler_run r f s t \<Longrightarrow> P (rc_world s) \<Longrightarrow> P (rc_world t)"
  by (induction rule: reconciler_run.induct) (auto intro: step_keeps)

end

end
