(* ===== verification/ControllersProofs.thy ===== *)
theory ControllersProofs
  imports Controllers "HOL-Library.Multiset"
begin

text \<open>
  What the controllers promise: one Kubernetes object for each object of the service, with the specification of the
  latter; defaults that the private server accepts; and what goes wrong with an object that was read before its hub
  was saved.
\<close>

section \<open>The contract of the client for Kubernetes\<close>

text \<open>
  \<open>objs w cl\<close> are the objects of the cluster that \<open>cl\<close> talks to. Creating gives the object a name. A call that
  fails may have had its effect; a deleted object may stay until its finalizers are done.
\<close>

definition listed :: "gvk \<Rightarrow> string \<Rightarrow> string \<times> string \<Rightarrow> kobj \<Rightarrow> bool" where
  "listed g ns l x \<longleftrightarrow> listGVK (ko_gvk x) = g \<and> ko_namespace x = ns \<and> fmlookup (ko_labels x) (fst l) = Some (snd l)"

definition lists_objects :: "('cfg, 'cl, 'j, 'w) kube_lib \<Rightarrow> ('w \<Rightarrow> 'cl \<Rightarrow> kobj list) \<Rightarrow> bool" where
  "lists_objects lib objs \<longleftrightarrow> (\<forall>cl g ns l w r t. kube_List lib cl g ns l w = (r, t) \<longrightarrow>
     objs t = objs w \<and> (\<forall>xs. r = Ok xs \<longrightarrow> xs = filter (listed g ns l) (objs w cl)))"

definition creates_objects :: "('cfg, 'cl, 'j, 'w) kube_lib \<Rightarrow> ('w \<Rightarrow> 'cl \<Rightarrow> kobj list) \<Rightarrow> bool" where
  "creates_objects lib objs \<longleftrightarrow> (\<forall>cl x w r t. kube_Create lib cl x w = (r, t) \<longrightarrow>
     (\<exists>n. objs t = (objs w)(cl := objs w cl @ [x\<lparr>ko_name := n\<rparr>])) \<or> r \<noteq> Ok () \<and> objs t = objs w)"

definition patches_objects :: "('cfg, 'cl, 'j, 'w) kube_lib \<Rightarrow> ('w \<Rightarrow> 'cl \<Rightarrow> kobj list) \<Rightarrow> bool" where
  "patches_objects lib objs \<longleftrightarrow> (\<forall>cl u x w r t. kube_Patch lib cl u x w = (r, t) \<longrightarrow>
     objs t = (objs w)(cl := map (\<lambda>y. if y = x then u else y) (objs w cl)) \<or> r \<noteq> Ok () \<and> objs t = objs w)"

definition deletes_objects :: "('cfg, 'cl, 'j, 'w) kube_lib \<Rightarrow> ('w \<Rightarrow> 'cl \<Rightarrow> kobj list) \<Rightarrow> bool" where
  "deletes_objects lib objs \<longleftrightarrow> (\<forall>cl x w r t. kube_Delete lib cl x w = (r, t) \<longrightarrow>
     objs t = (objs w)(cl := filter (\<lambda>y. y \<noteq> x) (objs w cl)) \<or> objs t = objs w)"

definition kube_laws :: "('cfg, 'cl, 'j, 'w) kube_lib \<Rightarrow> ('w \<Rightarrow> 'cl \<Rightarrow> kobj list) \<Rightarrow> bool" where
  "kube_laws lib objs \<longleftrightarrow> lists_objects lib objs \<and> creates_objects lib objs \<and> patches_objects lib objs \<and>
     deletes_objects lib objs"

text \<open>The private API does not touch the objects of the hubs.\<close>

definition quiet :: "('s \<Rightarrow> 'v) \<Rightarrow> ('s, 'a) act \<Rightarrow> bool" where
  "quiet v m \<longleftrightarrow> (\<forall>s. v (snd (m s)) = v s)"

definition quiet_api :: "'w connection \<Rightarrow> ('w \<Rightarrow> 'v) \<Rightarrow> bool" where
  "quiet_api conn objs \<longleftrightarrow> quiet objs (hubs_List conn) \<and> (\<forall>i. quiet objs (hubs_Get conn i)) \<and>
     (\<forall>i. quiet objs (hostPools_Get conn i)) \<and> (\<forall>m. quiet objs (api_Update conn m))"

named_theorems quiet_intros \<open>rules that show that a computation keeps the objects of the hubs\<close>

lemma quietD: "quiet v m \<Longrightarrow> m s = (r, t) \<Longrightarrow> v t = v s"
  by (metis quiet_def snd_conv)

lemma quiet_basic [quiet_intros]: "quiet v (ret x)" "quiet v (fail e)" "quiet v (lift r)"
  by (simp_all add: quiet_def ret_def fail_def lift_def)

lemma quiet_bind [quiet_intros]: "quiet v m \<Longrightarrow> (\<And>x. quiet v (k x)) \<Longrightarrow> quiet v (bind m k)"
  unfolding quiet_def
proof
  fix s
  assume m: "\<forall>s. v (snd (m s)) = v s" and k: "\<And>x. \<forall>s. v (snd (k x s)) = v s"
  obtain r u where r: "m s = (r, u)" by fastforce
  with m have "v u = v s" by (metis snd_conv)
  then show "v (snd (bind m k s)) = v s" using k by (cases r) (simp_all add: bind_def r)
qed

lemma quiet_on_session [quiet_intros]: "quiet objs m \<Longrightarrow> quiet (\<lambda>x. objs (snd x)) (on_session m)"
  by (simp add: quiet_def on_session_def split: prod.split) (metis snd_conv)

lemma quiet_if [quiet_intros]: "quiet v m \<Longrightarrow> quiet v n \<Longrightarrow> quiet v (if b then m else n)"
  by simp

lemma quiet_remember [quiet_intros]: "quiet (\<lambda>x. objs (snd x)) (remember_hub i e)"
  by (simp add: quiet_def remember_hub_def)

lemma quiet_case_prod [quiet_intros]: "(\<And>x y. quiet v (f x y)) \<Longrightarrow> quiet v (case p of (x, y) \<Rightarrow> f x y)"
  by (cases p) simp

section \<open>Finding the hub\<close>

lemma quiet_HubCache_Get [quiet_intros]:
  assumes "quiet_api conn objs"
  shows "quiet (\<lambda>x. objs (snd x)) (HubCache_Get lib conn i)"
proof -
  have "quiet objs (hubs_Get conn i)" using assms by (simp add: quiet_api_def)
  then have "quiet (\<lambda>x. objs (snd x)) (bind (HubCache_create lib conn i) (\<lambda>e. bind (remember_hub i e) (\<lambda>_. ret e)))"
    unfolding HubCache_create_def by (intro quiet_intros)
  then show ?thesis by (auto simp: quiet_def HubCache_Get_def split: option.split)
qed

lemma HubCache_Get_remembers: "HubCache_Get lib conn i s = (Ok e, t) \<Longrightarrow> fst t i = Some e"
  by (auto simp: HubCache_Get_def remember_hub_def act_Ok_iffs split: option.splits)

lemma HubCache_Get_known: "fst s i = Some e \<Longrightarrow> HubCache_Get lib conn i s = (Ok e, s)"
  by (simp add: HubCache_Get_def)

lemma quiet_selectHub [quiet_intros]:
  "quiet_api conn objs \<Longrightarrow> quiet (\<lambda>x. objs (snd x)) (selectHub lib conn ch o')"
  unfolding selectHub_def Let_def by (intro quiet_intros) (simp_all add: quiet_api_def)

lemma quiet_getHub [quiet_intros]: "quiet_api conn objs \<Longrightarrow> quiet (\<lambda>x. objs (snd x)) (getHub lib conn o')"
  unfolding getHub_def by (rule quiet_HubCache_Get)

lemma selectHub_Ok:
  assumes "selectHub lib conn ch o' s = (Ok (i, e), t)"
  shows "fst t i = Some e \<and> (GetString ''hub'' (status_of o') \<noteq> [] \<longrightarrow> i = GetString ''hub'' (status_of o'))"
  using assms by (auto simp: selectHub_def act_Ok_iffs Let_def split: if_splits dest: HubCache_Get_remembers)

section \<open>The object of a hub\<close>

lemma created: "kube_laws lib objs \<Longrightarrow> kube_Create lib cl x w = (r, t) \<Longrightarrow>
    (\<exists>n. objs t = (objs w)(cl := objs w cl @ [x\<lparr>ko_name := n\<rparr>])) \<or> r \<noteq> Ok () \<and> objs t = objs w"
  unfolding kube_laws_def creates_objects_def by blast

lemma patched: "kube_laws lib objs \<Longrightarrow> kube_Patch lib cl u x w = (r, t) \<Longrightarrow>
    objs t = (objs w)(cl := map (\<lambda>y. if y = x then u else y) (objs w cl)) \<or> r \<noteq> Ok () \<and> objs t = objs w"
  unfolding kube_laws_def patches_objects_def by blast

lemma deleted: "kube_laws lib objs \<Longrightarrow> kube_Delete lib cl x w = (r, t) \<Longrightarrow>
    objs t = (objs w)(cl := filter (\<lambda>y. y \<noteq> x) (objs w cl)) \<or> objs t = objs w"
  unfolding kube_laws_def deletes_objects_def by blast

abbreviation listed_for :: "('cfg, 'cl, 'j, 'w) kube_kind \<Rightarrow> string \<Rightarrow> string \<Rightarrow> kobj \<Rightarrow> bool" where
  "listed_for k ns i \<equiv> listed (listGVK (kk_gvk k)) ns (kk_label k, i)"

definition one_each :: "('cfg, 'cl, 'j, 'w) kube_kind \<Rightarrow> ('cl \<Rightarrow> kobj list) \<Rightarrow> bool" where
  "one_each k objects \<longleftrightarrow> (\<forall>cl ns i. length (filter (listed_for k ns i) (objects cl)) \<le> 1)"

lemma getKubeObject_view:
  assumes "kube_laws lib objs" "getKubeObject lib k hub o' w = (r, t)"
  shows "objs t = objs w"
proof -
  have "quiet objs (kube_List lib cl g ns l)" for cl g ns l
    using assms(1) unfolding kube_laws_def lists_objects_def quiet_def by (metis prod.collapse)
  then have "quiet objs (getKubeObject lib k hub o')" unfolding getKubeObject_def by (intro quiet_intros)
  from quietD [OF this assms(2)] show ?thesis .
qed

lemma getKubeObject_Ok:
  assumes "kube_laws lib objs" "getKubeObject lib k hub o' w = (Ok object, t)"
  shows "filter (listed_for k (he_namespace hub) (GetId o')) (objs w (he_client hub)) =
    (case object of None \<Rightarrow> [] | Some x \<Rightarrow> [x])"
proof -
  obtain items u where i: "kube_List lib (he_client hub) (listGVK (kk_gvk k)) (he_namespace hub) (kk_label k, GetId o') w = (Ok items, u)"
      "length items \<le> 1" "object = (case items of [] \<Rightarrow> None | x # _ \<Rightarrow> Some x)"
    using assms(2) by (auto simp: getKubeObject_def act_Ok_iffs split: if_splits)
  then have "items = filter (listed_for k (he_namespace hub) (GetId o')) (objs w (he_client hub))"
    using assms(1) unfolding kube_laws_def lists_objects_def by blast
  then have "filter (listed_for k (he_namespace hub) (GetId o')) (objs w (he_client hub)) = items" ..
  also have "\<dots> = (case object of None \<Rightarrow> [] | Some x \<Rightarrow> [x])" unfolding i(3) using i(2) by (cases items) auto
  finally show ?thesis .
qed

lemma listed_spec [simp]: "listed g ns l (SetNestedField_spec spec x) = listed g ns l x"
  by (simp add: listed_def SetNestedField_spec_def)

lemma spec_fields [simp]: "fmlookup (ko_fields (SetNestedField_spec spec x)) ''spec'' = Some (JObject spec)"
  "fmlookup (ko_fields (new_object k hub o' spec)) ''spec'' = Some (JObject spec)"
  by (simp_all add: SetNestedField_spec_def new_object_def)

lemma listed_name [simp]: "listed g ns l (x\<lparr>ko_name := n\<rparr>) = listed g ns l x"
  by (simp add: listed_def)

lemma listed_new [simp]:
  "listed_for k ns i (new_object k hub o' spec) \<longleftrightarrow> ns = he_namespace hub \<and> i = GetId o'"
  by (auto simp: new_object_def) (auto simp: listed_def)

lemma filter_patched:
  "filter (listed g ns l) (map (\<lambda>y. if y = x then SetNestedField_spec spec x else y) ys) =
   map (\<lambda>y. if y = x then SetNestedField_spec spec x else y) (filter (listed g ns l) ys)"
  by (induction ys) auto

lemma one_each_upd:
  "one_each k objects \<Longrightarrow> (\<And>ns i. length (filter (listed_for k ns i) xs) \<le> 1) \<Longrightarrow> one_each k (objects(cl := xs))"
  by (simp add: one_each_def)

lemma one_each_patched:
  "one_each k objects \<Longrightarrow> one_each k (objects(cl := map (\<lambda>y. if y = x then SetNestedField_spec spec x else y) (objects cl)))"
  by (rule one_each_upd) (auto simp: one_each_def filter_patched simp del: One_nat_def)

lemma one_each_created:
  assumes "one_each k objects" "filter (listed_for k (he_namespace hub) (GetId o')) (objects cl) = []"
  shows "one_each k (objects(cl := objects cl @ [(new_object k hub o' spec)\<lparr>ko_name := n\<rparr>]))"
  using assms by (intro one_each_upd) (auto simp: one_each_def simp del: One_nat_def)

lemma length_filter_twice: "length (filter P (filter Q xs)) \<le> length (filter P xs)"
  by (induction xs) auto

lemma one_each_deleted: "one_each k objects \<Longrightarrow> one_each k (objects(cl := filter (\<lambda>y. y \<noteq> x) (objects cl)))"
proof (rule one_each_upd)
  fix ns i
  assume "one_each k objects"
  have "length (filter (listed_for k ns i) (filter (\<lambda>y. y \<noteq> x) (objects cl))) \<le> length (filter (listed_for k ns i) (objects cl))"
    by (rule length_filter_twice)
  also have "\<dots> \<le> 1" using \<open>one_each k objects\<close> by (simp add: one_each_def)
  finally show "length (filter (listed_for k ns i) (filter (\<lambda>y. y \<noteq> x) (objects cl))) \<le> 1" .
qed

lemma write_object_keeps:
  assumes "kube_laws lib objs" "one_each k (objs w)" "write_object lib k hub o' object spec w = (r, t)"
    "filter (listed_for k (he_namespace hub) (GetId o')) (objs w (he_client hub)) = (case object of None \<Rightarrow> [] | Some x \<Rightarrow> [x])"
  shows "one_each k (objs t)"
proof (cases object)
  case None
  from None assms(3) have "kube_Create lib (he_client hub) (new_object k hub o' spec) w = (r, t)"
    by (simp add: write_object_def)
  from created [OF assms(1) this] show ?thesis
    using one_each_created [OF assms(2)] assms(2,4) None by auto
next
  case (Some x)
  from Some assms(3) have "kube_Patch lib (he_client hub) (SetNestedField_spec spec x) x w = (r, t)"
    by (simp add: write_object_def)
  from patched [OF assms(1) this] show ?thesis using one_each_patched [OF assms(2)] assms(2) by auto
qed

lemma write_object_Ok:
  assumes "kube_laws lib objs" "write_object lib k hub o' object spec w = (Ok (), t)"
    "filter (listed_for k (he_namespace hub) (GetId o')) (objs w (he_client hub)) = (case object of None \<Rightarrow> [] | Some x \<Rightarrow> [x])"
  shows "\<exists>x. filter (listed_for k (he_namespace hub) (GetId o')) (objs t (he_client hub)) = [x] \<and>
    fmlookup (ko_fields x) ''spec'' = Some (JObject spec)"
    "cl \<noteq> he_client hub \<Longrightarrow> objs t cl = objs w cl"
proof -
  have "(\<exists>x. filter (listed_for k (he_namespace hub) (GetId o')) (objs t (he_client hub)) = [x] \<and>
    fmlookup (ko_fields x) ''spec'' = Some (JObject spec)) \<and> (cl \<noteq> he_client hub \<longrightarrow> objs t cl = objs w cl)"
  proof (cases object)
    case None
    from None assms(2) have "kube_Create lib (he_client hub) (new_object k hub o' spec) w = (Ok (), t)"
      by (simp add: write_object_def)
    from created [OF assms(1) this] obtain n where
      "objs t = (objs w)(he_client hub := objs w (he_client hub) @ [(new_object k hub o' spec)\<lparr>ko_name := n\<rparr>])" by auto
    then show ?thesis using assms(3) None by simp
  next
    case (Some x)
    from Some assms(2) have "kube_Patch lib (he_client hub) (SetNestedField_spec spec x) x w = (Ok (), t)"
      by (simp add: write_object_def)
    from patched [OF assms(1) this] have
      "objs t = (objs w)(he_client hub := map (\<lambda>y. if y = x then SetNestedField_spec spec x else y) (objs w (he_client hub)))" by auto
    then show ?thesis using assms(3) Some by (simp add: filter_patched)
  qed
  then show "\<exists>x. filter (listed_for k (he_namespace hub) (GetId o')) (objs t (he_client hub)) = [x] \<and>
      fmlookup (ko_fields x) ''spec'' = Some (JObject spec)"
    "cl \<noteq> he_client hub \<Longrightarrow> objs t cl = objs w cl" by auto
qed


section \<open>Reconciling keeps one object\<close>

lemma on_session_run: "on_session m s = (r, t) \<Longrightarrow> m (snd s) = (r, snd t) \<and> fst t = fst s"
  by (auto simp: on_session_def split: prod.splits)

definition keeps_one :: "('cfg, 'cl, 'j, 'w) kube_kind \<Rightarrow> ('w \<Rightarrow> 'cl \<Rightarrow> kobj list) \<Rightarrow> (('cl, 'w) hubs_state, 'a) act \<Rightarrow> bool" where
  "keeps_one k objs m \<longleftrightarrow> keeps (\<lambda>s. one_each k (objs (snd s))) m"

lemma keeps_one_quiet: "quiet (\<lambda>x. objs (snd x)) m \<Longrightarrow> keeps_one k objs m"
  by (simp add: keeps_one_def keeps_def quiet_def)

lemma keeps_one_bind: "keeps_one k objs m \<Longrightarrow> (\<And>x. keeps_one k objs (f x)) \<Longrightarrow> keeps_one k objs (bind m f)"
  unfolding keeps_one_def by (rule keeps_bind)

lemma keeps_one_if: "keeps_one k objs m \<Longrightarrow> keeps_one k objs n \<Longrightarrow> keeps_one k objs (if b then m else n)"
  by simp

lemma keeps_one_reconcile:
  assumes "kube_laws lib objs"
  shows "keeps_one k objs (reconcile_object lib k hub o' spec)"
  unfolding keeps_one_def
proof (rule keepsI)
  fix s r t
  assume one: "one_each k (objs (snd s))" and run: "reconcile_object lib k hub o' spec s = (r, t)"
  obtain g u where g: "on_session (getKubeObject lib k hub o') s = (g, u)" by (cases "on_session (getKubeObject lib k hub o') s")
  note get = on_session_run [OF g]
  have same: "objs (snd u) = objs (snd s)" using getKubeObject_view [OF assms] get by blast
  consider "t = u" | object sp where "g = Ok object" "on_session (write_object lib k hub o' object sp) u = (r, t)"
    using run g by (cases g; cases spec) (auto simp: reconcile_object_def bind_def lift_def)
  then show "one_each k (objs (snd t))"
  proof cases
    case 1
    then show ?thesis using same one by simp
  next
    case 2
    from get 2(1) have "getKubeObject lib k hub o' (snd s) = (Ok object, snd u)" by simp
    from getKubeObject_Ok [OF assms this] have only: "filter (listed_for k (he_namespace hub) (GetId o'))
      (objs (snd u) (he_client hub)) = (case object of None \<Rightarrow> [] | Some x \<Rightarrow> [x])" by (simp only: same)
    have "one_each k (objs (snd u))" using one same by simp
    from write_object_keeps [OF assms this _ only] on_session_run [OF 2(2)] show ?thesis by blast
  qed
qed

lemma keeps_one_delete:
  assumes "kube_laws lib objs"
  shows "keeps_one k objs (delete_object lib k hub o')"
proof -
  have "quiet objs (getKubeObject lib k hub o')" using getKubeObject_view [OF assms] by (metis quiet_def prod.collapse)
  moreover have "keeps_one k objs (on_session (kube_Delete lib cl x))" for cl x
    unfolding keeps_one_def
  proof (rule keepsI)
    fix s r t
    assume one: "one_each k (objs (snd s))" and run: "on_session (kube_Delete lib cl x) s = (r, t)"
    from deleted [OF assms] on_session_run [OF run]
    have "objs (snd t) = (objs (snd s))(cl := filter (\<lambda>y. y \<noteq> x) (objs (snd s) cl)) \<or> objs (snd t) = objs (snd s)" by blast
    then show "one_each k (objs (snd t))" using one one_each_deleted [OF one] by auto
  qed
  moreover have "keeps_one k objs (ret ())" by (rule keeps_one_quiet, rule quiet_basic)
  ultimately show ?thesis unfolding delete_object_def
    by (intro keeps_one_bind [OF keeps_one_quiet [OF quiet_on_session]]) (auto split: option.split)
qed

lemma keeps_one_run:
  assumes "kube_laws lib objs" "quiet_api conn objs"
  shows "keeps_one k objs (function_run lib conn k ch o')"
proof -
  have r: "keeps_one k objs (ret x)" for x by (rule keeps_one_quiet, rule quiet_basic)
  have "keeps_one k objs (bind (reconcile_object lib k hub o2 (kk_spec k lib ch o2)) (\<lambda>_. ret o2))" for hub o2
    by (intro keeps_one_bind keeps_one_reconcile [OF assms(1)] r)
  then have u: "keeps_one k objs (task_update lib conn k ch o')"
    unfolding task_update_def Let_def split_def
    by (intro keeps_one_if keeps_one_bind [OF keeps_one_quiet [OF quiet_selectHub [OF assms(2)]]] r)
  have d: "keeps_one k objs (task_delete lib conn k ch o')"
    unfolding task_delete_def using keeps_one_delete [OF assms(1)] assms(2)
    by (auto intro!: keeps_one_bind intro: keeps_one_quiet quiet_intros)
  have a: "keeps_one k objs (on_session (api_Update conn m))" for m
    using assms(2) by (intro keeps_one_quiet quiet_on_session) (simp add: quiet_api_def)
  show ?thesis unfolding function_run_def
    by (intro keeps_one_if keeps_one_bind u d a keeps_one_quiet [OF quiet_basic(1)])
qed

text \<open>
  Whatever calls fail, and whether a failed call had its effect or not, reconciling an object never leaves two
  Kubernetes objects with the same identifier in the namespace of a hub.
\<close>

theorem reconciling_never_duplicates:
  assumes "kube_laws lib objs" "quiet_api conn objs" "function_run lib conn k ch o' s = (r, t)"
    "one_each k (objs (snd s))"
  shows "one_each k (objs (snd t))"
  using keepsD [OF keeps_one_run [OF assms(1,2), unfolded keeps_one_def] assms(4,3)] .


section \<open>Defaults\<close>

lemma status_SetStatus [simp]: "status_of (SetStatus st o') = st"
  by (simp add: status_of_def SetStatus_def fields_of_def)

lemma SetStatus_other [simp]: "n \<noteq> ''status'' \<Longrightarrow> fmlookup (SetStatus st o') n = fmlookup o' n"
  by (simp add: SetStatus_def)

lemma SetStatus_SetStatus [simp]: "SetStatus a (SetStatus b o') = SetStatus a o'"
  by (rule fmap_ext) (simp add: SetStatus_def SetMessage_def)

definition has_status :: "msg \<Rightarrow> bool" where
  "has_status o' \<longleftrightarrow> GetMessage ''status'' o' \<noteq> None"

lemma has_status_SetStatus [simp]: "has_status (SetStatus st o')"
  by (simp add: has_status_def SetStatus_def)

lemma SetStatus_same: "has_status o' \<Longrightarrow> SetStatus (status_of o') o' = o'"
  by (rule fmap_ext) (auto simp: has_status_def SetStatus_def SetMessage_def status_of_def fields_of_def GetMessage_def
      split: option.splits pvalue.splits)

lemma SetEnum_lookups [simp]:
  "GetEnum n (SetEnum n i m) = i" "n \<noteq> k \<Longrightarrow> fmlookup (SetEnum n i m) k = fmlookup m k"
  by (auto simp: GetEnum_def SetEnum_def)

lemma messages_of_map [simp]: "messages_of (map VMsg ms) = ms"
  by (induction ms) auto

lemma SetMessages_lookups [simp]:
  "GetMessages n (SetMessages n ms m) = ms" "n \<noteq> k \<Longrightarrow> fmlookup (SetMessages n ms m) k = fmlookup m k"
  by (auto simp: GetMessages_def SetMessages_def)

lemma getters_other [simp]:
  "n \<noteq> k \<Longrightarrow> GetEnum k (SetMessages n ms m) = GetEnum k m" "n \<noteq> k \<Longrightarrow> GetEnum k (SetEnum n i m) = GetEnum k m"
  "n \<noteq> k \<Longrightarrow> GetEnum k (SetString n x m) = GetEnum k m"
  "n \<noteq> k \<Longrightarrow> GetMessages k (SetEnum n i m) = GetMessages k m" "n \<noteq> k \<Longrightarrow> GetMessages k (SetString n x m) = GetMessages k m"
  "n \<noteq> k \<Longrightarrow> GetString k (SetMessages n ms m) = GetString k m" "n \<noteq> k \<Longrightarrow> GetString k (SetEnum n i m) = GetString k m"
  by (simp_all add: GetEnum_def GetMessages_def GetString_def)

lemma new_condition_type [simp]: "GetEnum ''type'' (new_condition t) = t"
  by (simp add: new_condition_def)

definition conditions_of :: "msg \<Rightarrow> msg list" where
  "conditions_of o' = GetMessages ''conditions'' (status_of o')"

lemma conditions_setConditionDefaults: "conditions_of (setConditionDefaults t o') = conditions_of o' @
    (if t \<in> GetEnum ''type'' ` set (conditions_of o') then [] else [new_condition t])"
  by (auto simp: conditions_of_def setConditionDefaults_def Let_def)

lemma setConditionDefaults_rest:
  "n \<noteq> ''status'' \<Longrightarrow> fmlookup (setConditionDefaults t o') n = fmlookup o' n"
  "has_status o' \<Longrightarrow> has_status (setConditionDefaults t o')"
  "GetEnum ''state'' (status_of (setConditionDefaults t o')) = GetEnum ''state'' (status_of o')"
  "GetString ''hub'' (status_of (setConditionDefaults t o')) = GetString ''hub'' (status_of o')"
  by (simp_all add: setConditionDefaults_def Let_def)

lemma fold_conditions_rest:
  "n \<noteq> ''status'' \<Longrightarrow> fmlookup (fold setConditionDefaults ts o') n = fmlookup o' n"
  "has_status o' \<Longrightarrow> has_status (fold setConditionDefaults ts o')"
  "GetEnum ''state'' (status_of (fold setConditionDefaults ts o')) = GetEnum ''state'' (status_of o')"
  "GetString ''hub'' (status_of (fold setConditionDefaults ts o')) = GetString ''hub'' (status_of o')"
  by (induction ts arbitrary: o') (simp_all add: setConditionDefaults_rest)

lemma fold_conditions:
  "\<exists>new. conditions_of (fold setConditionDefaults ts o') = conditions_of o' @ new \<and> distinct (map (GetEnum ''type'') new) \<and>
     GetEnum ''type'' ` set new = set ts - GetEnum ''type'' ` set (conditions_of o')"
proof (induction ts arbitrary: o')
  case (Cons t ts)
  obtain new where new: "conditions_of (fold setConditionDefaults ts (setConditionDefaults t o')) =
      conditions_of (setConditionDefaults t o') @ new" "distinct (map (GetEnum ''type'') new)"
      "GetEnum ''type'' ` set new = set ts - GetEnum ''type'' ` set (conditions_of (setConditionDefaults t o'))"
    using Cons by blast
  show ?case
  proof (cases "t \<in> GetEnum ''type'' ` set (conditions_of o')")
    case True
    with new show ?thesis by (intro exI [of _ new]) (auto simp: conditions_setConditionDefaults)
  next
    case False
    with new show ?thesis
      by (intro exI [of _ "new_condition t # new"]) (auto simp: conditions_setConditionDefaults image_Un)
  qed
qed simp

definition fair :: "choices \<Rightarrow> bool" where
  "fair ch \<longleftrightarrow> (\<forall>n. 0 < n \<longrightarrow> IntN ch n < n) \<and> (\<forall>ks. mset (visit_keys ch ks) = mset ks) \<and>
     (\<forall>ts. mset (visit_types ch ts) = mset ts)"

lemma fair_types: "fair ch \<Longrightarrow> set (visit_types ch ts) = set ts"
  by (metis fair_def mset_eq_setD)

lemma setDefaults_rest [simp]:
  "n \<noteq> ''status'' \<Longrightarrow> fmlookup (setDefaults k ch o') n = fmlookup o' n"
  "has_status (setDefaults k ch o')"
  "GetString ''hub'' (status_of (setDefaults k ch o')) = GetString ''hub'' (status_of o')"
  "GetEnum ''state'' (status_of (setDefaults k ch o')) =
     (if GetEnum ''state'' (status_of o') = 0 then state_progressing k else GetEnum ''state'' (status_of o'))"
  by (simp_all add: setDefaults_def Let_def fold_conditions_rest)

lemma setDefaults_conditions:
  assumes "fair ch"
  shows "\<exists>new. conditions_of (setDefaults k ch o') = conditions_of o' @ new \<and> distinct (map (GetEnum ''type'') new) \<and>
     GetEnum ''type'' ` set new = set (condition_types k) - {0} - GetEnum ''type'' ` set (conditions_of o')"
proof -
  let ?o = "if GetEnum ''state'' (status_of o') = 0 then SetStatus (SetEnum ''state'' (state_progressing k) (status_of o')) o'
    else SetStatus (status_of o') o'"
  have "conditions_of ?o = conditions_of o'" by (simp add: conditions_of_def)
  moreover have "setDefaults k ch o' = fold setConditionDefaults (filter (\<lambda>t. t \<noteq> 0) (visit_types ch (condition_types k))) ?o"
    by (simp add: setDefaults_def Let_def)
  moreover have "set (filter (\<lambda>t. t \<noteq> 0) (visit_types ch (condition_types k))) = set (condition_types k) - {0}"
    using fair_types [OF assms] by auto
  ultimately show ?thesis using fold_conditions by metis
qed

lemma validate_conditions: "validateNoDuplicateConditions name (Some o') = Ok () \<longleftrightarrow>
    (\<forall>c\<in>set (conditions_of o'). 0 \<le> GetEnum ''type'' c) \<and> distinct (map (GetEnum ''type'') (conditions_of o'))"
  by (simp add: validateNoDuplicateConditions_def check_conditions_Ok conditions_of_def status_of_def sub_def)


text \<open>
  C35. The defaults of the controllers complete the status: every type of condition is there exactly once, those
  that were there come first, and the private server accepts the result.
\<close>

theorem defaults_complete_the_status:
  assumes "fair ch" "validateNoDuplicateConditions name (Some o') = Ok ()" "k \<in> {cluster_kind, vm_kind, hostpool_kind}"
  shows "validateNoDuplicateConditions name (Some (setDefaults k ch o')) = Ok () \<and>
    {1, 2, 3, 4} \<subseteq> GetEnum ''type'' ` set (conditions_of (setDefaults k ch o')) \<and>
    take (length (conditions_of o')) (conditions_of (setDefaults k ch o')) = conditions_of o'"
proof -
  obtain new where new: "conditions_of (setDefaults k ch o') = conditions_of o' @ new" "distinct (map (GetEnum ''type'') new)"
      "GetEnum ''type'' ` set new = set (condition_types k) - {0} - GetEnum ''type'' ` set (conditions_of o')"
    using setDefaults_conditions [OF assms(1)] by blast
  have types: "set (condition_types k) - {0} = {1, 2, 3, 4}"
    using assms(3) by (auto simp: cluster_kind_def vm_kind_def hostpool_kind_def)
  have "\<forall>c\<in>set new. GetEnum ''type'' c \<in> {1, 2, 3, 4}" using new(3) types by blast
  then have "\<forall>c\<in>set new. 0 \<le> GetEnum ''type'' c" by auto
  moreover have "{1, 2, 3, 4} \<subseteq> GetEnum ''type'' ` set (conditions_of (setDefaults k ch o'))"
    using new(1,3) types by auto
  ultimately show ?thesis using assms(2) new by (simp add: validate_conditions) blast
qed

text \<open>An object with all the defaults is not changed by them.\<close>

definition complete :: "('cfg, 'cl, 'j, 'w) kube_kind \<Rightarrow> msg \<Rightarrow> bool" where
  "complete k o' \<longleftrightarrow> has_status o' \<and> GetEnum ''state'' (status_of o') \<noteq> 0 \<and>
     set (condition_types k) - {0} \<subseteq> GetEnum ''type'' ` set (conditions_of o')"

lemma complete_setDefaults: "fair ch \<Longrightarrow> state_progressing k \<noteq> 0 \<Longrightarrow> complete k (setDefaults k ch o')"
  using setDefaults_conditions [of ch k o'] by (auto simp: complete_def image_Un)

lemma complete_hub: "complete k o' \<Longrightarrow> complete k (SetStatus (SetString ''hub'' i (status_of o')) o')"
  by (simp add: complete_def conditions_of_def)

lemma complete_fixed:
  assumes "complete k o'" "fair ch"
  shows "setDefaults k ch o' = o'"
proof -
  have *: "set (filter (\<lambda>t. t \<noteq> 0) (visit_types ch (condition_types k))) \<subseteq> GetEnum ''type'' ` set (conditions_of o')"
    using assms fair_types [OF assms(2)] by (auto simp: complete_def)
  have "fold setConditionDefaults ts o' = o'" if "set ts \<subseteq> GetEnum ''type'' ` set (conditions_of o')" for ts
    using that by (induction ts) (auto simp: setConditionDefaults_def Let_def conditions_of_def)
  from this [OF *] show ?thesis
    using assms(1) by (simp add: setDefaults_def Let_def complete_def SetStatus_same)
qed

section \<open>A reconciliation that succeeds\<close>

lemma reconcile_object_Ok:
  assumes "kube_laws lib objs" "reconcile_object lib k hub o' spec s = (Ok (), t)"
  shows "\<exists>sp x. spec = Ok sp \<and> filter (listed_for k (he_namespace hub) (GetId o')) (objs (snd t) (he_client hub)) = [x] \<and>
      fmlookup (ko_fields x) ''spec'' = Some (JObject sp)"
    "cl \<noteq> he_client hub \<Longrightarrow> objs (snd t) cl = objs (snd s) cl"
    "fst t = fst s"
proof -
  obtain object u sp where r: "on_session (getKubeObject lib k hub o') s = (Ok object, u)" "spec = Ok sp"
      "on_session (write_object lib k hub o' object sp) u = (Ok (), t)"
    using assms(2) by (auto simp: reconcile_object_def act_Ok_iffs)
  have g: "getKubeObject lib k hub o' (snd s) = (Ok object, snd u)" and w: "write_object lib k hub o' object sp (snd u) = (Ok (), snd t)"
    using on_session_run [OF r(1)] on_session_run [OF r(3)] by blast+
  have same: "objs (snd u) = objs (snd s)" by (rule getKubeObject_view [OF assms(1) g])
  have only: "filter (listed_for k (he_namespace hub) (GetId o')) (objs (snd u) (he_client hub)) = (case object of None \<Rightarrow> [] | Some x \<Rightarrow> [x])"
    unfolding same by (rule getKubeObject_Ok [OF assms(1) g])
  note wr = write_object_Ok [OF assms(1) w only]
  from wr(1) r(2) show "\<exists>sp x. spec = Ok sp \<and> filter (listed_for k (he_namespace hub) (GetId o')) (objs (snd t) (he_client hub)) = [x] \<and>
      fmlookup (ko_fields x) ''spec'' = Some (JObject sp)" by blast
  show "objs (snd t) cl = objs (snd s) cl" if "cl \<noteq> he_client hub" using wr(2) that by (simp only: same)
  show "fst t = fst s" using on_session_run [OF r(1)] on_session_run [OF r(3)] by simp
qed

text \<open>The object is not being deleted and its state is progressing, at the latest after the defaults.\<close>

definition wanted :: "int \<Rightarrow> msg \<Rightarrow> bool" where
  "wanted progressing o' \<longleftrightarrow> fmlookup (fields_of (GetMessage ''metadata'' o')) ''deletion_timestamp'' = None \<and>
     GetEnum ''state'' (status_of o') \<in> {0, progressing}"

text \<open>The object that is sent back once the hub is known.\<close>

definition with_hub :: "('cfg, 'cl, 'j, 'w) kube_kind \<Rightarrow> choices \<Rightarrow> string \<Rightarrow> msg \<Rightarrow> msg" where
  "with_hub k ch i o' = SetStatus (SetString ''hub'' i (status_of (setDefaults k ch o'))) (setDefaults k ch o')"

lemma with_hub_rest: "n \<noteq> ''status'' \<Longrightarrow> fmlookup (with_hub k ch i o') n = fmlookup o' n"
  by (simp add: with_hub_def)

lemma GetId_with_hub [simp]: "GetId (with_hub k ch i o') = GetId o'"
  by (simp add: GetId_def GetString_def with_hub_rest)

lemma task_update_Ok:
  assumes "wanted (state_progressing k) o'" "task_update lib conn k ch o' s = (Ok o2, t)"
  shows "\<exists>i hub u. selectHub lib conn ch (setDefaults k ch o') s = (Ok (i, hub), u) \<and> o2 = with_hub k ch i o' \<and>
    reconcile_object lib k hub o2 (kk_spec k lib ch o2) u = (Ok (), t)"
  using assms by (auto simp: task_update_def wanted_def with_hub_def Let_def act_Ok_iffs split: if_splits)

lemma function_run_Ok:
  assumes "kube_laws lib objs" "quiet_api conn objs" "wanted (state_progressing k) o'" "function_run lib conn k ch o' s = (Ok (), t)"
  shows "\<exists>i hub sp x u. selectHub lib conn ch (setDefaults k ch o') s = (Ok (i, hub), u) \<and> fst t i = Some hub \<and>
    filter (listed_for k (he_namespace hub) (GetId o')) (objs (snd t) (he_client hub)) = [x] \<and>
    fmlookup (ko_fields x) ''spec'' = Some (JObject sp) \<and> kk_spec k lib ch (with_hub k ch i o') = Ok sp \<and>
    (\<forall>cl. cl \<noteq> he_client hub \<longrightarrow> objs (snd t) cl = objs (snd s) cl)"
proof -
  obtain o2 v y where run: "task_update lib conn k ch o' s = (Ok o2, v)" "on_session (api_Update conn o2) v = (Ok y, t)"
    using assms(3,4) by (auto simp: function_run_def wanted_def act_Ok_iffs)
  obtain i hub u where sel: "selectHub lib conn ch (setDefaults k ch o') s = (Ok (i, hub), u)" and o2: "o2 = with_hub k ch i o'"
      and rec: "reconcile_object lib k hub o2 (kk_spec k lib ch o2) u = (Ok (), v)"
    using task_update_Ok [OF assms(3) run(1)] by blast
  have "quiet objs (api_Update conn o2)" using assms(2) by (simp add: quiet_api_def)
  then have t: "objs (snd t) = objs (snd v)" "fst t = fst v"
    using on_session_run [OF run(2)] by (auto dest: quietD)
  have u: "objs (snd u) = objs (snd s)" by (rule quietD [OF quiet_selectHub [OF assms(2)] sel])
  have cache: "fst t i = Some hub" using selectHub_Ok [OF sel] reconcile_object_Ok(3) [OF assms(1) rec] t(2) by simp
  obtain sp x where x: "kk_spec k lib ch o2 = Ok sp" "fmlookup (ko_fields x) ''spec'' = Some (JObject sp)"
      "filter (listed_for k (he_namespace hub) (GetId o2)) (objs (snd v) (he_client hub)) = [x]"
    using reconcile_object_Ok(1) [OF assms(1) rec] by blast
  have "GetId o2 = GetId o'" by (simp add: o2)
  then have "filter (listed_for k (he_namespace hub) (GetId o')) (objs (snd t) (he_client hub)) = [x]"
    using x(3) t(1) by simp
  moreover have "objs (snd t) cl = objs (snd s) cl" if "cl \<noteq> he_client hub" for cl
    using reconcile_object_Ok(2) [OF assms(1) rec that] t(1) u by simp
  ultimately show ?thesis using sel cache x(1,2) o2 by blast
qed


section \<open>What is written for a cluster\<close>

text \<open>The node sets of a cluster, and what its order has to contain.\<close>

definition node_sets_of :: "msg \<Rightarrow> (string, pvalue) fmap" where
  "node_sets_of o' = GetMap ''node_sets'' (fields_of (GetMessage ''spec'' o'))"

definition order_follows :: "('cfg, 'cl, 'j, 'w) kube_lib \<Rightarrow> msg \<Rightarrow> kobj \<Rightarrow> bool" where
  "order_follows lib o' x \<longleftrightarrow> (\<exists>sp params requests. fmlookup (ko_fields x) ''spec'' = Some (JObject sp) \<and>
     fmlookup sp ''templateID'' = Some (JString (GetString ''template'' (fields_of (GetMessage ''spec'' o')))) \<and>
     parameters_json lib o' = Ok params \<and> fmlookup sp ''templateParameters'' = Some (JString params) \<and>
     fmlookup sp ''nodeRequests'' = Some (JList requests) \<and>
     mset requests = image_mset (\<lambda>k. prepareNodeRequest (node_set (node_sets_of o') k)) (mset (map_keys (node_sets_of o'))))"

lemma GetMessage_with_hub: "n \<noteq> ''status'' \<Longrightarrow> GetMessage n (with_hub k ch i o') = GetMessage n o'"
  by (simp add: GetMessage_def with_hub_rest)

lemma cluster_spec_follows:
  assumes "fair ch" "cluster_spec lib ch (with_hub k ch i o') = Ok sp" "fmlookup (ko_fields x) ''spec'' = Some (JObject sp)"
  shows "order_follows lib o' x"
proof -
  have spec: "GetMessage ''spec'' (with_hub k ch i o') = GetMessage ''spec'' o'" by (simp add: GetMessage_with_hub)
  then obtain params where p: "parameters_json lib o' = Ok params"
      "sp = fmupd ''nodeRequests'' (prepareNodeRequests ch o') (template_spec o' params)"
    using assms(2) by (auto simp: cluster_spec_def bindR_eq_Ok parameters_json_def prepareNodeRequests_def template_spec_def)
  have "mset (map f (visit_keys ch ks)) = image_mset f (mset ks)" for f :: "string \<Rightarrow> jvalue" and ks
    using assms(1) by (simp add: fair_def)
  then show ?thesis unfolding order_follows_def using p assms(3)
    by (intro exI [of _ sp] exI [of _ params]
        exI [of _ "map (\<lambda>k. prepareNodeRequest (node_set (node_sets_of o') k)) (visit_keys ch (map_keys (node_sets_of o')))"])
      (simp add: template_spec_def prepareNodeRequests_def node_sets_of_def Let_def)
qed

lemma run_writes_order:
  assumes "kube_laws lib objs" "quiet_api conn objs" "fair ch" "wanted (state_progressing k) o'"
    "function_run lib conn k ch o' s = (Ok (), t)" "kk_spec k = cluster_spec"
  shows "\<exists>i hub x. fst t i = Some hub \<and> (GetString ''hub'' (status_of o') \<noteq> [] \<longrightarrow> i = GetString ''hub'' (status_of o')) \<and>
    filter (listed_for k (he_namespace hub) (GetId o')) (objs (snd t) (he_client hub)) = [x] \<and> order_follows lib o' x"
proof -
  obtain i hub sp x u where r: "selectHub lib conn ch (setDefaults k ch o') s = (Ok (i, hub), u)" "fst t i = Some hub"
      "filter (listed_for k (he_namespace hub) (GetId o')) (objs (snd t) (he_client hub)) = [x]"
      "fmlookup (ko_fields x) ''spec'' = Some (JObject sp)" "kk_spec k lib ch (with_hub k ch i o') = Ok sp"
    using function_run_Ok [OF assms(1,2,4,5)] by blast
  have "order_follows lib o' x" using cluster_spec_follows [OF assms(3) _ r(4)] r(5) assms(6) by simp
  moreover have "GetString ''hub'' (status_of o') \<noteq> [] \<longrightarrow> i = GetString ''hub'' (status_of o')"
    using selectHub_Ok [OF r(1)] by simp
  ultimately show ?thesis using r(2,3) by blast
qed

lemma cluster_kind_simps: "state_progressing cluster_kind = PROGRESSING" "kk_gvk cluster_kind = ClusterOrder"
  "kk_label cluster_kind = ClusterOrderUuid" "kk_spec cluster_kind = cluster_spec"
  by (simp_all add: cluster_kind_def)


section \<open>Reconciling again\<close>

definition hubs_have_ids :: "'w connection \<Rightarrow> bool" where
  "hubs_have_ids conn \<longleftrightarrow> (\<forall>w hs u. hubs_List conn w = (Ok hs, u) \<longrightarrow> (\<forall>h\<in>set hs. GetId h \<noteq> []))"

lemma selectHub_id:
  assumes "selectHub lib conn ch o' s = (Ok (i, hub), u)" "hubs_have_ids conn" "fair ch"
  shows "i \<noteq> []"
proof (cases "GetString ''hub'' (status_of o') = []")
  case True
  then obtain items v where l: "on_session (hubs_List conn) s = (Ok items, v)" "items \<noteq> []" "i = GetId (items ! IntN ch (length items))"
    using assms(1) by (auto simp: selectHub_def act_Ok_iffs split: if_splits)
  have "IntN ch (length items) < length items" using assms(3) l(2) by (auto simp: fair_def)
  then have "items ! IntN ch (length items) \<in> set items" by simp
  moreover have "\<forall>h\<in>set items. GetId h \<noteq> []" using on_session_run [OF l(1)] assms(2) unfolding hubs_have_ids_def by blast
  ultimately show ?thesis using l(3) by simp
qed (use selectHub_Ok [OF assms(1)] in simp)

lemma GetString_SetString_same: "GetString n m = x \<Longrightarrow> x \<noteq> [] \<Longrightarrow> SetString n x m = m"
  by (rule fmap_ext) (auto simp: GetString_def SetString_def split: option.splits pvalue.splits)

lemma with_hub_again:
  assumes "fair ch" "fair ch'" "state_progressing k \<noteq> 0" "i \<noteq> []"
  shows "with_hub k ch' i (with_hub k ch i o') = with_hub k ch i o'"
proof -
  have d: "setDefaults k ch' (with_hub k ch i o') = with_hub k ch i o'"
    unfolding with_hub_def by (rule complete_fixed [OF complete_hub [OF complete_setDefaults [OF assms(1,3)]] assms(2)])
  have "SetString ''hub'' i (status_of (with_hub k ch i o')) = status_of (with_hub k ch i o')"
    using assms(4) by (intro GetString_SetString_same) (simp_all add: with_hub_def)
  moreover have "has_status (with_hub k ch i o')" by (simp add: with_hub_def)
  ultimately show ?thesis unfolding with_hub_def [of k ch' i] d by (simp only: SetStatus_same)
qed

text \<open>
  C36. Reconciling settles at once: the object that a reconciliation sends back is sent back unchanged by the next
  one, whatever the random choices and whatever happened to the hub in between, so it makes no more events.
\<close>

theorem reconciliation_settles:
  assumes "k \<in> {cluster_kind, vm_kind, hostpool_kind}" "fair ch" "fair ch'" "hubs_have_ids conn"
    "task_update lib conn k ch o' s = (Ok o2, t)" "task_update lib conn k ch' o2 s' = (Ok o3, t')"
  shows "o3 = o2"
proof -
  have p: "state_progressing k \<noteq> 0" using assms(1) by (auto simp: cluster_kind_def vm_kind_def hostpool_kind_def PROGRESSING_def)
  let ?o = "setDefaults k ch o'"
  show ?thesis
  proof (cases "GetEnum ''state'' (status_of ?o) = state_progressing k")
    case False
    then have "o2 = ?o" using assms(5) by (simp add: task_update_def Let_def ret_def)
    moreover from this have "setDefaults k ch' o2 = o2"
      using complete_fixed [OF complete_setDefaults [OF assms(2) p] assms(3)] by simp
    ultimately show ?thesis using assms(6) False by (simp add: task_update_def Let_def ret_def del: setDefaults_rest)
  next
    case True
    then obtain i hub u where sel: "selectHub lib conn ch ?o s = (Ok (i, hub), u)" and o2: "o2 = with_hub k ch i o'"
      using assms(5) by (auto simp: task_update_def with_hub_def Let_def act_Ok_iffs simp del: setDefaults_rest)
    have i: "i \<noteq> []" by (rule selectHub_id [OF sel assms(4,2)])
    have d: "setDefaults k ch' o2 = o2"
      unfolding o2 with_hub_def by (rule complete_fixed [OF complete_hub [OF complete_setDefaults [OF assms(2) p]] assms(3)])
    have st: "GetEnum ''state'' (status_of o2) = state_progressing k" using True by (simp add: o2 with_hub_def del: setDefaults_rest)
    obtain j hub' u' where sel': "selectHub lib conn ch' o2 s' = (Ok (j, hub'), u')" and o3: "o3 = with_hub k ch' j o2"
      using assms(6) st d by (auto simp: task_update_def with_hub_def Let_def act_Ok_iffs)
    have "GetString ''hub'' (status_of o2) = i" by (simp add: o2 with_hub_def)
    then have "j = i" using selectHub_Ok [OF sel'] i by simp
    then show ?thesis unfolding o3 o2 by (simp only: with_hub_again [OF assms(2,3) p i])
  qed
qed


section \<open>The cache of hubs\<close>

text \<open>An entry of the cache is never replaced or removed.\<close>

lemma keeps_entry_session: "keeps (\<lambda>s. fst s i = Some e) (on_session m)"
  by (rule keepsI) (auto dest: on_session_run)

lemma keeps_entry_Get: "keeps (\<lambda>s. fst s i = Some e) (HubCache_Get lib conn j)"
proof (rule keepsI)
  fix s r t
  assume e: "fst s i = Some e" and g: "HubCache_Get lib conn j s = (r, t)"
  show "fst t i = Some e"
  proof (cases "fst s j")
    case None
    have "keeps (\<lambda>s. fst s i = Some e) (HubCache_create lib conn j)"
      unfolding HubCache_create_def by (intro keeps_intros keeps_entry_session)
    moreover have "keeps (\<lambda>s. fst s i = Some e) (remember_hub j x)" if "j \<noteq> i" for x :: "'a hub_entry"
      using that by (simp add: keeps_def remember_hub_def)
    moreover have "j \<noteq> i" using None e by auto
    ultimately have "keeps (\<lambda>s. fst s i = Some e) (bind (HubCache_create lib conn j) (\<lambda>e. bind (remember_hub j e) (\<lambda>_. ret e)))"
      by (intro keeps_intros) blast+
    then show ?thesis using g e None by (auto simp: HubCache_Get_def intro: keepsD)
  qed (use g e in \<open>simp add: HubCache_Get_def\<close>)
qed

lemma keeps_entry_selectHub: "keeps (\<lambda>s. fst s i = Some e) (selectHub lib conn ch o')"
  unfolding selectHub_def Let_def by (intro keeps_intros keeps_entry_session keeps_entry_Get)

lemma keeps_entry_run: "keeps (\<lambda>s. fst s i = Some e) (function_run lib conn k ch o')"
proof -
  have d: "keeps (\<lambda>s. fst s i = Some e) (delete_object lib k hub o')" for hub
    unfolding delete_object_def by (intro keeps_intros keeps_entry_session)
  have w: "keeps (\<lambda>s. fst s i = Some e) (reconcile_object lib k hub o2 sp)" for hub o2 sp
    unfolding reconcile_object_def by (intro keeps_intros keeps_entry_session)
  show ?thesis
    unfolding function_run_def task_update_def task_delete_def getHub_def Let_def split_def
    by (intro keeps_intros keeps_entry_session keeps_entry_Get keeps_entry_selectHub d w)
qed

section \<open>Objects that were read before their hub was saved\<close>

lemma selectHub_new:
  assumes "GetString ''hub'' (status_of o') = []" "\<And>w. hubs_List conn w = (Ok hs, w)"
    "selectHub lib conn ch o' s = (Ok (i, hub), u)"
  shows "i = GetId (hs ! IntN ch (length hs))"
  using assms by (auto simp: selectHub_def act_Ok_iffs on_session_def split: if_splits)

text \<open>
  C37. The hub of an object is only known once the object has been sent back. If the same object, without a hub, is
  reconciled twice, which happens when it was read before the first reconciliation was done or when its result was
  lost, and another hub is drawn, then both reconciliations succeed and each hub has a Kubernetes object for it.
\<close>

theorem stale_object_gets_two_objects:
  assumes "kube_laws lib objs" "quiet_api conn objs" "wanted (state_progressing k) o'"
    "GetString ''hub'' (status_of o') = []" "\<And>w. hubs_List conn w = (Ok hs, w)"
    "function_run lib conn k ch1 o' s = (Ok (), t)" "function_run lib conn k ch2 o' t = (Ok (), u)"
    "fst u (GetId (hs ! IntN ch1 (length hs))) = Some hub1" "fst u (GetId (hs ! IntN ch2 (length hs))) = Some hub2"
    "he_client hub1 \<noteq> he_client hub2"
  shows "(\<exists>x. filter (listed_for k (he_namespace hub1) (GetId o')) (objs (snd u) (he_client hub1)) = [x]) \<and>
    (\<exists>x. filter (listed_for k (he_namespace hub2) (GetId o')) (objs (snd u) (he_client hub2)) = [x])"
proof -
  have h: "GetString ''hub'' (status_of (setDefaults k ch o')) = []" for ch using assms(4) by simp
  obtain i1 e1 x1 v1 where 1: "selectHub lib conn ch1 (setDefaults k ch1 o') s = (Ok (i1, e1), v1)" "fst t i1 = Some e1"
      "filter (listed_for k (he_namespace e1) (GetId o')) (objs (snd t) (he_client e1)) = [x1]"
    using function_run_Ok [OF assms(1,2,3,6)] by blast
  obtain i2 e2 x2 v2 where 2: "selectHub lib conn ch2 (setDefaults k ch2 o') t = (Ok (i2, e2), v2)" "fst u i2 = Some e2"
      "filter (listed_for k (he_namespace e2) (GetId o')) (objs (snd u) (he_client e2)) = [x2]"
      "\<forall>cl. cl \<noteq> he_client e2 \<longrightarrow> objs (snd u) cl = objs (snd t) cl"
    using function_run_Ok [OF assms(1,2,3,7)] by blast
  have "fst u i1 = Some e1" by (rule keepsD [OF keeps_entry_run 1(2) assms(7)])
  moreover have "i1 = GetId (hs ! IntN ch1 (length hs))" by (rule selectHub_new [OF h assms(5) 1(1)])
  moreover have "i2 = GetId (hs ! IntN ch2 (length hs))" by (rule selectHub_new [OF h assms(5) 2(1)])
  ultimately have e: "e1 = hub1" "e2 = hub2" using assms(8,9) 2(2) by auto
  have "objs (snd u) (he_client e1) = objs (snd t) (he_client e1)" using 2(4) e assms(10) by blast
  then show ?thesis using 1(3) 2(3) e by metis
qed

end
