(* ===== verification/ControllersExample.thy ===== *)
theory ControllersExample
  imports ControllersProofs
begin

text \<open>
  A client for Kubernetes and a private API that satisfy the contracts of \<open>ControllersProofs\<close>, and the properties of
  the controllers at a cluster that has just been created.
\<close>

section \<open>An example\<close>

text \<open>Two hubs whose objects are lists; the configuration of a client is the length of its kubeconfig.\<close>

type_synonym example_world = "nat \<Rightarrow> kobj list"

definition example_lib :: "(nat, nat, unit, example_world) kube_lib" where
  "example_lib = \<lparr>RESTConfigFromKubeConfig = (\<lambda>b. Ok (length b)), clnt_New = Ok,
     kube_List = (\<lambda>cl g ns l w. (Ok (filter (listed g ns l) (w cl)), w)),
     kube_Create = (\<lambda>cl x w. (Ok (), w(cl := w cl @ [x\<lparr>ko_name := replicate (length (w cl)) (CHR ''x'')\<rparr>]))),
     kube_Patch = (\<lambda>cl u x w. (Ok (), w(cl := map (\<lambda>y. if y = x then u else y) (w cl)))),
     kube_Delete = (\<lambda>cl x w. (Ok (), w(cl := filter (\<lambda>y. y \<noteq> x) (w cl)))),
     convert_param = (\<lambda>m. Ok ()), marshal_params = (\<lambda>ps. Ok ''{}'')\<rparr>"

definition example_hub :: "string \<Rightarrow> msg" where
  "example_hub i = fmupd ''id'' (VStr i) (fmupd ''kubeconfig'' (VBytes i) fmempty)"

definition example_connection :: "example_world connection" where
  "example_connection = \<lparr>api_Update = (\<lambda>m w. (Ok (Some m), w)), hubs_List = (\<lambda>w. (Ok [example_hub ''a'', example_hub ''bb''], w)),
     hubs_Get = (\<lambda>i w. (Ok (Some (example_hub i)), w)), hostPools_Get = (\<lambda>i w. (Ok None, w))\<rparr>"

definition example_choices :: "nat \<Rightarrow> choices" where
  "example_choices j = \<lparr>IntN = (\<lambda>n. if j < n then j else 0), visit_keys = (\<lambda>ks. ks), visit_types = (\<lambda>ts. ts)\<rparr>"

definition example_wanted :: msg where
  "example_wanted = fmupd ''id'' (VStr ''c'') fmempty"

lemma example_laws: "kube_laws example_lib (\<lambda>w. w)" "quiet_api example_connection (\<lambda>w. w)"
  "fair (example_choices j)" "hubs_have_ids example_connection"
  by (auto simp: kube_laws_def lists_objects_def creates_objects_def patches_objects_def deletes_objects_def example_lib_def
      quiet_api_def quiet_def example_connection_def fair_def example_choices_def hubs_have_ids_def example_hub_def GetId_def GetString_def)

lemma example_is_wanted: "wanted PROGRESSING example_wanted" "GetString ''hub'' (status_of example_wanted) = []"
  by (simp_all add: wanted_def example_wanted_def GetMessage_def fields_of_def status_of_def GetEnum_def GetString_def)


definition example_entry :: "string \<Rightarrow> nat hub_entry" where
  "example_entry i = \<lparr>he_namespace = [], he_client = length i\<rparr>"

definition example_id :: "nat \<Rightarrow> string" where
  "example_id j = (if j = 1 then ''bb'' else ''a'')"

definition example_kind :: "(nat, nat, unit, example_world) kube_kind" where
  "example_kind = cluster_kind"

lemma example_kind_simps: "state_progressing example_kind = PROGRESSING" "kk_gvk example_kind = ClusterOrder"
  "kk_label example_kind = ClusterOrderUuid" "kk_spec example_kind = cluster_spec"
  by (simp_all add: example_kind_def cluster_kind_def)

lemma example_hub_found: "c i = None \<Longrightarrow> HubCache_Get example_lib example_connection i (c, w) = (Ok (example_entry i), (c(i \<mapsto> example_entry i), w))"
  by (simp add: HubCache_Get_def HubCache_create_def bind_def on_session_def example_connection_def lift_def ret_def
      example_lib_def remember_hub_def example_entry_def example_hub_def GetBytes_def GetString_def fields_of_def)

text \<open>The hub of the object, or the one that is drawn.\<close>

lemma example_select:
  assumes "i = (if GetString ''hub'' (status_of o') = [] then example_id j else GetString ''hub'' (status_of o'))" "c i = None"
  shows "selectHub example_lib example_connection (example_choices j) o' (c, w) =
    (Ok (i, example_entry i), (c(i \<mapsto> example_entry i), w))"
proof -
  have l: "on_session (hubs_List example_connection) (c, w) = (Ok [example_hub ''a'', example_hub ''bb''], (c, w))"
    by (simp add: on_session_def example_connection_def)
  have "GetId ([example_hub ''a'', example_hub ''bb''] ! IntN (example_choices j) 2) = example_id j"
    by (auto simp: example_choices_def example_hub_def example_id_def GetId_def GetString_def nth_Cons split: nat.split)
  then show ?thesis
    using assms by (cases "GetString ''hub'' (status_of o') = []")
      (simp_all add: selectHub_def bind_def l ret_def Let_def example_hub_found numeral_2_eq_2)
qed

lemma example_reconcile:
  assumes "one_each k (snd s)"
  shows "\<exists>w. reconcile_object example_lib k hub o' (Ok sp) s = (Ok (), (fst s, w))"
proof -
  have "length (filter (listed_for k (he_namespace hub) (GetId o')) (snd s (he_client hub))) \<le> 1"
    using assms by (simp only: one_each_def)
  then obtain x where "getKubeObject example_lib k hub o' (snd s) = (Ok x, snd s)"
    by (simp add: getKubeObject_def bind_def example_lib_def ret_def)
  moreover have "\<exists>w. write_object example_lib k hub o' x sp (snd s) = (Ok (), w)"
    by (cases x) (simp_all add: write_object_def example_lib_def)
  ultimately show ?thesis by (auto simp: reconcile_object_def bind_def on_session_def lift_def split: prod.splits)
qed

lemma example_spec:
  assumes "GetMessage ''spec'' o' = None"
  shows "\<exists>sp. kk_spec example_kind example_lib ch o' = Ok sp"
proof -
  have "map_keys fmempty = []" by (simp add: map_keys_def sorted_list_of_fset.rep_eq)
  then have "parameters_json example_lib o' = Ok ''{}''" using assms
    by (simp add: parameters_json_def fields_of_def GetMap_def ConvertTemplateParametersToJSON_def example_lib_def)
  then show ?thesis by (simp add: example_kind_simps cluster_spec_def)
qed

lemma example_task_update:
  assumes "i = (if GetString ''hub'' (status_of o') = [] then example_id j else GetString ''hub'' (status_of o'))" "c i = None"
    "wanted PROGRESSING o'" "GetMessage ''spec'' o' = None" "one_each example_kind w"
  shows "\<exists>v. task_update example_lib example_connection example_kind (example_choices j) o' (c, w) =
    (Ok (with_hub example_kind (example_choices j) i o'), (c(i \<mapsto> example_entry i), v))"
proof -
  let ?k = example_kind and ?ch = "example_choices j"
  have i: "i = (if GetString ''hub'' (status_of (setDefaults ?k ?ch o')) = [] then example_id j
      else GetString ''hub'' (status_of (setDefaults ?k ?ch o')))" using assms(1) by simp
  have "GetMessage ''spec'' (with_hub ?k ?ch i o') = None" using assms(4) by (simp add: GetMessage_with_hub)
  then obtain sp where sp: "kk_spec ?k example_lib ?ch (with_hub ?k ?ch i o') = Ok sp" using example_spec by blast
  obtain v where v: "reconcile_object example_lib ?k (example_entry i) (with_hub ?k ?ch i o') (Ok sp)
      (c(i \<mapsto> example_entry i), w) = (Ok (), (c(i \<mapsto> example_entry i), v))"
    using example_reconcile [of ?k "(c(i \<mapsto> example_entry i), w)"] assms(5) by (metis fst_conv snd_conv)
  have "GetEnum ''state'' (status_of (setDefaults ?k ?ch o')) = state_progressing ?k"
    using assms(3) by (auto simp: wanted_def example_kind_simps)
  then show ?thesis using example_select [OF i, of c w] assms(2) sp v
    by (simp add: task_update_def Let_def bind_def with_hub_def ret_def del: setDefaults_rest)
qed

lemma example_run:
  assumes "c (example_id j) = None" "one_each example_kind w"
  shows "\<exists>v. function_run example_lib example_connection example_kind (example_choices j) example_wanted (c, w) =
    (Ok (), (c(example_id j \<mapsto> example_entry (example_id j)), v))"
proof -
  have "GetMessage ''spec'' example_wanted = None" by (simp add: GetMessage_def example_wanted_def)
  then obtain v where "task_update example_lib example_connection example_kind (example_choices j) example_wanted (c, w) =
    (Ok (with_hub example_kind (example_choices j) (example_id j) example_wanted), (c(example_id j \<mapsto> example_entry (example_id j)), v))"
    using example_task_update [of "example_id j" example_wanted j c w] example_is_wanted assms by auto
  moreover have "fmlookup (fields_of (GetMessage ''metadata'' example_wanted)) ''deletion_timestamp'' = None"
    using example_is_wanted(1) by (simp add: wanted_def)
  ultimately show ?thesis
    by (simp add: function_run_def bind_def on_session_def example_connection_def ret_def)
qed

lemma example_empty: "one_each k (\<lambda>_. [])"
  by (simp add: one_each_def)

theorem reconciling_never_duplicates_witness:
  "\<exists>t. function_run example_lib example_connection example_kind (example_choices 0) example_wanted (Map.empty, \<lambda>_. []) = (Ok (), t) \<and>
     one_each example_kind (snd t)"
proof -
  obtain t where t: "function_run example_lib example_connection example_kind (example_choices 0) example_wanted (Map.empty, \<lambda>_. []) = (Ok (), t)"
    using example_run [of Map.empty 0 "\<lambda>_. []"] example_empty by auto
  from reconciling_never_duplicates [OF example_laws(1,2) this] show ?thesis using t example_empty by auto
qed


theorem defaults_complete_the_status_witness:
  "validateNoDuplicateConditions (\<lambda>t. []) (Some (setDefaults example_kind (example_choices 0) example_wanted)) = Ok ()"
proof -
  have "validateNoDuplicateConditions (\<lambda>t. []) (Some example_wanted) = Ok ()"
    by (simp add: validate_conditions conditions_of_def status_of_def example_wanted_def GetMessage_def fields_of_def GetMessages_def)
  from defaults_complete_the_status [OF example_laws(3) this, of example_kind 0] show ?thesis by (simp add: example_kind_def)
qed

theorem reconciliation_settles_witness:
  "\<exists>o2 t t'. task_update example_lib example_connection example_kind (example_choices 0) example_wanted (Map.empty, \<lambda>_. []) = (Ok o2, t) \<and>
     task_update example_lib example_connection example_kind (example_choices 1) o2 (Map.empty, \<lambda>_. []) = (Ok o2, t')"
proof -
  have spec: "GetMessage ''spec'' example_wanted = None" by (simp add: GetMessage_def example_wanted_def)
  let ?o = "with_hub example_kind (example_choices 0) ''a'' example_wanted"
  obtain v where v: "task_update example_lib example_connection example_kind (example_choices 0) example_wanted (Map.empty, \<lambda>_. []) =
      (Ok ?o, (Map.empty(''a'' \<mapsto> example_entry ''a''), v))"
    using example_task_update [OF _ _ example_is_wanted(1) spec example_empty, of "''a''" 0 Map.empty] example_is_wanted(2)
    by (auto simp: example_id_def)
  have s: "GetMessage ''spec'' ?o = None" using spec by (simp add: GetMessage_with_hub)
  have "GetEnum ''state'' (status_of ?o) = PROGRESSING"
    using example_is_wanted(1) by (auto simp: with_hub_def wanted_def example_kind_simps)
  then have w: "wanted PROGRESSING ?o" using example_is_wanted(1) by (simp add: wanted_def GetMessage_with_hub)
  have h: "GetString ''hub'' (status_of ?o) = ''a''" by (simp add: with_hub_def)
  obtain o3 v' where "task_update example_lib example_connection example_kind (example_choices 1) ?o (Map.empty, \<lambda>_. []) = (Ok o3, v')"
    using example_task_update [OF _ _ w s example_empty, of "''a''" 1 Map.empty] h by auto
  moreover from reconciliation_settles [OF _ example_laws(3,3,4) v this] have "o3 = ?o" by (simp add: example_kind_def)
  ultimately show ?thesis using v by blast
qed

theorem stale_object_gets_two_objects_witness:
  "\<exists>t u. function_run example_lib example_connection example_kind (example_choices 0) example_wanted (Map.empty, \<lambda>_. []) = (Ok (), t) \<and>
     function_run example_lib example_connection example_kind (example_choices 1) example_wanted t = (Ok (), u) \<and>
     snd u 1 \<noteq> [] \<and> snd u 2 \<noteq> []"
proof -
  obtain v where v: "function_run example_lib example_connection example_kind (example_choices 0) example_wanted (Map.empty, \<lambda>_. []) =
      (Ok (), (Map.empty(''a'' \<mapsto> example_entry ''a''), v))"
    using example_run [of Map.empty 0 "\<lambda>_. []"] example_empty by (auto simp: example_id_def)
  have "one_each example_kind v"
    using keepsD [OF keeps_one_run [OF example_laws(1,2), unfolded keeps_one_def] _ v] by (simp add: example_empty)
  then obtain u where u: "function_run example_lib example_connection example_kind (example_choices 1) example_wanted
      (Map.empty(''a'' \<mapsto> example_entry ''a''), v) =
      (Ok (), (Map.empty(''a'' \<mapsto> example_entry ''a'', ''bb'' \<mapsto> example_entry ''bb''), u))"
    using example_run [of "Map.empty(''a'' \<mapsto> example_entry ''a'')" 1 v] by (auto simp: example_id_def)
  have l: "\<And>w. hubs_List example_connection w = (Ok [example_hub ''a'', example_hub ''bb''], w)" by (simp add: example_connection_def)
  have i: "GetId ([example_hub ''a'', example_hub ''bb''] ! IntN (example_choices 0) (length [example_hub ''a'', example_hub ''bb''])) = ''a''"
    "GetId ([example_hub ''a'', example_hub ''bb''] ! IntN (example_choices 1) (length [example_hub ''a'', example_hub ''bb''])) = ''bb''"
    by (simp_all add: example_choices_def example_hub_def GetId_def GetString_def)
  have w: "wanted (state_progressing example_kind) example_wanted" using example_is_wanted(1) by (simp add: example_kind_simps)
  have "(\<exists>x. filter P (u 1) = [x]) \<and> (\<exists>x. filter P (u 2) = [x])"
    if "P = listed_for example_kind [] (GetId example_wanted)" for P
    using stale_object_gets_two_objects [OF example_laws(1,2) w example_is_wanted(2) l v u, unfolded i,
        of "example_entry ''a''" "example_entry ''bb''"] that by (simp add: example_entry_def numeral_2_eq_2)
  then have "u 1 \<noteq> [] \<and> u 2 \<noteq> []" by (metis filter.simps(1) list.distinct(1))
  then show ?thesis using v u by auto
qed

end
