(* ===== verification/ReconcilerProofs.thy ===== *)
theory ReconcilerProofs
  imports Reconciler ControllersExample
begin

text \<open>
  What the reconcilers keep and how often they list the objects: the properties of the functions of the controllers
  hold in every reachable state of the goroutines, and all the full synchronisations but the first two are separated
  by the interval.
\<close>

section \<open>The objects of the hubs\<close>

lemma keeps_implied: "(L \<Longrightarrow> keeps P m) \<Longrightarrow> keeps (\<lambda>s. L \<longrightarrow> P s) m"
  by (cases L) (simp_all add: keeps_def)

lemma keeps_one_host:
  fixes lib :: "('cfg, 'cl, 'j, 'w) kube_lib" and k :: "('cfg, 'cl, 'j, 'w) kube_kind"
  assumes "k = host_kind"
  assumes "kube_laws lib objs" "quiet_api api objs"
  shows "keeps_one k objs (host_run lib api ch o')"
proof -
  have q: "quiet (\<lambda>x. objs (snd x)) (host_selectHub lib api o2)" for o2
    unfolding host_selectHub_def Let_def using assms(3)
    by (intro quiet_intros) (simp_all add: quiet_api_def)
  have a: "keeps_one k objs (on_session (api_Update api m))" for m
    using assms(3) by (intro keeps_one_quiet quiet_on_session) (simp add: quiet_api_def)
  have d: "keeps_one k objs (host_delete lib api o')"
    unfolding host_delete_def assms(1) [symmetric] by (intro keeps_one_bind [OF keeps_one_quiet [OF q]] keeps_one_delete [OF assms(2)])
  have u: "keeps_one k objs (host_update lib api ch o')"
    unfolding host_update_def Let_def assms(1) [symmetric]
    by (intro keeps_one_bind [OF keeps_one_quiet [OF q]] keeps_one_bind [OF keeps_one_reconcile [OF assms(2)]]
        keeps_one_quiet [OF quiet_basic(1)])
  show ?thesis unfolding host_run_def
    by (intro keeps_one_if keeps_one_bind u d a keeps_one_quiet [OF quiet_basic(1)])
qed

interpretation hubs: reconciled_world "function_run lib api k"
    "\<lambda>s. kube_laws lib objs \<and> quiet_api api objs \<longrightarrow> one_each k (objs (snd s))" for lib api k objs
  by unfold_locales (rule keeps_implied, use keeps_one_run in \<open>auto simp: keeps_one_def\<close>)

interpretation hosts: reconciled_world "host_run lib api"
    "\<lambda>s. kube_laws lib objs \<and> quiet_api api objs \<longrightarrow> one_each (host_kind :: ('cfg, 'cl, 'j, 'w) kube_kind) (objs (snd s))"
    for lib :: "('cfg, 'cl, 'j, 'w) kube_lib" and api objs
  by unfold_locales (rule keeps_implied, use keeps_one_host [OF refl] in \<open>auto simp: keeps_one_def\<close>)

interpretation cached: reconciled_world "function_run lib api k" "\<lambda>s. fst s i = Some e" for lib api k i e
  by unfold_locales (rule keeps_entry_run)

text \<open>
  C33. In every state that a reconciler reaches, whatever the events, the lists, the failures and the interleaving of
  its goroutines, no hub has two Kubernetes objects with the same identifier in a namespace.
\<close>

theorem reconciler_never_duplicates:
  assumes "kube_laws lib objs" "quiet_api api objs" "reconciler_run r (function_run lib api k) s t"
    "one_each k (objs (snd (rc_world s)))"
  shows "one_each k (objs (snd (rc_world t)))"
  using hubs.run_keeps [OF assms(3), of objs] assms(1,2,4) by simp

theorem reconciler_never_duplicates_witness:
  "\<exists>t. reconciler_run \<lparr>eventFilter = [], objectFilter = [], syncInterval = 1, watchInterval = 1, payloadField = ''cluster'', listMethod = []\<rparr>
      (function_run example_lib example_connection example_kind) (reconciling_init 0 (Map.empty, \<lambda>_. [])) t \<and>
    handled t = [example_wanted] \<and> one_each example_kind (snd (rc_world t))"
proof -
  let ?r = "\<lparr>eventFilter = [], objectFilter = [], syncInterval = 1, watchInterval = 1, payloadField = ''cluster'', listMethod = []\<rparr>"
  let ?f = "function_run example_lib example_connection example_kind"
  let ?s = "reconciling_init 0 (Map.empty, \<lambda>_. []) :: (nat, example_world) hubs_state reconciling"
  let ?t = "?s\<lparr>rc_syncer := SyncOffering [example_wanted]\<rparr>"
  let ?u = "handle_object ?f (example_choices 0) example_wanted (?t\<lparr>rc_syncer := SyncOffering []\<rparr>)"
  have "reconciler_step ?r ?f ?s ?t" by (rule sync_lists) (simp add: reconciling_init_def)
  moreover have "reconciler_step ?r ?f ?t ?u" by (rule sync_offers) (simp_all add: reconciling_init_def)
  ultimately have run: "reconciler_run ?r ?f ?s ?u" by (intro reconciler_run.run_step [OF reconciler_run.run_step [OF reconciler_run.run_start]])
  moreover have "one_each example_kind (snd (rc_world ?s))" by (simp add: reconciling_init_def example_empty)
  ultimately have "one_each example_kind (snd (rc_world ?u))"
    by (rule reconciler_never_duplicates [OF example_laws(1,2)])
  moreover have "handled ?u = [example_wanted]" by (simp add: handle_object_def reconciling_init_def)
  ultimately show ?thesis using run by blast
qed

section \<open>The time between synchronisations\<close>

definition sync_inv :: "reconciler \<Rightarrow> 'x reconciling \<Rightarrow> bool" where
  "sync_inv r s \<longleftrightarrow> synced s \<noteq> [] \<and> last (synced s) \<le> clock s \<and>
     successively (\<lambda>a b. a + syncInterval r \<le> b) (tl (synced s)) \<and>
     (case lastSync s of None \<Rightarrow> length (synced s) = 1 \<and> (\<forall>t. rc_syncer s \<noteq> SyncSleeping t)
      | Some l \<Rightarrow> l = last (synced s) \<and> (\<forall>t. rc_syncer s = SyncSleeping t \<longrightarrow> l + syncInterval r \<le> t))"

lemma sync_inv_begin:
  assumes "sync_inv r s" "\<And>l. lastSync s = Some l \<Longrightarrow> l + syncInterval r \<le> clock s"
  shows "sync_inv r (begin_sync s)"
proof (cases "lastSync s")
  case None
  with assms(1) have "length (synced s) = 1" by (simp add: sync_inv_def)
  then obtain a where "synced s = [a]" by (auto simp: length_Suc_conv)
  with assms(1) show ?thesis by (simp add: sync_inv_def begin_sync_def)
next
  case (Some l)
  with assms have "last (synced s) + syncInterval r \<le> clock s" "synced s \<noteq> []" by (auto simp: sync_inv_def)
  then show ?thesis using assms(1)
    by (cases "tl (synced s) = []") (auto simp: sync_inv_def begin_sync_def successively_append_iff last_tl)
qed

lemma sync_inv_sleep:
  assumes "sync_inv r s" "syncInterval r \<le> 2 ^ 63 - 1"
  shows "sync_inv r (sleepAfterSync r s)"
proof (cases "sleep_duration (syncInterval r) (lastSync s) (clock s) \<le> 0")
  case True
  have "l + syncInterval r \<le> clock s" if "lastSync s = Some l" for l
    using True that assms(2) by (simp add: sleep_duration_def time_Since_def min_def split: if_splits)
  then show ?thesis using sync_inv_begin [OF assms(1)] True by (simp add: sleepAfterSync_def)
next
  case False
  then obtain l where "lastSync s = Some l" using assms(2) by (cases "lastSync s") (simp_all add: sleep_duration_def time_Since_def)
  then show ?thesis using False assms by (auto simp: sync_inv_def sleepAfterSync_def Let_def sleep_duration_def time_Since_def)
qed

lemma sync_inv_frame:
  "sync_inv r s \<Longrightarrow> clock s \<le> clock t \<Longrightarrow> synced t = synced s \<Longrightarrow> lastSync t = lastSync s \<Longrightarrow>
   (\<And>d. rc_syncer t = SyncSleeping d \<Longrightarrow> rc_syncer s = SyncSleeping d) \<Longrightarrow> sync_inv r t"
  by (fastforce simp: sync_inv_def split: option.splits)

lemma watch_frame:
  "clock (sleepAfterWatch r s) = clock s" "synced (sleepAfterWatch r s) = synced s" "lastSync (sleepAfterWatch r s) = lastSync s"
  "rc_syncer (sleepAfterWatch r s) = rc_syncer s"
  "clock (begin_watch s) = clock s" "synced (begin_watch s) = synced s" "lastSync (begin_watch s) = lastSync s"
  "rc_syncer (begin_watch s) = rc_syncer s"
  by (simp_all add: sleepAfterWatch_def begin_watch_def Let_def)

lemma sync_inv_step:
  assumes "reconciler_step r f s t" "sync_inv r s" "syncInterval r \<le> 2 ^ 63 - 1"
  shows "sync_inv r t"
  using assms(1)
proof cases
  case (sync_wakes d)
  then have "l + syncInterval r \<le> clock s" if "lastSync s = Some l" for l
    using that assms(2) by (force simp: sync_inv_def)
  then show ?thesis using sync_inv_begin [OF assms(2)] sync_wakes(1) by simp
next
  case (sync_fails e)
  then show ?thesis using sync_inv_sleep [OF assms(2,3)] sync_inv_frame [OF assms(2), of "s\<lparr>rc_syncer := SyncDone\<rparr>"]
    by (simp add: sync_failed_def)
next
  case sync_sleeps
  then show ?thesis using sync_inv_sleep [OF assms(2,3)] by simp
next
  case (watch_fails e)
  then show ?thesis
    by (cases "is_error Canceled e") (auto simp: watch_failed_def watch_frame intro: sync_inv_frame [OF assms(2)])
next
  case (watch_wakes d)
  then show ?thesis by (intro sync_inv_frame [OF assms(2)]) (simp_all add: watch_frame)
qed (use assms(2) in \<open>auto intro: sync_inv_frame simp: handle_object_def\<close>)

lemma sync_inv_run:
  "reconciler_run r f s t \<Longrightarrow> sync_inv r s \<Longrightarrow> syncInterval r \<le> 2 ^ 63 - 1 \<Longrightarrow> sync_inv r t"
  by (induction rule: reconciler_run.induct) (auto intro: sync_inv_step)


text \<open>There is no time before the first sleep, so the first synchronisation is repeated at once.\<close>

lemma first_sync_is_repeated:
  assumes "syncInterval r \<le> 2 ^ 63 - 1"
  shows "\<exists>s. reconciler_run r f (reconciling_init t x) s \<and> synced s = [t, t]"
proof -
  let ?a = "reconciling_init t x"
  let ?b = "?a\<lparr>rc_syncer := SyncOffering []\<rparr>"
  have "reconciler_step r f ?a ?b" by (rule sync_lists) (simp add: reconciling_init_def)
  moreover have "reconciler_step r f ?b (sleepAfterSync r ?b)" by (rule sync_sleeps) simp
  ultimately have "reconciler_run r f ?a (sleepAfterSync r ?b)" by (meson reconciler_run.intros)
  moreover have "synced (sleepAfterSync r ?b) = [t, t]" using assms
    by (simp add: sleepAfterSync_def Let_def sleep_duration_def time_Since_def reconciling_init_def begin_sync_def)
  ultimately show ?thesis by blast
qed


end
