(* ===== verification/JsonEncoder.thy ===== *)
theory JsonEncoder
  imports Mapper TemplateParams
begin

text \<open>
  \<open>internal/json/json_encoder.go\<close>: the encoder that writes a message, without some of its fields, to a stream of the
  jsoniter library. The stream and the encoding of the well known types are arguments; Go visits the fields of a
  message and the keys of a map in any order, \<open>visit\<close>.
\<close>

section \<open>Base64\<close>

text \<open>\<open>base64.StdEncoding\<close>.\<close>

definition base64_char :: "nat \<Rightarrow> char" where
  "base64_char n = (if n < 26 then char_of (65 + n) else if n < 52 then char_of (71 + n)
     else if n < 62 then char_of (n - 4) else if n = 62 then CHR ''+'' else CHR ''/'')"

fun EncodeToString :: "string \<Rightarrow> string" where
  "EncodeToString [] = []"
| "EncodeToString [a] = (let n = of_char a :: nat in
     [base64_char (n div 4), base64_char (n mod 4 * 16), CHR ''='', CHR ''=''])"
| "EncodeToString [a, b] = (let n = of_char a :: nat; m = of_char b :: nat in
     [base64_char (n div 4), base64_char (n mod 4 * 16 + m div 16), base64_char (m mod 16 * 4), CHR ''=''])"
| "EncodeToString (a # b # c # s) = (let n = of_char a :: nat; m = of_char b :: nat; k = of_char c :: nat in
     base64_char (n div 4) # base64_char (n mod 4 * 16 + m div 16) # base64_char (m mod 16 * 4 + k div 64) #
     base64_char (k mod 64) # EncodeToString s)"

section \<open>The stream\<close>

text \<open>\<open>Flush\<close> returns an error; \<open>Write\<close> writes bytes as they are. The error of a stream stays.\<close>

record 's json_stream =
  BorrowStream :: 's
  stream_Error :: "'s \<Rightarrow> error option"
  Buffer :: "'s \<Rightarrow> string"
  Flush :: "'s \<Rightarrow> error option \<times> 's"
  Write :: "string \<Rightarrow> 's \<Rightarrow> error option \<times> 's"
  WriteObjectStart :: "'s \<Rightarrow> 's"
  WriteObjectField :: "string \<Rightarrow> 's \<Rightarrow> 's"
  WriteObjectEnd :: "'s \<Rightarrow> 's"
  WriteArrayStart :: "'s \<Rightarrow> 's"
  WriteArrayEnd :: "'s \<Rightarrow> 's"
  WriteMore :: "'s \<Rightarrow> 's"
  WriteNil :: "'s \<Rightarrow> 's"
  WriteBool :: "bool \<Rightarrow> 's \<Rightarrow> 's"
  WriteString :: "string \<Rightarrow> 's \<Rightarrow> 's"
  WriteInt32 :: "int \<Rightarrow> 's \<Rightarrow> 's"
  WriteUint32 :: "int \<Rightarrow> 's \<Rightarrow> 's"
  WriteFloat64 :: "64 word \<Rightarrow> 's \<Rightarrow> 's"

text \<open>A call followed by a check of the error of the stream, one that is not, and one that returns its error.\<close>

definition checked :: "'s json_stream \<Rightarrow> ('s \<Rightarrow> 's) \<Rightarrow> ('s, unit) act" where
  "checked js f s = (case stream_Error js (f s) of None \<Rightarrow> (Ok (), f s) | Some e \<Rightarrow> (Err e, f s))"

definition not_checked :: "('s \<Rightarrow> 's) \<Rightarrow> ('s, unit) act" where
  "not_checked f s = (Ok (), f s)"

definition returned :: "('s \<Rightarrow> error option \<times> 's) \<Rightarrow> ('s, unit) act" where
  "returned f s = (case f s of (None, t) \<Rightarrow> (Ok (), t) | (Some e, t) \<Rightarrow> (Err e, t))"

section \<open>The encoder\<close>

text \<open>
  Besides the ignored fields, what the code takes from generated code and from libraries: the names of the values of
  an enum, \<open>protojson\<close>, and the conversion of a \<open>float\<close> to a \<open>double\<close>.
\<close>

record 's encoder =
  enc_ignored :: mapper
  enc_stream :: "'s json_stream"
  enum_name :: "string \<Rightarrow> int \<Rightarrow> string option"
  protojson_Marshal :: "string \<Rightarrow> msg \<Rightarrow> string res"
  float64 :: "32 word \<Rightarrow> 64 word"
  visit :: "string list \<Rightarrow> string list"

definition encoder_Build :: "bool \<Rightarrow> ignored_field list \<Rightarrow> 's encoder \<Rightarrow> 's encoder res" where
  "encoder_Build logger fs libs = (if \<not> logger then Err (Fmt ''logger is mandatory'')
     else bindR (ignored_sets 0 fs) (\<lambda>(ns, ls).
       Ok (libs\<lparr>enc_ignored := \<lparr>strict = False, ignoredFieldNames = ns, ignoredFieldFullNames = ls\<rparr>\<rparr>)))"

definition wellKnown :: "string list" where
  "wellKnown = [''google.protobuf.Any'', ''google.protobuf.Timestamp'']"

definition marshalWellKnown :: "'s encoder \<Rightarrow> string \<Rightarrow> msg \<Rightarrow> ('s, unit) act" where
  "marshalWellKnown e ty m = bind (lift (protojson_Marshal e ty m)) (\<lambda>data. returned (Write (enc_stream e) data))"

definition mismatch :: "('s, 'a) act" where
  "mismatch = panic ''type mismatch''"

text \<open>The values that are not messages.\<close>

definition marshalScalar :: "'s encoder \<Rightarrow> kind \<Rightarrow> pvalue \<Rightarrow> ('s, unit) act" where
  "marshalScalar e k v = (let js = enc_stream e in case k of
      BoolKind \<Rightarrow> (case v of VBool b \<Rightarrow> checked js (WriteBool js b) | _ \<Rightarrow> mismatch)
    | StringKind \<Rightarrow> (case v of VStr x \<Rightarrow> checked js (WriteString js x) | _ \<Rightarrow> mismatch)
    | Int32Kind \<Rightarrow> (case v of VNum i \<Rightarrow> checked js (WriteInt32 js (int32 i)) | _ \<Rightarrow> mismatch)
    | Uint32Kind \<Rightarrow> (case v of VNum i \<Rightarrow> checked js (WriteUint32 js (i mod 2 ^ 32)) | _ \<Rightarrow> mismatch)
    | Int64Kind \<Rightarrow> (case v of VNum i \<Rightarrow> checked js (WriteString js (show_int i)) | _ \<Rightarrow> mismatch)
    | Uint64Kind \<Rightarrow> (case v of VNum i \<Rightarrow> checked js (WriteString js (show_int i)) | _ \<Rightarrow> mismatch)
    | FloatKind \<Rightarrow> (case v of VFloat x \<Rightarrow> not_checked (WriteFloat64 js (float64 e x)) | _ \<Rightarrow> mismatch)
    | DoubleKind \<Rightarrow> (case v of VDouble x \<Rightarrow> not_checked (WriteFloat64 js x) | _ \<Rightarrow> mismatch)
    | BytesKind \<Rightarrow> (case v of VBytes x \<Rightarrow> not_checked (WriteString js (EncodeToString x)) | _ \<Rightarrow> mismatch)
    | EnumKind n \<Rightarrow> (case v of
          VEnum i \<Rightarrow> if i = 0 then checked js (WriteNil js)
            else (case enum_name e n i of
                None \<Rightarrow> panic ''nil pointer dereference''
              | Some x \<Rightarrow> checked js (WriteString js x))
        | _ \<Rightarrow> mismatch)
    | MessageKind n \<Rightarrow> mismatch)"

definition write_more :: "'s encoder \<Rightarrow> bool \<Rightarrow> ('s, unit) act" where
  "write_more e first = (if first then ret () else checked (enc_stream e) (WriteMore (enc_stream e)))"

function (sequential)
  marshalMessage :: "schema \<Rightarrow> 's encoder \<Rightarrow> string \<Rightarrow> msg \<Rightarrow> ('s, unit) act" and
  marshalFields :: "schema \<Rightarrow> 's encoder \<Rightarrow> string \<Rightarrow> msg \<Rightarrow> string list \<Rightarrow> bool \<Rightarrow> ('s, unit) act" and
  marshalValue :: "schema \<Rightarrow> 's encoder \<Rightarrow> field \<Rightarrow> pvalue \<Rightarrow> ('s, unit) act" and
  marshalSingle :: "schema \<Rightarrow> 's encoder \<Rightarrow> kind \<Rightarrow> pvalue \<Rightarrow> ('s, unit) act" and
  marshalItems :: "schema \<Rightarrow> 's encoder \<Rightarrow> kind \<Rightarrow> pvalue list \<Rightarrow> bool \<Rightarrow> ('s, unit) act" and
  marshalEntries :: "schema \<Rightarrow> 's encoder \<Rightarrow> kind \<Rightarrow> (string, pvalue) fmap \<Rightarrow> string list \<Rightarrow> bool \<Rightarrow> ('s, unit) act"
where
  "marshalMessage sc e ty m = (let js = enc_stream e in
     if ty \<in> set wellKnown then marshalWellKnown e ty m
     else bind (checked js (WriteObjectStart js)) (\<lambda>_.
       bind (marshalFields sc e ty m (visit e (keys_of m)) True) (\<lambda>_.
       bind (checked js (WriteObjectEnd js)) (\<lambda>_. returned (Flush js)))))"

| "marshalFields sc e ty m [] first = ret ()"
| "marshalFields sc e ty m (n # ns) first = (case ByName (sc ty) n of
      None \<Rightarrow> marshalFields sc e ty m ns first
    | Some f \<Rightarrow> (case fmlookup m n of
        None \<Rightarrow> marshalFields sc e ty m ns first
      | Some v \<Rightarrow> if shouldIgnore (enc_ignored e) f then marshalFields sc e ty m ns first
          else bind (write_more e first) (\<lambda>_.
            bind (checked (enc_stream e) (WriteObjectField (enc_stream e) n)) (\<lambda>_.
            bind (marshalValue sc e f v) (\<lambda>_. marshalFields sc e ty m ns False)))))"

| "marshalValue sc e f v = (let js = enc_stream e in case fd_card f of
      IsList \<Rightarrow> (case v of
          VList vs \<Rightarrow> bind (checked js (WriteArrayStart js)) (\<lambda>_.
            bind (marshalItems sc e (fd_kind f) vs True) (\<lambda>_. checked js (WriteArrayEnd js)))
        | _ \<Rightarrow> mismatch)
    | IsMap \<Rightarrow> (case v of
          VMap m \<Rightarrow> bind (checked js (WriteObjectStart js)) (\<lambda>_.
            bind (marshalEntries sc e (fd_kind f) m (visit e (keys_of m)) True) (\<lambda>_. checked js (WriteObjectEnd js)))
        | _ \<Rightarrow> mismatch)
    | Singular \<Rightarrow> marshalSingle sc e (fd_kind f) v)"

| "marshalSingle sc e (MessageKind n) (VMsg m) = marshalMessage sc e n m"
| "marshalSingle sc e k v = marshalScalar e k v"

| "marshalItems sc e k [] first = ret ()"
| "marshalItems sc e k (v # vs) first =
     bind (write_more e first) (\<lambda>_. bind (marshalSingle sc e k v) (\<lambda>_. marshalItems sc e k vs False))"

| "marshalEntries sc e k m [] first = ret ()"
| "marshalEntries sc e k m (n # ns) first = (case fmlookup m n of
      None \<Rightarrow> marshalEntries sc e k m ns first
    | Some v \<Rightarrow> bind (write_more e first) (\<lambda>_.
        bind (checked (enc_stream e) (WriteObjectField (enc_stream e) n)) (\<lambda>_.
        bind (marshalSingle sc e k v) (\<lambda>_. marshalEntries sc e k m ns False))))"
  by pat_completeness auto

termination
  by (relation "measures [case_sum
        (case_sum (\<lambda>(_, _, _, m). size (VMsg m)) (case_sum (\<lambda>(_, _, _, m, _, _). size (VMsg m)) (\<lambda>(_, _, _, v). size v)))
        (case_sum (\<lambda>(_, _, _, v). size v) (case_sum (\<lambda>(_, _, _, vs, _). size (VList vs)) (\<lambda>(_, _, _, m, _, _). size (VMap m)))),
      case_sum
        (case_sum (\<lambda>_. 1) (case_sum (\<lambda>_. 0) (\<lambda>_. 3)))
        (case_sum (\<lambda>_. 2) (case_sum (\<lambda>_. 0) (\<lambda>_. 0))),
      case_sum (case_sum (\<lambda>_. 0) (case_sum (\<lambda>(_, _, _, _, ns, _). length ns) (\<lambda>_. 0)))
        (case_sum (\<lambda>_. 0) (case_sum (\<lambda>_. 0) (\<lambda>(_, _, _, _, ns, _). length ns)))]")
    (auto dest: size_fmlookup)

text \<open>\<open>Marshal\<close> borrows a stream and returns the bytes of its buffer; a nil object is empty.\<close>

definition Encoder_Marshal :: "schema \<Rightarrow> 's encoder \<Rightarrow> string \<Rightarrow> msg option \<Rightarrow> string res" where
  "Encoder_Marshal sc e ty object = (case object of
      None \<Rightarrow> Ok ''{}''
    | Some m \<Rightarrow> (case bind (marshalMessage sc e ty m) (\<lambda>_. returned (Flush (enc_stream e))) (BorrowStream (enc_stream e)) of
        (Ok u, s) \<Rightarrow> Ok (Buffer (enc_stream e) s)
      | (Err x, s) \<Rightarrow> Err x
      | (Panic q, s) \<Rightarrow> Panic q))"

end
