(* ===== verification/JsonEncoderProofs.thy ===== *)
theory JsonEncoderProofs
  imports JsonEncoder
begin

text \<open>
  The encoder against a reference: the tree of a message, a function of the message alone, and its text. What the
  encoder writes step by step, with its commas and its early returns, is the text of the tree.
\<close>

section \<open>Trees\<close>

datatype jtree = JAtom string | JArray "jtree list" | JTree "(string \<times> jtree) list"

fun json_text :: "(string \<Rightarrow> string) \<Rightarrow> jtree \<Rightarrow> string" where
  "json_text quote (JAtom x) = x"
| "json_text quote (JArray ts) = ''['' @ join '','' (map (json_text quote) ts) @ '']''"
| "json_text quote (JTree es) = ''{'' @ join '','' (map (\<lambda>(n, t). quote n @ '':'' @ json_text quote t) es) @ ''}''"

text \<open>
  The texts of strings and of floating point numbers, which have none when they are not finite; those of the other
  scalars follow.
\<close>

record texts =
  quote :: "string \<Rightarrow> string"
  float_text :: "64 word \<Rightarrow> string option"

definition scalar_text :: "texts \<Rightarrow> 's encoder \<Rightarrow> kind \<Rightarrow> pvalue \<Rightarrow> string option" where
  "scalar_text tx e k v = (case (k, v) of
      (BoolKind, VBool b) \<Rightarrow> Some (if b then ''true'' else ''false'')
    | (StringKind, VStr x) \<Rightarrow> Some (quote tx x)
    | (Int32Kind, VNum i) \<Rightarrow> Some (show_int (int32 i))
    | (Uint32Kind, VNum i) \<Rightarrow> Some (show_int (i mod 2 ^ 32))
    | (Int64Kind, VNum i) \<Rightarrow> Some (quote tx (show_int i))
    | (Uint64Kind, VNum i) \<Rightarrow> Some (quote tx (show_int i))
    | (FloatKind, VFloat x) \<Rightarrow> float_text tx (float64 e x)
    | (DoubleKind, VDouble x) \<Rightarrow> float_text tx x
    | (BytesKind, VBytes x) \<Rightarrow> Some (quote tx (EncodeToString x))
    | (EnumKind n, VEnum i) \<Rightarrow> if i = 0 then Some ''null'' else map_option (quote tx) (enum_name e n i)
    | _ \<Rightarrow> None)"

definition both :: "('a \<Rightarrow> 'b \<Rightarrow> 'c) \<Rightarrow> 'a option \<Rightarrow> 'b option \<Rightarrow> 'c option" where
  "both f x y = (case (x, y) of (Some a, Some b) \<Rightarrow> Some (f a b) | _ \<Rightarrow> None)"

function (sequential)
  message_tree :: "texts \<Rightarrow> schema \<Rightarrow> 's encoder \<Rightarrow> string \<Rightarrow> msg \<Rightarrow> jtree option" and
  field_trees :: "texts \<Rightarrow> schema \<Rightarrow> 's encoder \<Rightarrow> string \<Rightarrow> msg \<Rightarrow> string list \<Rightarrow> (string \<times> jtree) list option" and
  value_tree :: "texts \<Rightarrow> schema \<Rightarrow> 's encoder \<Rightarrow> field \<Rightarrow> pvalue \<Rightarrow> jtree option" and
  single_tree :: "texts \<Rightarrow> schema \<Rightarrow> 's encoder \<Rightarrow> kind \<Rightarrow> pvalue \<Rightarrow> jtree option" and
  item_trees :: "texts \<Rightarrow> schema \<Rightarrow> 's encoder \<Rightarrow> kind \<Rightarrow> pvalue list \<Rightarrow> jtree list option" and
  entry_trees :: "texts \<Rightarrow> schema \<Rightarrow> 's encoder \<Rightarrow> kind \<Rightarrow> (string, pvalue) fmap \<Rightarrow> string list \<Rightarrow> (string \<times> jtree) list option"
where
  "message_tree tx sc e ty m = (if ty \<in> set wellKnown
     then (case protojson_Marshal e ty m of Ok data \<Rightarrow> Some (JAtom data) | _ \<Rightarrow> None)
     else map_option JTree (field_trees tx sc e ty m (visit e (keys_of m))))"

| "field_trees tx sc e ty m [] = Some []"
| "field_trees tx sc e ty m (n # ns) = (case ByName (sc ty) n of
      None \<Rightarrow> field_trees tx sc e ty m ns
    | Some f \<Rightarrow> (case fmlookup m n of
        None \<Rightarrow> field_trees tx sc e ty m ns
      | Some v \<Rightarrow> if shouldIgnore (enc_ignored e) f then field_trees tx sc e ty m ns
          else both (\<lambda>t ts. (n, t) # ts) (value_tree tx sc e f v) (field_trees tx sc e ty m ns)))"

| "value_tree tx sc e f v = (case fd_card f of
      IsList \<Rightarrow> (case v of VList vs \<Rightarrow> map_option JArray (item_trees tx sc e (fd_kind f) vs) | _ \<Rightarrow> None)
    | IsMap \<Rightarrow> (case v of VMap m \<Rightarrow> map_option JTree (entry_trees tx sc e (fd_kind f) m (visit e (keys_of m))) | _ \<Rightarrow> None)
    | Singular \<Rightarrow> single_tree tx sc e (fd_kind f) v)"

| "single_tree tx sc e (MessageKind n) (VMsg m) = message_tree tx sc e n m"
| "single_tree tx sc e k v = map_option JAtom (scalar_text tx e k v)"

| "item_trees tx sc e k [] = Some []"
| "item_trees tx sc e k (v # vs) = both (#) (single_tree tx sc e k v) (item_trees tx sc e k vs)"

| "entry_trees tx sc e k m [] = Some []"
| "entry_trees tx sc e k m (n # ns) = (case fmlookup m n of
      None \<Rightarrow> entry_trees tx sc e k m ns
    | Some v \<Rightarrow> both (\<lambda>t ts. (n, t) # ts) (single_tree tx sc e k v) (entry_trees tx sc e k m ns))"
  by pat_completeness auto

termination
  by (relation "measures [case_sum
        (case_sum (\<lambda>(_, _, _, _, m). size (VMsg m)) (case_sum (\<lambda>(_, _, _, _, m, _). size (VMsg m)) (\<lambda>(_, _, _, _, v). size v)))
        (case_sum (\<lambda>(_, _, _, _, v). size v) (case_sum (\<lambda>(_, _, _, _, vs). size (VList vs)) (\<lambda>(_, _, _, _, m, _). size (VMap m)))),
      case_sum
        (case_sum (\<lambda>_. 1) (case_sum (\<lambda>_. 0) (\<lambda>_. 3)))
        (case_sum (\<lambda>_. 2) (case_sum (\<lambda>_. 0) (\<lambda>_. 0))),
      case_sum (case_sum (\<lambda>_. 0) (case_sum (\<lambda>(_, _, _, _, _, ns). length ns) (\<lambda>_. 0)))
        (case_sum (\<lambda>_. 0) (case_sum (\<lambda>_. 0) (\<lambda>(_, _, _, _, _, ns). length ns)))]")
    (auto dest: size_fmlookup)

section \<open>The contract of the stream\<close>

text \<open>
  A call appends a text when there is no error, and an error stays. A number that is not finite makes an error.
\<close>

definition writes :: "'s json_stream \<Rightarrow> ('s \<Rightarrow> 's) \<Rightarrow> string option \<Rightarrow> bool" where
  "writes js f x \<longleftrightarrow> (\<forall>s. case x of
      None \<Rightarrow> stream_Error js (f s) \<noteq> None
    | Some y \<Rightarrow> (stream_Error js (f s) = None \<longleftrightarrow> stream_Error js s = None) \<and>
        (stream_Error js s = None \<longrightarrow> Buffer js (f s) = Buffer js s @ y))"

definition stream_laws :: "'s json_stream \<Rightarrow> texts \<Rightarrow> bool" where
  "stream_laws js tx \<longleftrightarrow> stream_Error js (BorrowStream js) = None \<and> Buffer js (BorrowStream js) = [] \<and>
     (\<forall>s. Flush js s = (stream_Error js s, s)) \<and>
     (\<forall>x s. fst (Write js x s) = stream_Error js (snd (Write js x s))) \<and> (\<forall>x. writes js (\<lambda>s. snd (Write js x s)) (Some x)) \<and>
     writes js (WriteObjectStart js) (Some ''{'') \<and> writes js (WriteObjectEnd js) (Some ''}'') \<and>
     (\<forall>n. writes js (WriteObjectField js n) (Some (quote tx n @ '':''))) \<and>
     writes js (WriteArrayStart js) (Some ''['') \<and> writes js (WriteArrayEnd js) (Some '']'') \<and>
     writes js (WriteMore js) (Some '','') \<and> writes js (WriteNil js) (Some ''null'') \<and>
     (\<forall>b. writes js (WriteBool js b) (Some (if b then ''true'' else ''false''))) \<and>
     (\<forall>x. writes js (WriteString js x) (Some (quote tx x))) \<and>
     (\<forall>i. writes js (WriteInt32 js i) (Some (show_int i))) \<and> (\<forall>i. writes js (WriteUint32 js i) (Some (show_int i))) \<and>
     (\<forall>x. writes js (WriteFloat64 js x) (float_text tx x))"

text \<open>A part of the encoder that writes a text, or fails, at the latest when the error of the stream is looked at.\<close>

definition yields :: "'s json_stream \<Rightarrow> ('s, unit) act \<Rightarrow> string option \<Rightarrow> bool" where
  "yields js m x \<longleftrightarrow> (\<forall>s. (\<forall>t. m s = (Ok (), t) \<longrightarrow> stream_Error js t = None \<longrightarrow> stream_Error js s = None \<and> x \<noteq> None) \<and>
     (\<forall>y. x = Some y \<longrightarrow> stream_Error js s = None \<longrightarrow>
       (\<exists>t. m s = (Ok (), t) \<and> stream_Error js t = None \<and> Buffer js t = Buffer js s @ y)))"

lemma yields_ret: "yields js (ret ()) (Some [])"
  by (simp add: yields_def ret_def)

lemma yields_fails: "yields js (panic p) None" "yields js (fail e) None"
  by (simp_all add: yields_def panic_def fail_def)

lemma yields_checked: "writes js f x \<Longrightarrow> yields js (checked js f) x"
  by (cases x) (auto simp: yields_def checked_def writes_def split: option.splits)

lemma yields_not_checked: "writes js f x \<Longrightarrow> yields js (not_checked f) x"
  by (cases x) (auto simp: yields_def not_checked_def writes_def)

lemma yields_bind:
  assumes "yields js m x" "\<And>u. yields js (k u) y"
  shows "yields js (bind m k) (both (@) x y)"
  unfolding yields_def
proof (intro allI conjI impI)
  fix s t
  assume b: "bind m k s = (Ok (), t)" "stream_Error js t = None"
  then obtain u where u: "m s = (Ok (), u)" "k () u = (Ok (), t)" by (auto simp: bind_Ok_iff)
  have "stream_Error js u = None \<and> y \<noteq> None" using assms(2) u(2) b(2) unfolding yields_def by blast
  moreover from this have "stream_Error js s = None \<and> x \<noteq> None" using assms(1) u(1) unfolding yields_def by blast
  ultimately show "stream_Error js s = None" "both (@) x y \<noteq> None" by (auto simp: both_def)
next
  fix s z
  assume z: "both (@) x y = Some z" "stream_Error js s = None"
  then obtain a b where ab: "x = Some a" "y = Some b" "z = a @ b" by (auto simp: both_def split: option.splits)
  obtain u where u: "m s = (Ok (), u)" "stream_Error js u = None" "Buffer js u = Buffer js s @ a"
    using assms(1) z(2) ab(1) unfolding yields_def by blast
  obtain t where t: "k () u = (Ok (), t)" "stream_Error js t = None" "Buffer js t = Buffer js u @ b"
    using assms(2) u(2) ab(2) unfolding yields_def by blast
  show "\<exists>t. bind m k s = (Ok (), t) \<and> stream_Error js t = None \<and> Buffer js t = Buffer js s @ z"
    using u t ab(3) by (intro exI [of _ t]) (simp add: bind_def)
qed

text \<open>The text of a list of elements, the first of which may have something before it.\<close>

definition joined :: "bool \<Rightarrow> string list \<Rightarrow> string" where
  "joined first xs = (if first \<or> xs = [] then join '','' xs else '','' @ join '','' xs)"

lemma joined_simps: "joined first [] = []" "joined first (x # xs) = (if first then [] else '','') @ x @ joined False xs"
  by (cases xs; simp add: joined_def)+

lemma yields_more: "stream_laws (enc_stream e) tx \<Longrightarrow> yields (enc_stream e) (write_more e first) (Some (if first then [] else '',''))"
  by (auto simp: write_more_def stream_laws_def intro: yields_ret yields_checked)


section \<open>The encoder writes the tree\<close>

definition member :: "texts \<Rightarrow> string \<times> jtree \<Rightarrow> string" where
  "member tx e = quote tx (fst e) @ '':'' @ json_text (quote tx) (snd e)"

lemma member_pair: "member tx (n, t) = quote tx n @ '':'' @ json_text (quote tx) t"
  by (simp add: member_def)

lemma text_tree: "json_text (quote tx) (JTree es) = ''{'' @ joined True (map (member tx) es) @ ''}''"
  by (simp add: joined_def member_def [abs_def] split_def)

lemma text_array: "json_text (quote tx) (JArray ts) = ''['' @ joined True (map (json_text (quote tx)) ts) @ '']''"
  by (simp add: joined_def)

lemma both_simps [simp]: "both f None y = None" "both f x None = None" "both f (Some a) (Some b) = Some (f a b)"
  by (simp_all add: both_def split: option.split)

lemma both_Nil: "both (@) y (Some []) = y"
  by (cases y) simp_all

lemma yields_eq: "yields js m x \<Longrightarrow> x = y \<Longrightarrow> yields js m y"
  by simp

lemma laws_writes:
  assumes "stream_laws js tx"
  shows "yields js (checked js (WriteObjectStart js)) (Some ''{'')" "yields js (checked js (WriteObjectEnd js)) (Some ''}'')"
    "yields js (checked js (WriteObjectField js n)) (Some (quote tx n @ '':''))"
    "yields js (checked js (WriteArrayStart js)) (Some ''['')" "yields js (checked js (WriteArrayEnd js)) (Some '']'')"
  using assms by (auto simp: stream_laws_def intro: yields_checked)

lemma laws_flush: "stream_laws js tx \<Longrightarrow> yields js (returned (Flush js)) (Some [])"
  by (auto simp: yields_def returned_def stream_laws_def split: option.splits)

lemma laws_write:
  assumes "stream_laws js tx"
  shows "yields js (returned (Write js x)) (Some x)"
proof -
  have w: "writes js (\<lambda>s. snd (Write js x s)) (Some x)" and f: "\<And>s. fst (Write js x s) = stream_Error js (snd (Write js x s))"
    using assms by (simp_all add: stream_laws_def)
  have r: "returned (Write js x) s = checked js (\<lambda>s. snd (Write js x s)) s" for s
    using f [of s] by (cases "Write js x s") (simp add: returned_def checked_def split: option.split)
  then have "returned (Write js x) = checked js (\<lambda>s. snd (Write js x s))" by blast
  with yields_checked [OF w] show ?thesis by simp
qed

lemma yields_scalar:
  assumes "stream_laws (enc_stream e) tx"
  shows "yields (enc_stream e) (marshalScalar e k v) (scalar_text tx e k v)"
proof -
  note l = assms [unfolded stream_laws_def]
  have y: "\<And>b. yields (enc_stream e) (checked (enc_stream e) (WriteBool (enc_stream e) b)) (Some (if b then ''true'' else ''false''))"
    "\<And>x. yields (enc_stream e) (checked (enc_stream e) (WriteString (enc_stream e) x)) (Some (quote tx x))"
    "\<And>i. yields (enc_stream e) (checked (enc_stream e) (WriteInt32 (enc_stream e) i)) (Some (show_int i))"
    "\<And>i. yields (enc_stream e) (checked (enc_stream e) (WriteUint32 (enc_stream e) i)) (Some (show_int i))"
    "yields (enc_stream e) (checked (enc_stream e) (WriteNil (enc_stream e))) (Some ''null'')"
    "\<And>x. yields (enc_stream e) (not_checked (WriteString (enc_stream e) x)) (Some (quote tx x))"
    "\<And>x. yields (enc_stream e) (not_checked (WriteFloat64 (enc_stream e) x)) (float_text tx x)"
    using l by (blast intro: yields_checked yields_not_checked)+
  note y1 = y(1) [of True, simplified] y(1) [of False, simplified]
  show ?thesis
    by (cases k; cases v) (auto simp: marshalScalar_def scalar_text_def mismatch_def Let_def y y1 yields_fails split: option.split)
qed

lemma marshal_yields:
  "stream_laws (enc_stream e) tx \<Longrightarrow>
     yields (enc_stream e) (marshalMessage sc e ty m) (map_option (json_text (quote tx)) (message_tree tx sc e ty m))"
  "stream_laws (enc_stream e) tx \<Longrightarrow>
     yields (enc_stream e) (marshalFields sc e ty m ns first)
       (map_option (\<lambda>ts. joined first (map (member tx) ts)) (field_trees tx sc e ty m ns))"
  "stream_laws (enc_stream e) tx \<Longrightarrow>
     yields (enc_stream e) (marshalValue sc e f v) (map_option (json_text (quote tx)) (value_tree tx sc e f v))"
  "stream_laws (enc_stream e) tx \<Longrightarrow>
     yields (enc_stream e) (marshalSingle sc e k v) (map_option (json_text (quote tx)) (single_tree tx sc e k v))"
  "stream_laws (enc_stream e) tx \<Longrightarrow>
     yields (enc_stream e) (marshalItems sc e k vs first)
       (map_option (\<lambda>ts. joined first (map (json_text (quote tx)) ts)) (item_trees tx sc e k vs))"
  "stream_laws (enc_stream e) tx \<Longrightarrow>
     yields (enc_stream e) (marshalEntries sc e k mp ns first)
       (map_option (\<lambda>ts. joined first (map (member tx) ts)) (entry_trees tx sc e k mp ns))"
proof (induction sc e ty m and sc e ty m ns first and sc e f v and sc e k v and sc e k vs first and sc e k mp ns first
    rule: marshalMessage_marshalFields_marshalValue_marshalSingle_marshalItems_marshalEntries.induct)
  case (1 sc e ty m)
  show ?case
  proof (cases "ty \<in> set wellKnown")
    case True
    have "yields (enc_stream e) (marshalWellKnown e ty m) (case protojson_Marshal e ty m of Ok data \<Rightarrow> Some data | _ \<Rightarrow> None)"
      using laws_write [OF 1(2)]
      by (cases "protojson_Marshal e ty m") (simp_all add: marshalWellKnown_def yields_def bind_def lift_def)
    then show ?thesis using True by (auto simp: Let_def option.map_comp comp_def elim!: yields_eq split: res.split)
  next
    case False
    let ?js = "enc_stream e"
    have "yields ?js (bind (checked ?js (WriteObjectStart ?js)) (\<lambda>_. bind (marshalFields sc e ty m (visit e (keys_of m)) True) (\<lambda>_.
        bind (checked ?js (WriteObjectEnd ?js)) (\<lambda>_. returned (Flush ?js))))) (both (@) (Some ''{'') (both (@)
        (map_option (\<lambda>ts. joined True (map (member tx) ts)) (field_trees tx sc e ty m (visit e (keys_of m))))
        (both (@) (Some ''}'') (Some []))))"
      by (intro yields_bind laws_writes [OF 1(2)] laws_flush [OF 1(2)] 1(1) [OF refl False 1(2)])
    then show ?thesis using False
      by (cases "field_trees tx sc e ty m (visit e (keys_of m))") (simp_all add: text_tree Let_def del: json_text.simps)
  qed
next
  case (2 sc e ty m first)
  show ?case by (simp add: yields_ret joined_simps)
next
  case (3 sc e ty m n ns first)
  let ?js = "enc_stream e"
  show ?case
  proof (cases "ByName (sc ty) n")
    case None
    then show ?thesis using 3(1) [OF None 3(6)] None by simp
  next
    case f: (Some f)
    show ?thesis
    proof (cases "fmlookup m n")
      case None
      then show ?thesis using 3(2) [OF f None 3(6)] None f by simp
    next
      case v: (Some v)
      show ?thesis
      proof (cases "shouldIgnore (enc_ignored e) f")
        case True
        then show ?thesis using 3(3) [OF f v True 3(6)] True f v by simp
      next
        case False
        have "yields ?js (bind (write_more e first) (\<lambda>_. bind (checked ?js (WriteObjectField ?js n)) (\<lambda>_.
            bind (marshalValue sc e f v) (\<lambda>_. marshalFields sc e ty m ns False))))
          (both (@) (Some (if first then [] else '','')) (both (@) (Some (quote tx n @ '':''))
            (both (@) (map_option (json_text (quote tx)) (value_tree tx sc e f v))
              (map_option (\<lambda>ts. joined False (map (member tx) ts)) (field_trees tx sc e ty m ns)))))"
          by (intro yields_bind yields_more [OF 3(6)] laws_writes [OF 3(6)] 3(4) [OF f v False 3(6)] 3(5) [OF f v False 3(6)])
        then show ?thesis using f v False
          by (cases "value_tree tx sc e f v"; cases "field_trees tx sc e ty m ns"; cases first)
            (simp_all add: joined_simps member_pair del: marshalValue.simps value_tree.simps)
      qed
    qed
  qed
next
  case (4 sc e f v)
  let ?js = "enc_stream e"
  show ?case
  proof (cases "fd_card f")
    case Singular
    then show ?thesis using 4(1) [OF refl Singular 4(4)] by simp
  next
    case IsList
    show ?thesis
    proof (cases v)
      case (VList vs)
      have "yields ?js (bind (checked ?js (WriteArrayStart ?js)) (\<lambda>_. bind (marshalItems sc e (fd_kind f) vs True)
          (\<lambda>_. checked ?js (WriteArrayEnd ?js))))
        (both (@) (Some ''['') (both (@) (map_option (\<lambda>ts. joined True (map (json_text (quote tx)) ts))
          (item_trees tx sc e (fd_kind f) vs)) (Some '']'')))"
        by (intro yields_bind laws_writes [OF 4(4)] 4(2) [OF refl IsList VList 4(4)])
      then show ?thesis using IsList VList
        by (cases "item_trees tx sc e (fd_kind f) vs") (simp_all add: text_array Let_def del: json_text.simps)
    qed (use IsList in \<open>simp_all add: mismatch_def yields_fails\<close>)
  next
    case IsMap
    show ?thesis
    proof (cases v)
      case (VMap m)
      have "yields ?js (bind (checked ?js (WriteObjectStart ?js)) (\<lambda>_. bind (marshalEntries sc e (fd_kind f) m (visit e (keys_of m)) True)
          (\<lambda>_. checked ?js (WriteObjectEnd ?js))))
        (both (@) (Some ''{'') (both (@) (map_option (\<lambda>ts. joined True (map (member tx) ts))
          (entry_trees tx sc e (fd_kind f) m (visit e (keys_of m)))) (Some ''}'')))"
        by (intro yields_bind laws_writes [OF 4(4)] 4(3) [OF refl IsMap VMap 4(4)])
      then show ?thesis using IsMap VMap
        by (cases "entry_trees tx sc e (fd_kind f) m (visit e (keys_of m))") (simp_all add: text_tree Let_def del: json_text.simps)
    qed (use IsMap in \<open>simp_all add: mismatch_def yields_fails\<close>)
  qed
next
  case (8 sc e k v vs first)
  have "yields (enc_stream e) (bind (write_more e first) (\<lambda>_. bind (marshalSingle sc e k v) (\<lambda>_. marshalItems sc e k vs False)))
      (both (@) (Some (if first then [] else '','')) (both (@) (map_option (json_text (quote tx)) (single_tree tx sc e k v))
        (map_option (\<lambda>ts. joined False (map (json_text (quote tx)) ts)) (item_trees tx sc e k vs))))"
    by (intro yields_bind yields_more [OF 8(3)] 8(1) [OF 8(3)] 8(2) [OF 8(3)])
  then show ?case
    by (cases "single_tree tx sc e k v"; cases "item_trees tx sc e k vs"; cases first) (simp_all add: joined_simps)
next
  case (10 sc e k m n ns first)
  let ?js = "enc_stream e"
  show ?case
  proof (cases "fmlookup m n")
    case None
    then show ?thesis using 10(1) [OF None 10(4)] by simp
  next
    case v: (Some v)
    have "yields ?js (bind (write_more e first) (\<lambda>_. bind (checked ?js (WriteObjectField ?js n)) (\<lambda>_.
        bind (marshalSingle sc e k v) (\<lambda>_. marshalEntries sc e k m ns False))))
      (both (@) (Some (if first then [] else '','')) (both (@) (Some (quote tx n @ '':''))
        (both (@) (map_option (json_text (quote tx)) (single_tree tx sc e k v))
          (map_option (\<lambda>ts. joined False (map (member tx) ts)) (entry_trees tx sc e k m ns)))))"
      by (intro yields_bind yields_more [OF 10(4)] laws_writes [OF 10(4)] 10(2) [OF v 10(4)] 10(3) [OF v 10(4)])
    then show ?thesis using v
      by (cases "single_tree tx sc e k v"; cases "entry_trees tx sc e k m ns"; cases first) (simp_all add: joined_simps member_pair)
  qed
qed (simp_all add: yields_ret joined_simps, simp_all add: option.map_comp comp_def yields_scalar option.map_ident)


section \<open>The fields of the text\<close>

text \<open>The fields that are written: those of the descriptor that are present and not ignored.\<close>

definition written :: "schema \<Rightarrow> 's encoder \<Rightarrow> string \<Rightarrow> msg \<Rightarrow> string \<Rightarrow> bool" where
  "written sc e ty m n \<longleftrightarrow> fmlookup m n \<noteq> None \<and>
     (case ByName (sc ty) n of None \<Rightarrow> False | Some f \<Rightarrow> \<not> shouldIgnore (enc_ignored e) f)"

lemma marshal_result: "(case r of (Ok u, s) \<Rightarrow> Ok (Buffer js s) | (Err x, s) \<Rightarrow> Err x | (Panic q, s) \<Rightarrow> Panic q) = Ok x \<longleftrightarrow>
    (\<exists>t. r = (Ok (), t) \<and> x = Buffer js t)"
  by (auto split: prod.splits res.splits)

lemma field_trees_names: "field_trees tx sc e ty m ns = Some es \<Longrightarrow> map fst es = filter (written sc e ty m) ns"
proof (induction ns arbitrary: es)
  case (Cons n ns)
  then show ?case
    by (auto simp: written_def both_def simp del: value_tree.simps split: option.splits if_splits)
qed simp


section \<open>An example\<close>

text \<open>A stream is its buffer and its error; a field is ignored.\<close>

definition append_text :: "string \<Rightarrow> string \<times> error option \<Rightarrow> string \<times> error option" where
  "append_text x s = (if snd s = None then (fst s @ x, None) else s)"

definition example_quote :: "string \<Rightarrow> string" where
  "example_quote x = CHR 0x22 # x @ [CHR 0x22]"

definition example_texts :: texts where
  "example_texts = \<lparr>quote = example_quote, float_text = (\<lambda>x. Some ''0'')\<rparr>"

definition example_stream :: "(string \<times> error option) json_stream" where
  "example_stream = \<lparr>BorrowStream = ([], None), stream_Error = snd, Buffer = fst, Flush = (\<lambda>s. (snd s, s)),
     Write = (\<lambda>x s. (snd (append_text x s), append_text x s)),
     WriteObjectStart = append_text ''{'', WriteObjectField = (\<lambda>n. append_text (example_quote n @ '':'')),
     WriteObjectEnd = append_text ''}'', WriteArrayStart = append_text ''['', WriteArrayEnd = append_text '']'',
     WriteMore = append_text '','', WriteNil = append_text ''null'',
     WriteBool = (\<lambda>b. append_text (if b then ''true'' else ''false'')), WriteString = (\<lambda>x. append_text (example_quote x)),
     WriteInt32 = (\<lambda>i. append_text (show_int i)), WriteUint32 = (\<lambda>i. append_text (show_int i)),
     WriteFloat64 = (\<lambda>x. append_text ''0'')\<rparr>"

definition example_encoder :: "(string \<times> error option) encoder" where
  "example_encoder = \<lparr>enc_ignored = \<lparr>strict = False, ignoredFieldNames = [''id''], ignoredFieldFullNames = []\<rparr>,
     enc_stream = example_stream, enum_name = (\<lambda>n i. None), protojson_Marshal = (\<lambda>n m. Ok []), float64 = (\<lambda>x. 0), visit = (\<lambda>ns. ns)\<rparr>"

lemma append_writes: "writes example_stream (append_text x) (Some x)"
  by (simp add: writes_def example_stream_def append_text_def)

lemma example_stream_laws: "stream_laws (enc_stream example_encoder) example_texts"
  using append_writes [unfolded example_stream_def]
  by (simp add: stream_laws_def example_encoder_def example_stream_def example_texts_def)

definition example_fields :: "field list" where
  "example_fields = [\<lparr>fd_name = ''id'', fd_full = ''t.id'', fd_kind = StringKind, fd_card = Singular, fd_presence = False\<rparr>,
     \<lparr>fd_name = ''ok'', fd_full = ''t.ok'', fd_kind = BoolKind, fd_card = Singular, fd_presence = False\<rparr>]"

definition example_message :: msg where
  "example_message = fmupd ''ok'' (VBool True) (fmupd ''id'' (VStr ''x'') fmempty)"


end
