(* ===== verification/Streams.thy ===== *)
theory Streams
  imports Tx Events
begin

text \<open>
  The stream interceptors of \<open>internal/auth/grpc_authn_interceptor.go\<close> and
  \<open>internal/recovery/grpc_panic_interceptor.go\<close> and their chain in \<open>internal/cmd/start_server_cmd.go\<close>. A stream
  of gRPC is its context and its operations.
\<close>

section \<open>Streams\<close>

record ('h, 'm, 's) server_stream =
  stream_Context :: ctx
  RecvMsg :: "('s, 'm) act"
  SendMsg :: "'m \<Rightarrow> ('s, unit) act"
  SendHeader :: "'h \<Rightarrow> ('s, unit) act"
  SetHeader :: "'h \<Rightarrow> ('s, unit) act"
  SetTrailer :: "'h \<Rightarrow> 's \<Rightarrow> 's"

text \<open>The stream that the handler gets; its \<open>SetHeader\<close> calls \<open>SendHeader\<close>.\<close>

definition authn_stream :: "ctx \<Rightarrow> ('h, 'm, 's) server_stream \<Rightarrow> ('h, 'm, 's) server_stream" where
  "authn_stream c st = \<lparr>stream_Context = c, RecvMsg = RecvMsg st, SendMsg = SendMsg st, SendHeader = SendHeader st,
     SetHeader = SendHeader st, SetTrailer = SetTrailer st\<rparr>"

definition authn_StreamServer :: "(ctx \<Rightarrow> string \<Rightarrow> ctx res) \<Rightarrow> string \<Rightarrow> (('h, 'm, 's) server_stream \<Rightarrow> ('s, 'a) act) \<Rightarrow>
    ('h, 'm, 's) server_stream \<Rightarrow> ('s, 'a) act" where
  "authn_StreamServer f m handler st = bind (lift (f (stream_Context st) m)) (\<lambda>c. handler (authn_stream c st))"

definition panic_StreamServer :: "(('h, 'm, 's) server_stream \<Rightarrow> ('s, 'a) act) \<Rightarrow> ('h, 'm, 's) server_stream \<Rightarrow> ('s, 'a) act" where
  "panic_StreamServer handler st s = (case handler st s of
      (Panic _, s1) \<Rightarrow> (Err (Status Internal ''Internal error''), s1)
    | r \<Rightarrow> r)"

text \<open>Streams have no transaction.\<close>

definition stream_chain :: "(ctx \<Rightarrow> string \<Rightarrow> ctx res) \<Rightarrow> string \<Rightarrow> (('h, 'm, 's) server_stream \<Rightarrow> ('s, 'a) act) \<Rightarrow>
    ('h, 'm, 's) server_stream \<Rightarrow> ('s, 'a) act" where
  "stream_chain authn m handler = panic_StreamServer (authn_StreamServer authn m handler)"

lemma stream_chain_never_panics: "fst (stream_chain authn m handler st s) \<noteq> Panic q"
  by (auto simp: stream_chain_def panic_StreamServer_def split: prod.split res.split)

text \<open>The first part of \<open>Watch\<close>, called through the chain: the subscription has the subject of the authentication.\<close>

definition watch_handler :: "'prg events_server \<Rightarrow> string option \<Rightarrow> ('h, 'm, 's) server_stream \<Rightarrow> ('s, 'prg sub_info) act" where
  "watch_handler es src st = lift (watch_sub es (stream_Context st) src)"

lemma watcher_is_authenticated:
  assumes "stream_chain authn m (watch_handler es src) st s = (Ok sub, t)"
  shows "\<exists>c. authn (stream_Context st) m = Ok c \<and> SubjectFromContext c = Ok (sub_subject sub)"
  using assms
  by (auto simp: stream_chain_def panic_StreamServer_def authn_StreamServer_def watch_handler_def watch_sub_def authn_stream_def
      bind_def lift_def bindR_def split: prod.splits res.splits)

lemma set_header_sends: "SetHeader (authn_stream c st) = SendHeader st"
  by (simp add: authn_stream_def)

end
