(* ===== verification/StartServer.thy ===== *)
theory StartServer
  imports PublicServers Events ServerProofs "HOL-Library.Char_ord" "HOL-Library.List_Lexorder"
begin

text \<open>
  \<open>internal/cmd/start_server_cmd.go\<close>: how the parts of the gRPC server are built and put together, and
  \<open>metadata_server.go\<close>. What comes before the interceptors (the wait for the database, its migrations and its
  pool, the network listener, the logging interceptor of the library) is one argument with its result. The
  regular expression compiler, the JSON decoder of subjects, the descriptors, the codecs of the object types and
  the CEL environments are arguments, like in the theories of the parts.
\<close>

section \<open>Builders of the parts\<close>

text \<open>A builder starts with its logger; a tenancy logic of the private API needs none.\<close>

definition with_logger :: "bool \<Rightarrow> 'a \<Rightarrow> 'a res" where
  "with_logger logger x = (if \<not> logger then Err (Fmt ''logger is mandatory'') else Ok x)"

definition guest_Build :: "bool \<Rightarrow> (ctx \<Rightarrow> string \<Rightarrow> ctx res) res" where
  "guest_Build logger = with_logger logger guest_call"

definition authn_Build :: "bool \<Rightarrow> (ctx \<Rightarrow> string \<Rightarrow> ctx res) option \<Rightarrow> (ctx \<Rightarrow> string \<Rightarrow> ctx res) res" where
  "authn_Build logger f = bindR (with_logger logger ()) (\<lambda>_. (case f of
      None \<Rightarrow> Err (Fmt ''authentication function is mandatory'')
    | Some f' \<Rightarrow> Ok f'))"

definition panic_Build :: "bool \<Rightarrow> unit res" where
  "panic_Build logger = with_logger logger ()"

text \<open>A transaction manager is known by its address.\<close>

definition tm_Build :: "bool \<Rightarrow> 'p option \<Rightarrow> nat \<Rightarrow> nat res" where
  "tm_Build logger pool address = bindR (with_logger logger ()) (\<lambda>_. (case pool of
      None \<Rightarrow> Err (Fmt ''database connection pool is mandatory'')
    | Some _ \<Rightarrow> Ok address))"

definition tx_interceptor_Build :: "bool \<Rightarrow> nat option \<Rightarrow> nat res" where
  "tx_interceptor_Build logger manager = bindR (with_logger logger ()) (\<lambda>_. (case manager of
      None \<Rightarrow> Err (Fmt ''transaction manager is mandatory'')
    | Some m \<Rightarrow> Ok m))"

definition notifier_Build :: "(msg \<Rightarrow> string res) \<Rightarrow> bool \<Rightarrow> string \<Rightarrow> notifier res" where
  "notifier_Build marshal logger ch = bindR (with_logger logger ()) (\<lambda>_.
    if ch = [] then Err (Fmt ''channel is mandatory'') else Ok (notifier.make ch marshal))"

definition sa_tenancy_Build :: "bool \<Rightarrow> tenancy_logic res" where
  "sa_tenancy_Build logger = with_logger logger ServiceAccountTenancyLogic"

definition jwt_tenancy_Build :: "bool \<Rightarrow> tenancy_logic res" where
  "jwt_tenancy_Build logger = with_logger logger JwtTenancyLogic"

definition default_tenancy_Build :: "bool \<Rightarrow> tenancy_logic res" where
  "default_tenancy_Build logger = bindR (with_logger logger ()) (\<lambda>_.
     bindR (sa_tenancy_Build logger) (\<lambda>sa. bindR (jwt_tenancy_Build logger) (\<lambda>jwt. Ok DefaultTenancyLogic)))"

definition system_tenancy_Build :: "tenancy_logic res" where
  "system_tenancy_Build = Ok SystemTenancyLogic"

definition default_attribution_Build :: "bool \<Rightarrow> attribution_logic res" where
  "default_attribution_Build logger = with_logger logger default_DetermineAssignedCreators"

definition system_attribution_Build :: "attribution_logic res" where
  "system_attribution_Build = Ok system_DetermineAssignedCreators"

section \<open>The metadata server\<close>

text \<open>Strings are sorted by their bytes, and equal neighbours are compacted.\<close>

definition MetadataServer_Build :: "bool \<Rightarrow> string list \<Rightarrow> string list res" where
  "MetadataServer_Build logger issuers = with_logger logger (remdups_adj (sort issuers))"

definition metadata_Get :: "string list \<Rightarrow> msg" where
  "metadata_Get issuers =
    SetMessage ''authn'' (Some (SetStrings ''trusted_token_issuers'' issuers fmempty)) fmempty"

section \<open>Arguments\<close>

record server_args =
  grpcAuthnType :: string
  grpcAuthnTrustedTokenIssuers :: "string list"
  args_tenancyLogic :: string

definition GrpcGuestAuthnType :: string where "GrpcGuestAuthnType = ''guest''"
definition GrpcExternalAuthnType :: string where "GrpcExternalAuthnType = ''external''"

definition default_args :: server_args where
  "default_args = \<lparr>grpcAuthnType = GrpcGuestAuthnType, grpcAuthnTrustedTokenIssuers = [], args_tenancyLogic = ''default''\<rparr>"

text \<open>
  \<open>strings.ToLower\<close> on UTF-8, as far as its result is compared with words of ASCII: the two runes outside of ASCII
  with a lower case in it are the capital I with a dot and the Kelvin sign, and all the others stay outside.
\<close>

definition lower_byte :: "char \<Rightarrow> char" where
  "lower_byte c = (if 65 \<le> (of_char c :: nat) \<and> (of_char c :: nat) \<le> 90 then char_of ((of_char c :: nat) + 32) else c)"

fun ToLower :: "string \<Rightarrow> string" where
  "ToLower [] = []"
| "ToLower (c # s) =
    (if c = CHR 0xC4 \<and> take 1 s = [CHR 0xB0] then CHR ''i'' # ToLower (drop 1 s)
     else if c = CHR 0xE2 \<and> take 2 s = [CHR 0x84, CHR 0xAA] then CHR ''k'' # ToLower (drop 2 s)
     else lower_byte c # ToLower s)"

definition apostrophes :: "string \<Rightarrow> string" where
  "apostrophes s = [CHR 0x27] @ s @ [CHR 0x27]"

definition publicMethodRegex :: string where
  "publicMethodRegex = ''^/(metadata|grpc'' @ [CHR 0x5C] @ ''.(reflection|health))'' @ [CHR 0x5C] @ ''..*$''"

text \<open>The error of a part, with what was being created.\<close>

definition creating :: "string \<Rightarrow> 'a res \<Rightarrow> 'a res" where
  "creating what r = (case r of
      Ok x \<Rightarrow> Ok x
    | Err e \<Rightarrow> Err (Wrap (''failed to create '' @ what) e)
    | Panic p \<Rightarrow> Panic p)"

definition select_authn ::
  "(string \<Rightarrow> regexp res) \<Rightarrow> (string \<Rightarrow> subject res) \<Rightarrow> server_args \<Rightarrow> (ctx \<Rightarrow> string \<Rightarrow> ctx res) res" where
  "select_authn compile decode a =
    (let t = ToLower (grpcAuthnType a) in
     if t = GrpcGuestAuthnType then creating ''gRPC guest authentication function'' (guest_Build True)
     else if t = GrpcExternalAuthnType
     then creating ''gRPC external authentication function''
       (bindR (external_Build True compile [publicMethodRegex]) (\<lambda>ps. Ok (external_call decode ps)))
     else Err (Fmt (''unknown gRPC authentication type '' @ apostrophes (grpcAuthnType a) @ '', valid values are '' @
       apostrophes GrpcGuestAuthnType @ '' and '' @ apostrophes GrpcExternalAuthnType)))"

definition select_tenancy :: "server_args \<Rightarrow> tenancy_logic res" where
  "select_tenancy a =
    (let t = ToLower (args_tenancyLogic a) in
     if t = ''default'' then creating ''default tenancy logic'' (default_tenancy_Build True)
     else if t = ''serviceaccount'' then creating ''service account tenancy logic'' (sa_tenancy_Build True)
     else Err (Fmt (''unknown tenancy logic '' @ apostrophes (args_tenancyLogic a) @ '', valid values are '' @
       apostrophes ''default'' @ '' and '' @ apostrophes ''serviceaccount'')))"

section \<open>Interceptors and logics\<close>

text \<open>The authentication function and the transaction manager of the chains of interceptors.\<close>

definition start_interceptors ::
  "(string \<Rightarrow> regexp res) \<Rightarrow> (string \<Rightarrow> subject res) \<Rightarrow> 'p option \<Rightarrow> nat \<Rightarrow> server_args \<Rightarrow>
    ((ctx \<Rightarrow> string \<Rightarrow> ctx res) \<times> nat) res" where
  "start_interceptors compile decode pool address a =
    bindR (select_authn compile decode a) (\<lambda>f.
    bindR (authn_Build True (Some f)) (\<lambda>authn.
    bindR (creating ''panic interceptor'' (panic_Build True)) (\<lambda>_.
    bindR (creating ''transactions manager'' (tm_Build True pool address)) (\<lambda>m.
    bindR (creating ''transactions interceptor'' (tx_interceptor_Build True (Some m))) (\<lambda>m'.
    Ok (authn, m'))))))"

definition server_builder_of :: "notifier \<Rightarrow> attribution_logic \<Rightarrow> tenancy_logic \<Rightarrow> 'd server_builder" where
  "server_builder_of n at tn = \<lparr>sb_logger = True, sb_service = [], sb_table = [], sb_notifier = Some n,
     sb_attribution = Some at, sb_tenancy = Some tn\<rparr>"

text \<open>What the builders of the public and of the private servers get, and the tenancy logic of the public ones.\<close>

definition start_logics :: "(msg \<Rightarrow> string res) \<Rightarrow> server_args \<Rightarrow> ('d server_builder \<times> 'd server_builder \<times> tenancy_logic) res" where
  "start_logics marshal a =
    bindR (creating ''notifier'' (notifier_Build marshal True ''events'')) (\<lambda>n.
    bindR (creating ''public attribution logic'' (default_attribution_Build True)) (\<lambda>pa.
    bindR (select_tenancy a) (\<lambda>pt.
    bindR (creating ''system attribution logic'' system_attribution_Build) (\<lambda>sa.
    bindR (creating ''private tenancy logic'' system_tenancy_Build) (\<lambda>st.
    Ok (server_builder_of n pa pt, server_builder_of n sa st, pt))))))"

section \<open>Services\<close>

text \<open>
  The descriptors, the codec of each private type, the series of words and the names of the conditions. A service
  is registered with its name and its five methods.
\<close>

record 'd server_env =
  env_schema :: schema
  env_codec :: "string \<Rightarrow> 'd codec"
  env_series :: "string list \<Rightarrow> string"
  env_conditions :: "int \<Rightarrow> string"

type_synonym 'd services = "(string \<times> 'd private_server) list"

definition cluster_services ::
  "'d server_env \<Rightarrow> 'd server_builder \<Rightarrow> 'd server_builder \<Rightarrow> ('d services \<times> 'd clusters_server) res" where
  "cluster_services env b pb = (let sc = env_schema env; k = env_codec env in
    bindR (creating ''cluster templates server'' (ClusterTemplatesServer sc (k ''private.v1.ClusterTemplate'') b)) (\<lambda>t.
    bindR (creating ''private cluster templates server''
      (PrivateClusterTemplatesServer sc (k ''private.v1.ClusterTemplate'') pb)) (\<lambda>pt.
    bindR (creating ''clusters server''
      (ClustersServer (env_series env) (env_conditions env) sc (k ''private.v1.Cluster'') b)) (\<lambda>c.
    bindR (creating ''private clusters server'' (PrivateClustersServer sc (k ''private.v1.Cluster'') pb)) (\<lambda>pc.
    Ok ([(''fulfillment.v1.ClusterTemplates'', ClusterTemplatesServer_methods t),
         (''private.v1.ClusterTemplates'', pt),
         (''fulfillment.v1.Clusters'', ClustersServer_methods c),
         (''private.v1.Clusters'', clusters_methods (env_series env) (env_conditions env) pc)], c))))))"

definition host_services :: "'d server_env \<Rightarrow> 'd server_builder \<Rightarrow> 'd server_builder \<Rightarrow> 'd services res" where
  "host_services env b pb = (let sc = env_schema env; k = env_codec env in
    bindR (creating ''host classes server'' (HostClassesServer sc (k ''private.v1.HostClass'') b)) (\<lambda>c.
    bindR (creating ''private host classes server'' (PrivateHostClassesServer sc (k ''private.v1.HostClass'') pb)) (\<lambda>pc.
    bindR (creating ''hosts server'' (HostsServer sc (k ''private.v1.Host'') b)) (\<lambda>h.
    bindR (creating ''private hosts server'' (PrivateHostsServer sc (k ''private.v1.Host'') pb)) (\<lambda>ph.
    bindR (creating ''host pools server'' (HostPoolsServer sc (k ''private.v1.HostPool'') b)) (\<lambda>p.
    bindR (creating ''private host pools server'' (PrivateHostPoolsServer sc (k ''private.v1.HostPool'') pb)) (\<lambda>pp.
    Ok [(''fulfillment.v1.HostClasses'', HostClassesServer_methods c), (''private.v1.HostClasses'', pc),
        (''fulfillment.v1.Hosts'', HostsServer_methods h), (''private.v1.Hosts'', ph),
        (''fulfillment.v1.HostPools'', HostPoolsServer_methods p), (''private.v1.HostPools'', pp)])))))))"

definition vm_services :: "'d server_env \<Rightarrow> 'd server_builder \<Rightarrow> 'd server_builder \<Rightarrow> 'd services res" where
  "vm_services env b pb = (let sc = env_schema env; k = env_codec env in
    bindR (creating ''virtual machine templates server''
      (VirtualMachineTemplatesServer sc (k ''private.v1.VirtualMachineTemplate'') b)) (\<lambda>t.
    bindR (creating ''private virtual machine templates server''
      (PrivateVirtualMachineTemplatesServer sc (k ''private.v1.VirtualMachineTemplate'') pb)) (\<lambda>pt.
    bindR (creating ''virtual machines server''
      (VirtualMachinesServer (env_series env) sc (k ''private.v1.VirtualMachine'') b)) (\<lambda>v.
    bindR (creating ''private virtual machines server''
      (PrivateVirtualMachinesServer sc (k ''private.v1.VirtualMachine'') pb)) (\<lambda>pv.
    Ok [(''fulfillment.v1.VirtualMachineTemplates'', VirtualMachineTemplatesServer_methods t),
        (''private.v1.VirtualMachineTemplates'', pt),
        (''fulfillment.v1.VirtualMachines'', VirtualMachinesServer_methods v),
        (''private.v1.VirtualMachines'', vms_methods (env_series env) pv)])))))"

definition hub_services :: "'d server_env \<Rightarrow> 'd server_builder \<Rightarrow> 'd services res" where
  "hub_services env pb =
    bindR (creating ''hubs server'' (PrivateHubsServer (env_schema env) (env_codec env ''private.v1.Hub'') pb)) (\<lambda>h.
    Ok [(''private.v1.Hubs'', h)])"

text \<open>The servers of events, each with the listener that its goroutine runs.\<close>

record 'prg events_env =
  env_show :: "int \<Rightarrow> string"
  env_ctx :: ctx
  env_cel :: "'prg cel_env res"
  env_private_cel :: "'prg cel_env res"
  env_dbUrl :: string

type_synonym 'prg events_services =
  "('prg events_server \<times> (payload, 'prg sub_info subscriptions) listener) \<times>
   ('prg cel_env \<times> (payload, (string \<times> 'prg option) subscriptions) listener)"

definition event_services :: "schema \<Rightarrow> 'prg events_env \<Rightarrow> tenancy_logic \<Rightarrow> 'prg events_services res" where
  "event_services sc ev tn =
    bindR (creating ''events server'' (EventsServer_Build (env_show ev) (env_ctx ev) sc (env_cel ev)
      \<lparr>eb_logger = True, eb_dbUrl = env_dbUrl ev, eb_tenancy = Some tn\<rparr>)) (\<lambda>e.
    bindR (creating ''private events server'' (PrivateEventsServer_Build (env_show ev) (env_private_cel ev) True
      (env_dbUrl ev))) (\<lambda>pe. Ok (e, pe)))"

section \<open>The server\<close>

record ('d, 'prg) grpc_server =
  gs_authn :: "ctx \<Rightarrow> string \<Rightarrow> ctx res"
  gs_manager :: nat
  gs_tenancy :: tenancy_logic
  gs_metadata :: "string list"
  gs_services :: "'d services"
  gs_clusters :: "'d clusters_server"
  gs_events :: "'prg events_services"

definition StartServer ::
  "unit res \<Rightarrow> (string \<Rightarrow> regexp res) \<Rightarrow> (string \<Rightarrow> subject res) \<Rightarrow> (msg \<Rightarrow> string res) \<Rightarrow> 'd server_env \<Rightarrow> 'prg events_env \<Rightarrow>
    'p option \<Rightarrow> nat \<Rightarrow> server_args \<Rightarrow> ('d, 'prg) grpc_server res" where
  "StartServer prepare compile decode marshal env ev pool address a =
    bindR prepare (\<lambda>_.
    bindR (start_interceptors compile decode pool address a) (\<lambda>(authn, m).
    bindR (start_logics marshal a) (\<lambda>(b, pb, tn).
    bindR (creating ''metadata server'' (MetadataServer_Build True (grpcAuthnTrustedTokenIssuers a))) (\<lambda>md.
    bindR (cluster_services env b pb) (\<lambda>(cs, clusters).
    bindR (host_services env b pb) (\<lambda>hs.
    bindR (vm_services env b pb) (\<lambda>vs.
    bindR (hub_services env pb) (\<lambda>us.
    bindR (event_services (env_schema env) ev tn) (\<lambda>es.
    Ok \<lparr>gs_authn = authn, gs_manager = m, gs_tenancy = tn, gs_metadata = md, gs_services = cs @ hs @ vs @ us,
        gs_clusters = clusters, gs_events = es\<rparr>)))))))))"

section \<open>Calls\<close>

text \<open>What the generated handler of each method calls.\<close>

definition method_call :: "'d private_server \<Rightarrow> server_request \<Rightarrow> ctx \<Rightarrow> ('d db session, server_response) act" where
  "method_call sv q c = (case q of
      SList r \<Rightarrow> bind (ps_List sv c r) (\<lambda>x. ret (RList x))
    | SGet i \<Rightarrow> bind (ps_Get sv c i) (\<lambda>x. ret (RObject (Some x)))
    | SCreate x \<Rightarrow> bind (ps_Create sv c x) (\<lambda>y. ret (RObject (Some y)))
    | SUpdate x m \<Rightarrow> bind (ps_Update sv c x m) (\<lambda>y. ret (RObject y))
    | SDelete i \<Rightarrow> bind (ps_Delete sv c i) (\<lambda>_. ret REmpty))"

definition full_method :: "string \<Rightarrow> server_request \<Rightarrow> string" where
  "full_method svc q = ''/'' @ svc @ ''/'' @ (case q of SList r \<Rightarrow> ''List'' | SGet i \<Rightarrow> ''Get'' | SCreate x \<Rightarrow> ''Create''
     | SUpdate x m \<Rightarrow> ''Update'' | SDelete i \<Rightarrow> ''Delete'')"

definition unary_call ::
  "('d, 'prg) grpc_server \<Rightarrow> string \<Rightarrow> 'd private_server \<Rightarrow> server_request \<Rightarrow> ctx \<Rightarrow> ('d db session, server_response) act" where
  "unary_call srv svc sv q = unary_chain (gs_authn srv) (gs_manager srv) (full_method svc q) (method_call sv q)"

end
