(* ===== verification/StartServerProofs.thy ===== *)
theory StartServerProofs
  imports StartServer PublicProofs
begin

text \<open>
  What the whole server guarantees: a call to a public service, through the interceptors that the command puts in
  front of it, never changes or removes a row that its subject cannot see, in any table, whether the call
  succeeds, fails or panics. Which part builds which server, with which tenancy, decides this.
\<close>

section \<open>Rows that stay\<close>

text \<open>The identifiers of a table are distinct, and a row is in it.\<close>

definition has_row :: "string \<Rightarrow> string \<Rightarrow> 'd row \<Rightarrow> 'd db \<Rightarrow> bool" where
  "has_row T j row w \<longleftrightarrow> distinct (map fst (tables w T)) \<and> (j, row) \<in> set (tables w T)"

lemma has_row_insert:
  assumes "has_row T j row w" "sql_insert d now i fs cs ts x w = Ok (y, w')"
  shows "has_row T j row w'"
  using assms by (auto simp: has_row_def sql_insert_def rows_of_def Let_def split: if_splits)

lemma has_row_update:
  assumes "has_row T j row w" "sql_update d cnd ps f w = Ok (y, w')"
    "table d = T \<Longrightarrow> \<not> selects d ps cnd (j, row)"
  shows "has_row T j row w'"
proof (cases "table d = T")
  case True
  let ?ch = "\<lambda>x. if selects d ps cnd x then (fst x, f (snd x)) else x"
  have w': "w' = set_rows d (map ?ch (rows_of d w)) w"
    using assms(2) by (auto simp: sql_update_def Let_def bindR_eq_Ok)
  have "?ch (j, row) = (j, row)" using assms(3) True by simp
  then have "(j, row) \<in> ?ch ` set (tables w T)"
    using assms(1) by (intro image_eqI [of _ _ "(j, row)"]) (simp_all add: has_row_def)
  moreover have "map fst (map ?ch (tables w T)) = map fst (tables w T)" by (auto simp: comp_def)
  ultimately show ?thesis using assms(1) True by (simp add: has_row_def w' rows_of_def del: map_map)
next
  case False
  then show ?thesis using assms(1,2) by (auto simp: has_row_def sql_update_def Let_def bindR_eq_Ok)
qed

lemma has_row_delete:
  assumes "has_row T j row w" "sql_delete d cnd ps w = Ok w'" "table d = T \<Longrightarrow> \<not> selects d ps cnd (j, row)"
  shows "has_row T j row w'"
  using assms by (cases "table d = T") (auto simp: has_row_def sql_delete_def rows_of_def distinct_map_filter)

lemma has_row_archived: "has_row T j row w \<Longrightarrow> sql_insert_archived d i a w = Ok w' \<Longrightarrow> has_row T j row w'"
  by (auto simp: has_row_def sql_insert_archived_def)

lemma row_of_id: "has_row T j row w \<Longrightarrow> (j, r) \<in> set (tables w T) \<Longrightarrow> r = row"
  unfolding has_row_def by (metis eq_key_imp_eq_value)

section \<open>Actions that keep a row\<close>

text \<open>The transaction sees the row: the statements that keep it do, and so does everything that is not a statement.\<close>

definition row_seen :: "string \<Rightarrow> string \<Rightarrow> 'd row \<Rightarrow> 'd db session \<Rightarrow> bool" where
  "row_seen T j row s \<longleftrightarrow> has_row T j row (view s)"

named_theorems row_intros

lemma row_uuid [row_intros]: "keeps (row_seen T j row) uuid_New"
  by (rule keepsI) (auto simp: row_seen_def uuid_New_def split: option.splits)

lemma row_run:
  assumes "\<And>w x w'. has_row T j row w \<Longrightarrow> f w = Ok (x, w') \<Longrightarrow> has_row T j row w'"
  shows "keeps (row_seen T j row) (tx_run f)"
proof (rule keepsI)
  fix s r t
  assume r: "tx_run f s = (r, t)" and q: "row_seen T j row s"
  show "row_seen T j row t"
  proof (cases r)
    case (Ok x)
    obtain w' where "f (view s) = Ok (x, w')" "tx_real t = Some w'"
      using tx_run_Ok [OF r [unfolded Ok]] by blast
    then show ?thesis using assms q by (simp add: row_seen_def view_def)
  qed (use tx_run_fails_view [OF r] q in \<open>auto simp: row_seen_def\<close>)
qed

lemma row_Query [row_intros]: "keeps (row_seen T j row) (tx_Query f)"
  unfolding tx_Query_def by (rule row_run) (auto simp: bindR_eq_Ok)

lemma row_QueryRow:
  "(\<And>w x w'. has_row T j row w \<Longrightarrow> f w = Ok (x, w') \<Longrightarrow> has_row T j row w') \<Longrightarrow> keeps (row_seen T j row) (tx_QueryRow f)"
  unfolding tx_QueryRow_def by (rule row_run)

lemma row_Exec:
  "(\<And>w w'. has_row T j row w \<Longrightarrow> f w = Ok w' \<Longrightarrow> has_row T j row w') \<Longrightarrow> keeps (row_seen T j row) (tx_Exec f)"
  unfolding tx_Exec_def by (rule row_run) (auto simp: bindR_eq_Ok)

lemma row_with_tx [row_intros]:
  assumes "keeps (row_seen T j row) m"
  shows "keeps (row_seen T j row) (with_tx c m)"
proof -
  have "keeps (row_seen T j row) (reporting m)"
  proof (rule keepsI)
    fix s r t
    assume t: "reporting m s = (r, t)" and q: "row_seen T j row s"
    obtain s1 e where "m s = (r, s1)" "t = ReportError e s1" using reporting_cases [OF t] by blast
    then show "row_seen T j row t" using keepsD [OF assms q] by (simp add: row_seen_def)
  qed
  then show ?thesis unfolding with_tx_def by (intro keeps_intros)
qed

lemma row_reads [row_intros]:
  "keeps (row_seen T j row) (tx_QueryRow (sql_select d cnd ps))"
  "keeps (row_seen T j row) (tx_QueryRow (\<lambda>w. bindR (sql_count d cnd ps w) (\<lambda>n. Ok (n, w))))"
  by (rule row_QueryRow; auto simp: sql_select_def bindR_eq_Ok)+

lemma row_get [row_intros]: "keeps (row_seen T j row) (dao_get d c i)"
  unfolding dao_get_def by (intro keeps_intros row_intros)

lemma row_Get [row_intros]: "keeps (row_seen T j row) (dao_Get d c i)"
  unfolding dao_Get_def by (intro row_intros)

lemma row_List [row_intros]: "keeps (row_seen T j row) (dao_List d c q)"
  unfolding dao_List_def dao_list_def by (intro keeps_intros row_intros)

lemma has_row_same: "same_objects s t \<Longrightarrow> row_seen T j row s \<Longrightarrow> row_seen T j row t"
  by (simp add: has_row_def row_seen_def same_objects_def)

lemma row_archive:
  assumes "table d = T \<Longrightarrow> j \<noteq> i"
  shows "keeps (row_seen T j row) (dao_archive d i cts dts cs ts x)"
proof -
  have "keeps (row_seen T j row) (tx_Exec (sql_delete d (Some (IdIs 1)) [PString i]))"
    using assms by (intro row_Exec) (auto intro: has_row_delete simp: selects_def)
  moreover have "keeps (row_seen T j row) (tx_Exec (sql_insert_archived d i a))" for a
    by (intro row_Exec) (rule has_row_archived)
  ultimately show ?thesis
    unfolding dao_archive_def by - (rule keeps_bind, rule keeps_now)
qed

lemma keeps_bind_facts:
  assumes "keeps P m" and "\<And>x s t. P s \<Longrightarrow> m s = (Ok x, t) \<Longrightarrow> keeps P (k x)"
  shows "keeps P (bind m k)"
proof (rule keepsI)
  fix s r t
  assume s: "P s" and b: "bind m k s = (r, t)"
  obtain mr u where m: "m s = (mr, u)" by (cases "m s")
  have u: "P u" by (rule keepsD [OF assms(1) s m])
  show "P t"
  proof (cases mr)
    case (Ok x)
    then have "k x u = (r, t)" using m b by (simp add: bind_def)
    then show ?thesis by (rule keepsD [OF assms(2) [OF s m [unfolded Ok]] u])
  qed (use m b u in \<open>auto simp: bind_def\<close>)
qed

lemma update_selected:
  assumes "tx_QueryRow (sql_update d cnd ps f) s = (Ok x, t)"
  shows "\<exists>y \<in> set (rows_of d (view s)). selects d ps cnd y"
proof -
  obtain w' where "sql_update d cnd ps f (view s) = Ok (x, w')" using tx_QueryRow_Ok [OF assms] by blast
  then obtain y where "first_row (filter (selects d ps cnd) (rows_of d (view s))) = Ok y"
    by (auto simp: sql_update_def Let_def bindR_eq_Ok)
  then have "y \<in> set (filter (selects d ps cnd) (rows_of d (view s)))" by (rule first_row_Ok)
  then show ?thesis by auto
qed

text \<open>The first statement of a deletion finds no row that is hidden from its subject, so it finds another row.\<close>

definition mark_deleted :: "'d dao \<Rightarrow> cond option \<Rightarrow> param list \<Rightarrow> string \<Rightarrow> ('d db session, string \<times> 'd row) act" where
  "mark_deleted d cnd ps i = catch (\<lambda>s. tx_QueryRow (sql_update d cnd ps (\<lambda>r. r\<lparr>deletion_ts := clock s\<rparr>)) s)
     (\<lambda>e. if e = ErrNoRows then fail (ErrNotFound i) else fail e)"

lemma mark_deleted_row:
  assumes "addTenancyFilter d c (Some (IdIs 1)) [PString i] = Ok (cnd, ps)" "table d = T \<Longrightarrow> hidden d c row"
  shows "keeps (row_seen T j row) (mark_deleted d cnd ps i)"
    and "row_seen T j row s \<Longrightarrow> mark_deleted d cnd ps i s = (Ok x, t) \<Longrightarrow> table d \<noteq> T \<or> j \<noteq> i"
proof -
  obtain ts where ts: "DetermineVisibleTenants (tenancyLogic d) c = Ok ts"
    "\<And>x. selects d ps cnd x \<longleftrightarrow> fst x = i \<and> can_see (slice_list ts) (snd x)"
    using id_clause [OF assms(1)] by blast
  have no: "table d = T \<Longrightarrow> \<not> selects d ps cnd (j, row)" using ts assms(2) by (auto simp: hidden_def)
  have "keeps (row_seen T j row) (tx_QueryRow (sql_update d cnd ps g))" for g
    by (rule row_QueryRow) (rule has_row_update [OF _ _ no])
  then have "keeps (row_seen T j row) (\<lambda>s. tx_QueryRow (sql_update d cnd ps (\<lambda>r. r\<lparr>deletion_ts := clock s\<rparr>)) s)"
    by - (rule keeps_now)
  then show "keeps (row_seen T j row) (mark_deleted d cnd ps i)"
    unfolding mark_deleted_def by (rule keeps_catch) (simp add: keeps_fail)
  assume s: "row_seen T j row s" and m: "mark_deleted d cnd ps i s = (Ok x, t)"
  then have "tx_QueryRow (sql_update d cnd ps (\<lambda>r. r\<lparr>deletion_ts := clock s\<rparr>)) s = (Ok x, t)"
    by (auto simp: mark_deleted_def catch_Ok_iff fail_def split: if_splits)
  from update_selected [OF this] obtain k r where y: "selects d ps cnd (k, r)" "(k, r) \<in> set (tables (view s) (table d))"
    by (auto simp: rows_of_def)
  show "table d \<noteq> T \<or> j \<noteq> i"
  proof (rule ccontr)
    assume "\<not> ?thesis"
    then have T: "table d = T" "j = i" by simp_all
    have "k = j" using y(1) ts(2) T(2) by simp
    then have "r = row" using y(2) s T(1) row_of_id by (auto simp: row_seen_def)
    then show False using no [OF T(1)] y(1) \<open>k = j\<close> by simp
  qed
qed

lemma dao_delete_marks: "dao_delete d c i =
    bind (lift (mandatory_id i)) (\<lambda>_.
    bind (lift (addTenancyFilter d c (Some (IdIs 1)) [PString i])) (\<lambda>p.
    bind (mark_deleted d (fst p) (snd p) i) (\<lambda>x.
    bind (lift (object_of d i (snd x))) (\<lambda>o'.
    bind (fireEvent d c EventTypeDeleted o') (\<lambda>_.
    (if length (finalizers (snd x)) = 0
     then dao_archive d i (creation_ts (snd x)) (deletion_ts (snd x)) (creators (snd x)) (tenants (snd x)) (row_data (snd x))
     else ret ()))))))"
  unfolding dao_delete_def mark_deleted_def case_prod_beta ..

context quiet_callbacks
begin

lemma fire_keeps_row: "keeps (row_seen T j row) (fireEvent d c ty o')"
  by (rule keepsI) (blast intro: has_row_same fireEvent_quiet)

lemma create_keeps_row: "keeps (row_seen T j row) (dao_Create d c o')"
  unfolding dao_Create_def dao_create_def Let_def
  by (intro keeps_intros row_intros row_QueryRow fire_keeps_row keeps_now) (rule has_row_insert)

lemma update_keeps_row:
  assumes "table d = T \<Longrightarrow> j \<noteq> GetId o'"
  shows "keeps (row_seen T j row) (dao_Update d c o')"
proof -
  have "keeps (row_seen T j row)
      (tx_QueryRow (sql_update d (Some (IdIs 3)) [PStrings fs, PData, PString (GetId o')] f))" for fs f
    using assms by (intro row_QueryRow) (auto intro: has_row_update simp: selects_def)
  then show ?thesis
    unfolding dao_Update_def dao_update_def Let_def
    by (intro keeps_intros row_intros fire_keeps_row row_archive assms)
qed

lemma delete_keeps_row:
  assumes "table d = T \<Longrightarrow> hidden d c row"
  shows "keeps (row_seen T j row) (dao_Delete d c i)"
  unfolding dao_Delete_def dao_delete_marks
proof (rule row_with_tx, rule keeps_bind [OF keeps_lift], rule keeps_bind_facts [OF keeps_lift], rule keeps_bind_facts)
  fix u :: unit and p s t
  assume "lift (addTenancyFilter d c (Some (IdIs 1)) [PString i]) s = (Ok p, t)"
  then have p: "addTenancyFilter d c (Some (IdIs 1)) [PString i] = Ok (fst p, snd p)" by (simp add: lift_def)
  show "keeps (row_seen T j row) (mark_deleted d (fst p) (snd p) i)" by (rule mark_deleted_row [OF p assms])
  fix x s t
  assume "row_seen T j row s" "mark_deleted d (fst p) (snd p) i s = (Ok x, t)"
  from mark_deleted_row(2) [OF p assms this] have "table d = T \<Longrightarrow> j \<noteq> i" by blast
  then show "keeps (row_seen T j row) (bind (lift (object_of d i (snd x))) (\<lambda>o'.
    bind (fireEvent d c EventTypeDeleted o') (\<lambda>_. if length (finalizers (snd x)) = 0
     then dao_archive d i (creation_ts (snd x)) (deletion_ts (snd x)) (creators (snd x)) (tenants (snd x)) (row_data (snd x))
     else ret ())))"
    by (intro keeps_bind keeps_lift fire_keeps_row keeps_if keeps_ret row_archive)
qed

end

section \<open>The contract between the layers of servers\<close>

text \<open>
  A server whose methods keep a property of the session, for the calls of a context. The generic servers provide it,
  and the private and public servers that are built over another server rely on it.
\<close>

locale keeping_server =
  fixes sv :: "'d private_server" and c :: ctx and P :: "'d db session \<Rightarrow> bool"
  assumes list_keeps: "keeps P (ps_List sv c r)"
    and get_keeps: "keeps P (ps_Get sv c i)"
    and create_keeps: "keeps P (ps_Create sv c x)"
    and update_keeps: "keeps P (ps_Update sv c x paths)"
    and delete_keeps: "keeps P (ps_Delete sv c i)"
begin

lemma call_keeps: "keeps P (method_call sv q c)"
  unfolding method_call_def
  by (cases q; simp only: server_request.case;
      intro keeps_bind keeps_ret list_keeps get_keeps create_keeps update_keeps delete_keeps)

text \<open>A public server over this one.\<close>

lemma public_keeps:
  assumes "pub_delegate p = sv"
  shows "keeping_server (public_methods p noun nouns (public_Update_replace p noun)) c P"
    "keeping_server (public_methods p noun nouns (public_Update_merge p usesMask noun)) c P"
  unfolding public_methods_def
  by (unfold_locales; simp only: private_server.simps public_List_def public_Get_def public_Create_def
      public_Delete_def public_Update_replace_def public_Update_merge_def assms;
      intro keeps_intros list_keeps get_keeps create_keeps update_keeps delete_keeps)+

end

text \<open>The private servers of clusters and virtual machines are the generic one with other methods for two requests.\<close>

lemma keeping_generic:
  assumes "keeping_server (generic_methods g) c P"
  shows "keeps P (server_Create g c x)" "keeps P (server_Update g c x paths)"
    "\<And>f h. (\<And>x. keeps P (f c x)) \<Longrightarrow> (\<And>x paths. keeps P (h c x paths)) \<Longrightarrow>
      keeping_server ((generic_methods g)\<lparr>ps_Create := f, ps_Update := h\<rparr>) c P"
  using assms by (simp_all add: keeping_server_def generic_methods_def)

lemma clusters_keep:
  assumes "keeping_server (generic_methods (pc_generic p)) c P" "\<And>i. keeps P (dao_Get (pc_templatesDao p) c i)"
  shows "keeping_server (clusters_methods series name p) c P"
  unfolding clusters_methods_def
proof (rule keeping_generic(3) [OF assms(1)])
  show "keeps P (clusters_Create series name p c x)" for x
    unfolding clusters_Create_def validateAndTransformCluster_def Let_def
    by (intro keeps_intros keeping_generic(1) [OF assms(1)] assms(2))
  show "keeps P (clusters_Update name p c x paths)" for x paths
    unfolding clusters_Update_def by (intro keeps_intros keeping_generic(2) [OF assms(1)])
qed

lemma vms_keep:
  assumes "keeping_server (generic_methods (pc_generic p)) c P" "\<And>i. keeps P (dao_Get (pc_templatesDao p) c i)"
  shows "keeping_server (vms_methods series p) c P"
  unfolding vms_methods_def
proof (rule keeping_generic(3) [OF assms(1)])
  have v: "keeps P (validateTemplate series p c x)" for x
    unfolding validateTemplate_def Let_def by (intro keeps_intros assms(2))
  show "keeps P (vms_Create series p c x)" for x
    unfolding vms_Create_def by (intro keeps_bind v keeping_generic(1) [OF assms(1)])
  show "keeps P (vms_Update series p c x paths)" for x paths
    unfolding vms_Update_def by (intro keeps_bind v keeping_generic(2) [OF assms(1)])
qed

section \<open>The generic server keeps rows\<close>

lemma generic_frame:
  assumes "quiet_callbacks (g_dao g)"
  shows "keeping_server (generic_methods g) c (tx_frame w m)"
  unfolding generic_methods_def
  by (unfold_locales; simp only: private_server.simps server_List_def server_Get_def server_Create_def server_Update_def
      server_Delete_def dao_List_def dao_Get_def dao_Create_def dao_Update_def dao_Delete_def Let_def;
      intro keeps_intros quiet_callbacks.dao_create_frame [OF assms] quiet_callbacks.dao_update_frame [OF assms]
        quiet_callbacks.dao_delete_frame [OF assms])

text \<open>An update first finds the object, which is not the hidden one, and keeps its identifier.\<close>

lemma server_Update_keeps_row:
  assumes "quiet_callbacks (g_dao g)" "table (g_dao g) = T \<Longrightarrow> hidden (g_dao g) c row"
  shows "keeps (row_seen T j row) (server_Update g c x paths)"
proof (cases "\<exists>input. x = Some input \<and> GetId input \<noteq> []")
  case True
  then obtain input where x: "x = Some input" "GetId input \<noteq> []" by blast
  let ?i = "GetId input"
  let ?get = "catch (dao_Get (g_dao g) c ?i) (\<lambda>e. fail (Status Internal (''failed to get object with identifier '' @ quoted ?i)))"
  let ?change = "\<lambda>current. case paths of None \<Rightarrow> Ok input
      | Some ps \<Rightarrow> bindR (compilePaths g ps) (\<lambda>fps. apply_paths input fps current)"
  have get: "keeps (row_seen T j row) ?get" by (intro keeps_intros row_intros)
  have found: "keeps (row_seen T j row) (bind (lift (?change current)) (\<lambda>o'. catch (dao_Update (g_dao g) c o') h))"
    if s: "row_seen T j row s" "?get s = (Ok (Some current), t)"
      and h: "\<And>e. keeps (row_seen T j row) (h e)" for s current t h
  proof (rule keeps_bind_facts [OF keeps_lift])
    fix o' u u'
    assume "lift (?change current) u = (Ok o', u')"
    then have o': "?change current = Ok o'" by (simp add: lift_def)
    have cur: "dao_Get (g_dao g) c ?i s = (Ok (Some current), t)" using s(2) by (simp only: catch_fail_Ok)
    obtain v r0 where v: "DetermineVisibleTenants (tenancyLogic (g_dao g)) c = Ok v"
      "(?i, r0) \<in> set (rows_of (g_dao g) (view s))" "can_see (slice_list v) r0"
      using get_row [OF cur] by blast
    have other: "j \<noteq> GetId o'" if T: "table (g_dao g) = T"
    proof
      assume "j = GetId o'"
      then have "r0 = row"
        using v(2) s(1) T row_of_id masked_id [OF cur x(2) o'] by (auto simp: rows_of_def row_seen_def)
      then show False using assms(2) [OF T] v(1,3) by (simp add: hidden_def)
    qed
    have "keeps (row_seen T j row) (dao_Update (g_dao g) c o')"
      by (rule quiet_callbacks.update_keeps_row [OF assms(1)]) (rule other)
    then show "keeps (row_seen T j row) (catch (dao_Update (g_dao g) c o') h)" by (rule keeps_catch) (rule h)
  qed
  show ?thesis
    unfolding server_Update_def x(1) option.case Let_def if_not_P [OF x(2)]
  proof (rule keeps_bind_facts [OF get])
    fix y s t
    assume "row_seen T j row s" "?get s = (Ok y, t)"
    then show "keeps (row_seen T j row) (case y of
        None \<Rightarrow> fail (Status InvalidArgument (''object with identifier '' @ quoted ?i @ '' doesn't exist''))
      | Some current \<Rightarrow> bind (lift (?change current)) (\<lambda>o'. catch (dao_Update (g_dao g) c o')
          (\<lambda>e. fail (Status Internal (''failed to update object with identifier '' @ quoted ?i)))))"
      by (cases y) (auto simp only: option.case intro!: keeps_fail found)
  qed
next
  case False
  then show ?thesis unfolding server_Update_def Let_def by (cases x) (auto intro: keeps_intros)
qed

lemma generic_keeps_row:
  assumes "quiet_callbacks (g_dao g)" "table (g_dao g) = T \<Longrightarrow> hidden (g_dao g) c row"
  shows "keeping_server (generic_methods g) c (row_seen T j row)"
  unfolding generic_methods_def
  by (unfold_locales; simp only: private_server.simps server_List_def server_Get_def server_Create_def server_Delete_def;
      intro keeps_intros row_intros quiet_callbacks.create_keeps_row [OF assms(1)] server_Update_keeps_row [OF assms]
        quiet_callbacks.delete_keeps_row [OF assms])

text \<open>The generic servers that the builders return provide the contract.\<close>

interpretation framed: keeping_server "generic_methods (g\<lparr>g_dao := server_dao ty n d\<rparr>)" c "tx_frame w m"
  for g ty n d c w m
  by (rule generic_frame) (simp add: notified.quiet_callbacks_axioms)

interpretation row_kept: keeping_server "generic_methods (g\<lparr>g_dao := server_dao ty n d\<rparr>)" c
    "\<lambda>s. hidden (server_dao ty n d) c row \<longrightarrow> row_seen T j row s"
  for g ty n d c row T j
proof (cases "hidden (server_dao ty n d) c row")
  case True
  then show "keeping_server (generic_methods (g\<lparr>g_dao := server_dao ty n d\<rparr>)) c
      (\<lambda>s. hidden (server_dao ty n d) c row \<longrightarrow> row_seen T j row s)"
    using generic_keeps_row [of "g\<lparr>g_dao := server_dao ty n d\<rparr>" T c row j] notified.quiet_callbacks_axioms [of ty n d]
    by simp
next
  case False
  then show "keeping_server (generic_methods (g\<lparr>g_dao := server_dao ty n d\<rparr>)) c
      (\<lambda>s. hidden (server_dao ty n d) c row \<longrightarrow> row_seen T j row s)"
    by unfold_locales (simp_all add: keeps_def)
qed

end
