(* ===== verification/ApiProofs.thy ===== *)
theory ApiProofs
  imports StartServerProofs
begin

text \<open>
  Every public service that the command registers is built over servers that keep the rows hidden from the subject
  of a call; with the interceptors this is the tenancy of the public API. With external authentication a call without
  a subject reaches none of the services of objects.
\<close>

section \<open>Servers that respect a tenancy\<close>

definition unseen :: "tenancy_logic \<Rightarrow> ctx \<Rightarrow> 'd row \<Rightarrow> bool" where
  "unseen tn c row \<longleftrightarrow> (\<exists>v. DetermineVisibleTenants tn c = Ok v \<and> \<not> can_see (slice_list v) row)"

definition tenant_safe :: "tenancy_logic \<Rightarrow> 'd private_server \<Rightarrow> bool" where
  "tenant_safe tn sv \<longleftrightarrow> (\<forall>c w m T j row. keeping_server sv c (tx_frame w m) \<and>
     (unseen tn c row \<longrightarrow> keeping_server sv c (row_seen T j row)))"

lemma tenant_safeI:
  assumes "\<And>c P. (\<And>i d. keeps P (dao_Get d c i)) \<Longrightarrow> keeping_server sv c P \<Longrightarrow> keeping_server sv' c P" "tenant_safe tn sv"
  shows "tenant_safe tn sv'"
proof -
  have "keeping_server sv' c (tx_frame w m)" for c w m
    by (rule assms(1)) (use assms(2) in \<open>auto simp: tenant_safe_def dao_Get_def intro: keeps_intros\<close>)
  moreover have "keeping_server sv' c (row_seen T j row)" if "unseen tn c row" for c T j row
    by (rule assms(1)) (use assms(2) that in \<open>auto simp: tenant_safe_def intro: row_intros\<close>)
  ultimately show ?thesis by (simp add: tenant_safe_def)
qed

text \<open>The generic server of a builder, and the private servers that change some of its methods.\<close>

lemma generic_safe:
  assumes "private_generic service tbl ty sc k b = Ok g" "sb_tenancy b = Some tn"
  shows "tenant_safe tn (generic_methods g)"
proof -
  have g: "server_Build sc ty k (b\<lparr>sb_service := service, sb_table := tbl\<rparr>) = Ok g"
    using assms by (simp add: private_generic_def split: if_splits)
  have q: "quiet_callbacks (g_dao g)" using server_Build_quiet [OF g] by (rule quiet_server.quiet_dao)
  have "tenancyLogic (g_dao g) = tn" using server_Build_Ok [OF g] assms(2) by simp
  then have "unseen tn c row = hidden (g_dao g) c row" for c and row :: "'a row" by (simp add: unseen_def hidden_def)
  then show ?thesis using generic_frame [OF q] generic_keeps_row [OF q] by (simp add: tenant_safe_def)
qed

lemma clusters_safe: "tenant_safe tn (generic_methods (pc_generic p)) \<Longrightarrow> tenant_safe tn (clusters_methods series name p)"
  by (erule tenant_safeI [rotated]) (rule clusters_keep)

lemma vms_safe: "tenant_safe tn (generic_methods (pc_generic p)) \<Longrightarrow> tenant_safe tn (vms_methods series p)"
  by (erule tenant_safeI [rotated]) (rule vms_keep)

text \<open>A public server respects the tenancy of the server that it delegates to.\<close>

lemma public_safe:
  assumes "tenant_safe tn (pub_delegate p)"
  shows "tenant_safe tn (public_methods p noun nouns (public_Update_replace p noun))"
    "tenant_safe tn (public_methods p noun nouns (public_Update_merge p usesMask noun))"
  by (rule tenant_safeI [OF _ assms], erule keeping_server.public_keeps, rule HOL.refl)+

lemma delegate_safe:
  assumes "public_Build sc pub priv ignored b delegate = Ok p" "\<And>d. delegate = Ok d \<Longrightarrow> tenant_safe tn d"
  shows "tenant_safe tn (pub_delegate p)"
  using public_Build_Ok(4) [OF assms(1)] assms(2) by blast

section \<open>The public servers\<close>

lemma private_safe:
  assumes "sb_tenancy b = Some tn"
  shows "PrivateHostsServer sc k b = Ok d \<Longrightarrow> tenant_safe tn d"
  "PrivateHostPoolsServer sc k b = Ok d \<Longrightarrow> tenant_safe tn d"
  "PrivateHostClassesServer sc k b = Ok d \<Longrightarrow> tenant_safe tn d"
  "PrivateClusterTemplatesServer sc k b = Ok d \<Longrightarrow> tenant_safe tn d"
  "PrivateVirtualMachineTemplatesServer sc k b = Ok d \<Longrightarrow> tenant_safe tn d"
  "bindR (PrivateClustersServer sc k b) (\<lambda>p. Ok (clusters_methods series name p)) = Ok d \<Longrightarrow> tenant_safe tn d"
  "bindR (PrivateVirtualMachinesServer sc k b) (\<lambda>p. Ok (vms_methods series p)) = Ok d \<Longrightarrow> tenant_safe tn d"
  by (auto simp: PrivateHostsServer_def PrivateHostPoolsServer_def PrivateHostClassesServer_def
      PrivateClusterTemplatesServer_def PrivateVirtualMachineTemplatesServer_def PrivateClustersServer_def
      PrivateVirtualMachinesServer_def bindR_eq_Ok split: if_splits option.splits
      intro!: clusters_safe vms_safe intro: generic_safe [OF _ assms])

lemma public_servers_safe:
  assumes "sb_tenancy b = Some tn"
  shows "HostsServer sc k b = Ok p \<Longrightarrow> tenant_safe tn (HostsServer_methods p)"
  "HostPoolsServer sc k b = Ok p \<Longrightarrow> tenant_safe tn (HostPoolsServer_methods p)"
  "HostClassesServer sc k b = Ok p \<Longrightarrow> tenant_safe tn (HostClassesServer_methods p)"
  "ClusterTemplatesServer sc k b = Ok p \<Longrightarrow> tenant_safe tn (ClusterTemplatesServer_methods p)"
  "VirtualMachineTemplatesServer sc k b = Ok p \<Longrightarrow> tenant_safe tn (VirtualMachineTemplatesServer_methods p)"
  "VirtualMachinesServer series sc k b = Ok p \<Longrightarrow> tenant_safe tn (VirtualMachinesServer_methods p)"
  unfolding HostsServer_def HostsServer_methods_def HostPoolsServer_def HostPoolsServer_methods_def HostClassesServer_def
    HostClassesServer_methods_def ClusterTemplatesServer_def ClusterTemplatesServer_methods_def
    VirtualMachineTemplatesServer_def VirtualMachineTemplatesServer_methods_def VirtualMachinesServer_def
    VirtualMachinesServer_methods_def
  by (rule public_safe, erule delegate_safe, erule private_safe [OF assms])+

lemma clusters_server_safe:
  assumes "sb_tenancy b = Some tn" "ClustersServer series name sc k b = Ok s"
  shows "tenant_safe tn (ClustersServer_methods s)"
proof -
  have "public_Build sc ''fulfillment.v1.Cluster'' ''private.v1.Cluster'' (status_field sc ''fulfillment.v1.Cluster'') b
      (bindR (PrivateClustersServer sc k b) (\<lambda>d. Ok (clusters_methods series name d))) = Ok (cs_public s)"
    using assms(2) by (auto simp: ClustersServer_def bindR_eq_Ok split: if_splits option.splits)
  then show ?thesis
    unfolding ClustersServer_methods_def by (intro public_safe) (erule delegate_safe, erule private_safe [OF assms(1)])
qed

section \<open>The registered services\<close>

definition is_public :: "string \<Rightarrow> bool" where
  "is_public svc \<longleftrightarrow> take 15 svc = ''fulfillment.v1.''"

lemma creating_Ok [simp]: "creating what r = Ok x \<longleftrightarrow> r = Ok x"
  by (cases r) (simp_all add: creating_def)

lemma services_safe:
  assumes "sb_tenancy b = Some tn" "is_public svc"
  shows "cluster_services env b pb = Ok (cs, cl) \<Longrightarrow> (svc, api) \<in> set cs \<Longrightarrow> tenant_safe tn api"
    "host_services env b pb = Ok hs \<Longrightarrow> (svc, api) \<in> set hs \<Longrightarrow> tenant_safe tn api"
    "vm_services env b pb = Ok vs \<Longrightarrow> (svc, api) \<in> set vs \<Longrightarrow> tenant_safe tn api"
    "hub_services env pb = Ok us \<Longrightarrow> (svc, api) \<in> set us \<Longrightarrow> tenant_safe tn api"
  using assms(2) public_servers_safe [OF assms(1)] clusters_server_safe [OF assms(1)]
  by (auto simp: cluster_services_def host_services_def vm_services_def hub_services_def Let_def bindR_eq_Ok is_public_def)

lemma start_tenancy:
  assumes "start_logics marshal a = Ok (b, pb, tn)"
  shows "sb_tenancy b = Some tn \<and> (tn = DefaultTenancyLogic \<or> tn = ServiceAccountTenancyLogic)"
  using assms
  by (auto simp: start_logics_def select_tenancy_def bindR_eq_Ok server_builder_of_def default_tenancy_Build_def
      sa_tenancy_Build_def with_logger_def Let_def split: if_splits)

lemma StartServer_safe:
  assumes "StartServer prepare compile decode marshal env ev pool address a = Ok srv" "(svc, api) \<in> set (gs_services srv)"
    "is_public svc"
  shows "tenant_safe (gs_tenancy srv) api \<and>
    (gs_tenancy srv = DefaultTenancyLogic \<or> gs_tenancy srv = ServiceAccountTenancyLogic)"
proof -
  obtain b pb tn cs cl hs vs us where s: "start_logics marshal a = Ok (b, pb, tn)" "cluster_services env b pb = Ok (cs, cl)"
    "host_services env b pb = Ok hs" "vm_services env b pb = Ok vs" "hub_services env pb = Ok us"
    and srv: "gs_tenancy srv = tn" "gs_services srv = cs @ hs @ vs @ us"
    using assms(1) by (auto simp: StartServer_def bindR_eq_Ok)
  have tn: "sb_tenancy b = Some tn" using start_tenancy [OF s(1)] by blast
  have "(svc, api) \<in> set cs \<or> (svc, api) \<in> set hs \<or> (svc, api) \<in> set vs \<or> (svc, api) \<in> set us"
    using assms(2) srv(2) by auto
  then have "tenant_safe tn api" using services_safe [OF tn assms(3)] s(2-5) by metis
  with start_tenancy [OF s(1)] srv(1) show ?thesis by simp
qed

section \<open>Calls through the interceptors\<close>

text \<open>The end of a transaction publishes what the transaction saw, or leaves the database as it was.\<close>

lemma request_row:
  assumes "keeps (tx_frame (store s) m) (h (TxIntoContext c))" "keeps (row_seen T j row) (h (TxIntoContext c))"
    "has_row T j row (store s)" "tx_UnaryServer m h c s = (r, t)"
  shows "has_row T j row (store t)"
proof -
  obtain hr u e where u: "h (TxIntoContext c) (begun m s) = (hr, u)" "tm_End m u = (e, t)"
    using tx_UnaryServer_cases [OF assms(4)] by metis
  have f: "store u = store s" using keepsD [OF assms(1) _ u(1)] by (simp add: tx_frame_def)
  have v: "has_row T j row (view u)" using keepsD [OF assms(2) _ u(1)] assms(3) by (simp add: row_seen_def)
  have "store t = store u \<or> store t = view u"
    using tm_End_Ok [of m u t] tm_End_Err [of m u _ t] tm_End_no_Panic [of m u _ t] u(2)
    by (cases e) (auto simp: view_def split: option.splits if_splits)
  with f v assms(3) show ?thesis by auto
qed

lemma chain_state:
  assumes "unary_chain authn m method h c s = (r, t)"
  shows "(\<not> is_Ok (authn c method) \<and> t = s) \<or> (\<exists>c' r'. authn c method = Ok c' \<and> tx_UnaryServer m h c' s = (r', t))"
  using assms
  by (cases "authn c method")
    (auto simp: unary_chain_def panic_UnaryServer_def authn_UnaryServer_def bind_def lift_def split: prod.splits res.splits)

text \<open>
  C1. A call to a public service, whatever the service, the method and the request, never changes or removes a row
  of any table that belongs to none of the tenants that its subject can see, whether the call succeeds, fails or
  panics: the command gives the public servers, and the servers that they delegate to, the tenancy logic of the
  command line, and all of them filter by it.
\<close>

theorem public_calls_respect_tenancy:
  assumes "StartServer prepare compile decode marshal env ev pool address a = Ok srv"
    and "(svc, api) \<in> set (gs_services srv)" "is_public svc"
    and "unary_call srv svc api q c s = (r, t)"
    and "gs_authn srv c (full_method svc q) = Ok c'"
    and "DetermineVisibleTenants (gs_tenancy srv) (TxIntoContext c') = Ok v"
    and "distinct (map fst (tables (store s) T))" "(j, row) \<in> set (tables (store s) T)"
    and "set (tenants row) \<inter> set (slice_list v) = {}"
  shows "(j, row) \<in> set (tables (store t) T)"
proof -
  let ?c = "TxIntoContext c'"
  have safe: "tenant_safe (gs_tenancy srv) api"
    and tn: "gs_tenancy srv = DefaultTenancyLogic \<or> gs_tenancy srv = ServiceAccountTenancyLogic"
    using StartServer_safe [OF assms(1-3)] by simp_all
  have "\<not> can_see (slice_list v) row"
    using tn assms(6,9) default.seen_overlap [of ?c v row] sa.seen_overlap [of ?c v row]
    by (auto simp: DefaultTenancyLogic_def ServiceAccountTenancyLogic_def)
  then have "unseen (gs_tenancy srv) ?c row" using assms(6) by (auto simp: unseen_def)
  then have k: "keeping_server api ?c (tx_frame w m)" "keeping_server api ?c (row_seen T j row)" for w m
    using safe by (auto simp: tenant_safe_def)
  obtain r' where "tx_UnaryServer (gs_manager srv) (method_call api q) c' s = (r', t)"
    using chain_state [OF assms(4) [unfolded unary_call_def]] assms(5) by auto
  from request_row [OF _ _ _ this] keeping_server.call_keeps [OF k(1)] keeping_server.call_keeps [OF k(2)] assms(7,8)
  show ?thesis by (auto simp: has_row_def)
qed

section \<open>Calls without a subject\<close>

text \<open>The words of the regular expression of the public methods: its dot does not match the end of a line.\<close>

definition public_prefixes :: "string list" where
  "public_prefixes = [''/metadata.'', ''/grpc.reflection.'', ''/grpc.health.'']"

definition public_method :: regexp where
  "public_method m \<longleftrightarrow> list_ex (\<lambda>p. take (length p) m = p \<and> CHR 0x0A \<notin> set (drop (length p) m)) public_prefixes"

lemma service_names:
  assumes "StartServer prepare compile decode marshal env ev pool address a = Ok srv" "(svc, api) \<in> set (gs_services srv)"
  shows "take 1 svc = ''f'' \<or> take 1 svc = ''p''"
  using assms
  by (auto simp: StartServer_def cluster_services_def host_services_def vm_services_def hub_services_def Let_def bindR_eq_Ok)

lemma service_not_public:
  assumes "take 1 svc = ''f'' \<or> take 1 svc = ''p''"
  shows "\<not> public_method (full_method svc q)"
  using assms by (cases svc) (auto simp: public_method_def public_prefixes_def full_method_def)

lemma external_start:
  assumes "StartServer prepare compile decode marshal env ev pool address a = Ok srv"
    "ToLower (grpcAuthnType a) = GrpcExternalAuthnType" "compile publicMethodRegex = Ok public_method"
  shows "gs_authn srv = external_call decode [public_method]"
  using assms
  by (auto simp: StartServer_def start_interceptors_def select_authn_def external_Build_def authn_Build_def
      with_logger_def bindR_eq_Ok GrpcExternalAuthnType_def GrpcGuestAuthnType_def split: if_splits)

lemma external_without_subject:
  assumes "ctx_md c = None \<or> (\<exists>md. ctx_md c = Some md \<and> length (md ''x-subject'') \<noteq> 1)" "\<not> p m"
  shows "\<exists>e. external_call decode [p] c m = Err e"
  using assms by (auto simp: external_call_def)

text \<open>
  C2. When the server is started with external authentication, a call to any service of objects, public or private,
  without exactly one subject in its metadata fails and changes nothing: only the services of metadata, reflection
  and health can be called without a subject. The regular expression is compiled to the set of its words.
\<close>

theorem calls_need_a_subject:
  assumes "StartServer prepare compile decode marshal env ev pool address a = Ok srv"
    and "ToLower (grpcAuthnType a) = ''external''" "compile publicMethodRegex = Ok public_method"
    and "(svc, api) \<in> set (gs_services srv)"
    and "ctx_md c = None \<or> (\<exists>md. ctx_md c = Some md \<and> length (md ''x-subject'') \<noteq> 1)"
    and "unary_call srv svc api q c s = (r, t)"
  shows "\<not> is_Ok r \<and> t = s"
proof -
  have f: "gs_authn srv = external_call decode [public_method]"
    using external_start [OF assms(1) _ assms(3)] assms(2) by (simp add: GrpcExternalAuthnType_def)
  have "\<not> public_method (full_method svc q)" by (rule service_not_public [OF service_names [OF assms(1,4)]])
  from external_without_subject [of c public_method "full_method svc q" decode, OF assms(5) this] obtain e where "gs_authn srv c (full_method svc q) = Err e"
    unfolding f by blast
  then show ?thesis
    using assms(6)
    by (auto simp: unary_call_def unary_chain_def panic_UnaryServer_def authn_UnaryServer_def bind_def lift_def)
qed

end
