(* ===== verification/ApiExample.thy ===== *)
theory ApiExample
  imports ApiProofs
begin

text \<open>A server that is started with external authentication, and calls to it.\<close>

definition example_fields :: "field list" where
  "example_fields = [fld ''id'' StringKind Singular, fld ''metadata'' (MessageKind ''Metadata'') Singular,
     fld ''status'' StringKind Singular]"

definition example_env :: "msg server_env" where
  "example_env = \<lparr>env_schema = (\<lambda>t. example_fields), env_codec = (\<lambda>t. example_codec), env_series = concat,
     env_conditions = (\<lambda>n. ''READY'')\<rparr>"

definition example_events_env :: "unit events_env" where
  "example_events_env = \<lparr>env_show = (\<lambda>n. ''5''), env_ctx = example_jwt_ctx,
     env_cel = Ok \<lparr>cel_compile = (\<lambda>t. Ok ()), cel_eval = (\<lambda>p m. Ok (CelBool True))\<rparr>,
     env_private_cel = Ok \<lparr>cel_compile = (\<lambda>t. Ok ()), cel_eval = (\<lambda>p m. Ok (CelBool True))\<rparr>,
     env_dbUrl = ''postgres://localhost''\<rparr>"

definition example_args :: server_args where
  "example_args = default_args\<lparr>grpcAuthnType := ''External''\<rparr>"

definition example_subject_of :: "string \<Rightarrow> subject res" where
  "example_subject_of h = Ok \<lparr>source = ''jwt'', user = ''jane'', groups = Some [''a'', ''b'']\<rparr>"

definition example_compile_regex :: "string \<Rightarrow> regexp res" where
  "example_compile_regex e = (if e = publicMethodRegex then Ok public_method else Err (Fmt ''unknown''))"

definition example_StartServer :: "(msg, unit) grpc_server res" where
  "example_StartServer = StartServer (Ok ()) example_compile_regex example_subject_of (\<lambda>m. Ok ''payload'') example_env
     example_events_env (Some ()) 0 example_args"

section \<open>Building it\<close>

lemma is_Ok_bindR: "is_Ok r \<Longrightarrow> (\<And>x. r = Ok x \<Longrightarrow> is_Ok (f x)) \<Longrightarrow> is_Ok (bindR r f)"
  by (cases r) auto

lemma is_Ok_creating [simp]: "is_Ok (creating what r) = is_Ok r"
  by (cases r) (simp_all add: creating_def)

lemma is_Ok_iff: "is_Ok r \<longleftrightarrow> (\<exists>x. r = Ok x)"
  by (cases r) auto

lemma example_logics: "\<exists>n. start_logics (\<lambda>m. Ok ''payload'') example_args =
   Ok (server_builder_of n default_DetermineAssignedCreators DefaultTenancyLogic,
       server_builder_of n system_DetermineAssignedCreators SystemTenancyLogic, DefaultTenancyLogic)"
  by (rule exI [of _ "notifier.make ''events'' (\<lambda>m. Ok ''payload'')"])
    (simp add: start_logics_def notifier_Build_def with_logger_def default_attribution_Build_def select_tenancy_def
      example_args_def default_args_def lower_byte_def default_tenancy_Build_def sa_tenancy_Build_def jwt_tenancy_Build_def
      system_attribution_Build_def system_tenancy_Build_def creating_def)

lemma example_dao_Build:
  "b_logger b \<Longrightarrow> b_table b \<noteq> [] \<Longrightarrow> b_defaultLimit b = 100 \<Longrightarrow> b_maxLimit b = 1000 \<Longrightarrow> b_tenancyLogic b = Some tn \<Longrightarrow>
    is_Ok (dao_Build (\<lambda>t. example_fields) ty k b)"
  by (simp add: dao_Build_def example_fields_def ByName_def fld_def)

lemma example_daos:
  "is_Ok (hubs_dao (\<lambda>t. example_fields) k (server_builder_of n at tn))"
  "tbl \<noteq> [] \<Longrightarrow> is_Ok (templates_dao tbl ty (\<lambda>t. example_fields) k (server_builder_of n at tn))"
  unfolding hubs_dao_def templates_dao_def
  by (rule example_dao_Build [of _ tn]; simp add: NewGenericDAO_def server_builder_of_def)+

lemma example_generic:
  assumes "service \<noteq> []" "tbl \<noteq> []"
  shows "is_Ok (private_generic service tbl ty (\<lambda>t. example_fields) k (server_builder_of n at tn))"
proof -
  have "is_Ok (dao_Build (\<lambda>t. example_fields) ty k (server_dao_builder ty
      ((server_builder_of n at tn)\<lparr>sb_service := service, sb_table := tbl\<rparr>)))"
    using assms(2) by (intro example_dao_Build [of _ tn])
      (simp_all add: server_dao_builder_def server_builder_of_def NewGenericDAO_def AddEventCallback_def)
  then show ?thesis
    using assms by (auto simp: private_generic_def server_Build_def server_builder_of_def is_Ok_iff)
qed

lemma example_privates:
  "is_Ok (PrivateHostsServer (\<lambda>t. example_fields) k (server_builder_of n at tn))"
  "is_Ok (PrivateHostPoolsServer (\<lambda>t. example_fields) k (server_builder_of n at tn))"
  "is_Ok (PrivateHostClassesServer (\<lambda>t. example_fields) k (server_builder_of n at tn))"
  "is_Ok (PrivateHubsServer (\<lambda>t. example_fields) k (server_builder_of n at tn))"
  "is_Ok (PrivateClusterTemplatesServer (\<lambda>t. example_fields) k (server_builder_of n at tn))"
  "is_Ok (PrivateVirtualMachineTemplatesServer (\<lambda>t. example_fields) k (server_builder_of n at tn))"
  unfolding PrivateHostsServer_def PrivateHostPoolsServer_def PrivateHostClassesServer_def PrivateHubsServer_def
    PrivateClusterTemplatesServer_def PrivateVirtualMachineTemplatesServer_def
  by (rule is_Ok_bindR; simp add: example_generic)+

lemma example_templates:
  "is_Ok (PrivateClustersServer (\<lambda>t. example_fields) k (server_builder_of n at tn))"
  "is_Ok (PrivateVirtualMachinesServer (\<lambda>t. example_fields) k (server_builder_of n at tn))"
proof -
  have b: "sb_logger (server_builder_of n at tn)" "sb_tenancy (server_builder_of n at tn) = Some tn"
    by (simp_all add: server_builder_of_def)
  show "is_Ok (PrivateClustersServer (\<lambda>t. example_fields) k (server_builder_of n at tn))"
    "is_Ok (PrivateVirtualMachinesServer (\<lambda>t. example_fields) k (server_builder_of n at tn))"
    by (simp_all add: PrivateClustersServer_def PrivateVirtualMachinesServer_def b is_Ok_bindR example_generic example_daos)
qed

lemma example_publics_Build:
  assumes "is_Ok delegate"
  shows "is_Ok (public_Build (\<lambda>t. example_fields) pub priv (status_field (\<lambda>t. example_fields) pub) (server_builder_of n at tn)
      delegate)"
    "is_Ok (public_Build (\<lambda>t. example_fields) pub priv no_fields (server_builder_of n at tn) delegate)"
  using assms
  by (auto simp: public_Build_def server_builder_of_def status_field_def no_fields_def example_fields_def ByName_def fld_def
      mapper_Build_def is_Ok_iff)

lemma example_publics:
  "is_Ok (HostsServer (\<lambda>t. example_fields) k (server_builder_of n at tn))"
  "is_Ok (HostPoolsServer (\<lambda>t. example_fields) k (server_builder_of n at tn))"
  "is_Ok (HostClassesServer (\<lambda>t. example_fields) k (server_builder_of n at tn))"
  "is_Ok (ClusterTemplatesServer (\<lambda>t. example_fields) k (server_builder_of n at tn))"
  "is_Ok (VirtualMachineTemplatesServer (\<lambda>t. example_fields) k (server_builder_of n at tn))"
  "is_Ok (VirtualMachinesServer series (\<lambda>t. example_fields) k (server_builder_of n at tn))"
  unfolding HostsServer_def HostPoolsServer_def HostClassesServer_def ClusterTemplatesServer_def
    VirtualMachineTemplatesServer_def VirtualMachinesServer_def
  by (intro example_publics_Build example_privates is_Ok_bindR example_templates is_Ok_simps TrueI; simp)+

lemma example_clusters: "is_Ok (ClustersServer series name (\<lambda>t. example_fields) k (server_builder_of n at tn))"
proof -
  have b: "sb_logger (server_builder_of n at tn)" "sb_tenancy (server_builder_of n at tn) = Some tn"
    by (simp_all add: server_builder_of_def)
  show ?thesis
    by (simp add: ClustersServer_def b is_Ok_bindR example_daos example_publics_Build example_templates)
qed

lemma example_services:
  "is_Ok (cluster_services example_env (server_builder_of n at tn) (server_builder_of n pat ptn))"
  "is_Ok (host_services example_env (server_builder_of n at tn) (server_builder_of n pat ptn))"
  "is_Ok (vm_services example_env (server_builder_of n at tn) (server_builder_of n pat ptn))"
  "is_Ok (hub_services example_env (server_builder_of n pat ptn))"
  by (simp_all add: cluster_services_def host_services_def vm_services_def hub_services_def example_env_def Let_def
      is_Ok_bindR example_publics example_privates example_templates example_clusters)

lemma example_events: "is_Ok (event_services (env_schema example_env) example_events_env tn)"
  by (simp add: event_services_def EventsServer_Build_def PrivateEventsServer_Build_def example_events_env_def
      mapper_Build_def listener_Build_def AddPayloadCallback_def NewListener_def is_Ok_bindR Let_def)

lemma example_lower: "ToLower ''External'' = ''external''"
  by code_simp

lemma example_interceptors: "start_interceptors example_compile_regex example_subject_of (Some ()) 0 example_args =
    Ok (external_call example_subject_of [public_method], 0)"
  by (simp del: ToLower.simps add: start_interceptors_def select_authn_def example_args_def default_args_def example_lower
      GrpcGuestAuthnType_def GrpcExternalAuthnType_def external_Build_def example_compile_regex_def creating_def
      authn_Build_def panic_Build_def tm_Build_def tx_interceptor_Build_def with_logger_def)

lemma example_StartServer_Ok:
  obtains srv h where "example_StartServer = Ok srv" "gs_authn srv = external_call example_subject_of [public_method]"
    "gs_tenancy srv = DefaultTenancyLogic" "(''fulfillment.v1.Hosts'', h) \<in> set (gs_services srv)"
proof -
  obtain n where l: "start_logics (\<lambda>m. Ok ''payload'') example_args =
   Ok (server_builder_of n default_DetermineAssignedCreators DefaultTenancyLogic,
       server_builder_of n system_DetermineAssignedCreators SystemTenancyLogic, DefaultTenancyLogic)"
    using example_logics by blast
  let ?b = "server_builder_of n default_DetermineAssignedCreators DefaultTenancyLogic"
  let ?p = "server_builder_of n system_DetermineAssignedCreators SystemTenancyLogic"
  obtain cs cl hs vs us es where s: "cluster_services example_env ?b ?p = Ok (cs, cl)" "host_services example_env ?b ?p = Ok hs"
    "vm_services example_env ?b ?p = Ok vs" "hub_services example_env ?p = Ok us"
    "event_services (env_schema example_env) example_events_env DefaultTenancyLogic = Ok es"
    using example_services example_events unfolding is_Ok_iff by (metis surj_pair)
  obtain h where h: "(''fulfillment.v1.Hosts'', h) \<in> set hs"
    using s(2) by (auto simp: host_services_def Let_def bindR_eq_Ok)
  obtain srv where srv: "example_StartServer = Ok srv" "srv = \<lparr>gs_authn = external_call example_subject_of [public_method],
      gs_manager = 0, gs_tenancy = DefaultTenancyLogic, gs_metadata = remdups_adj (sort (grpcAuthnTrustedTokenIssuers example_args)),
      gs_services = cs @ hs @ vs @ us, gs_clusters = cl, gs_events = es\<rparr>"
    using l s by (simp add: example_StartServer_def StartServer_def example_interceptors MetadataServer_Build_def
      with_logger_def creating_def)
  show thesis by (rule that [OF srv(1), of h]) (use h srv(2) in simp_all)
qed

section \<open>Calls to it\<close>

text \<open>Jane, who belongs to two tenants, does what she wants with the hosts: the host of another tenant stays.\<close>

definition example_header :: "string list \<Rightarrow> ctx" where
  "example_header values = \<lparr>ctx_subject = None, ctx_tx = False, ctx_md = Some (\<lambda>h. values)\<rparr>"

theorem public_calls_respect_tenancy_witness:
  "\<exists>srv h. example_StartServer = Ok srv \<and> (''fulfillment.v1.Hosts'', h) \<in> set (gs_services srv) \<and>
    (\<forall>q. (''y'', example_row ''z'') \<in> set (tables (store (snd
      (unary_call srv ''fulfillment.v1.Hosts'' h q (example_header [''jane'']) (example_session example_db)))) ''hosts''))"
proof -
  let ?s = "example_session example_db" and ?j = "example_header [''jane'']"
  obtain srv h where srv: "example_StartServer = Ok srv" "gs_authn srv = external_call example_subject_of [public_method]"
    "gs_tenancy srv = DefaultTenancyLogic" "(''fulfillment.v1.Hosts'', h) \<in> set (gs_services srv)"
    by (rule example_StartServer_Ok)
  let ?c = "ContextWithSubject ?j \<lparr>source = ''jwt'', user = ''jane'', groups = Some [''a'', ''b'']\<rparr>"
  have a: "gs_authn srv ?j m = Ok ?c" for m
    by (simp add: srv(2) external_call_def example_header_def example_subject_of_def trim_space_def is_space_def)
  have v: "DetermineVisibleTenants (gs_tenancy srv) (TxIntoContext ?c) = Ok (Some [''a'', ''b'', ''shared''])"
    by (simp add: srv(3) TxIntoContext_def ContextWithSubject_def DefaultTenancyLogic_def default_DetermineVisibleTenants_def
      SubjectFromContext_def selectDelegate_def SubjectSourceServiceAccount_def SubjectSourceJwt_def JwtTenancyLogic_def
      jwt_DetermineVisibleTenants_def)
  have p: "is_public ''fulfillment.v1.Hosts''" by (simp add: is_public_def)
  have d: "distinct (map fst (tables (store ?s) ''hosts''))" "(''y'', example_row ''z'') \<in> set (tables (store ?s) ''hosts'')"
    "set (tenants (example_row ''z'')) \<inter> set (slice_list (Some [''a'', ''b'', ''shared''])) = {}"
    by (simp_all add: example_session_def example_db_def example_row_def)
  have "(''y'', example_row ''z'') \<in> set (tables (store (snd (unary_call srv ''fulfillment.v1.Hosts'' h q ?j ?s))) ''hosts'')" for q
    by (rule public_calls_respect_tenancy [OF srv(1) [unfolded example_StartServer_def] srv(4) p surjective_pairing a v d])
  with srv(1,4) show ?thesis by blast
qed

text \<open>A call with two subjects fails.\<close>

theorem calls_need_a_subject_witness:
  "\<exists>srv h. example_StartServer = Ok srv \<and> (''fulfillment.v1.Hosts'', h) \<in> set (gs_services srv) \<and>
    (\<forall>q. \<not> is_Ok (fst (unary_call srv ''fulfillment.v1.Hosts'' h q (example_header [''a'', ''b'']) (example_session example_db))))"
proof -
  let ?s = "example_session example_db" and ?j = "example_header [''a'', ''b'']"
  obtain srv h where srv: "example_StartServer = Ok srv" "(''fulfillment.v1.Hosts'', h) \<in> set (gs_services srv)"
    by (rule example_StartServer_Ok)
  have t: "ToLower (grpcAuthnType example_args) = ''external''"
    by (simp del: ToLower.simps add: example_args_def default_args_def example_lower)
  have m: "ctx_md ?j = None \<or> (\<exists>md. ctx_md ?j = Some md \<and> length (md ''x-subject'') \<noteq> 1)"
    by (simp add: example_header_def)
  have c: "example_compile_regex publicMethodRegex = Ok public_method" by (simp add: example_compile_regex_def)
  have "\<not> is_Ok (fst (unary_call srv ''fulfillment.v1.Hosts'' h q ?j ?s))" for q
    using calls_need_a_subject [OF srv(1) [unfolded example_StartServer_def] t c srv(2) m surjective_pairing] by simp
  with srv show ?thesis by blast
qed

end
