(* ===== verification/StartController.thy ===== *)
theory StartController
  imports Reconciler StartServer
begin

text \<open>
  \<open>internal/cmd/start_controller_cmd.go\<close>: the wait for the server and the reconcilers that the command starts. The
  trusted certificates and the connection to the server are arguments with their results. Times are nanoseconds of the
  monotonic clock.
\<close>

section \<open>Waiting for the server\<close>

text \<open>
  A check tells whether the server is serving, and how long it took. Between two checks the controller waits for the
  timer, \<open>None\<close>, or for the end of the context, with its error.
\<close>

record 's server_peer =
  health_Check :: "'s \<Rightarrow> bool res \<times> nat \<times> 's"
  select_Done :: "'s \<Rightarrow> error option \<times> 's"

definition wait_max :: nat where "wait_max = 60 * 10 ^ 9"
definition wait_interval :: nat where "wait_interval = 10 ^ 9"

text \<open>The error of the last check is wrapped; it is nil when the server answered but was not serving.\<close>

definition not_ready :: "bool res \<Rightarrow> error" where
  "not_ready r = (case r of
      Err e \<Rightarrow> Wrap ''server did not become ready after waiting for 1m0s'' e
    | _ \<Rightarrow> Fmt ''server did not become ready after waiting for 1m0s: %!w(<nil>)'')"

function wait_loop_server :: "'s server_peer \<Rightarrow> nat \<Rightarrow> nat \<Rightarrow> 's \<Rightarrow> unit res \<times> nat \<times> 's" where
  "wait_loop_server p start now s = (case health_Check p s of (r, d, s1) \<Rightarrow>
     if r = Ok True then (Ok (), now + d, s1)
     else if is_Panic r then (Panic ''check'', now + d, s1)
     else if now + d - start \<ge> wait_max then (Err (not_ready r), now + d, s1)
     else (case select_Done p s1 of
         (Some e, s2) \<Rightarrow> (Err e, now + d, s2)
       | (None, s2) \<Rightarrow> wait_loop_server p start (now + d + wait_interval) s2))"
  by pat_completeness auto
termination
  by (relation "measure (\<lambda>(p, start, now, s). start + wait_max - now)") (auto simp: wait_interval_def wait_max_def)

definition waitForServer :: "'s server_peer \<Rightarrow> nat \<Rightarrow> 's \<Rightarrow> unit res \<times> nat \<times> 's" where
  "waitForServer p now s = wait_loop_server p now now s"

declare wait_loop_server.simps [simp del]

text \<open>How a wait can end, with the bound of its time when every check takes at most \<open>D\<close>.\<close>

definition wait_end :: "'s server_peer \<Rightarrow> nat \<Rightarrow> nat \<Rightarrow> nat \<Rightarrow> unit res \<times> nat \<times> 's \<Rightarrow> bool" where
  "wait_end p D start now x \<longleftrightarrow> (case x of (r, now', s') \<Rightarrow>
     now \<le> now' \<and> now' \<le> start + wait_max + wait_interval + D \<and>
     (case r of
        Ok u \<Rightarrow> \<exists>s1. fst (health_Check p s1) = Ok True
      | Err e \<Rightarrow> start + wait_max \<le> now' \<or> (\<exists>s1. fst (select_Done p s1) = Some e)
      | Panic q \<Rightarrow> \<exists>s1. is_Panic (fst (health_Check p s1))))"

lemma wait_loop_server_end:
  assumes "\<And>s. fst (snd (health_Check p s)) \<le> D" "start \<le> now" "now \<le> start + wait_max + wait_interval"
  shows "wait_end p D start now (wait_loop_server p start now s)"
  using assms
proof (induction p start now s rule: wait_loop_server.induct)
  case (1 p start now s)
  obtain r d s1 where c: "health_Check p s = (r, d, s1)" by (cases "health_Check p s")
  have d: "d \<le> D" using "1.prems"(1) [of s] c by simp
  obtain k s2 where w: "select_Done p s1 = (k, s2)" by (cases "select_Done p s1")
  consider "r = Ok True" | "is_Panic r" | "r \<noteq> Ok True" "\<not> is_Panic r" "wait_max \<le> now + d - start"
    | e where "r \<noteq> Ok True" "\<not> is_Panic r" "\<not> wait_max \<le> now + d - start" "k = Some e"
    | "r \<noteq> Ok True" "\<not> is_Panic r" "\<not> wait_max \<le> now + d - start" "k = None"
    by (cases k) blast+
  note cases = this
  have step: "wait_loop_server p start now s = (if r = Ok True then (Ok (), now + d, s1)
     else if is_Panic r then (Panic ''check'', now + d, s1)
     else if now + d - start \<ge> wait_max then (Err (not_ready r), now + d, s1)
     else (case k of Some e \<Rightarrow> (Err e, now + d, s2)
       | None \<Rightarrow> wait_loop_server p start (now + d + wait_interval) s2))"
    by (subst wait_loop_server.simps) (simp add: c w split: option.split)
  have f: "fst (health_Check p s) = r" "fst (select_Done p s1) = k" using c w by simp_all
  from cases show ?case
  proof cases
    case 1
    then show ?thesis using d "1.prems"(2,3) f by (auto simp: step wait_end_def)
  next
    case 2
    then have "r \<noteq> Ok True" by auto
    then show ?thesis using 2 d "1.prems"(2,3) f by (auto simp: step wait_end_def)
  next
    case 3
    then show ?thesis using d "1.prems"(2,3) by (auto simp: step wait_end_def)
  next
    case (4 e)
    then show ?thesis using d "1.prems"(2,3) f by (auto simp: step wait_end_def)
  next
    case 5
    have "wait_end p D start (now + d + wait_interval) (wait_loop_server p start (now + d + wait_interval) s2)"
      using "1.IH" [OF c [symmetric] HOL.refl 5(1-3) w [symmetric] 5(4)] "1.prems" 5(3) by simp
    then show ?thesis using 5 by (auto simp: step wait_end_def split: res.splits)
  qed
qed

text \<open>
  C40. The controller waits for the server at most a minute, the second between two checks and the time of one check,
  whatever the server answers. When it goes on a check found the server serving; when it gives up with an error a
  minute has passed or the context has ended.
\<close>

theorem server_wait_is_bounded:
  assumes "\<And>s. fst (snd (health_Check p s)) \<le> D" "waitForServer p now s = (r, now', s')"
  shows "now' \<le> now + 61 * 10 ^ 9 + D \<and>
    (case r of
       Ok u \<Rightarrow> \<exists>s1. fst (health_Check p s1) = Ok True
     | Err e \<Rightarrow> now + 60 * 10 ^ 9 \<le> now' \<or> (\<exists>s1. fst (select_Done p s1) = Some e)
     | Panic q \<Rightarrow> \<exists>s1. is_Panic (fst (health_Check p s1)))"
  using wait_loop_server_end [OF assms(1), of now now s] assms(2)
  by (auto simp: waitForServer_def wait_end_def wait_max_def wait_interval_def split: res.splits)

text \<open>A server that is never serving, with checks that take half a second.\<close>

definition example_peer :: "unit server_peer" where
  "example_peer = \<lparr>health_Check = (\<lambda>s. (Ok False, 5 * 10 ^ 8, ())), select_Done = (\<lambda>s. (None, ()))\<rparr>"

theorem server_wait_is_bounded_witness:
  "fst (snd (waitForServer example_peer 0 ())) \<le> 61 * 10 ^ 9 + 5 * 10 ^ 8 \<and>
    \<not> is_Ok (fst (waitForServer example_peer 0 ()))"
proof -
  obtain r n u where w: "waitForServer example_peer 0 () = (r, n, u)" by (cases "waitForServer example_peer 0 ()")
  have "n \<le> 0 + 61 * 10 ^ 9 + 5 * 10 ^ 8 \<and> (case r of
       Ok u \<Rightarrow> \<exists>s1. fst (health_Check example_peer s1) = Ok True
     | Err e \<Rightarrow> 0 + 60 * 10 ^ 9 \<le> n \<or> (\<exists>s1. fst (select_Done example_peer s1) = Some e)
     | Panic q \<Rightarrow> \<exists>s1. is_Panic (fst (health_Check example_peer s1)))"
    by (rule server_wait_is_bounded [OF _ w]) (simp add: example_peer_def)
  then show ?thesis using w by (cases r) (simp_all add: example_peer_def)
qed

section \<open>The reconcilers\<close>

definition started_by :: "string \<Rightarrow> string" where
  "started_by field = ''has(event.'' @ field @ '') || (has(event.hub) && event.type == EVENT_TYPE_OBJECT_CREATED)''"

text \<open>The descriptors of the private API: the text of durations, the fields of the types, the methods and the messages.\<close>

record 'm registry =
  reg_show :: "int \<Rightarrow> string"
  reg_schema :: schema
  reg_methods :: "service_method list"
  reg_find :: "string \<Rightarrow> 'm res"

type_synonym ('cl, 'w) started = "reconciler \<times> 'w connection \<times> (choices \<Rightarrow> msg \<Rightarrow> (('cl, 'w) hubs_state, unit) act)"

definition start_reconciler :: "'m registry \<Rightarrow> 'w connection \<Rightarrow> string \<Rightarrow> string \<Rightarrow> string \<Rightarrow>
    (choices \<Rightarrow> msg \<Rightarrow> (('cl, 'w) hubs_state, unit) act) res \<Rightarrow> ('cl, 'w) started res" where
  "start_reconciler reg client what ty field function =
    bindR (creating (what @ '' reconciler function'') function) (\<lambda>f.
    creating (what @ '' reconciler'') (reconciler_Build (reg_show reg) (reg_schema reg) (reg_methods reg) (reg_find reg)
      (''private.v1.'' @ ty) (''*privatev1.'' @ ty)
      (NewReconciler\<lparr>rb_logger := True, rb_client := Some client, rb_function := Some f, rb_eventFilter := started_by field\<rparr>)))"

text \<open>\<open>failing\<close> adds the text of a step to its error.\<close>

definition failing :: "string \<Rightarrow> 'a res \<Rightarrow> 'a res" where
  "failing what r = (case r of Err e \<Rightarrow> Err (Wrap what e) | _ \<Rightarrow> r)"

definition StartController :: "('cfg, 'cl, 'j, 'w) kube_lib \<Rightarrow> 'm registry \<Rightarrow> 'p res \<Rightarrow> ('p \<Rightarrow> 'w connection res) \<Rightarrow>
    's server_peer \<Rightarrow> nat \<Rightarrow> 's \<Rightarrow> ('cl, 'w) started list res" where
  "StartController lib reg caPool client peer now s =
    bindR (failing ''failed to load trusted CA certificates'' caPool) (\<lambda>pool.
    bindR (creating ''gRPC client'' (client pool)) (\<lambda>c.
    bindR (failing ''failed to wait for server'' (fst (waitForServer peer now s))) (\<lambda>_.
    bindR (creating ''hub cache'' (HubCache_Build True (Some c) ::
      ('w connection \<times> (string \<Rightarrow> 'cl hub_entry option)) res)) (\<lambda>cache.
    bindR (start_reconciler reg c ''cluster'' ''Cluster'' ''cluster'' (cluster_function lib True (Some c) True)) (\<lambda>cl.
    bindR (start_reconciler reg c ''virtual machine'' ''VirtualMachine'' ''virtual_machine''
      (vm_function lib True (Some c) True)) (\<lambda>vm.
    bindR (start_reconciler reg c ''host'' ''Host'' ''host'' (host_function lib True (Some c) True)) (\<lambda>h.
    bindR (start_reconciler reg c ''host pool'' ''HostPool'' ''host_pool'' (hostpool_function lib True (Some c) True)) (\<lambda>hp.
    Ok [cl, vm, h, hp]))))))))"

end
