(* ===== verification/CommandLine.thy ===== *)
theory CommandLine
  imports ApiProofs
begin

text \<open>
  The command line tool (\<open>internal/tool.go\<close>, \<open>internal/context.go\<close>, \<open>internal/exit\<close>, \<open>main.go\<close>) and the gateway
  (\<open>internal/cmd/start_gateway_cmd.go\<close>). The command line library, the loggers, the streams and the network are arguments.
\<close>

section \<open>The tool\<close>

record ('l, 'cmd, 'io) tool =
  t_logger :: "'l option"
  t_sub :: "'cmd list"
  t_args :: "string list"
  t_in :: "'io option"
  t_out :: "'io option"
  t_err :: "'io option"

definition NewTool :: "('l, 'cmd, 'io) tool" where
  "NewTool = \<lparr>t_logger = None, t_sub = [], t_args = [], t_in = None, t_out = None, t_err = None\<rparr>"

definition AddCommand :: "'cmd \<Rightarrow> ('l, 'cmd, 'io) tool \<Rightarrow> ('l, 'cmd, 'io) tool" where
  "AddCommand c b = b\<lparr>t_sub := t_sub b @ [c]\<rparr>"

definition AddCommands :: "'cmd list \<Rightarrow> ('l, 'cmd, 'io) tool \<Rightarrow> ('l, 'cmd, 'io) tool" where
  "AddCommands cs b = b\<lparr>t_sub := t_sub b @ cs\<rparr>"

definition AddArgs :: "string list \<Rightarrow> ('l, 'cmd, 'io) tool \<Rightarrow> ('l, 'cmd, 'io) tool" where
  "AddArgs xs b = b\<lparr>t_args := t_args b @ xs\<rparr>"

definition SetArgs :: "string list \<Rightarrow> ('l, 'cmd, 'io) tool \<Rightarrow> ('l, 'cmd, 'io) tool" where
  "SetArgs xs b = b\<lparr>t_args := xs\<rparr>"

definition Tool_Build :: "('l, 'cmd, 'io) tool \<Rightarrow> ('l, 'cmd, 'io) tool res" where
  "Tool_Build b =
    (if length (t_args b) = 0
     then Err (Fmt ''at least one command line argument (usually the name of the binary) is required'')
     else if t_in b = None then Err (Fmt ''standard input stream is mandatory'')
     else if t_out b = None then Err (Fmt ''standard output stream is mandatory'')
     else if t_err b = None then Err (Fmt ''standard error output stream is mandatory'')
     else Ok b)"

section \<open>The context\<close>

text \<open>
  The tool and the logger of a context. The type assertion comes before the check of the value, so a context without the
  value panics with the message of the assertion; a nil pointer that was put in the context gives the other one.
\<close>

record ('t, 'l) tool_ctx =
  ctx_tool :: "'t option option"
  ctx_logger :: "'l option option"

definition from_context :: "string \<Rightarrow> string \<Rightarrow> 'a option option \<Rightarrow> 'a res" where
  "from_context what go v = (case v of
      None \<Rightarrow> Panic (''interface conversion: interface {} is nil, not '' @ go)
    | Some None \<Rightarrow> Panic (''failed to get '' @ what @ '' from context'')
    | Some (Some x) \<Rightarrow> Ok x)"

definition ToolFromContext :: "('t, 'l) tool_ctx \<Rightarrow> 't res" where
  "ToolFromContext c = from_context ''tool'' ''*internal.Tool'' (ctx_tool c)"

definition ToolIntoContext :: "'t option \<Rightarrow> ('t, 'l) tool_ctx \<Rightarrow> ('t, 'l) tool_ctx" where
  "ToolIntoContext t c = c\<lparr>ctx_tool := Some t\<rparr>"

definition LoggerFromContext :: "('t, 'l) tool_ctx \<Rightarrow> 'l res" where
  "LoggerFromContext c = from_context ''logger'' ''*slog.Logger'' (ctx_logger c)"

definition LoggerIntoContext :: "'l option \<Rightarrow> ('t, 'l) tool_ctx \<Rightarrow> ('t, 'l) tool_ctx" where
  "LoggerIntoContext l c = c\<lparr>ctx_logger := Some l\<rparr>"

section \<open>Running\<close>

text \<open>
  The errors of a command: the exit code of \<open>internal/exit\<close>, or another error. \<open>run_Execute\<close> is the library: it runs a
  command with the subcommands and the arguments, calls the hook before the command with its context, and runs the
  command with the context that the hook returns.
\<close>

datatype run_error = ExitError int | OtherError error

type_synonym ('t, 'l) hook = "('t, 'l) tool_ctx \<Rightarrow> ('t, 'l) tool_ctx res"

record ('t, 'l, 'cmd, 'io) command_lib =
  default_logger :: "'io option \<Rightarrow> 'io option \<Rightarrow> 'l res"
  configured_logger :: "'io option \<Rightarrow> 'io option \<Rightarrow> 'l res"
  run_Execute :: "'cmd list \<Rightarrow> string list \<Rightarrow> ('t, 'l) hook \<Rightarrow> run_error option"

text \<open>The hook \<open>run\<close> of the tool: a logger that the tool made itself is replaced by the one of the flags.\<close>

definition Tool_hook :: "('t, 'l, 'cmd, 'io) command_lib \<Rightarrow> ('l, 'cmd, 'io) tool \<Rightarrow> 't \<Rightarrow> bool \<Rightarrow> 'l \<Rightarrow> ('t, 'l) hook" where
  "Tool_hook lib t this owned logger c =
    bindR (if owned then configured_logger lib (t_out t) (t_err t) else Ok logger) (\<lambda>l.
    Ok (LoggerIntoContext (Some l) (ToolIntoContext (Some this) c)))"

definition Tool_Run :: "('t, 'l, 'cmd, 'io) command_lib \<Rightarrow> ('l, 'cmd, 'io) tool \<Rightarrow> 't \<Rightarrow> run_error option res" where
  "Tool_Run lib t this =
    bindR (case t_logger t of
        Some l \<Rightarrow> Ok (l, False)
      | None \<Rightarrow> bindR (default_logger lib (t_out t) (t_err t)) (\<lambda>l. Ok (l, True))) (\<lambda>(logger, owned).
    Ok (run_Execute lib (t_sub t) (List.tl (t_args t)) (Tool_hook lib t this owned logger)))"

text \<open>The exit code of the process: the one of the error when it has one.\<close>

definition main_exit :: "run_error option res \<Rightarrow> int res" where
  "main_exit r = (case r of
      Ok None \<Rightarrow> Ok 0
    | Ok (Some (ExitError n)) \<Rightarrow> Ok n
    | Ok (Some (OtherError e)) \<Rightarrow> Ok 1
    | Err e \<Rightarrow> Ok 1
    | Panic p \<Rightarrow> Panic p)"

definition main :: "('t, 'l, 'cmd, 'io) command_lib \<Rightarrow> 'cmd list \<Rightarrow> 't \<Rightarrow> string list \<Rightarrow> 'io \<Rightarrow> 'io \<Rightarrow> 'io \<Rightarrow> int res" where
  "main lib commands this osArgs stdin stdout stderr =
    (case Tool_Build ((AddCommands commands (AddArgs osArgs NewTool))\<lparr>t_in := Some stdin, t_out := Some stdout,
        t_err := Some stderr\<rparr>) of
       Ok t \<Rightarrow> main_exit (Tool_Run lib t this)
     | _ \<Rightarrow> Ok 1)"

text \<open>Every command finds the tool and a logger in its context, whoever made the logger.\<close>

lemma hook_gives_context:
  assumes "Tool_hook lib t this owned logger c = Ok c'"
  shows "ToolFromContext c' = Ok this \<and> (\<exists>l. LoggerFromContext c' = Ok l \<and> (\<not> owned \<longrightarrow> l = logger))"
  using assms
  by (auto simp: Tool_hook_def ToolFromContext_def LoggerFromContext_def from_context_def LoggerIntoContext_def
      ToolIntoContext_def bindR_eq_Ok split: if_splits)

text \<open>The messages of the functions are only seen when nil was put in the context.\<close>

lemma missing_value_panics:
  "ctx_tool c = None \<Longrightarrow> ToolFromContext c = Panic ''interface conversion: interface {} is nil, not *internal.Tool''"
  by (simp add: ToolFromContext_def from_context_def)

section \<open>The gateway\<close>

text \<open>The handlers that are registered, one for each public service; \<open>register\<close> is the generated function of a service.\<close>

definition gateway_services :: "string list" where
  "gateway_services = [''fulfillment.v1.ClusterTemplates'', ''fulfillment.v1.Clusters'', ''fulfillment.v1.HostClasses'',
     ''fulfillment.v1.Hosts'', ''fulfillment.v1.HostPools'', ''fulfillment.v1.VirtualMachineTemplates'',
     ''fulfillment.v1.VirtualMachines'']"

definition StartGateway :: "'a res \<Rightarrow> 'c res \<Rightarrow> ('c \<Rightarrow> string \<Rightarrow> 'h res) \<Rightarrow> ('h list \<Rightarrow> 'h list) res \<Rightarrow> ('a \<times> 'h list) res" where
  "StartGateway listener client register cors =
    bindR listener (\<lambda>l. bindR client (\<lambda>c. bindR (mapR (register c) gateway_services) (\<lambda>hs.
    bindR (creating ''CORS middleware'' cors) (\<lambda>middleware. Ok (l, middleware hs)))))"

text \<open>The gateway serves exactly the public services of objects that the server registers.\<close>

definition registered_names :: "string list" where
  "registered_names = [''fulfillment.v1.ClusterTemplates'', ''private.v1.ClusterTemplates'', ''fulfillment.v1.Clusters'',
     ''private.v1.Clusters'', ''fulfillment.v1.HostClasses'', ''private.v1.HostClasses'', ''fulfillment.v1.Hosts'',
     ''private.v1.Hosts'', ''fulfillment.v1.HostPools'', ''private.v1.HostPools'',
     ''fulfillment.v1.VirtualMachineTemplates'', ''private.v1.VirtualMachineTemplates'', ''fulfillment.v1.VirtualMachines'',
     ''private.v1.VirtualMachines'', ''private.v1.Hubs'']"

lemma services_names:
  "cluster_services env b pb = Ok (cs, cl) \<Longrightarrow> map fst cs = take 4 registered_names"
  "host_services env b pb = Ok hs \<Longrightarrow> map fst hs = take 6 (drop 4 registered_names)"
  "vm_services env b pb = Ok vs \<Longrightarrow> map fst vs = take 4 (drop 10 registered_names)"
  "hub_services env pb = Ok us \<Longrightarrow> map fst us = drop 14 registered_names"
  by (auto simp: cluster_services_def host_services_def vm_services_def hub_services_def Let_def bindR_eq_Ok
      registered_names_def)

lemma StartServer_names:
  assumes "StartServer prepare compile decode marshal env ev pool address a = Ok srv"
  shows "map fst (gs_services srv) = registered_names"
proof -
  obtain b pb cs cl hs vs us where "cluster_services env b pb = Ok (cs, cl)" "host_services env b pb = Ok hs"
    "vm_services env b pb = Ok vs" "hub_services env pb = Ok us" "gs_services srv = cs @ hs @ vs @ us"
    using assms by (auto simp: StartServer_def bindR_eq_Ok)
  then show ?thesis by (simp add: services_names) (simp add: registered_names_def)
qed

lemma gateway_serves_the_public_services:
  assumes "StartServer prepare compile decode marshal env ev pool address a = Ok srv"
  shows "set gateway_services = set (filter is_public (map fst (gs_services srv)))"
  unfolding StartServer_names [OF assms] is_public_def by code_simp

end
