(* ===== verification/DatabaseTool.thy ===== *)
theory DatabaseTool
  imports Prelude
begin

text \<open>
  \<open>internal/database/database_tool.go\<close>: the tool that the server uses when it starts, to wait for the database and to
  run its migrations. The package \<open>net/url\<close>, the client of PostgreSQL and the migrations library are arguments; the
  state \<open>'w\<close> is what they act on. The wait has no limit, so it is a partial function, and not returning is \<open>None\<close>.
\<close>

section \<open>The builder\<close>

record tool_builder =
  tb_logger :: bool
  tb_url :: string

definition SetURL :: "string \<Rightarrow> tool_builder \<Rightarrow> tool_builder" where
  "SetURL v b = b\<lparr>tb_url := v\<rparr>"

text \<open>\<open>flags\<close> is the lookup of a flag by its name. A failure is logged, with the logger of the builder.\<close>

definition urlFlagName :: string where "urlFlagName = ''db-url''"

definition tool_SetFlags :: "(string \<Rightarrow> string res) option \<Rightarrow> tool_builder \<Rightarrow> tool_builder res" where
  "tool_SetFlags flags b = (case flags of
      None \<Rightarrow> Ok b
    | Some get \<Rightarrow> (case get urlFlagName of
        Ok v \<Rightarrow> Ok (SetURL v b)
      | Err e \<Rightarrow> if tb_logger b then Ok b else Panic ''nil pointer dereference''
      | Panic p \<Rightarrow> Panic p))"

definition tool_Build :: "tool_builder \<Rightarrow> string res" where
  "tool_Build b = (if \<not> tb_logger b then Err (Fmt ''logger is mandatory'')
     else if tb_url b = [] then Err (Fmt ''connection URL is mandatory'')
     else Ok (tb_url b))"

section \<open>The libraries\<close>

text \<open>
  Connections are opened and closed, with an error when closing that is only logged; \<open>sleep\<close> lets a second pass. The
  library of the migrations finds its files, opens the database, tells the version and whether it is dirty, and runs.
\<close>

record ('u, 'w) database_lib =
  url_Parse :: "string \<Rightarrow> 'u res"
  query_Set :: "string \<Rightarrow> string \<Rightarrow> 'u \<Rightarrow> 'u"
  set_Scheme :: "string \<Rightarrow> 'u \<Rightarrow> 'u"
  url_String :: "'u \<Rightarrow> string"
  pgx_Connect :: "string \<Rightarrow> ('w, unit) act"
  conn_Close :: "'w \<Rightarrow> 'w"
  sleep :: "'w \<Rightarrow> 'w"
  iofs_New :: "unit res"
  migrate_New :: "string \<Rightarrow> 'w \<Rightarrow> unit res"
  Version :: "'w \<Rightarrow> (nat \<times> bool) res"
  Up :: "('w, unit) act"
  ErrNilVersion :: error
  ErrNoChange :: error

section \<open>Waiting for the database\<close>

partial_function (option) wait_loop :: "('u, 'w) database_lib \<Rightarrow> string \<Rightarrow> 'w \<Rightarrow> (unit res \<times> 'w) option" where
  "wait_loop lib url w = (case pgx_Connect lib url w of
      (Err e, w1) \<Rightarrow> wait_loop lib url (sleep lib w1)
    | (Ok u, w1) \<Rightarrow> Some (Ok (), conn_Close lib w1)
    | (Panic p, w1) \<Rightarrow> Some (Panic p, w1))"

definition tool_Wait :: "('u, 'w) database_lib \<Rightarrow> string \<Rightarrow> 'w \<Rightarrow> (unit res \<times> 'w) option" where
  "tool_Wait lib url w = (case url_Parse lib url of
      Ok parsed \<Rightarrow> wait_loop lib (url_String lib (query_Set lib ''connect_timeout'' ''1'' parsed)) w
    | Err e \<Rightarrow> Some (Err e, w)
    | Panic p \<Rightarrow> Some (Panic p, w))"

text \<open>The state before the attempt with a number.\<close>

definition attempt :: "('u, 'w) database_lib \<Rightarrow> string \<Rightarrow> nat \<Rightarrow> 'w \<Rightarrow> 'w" where
  "attempt lib url n = (\<lambda>w. sleep lib (snd (pgx_Connect lib url w))) ^^ n"

definition connects :: "('u, 'w) database_lib \<Rightarrow> string \<Rightarrow> 'w \<Rightarrow> bool" where
  "connects lib url w \<longleftrightarrow> (case fst (pgx_Connect lib url w) of Err e \<Rightarrow> False | _ \<Rightarrow> True)"

lemma attempt_Suc: "attempt lib url (Suc n) w = attempt lib url n (sleep lib (snd (pgx_Connect lib url w)))"
  by (simp add: attempt_def funpow_Suc_right del: funpow.simps)

lemma wait_loop_connects:
  assumes "connects lib url (attempt lib url n w)"
  shows "\<exists>r. wait_loop lib url w = Some r"
  using assms
proof (induction n arbitrary: w)
  case 0
  then show ?case
    by (subst wait_loop.simps) (auto simp: attempt_def connects_def split: prod.splits res.splits)
next
  case (Suc n)
  then show ?case
    by (subst wait_loop.simps) (auto simp: attempt_Suc split: prod.splits res.splits)
qed

lemma wait_loop_Some:
  assumes "wait_loop lib url w = Some r"
  shows "\<exists>n. connects lib url (attempt lib url n w)"
proof (rule wait_loop.raw_induct [where P = "\<lambda>lib url w r. \<exists>n. connects lib url (attempt lib url n w)", OF _ assms])
  fix f lib url w r
  assume hyp: "\<And>lib url w r. f lib url w = Some r \<Longrightarrow> \<exists>n. connects lib url (attempt lib url n w)"
    and step: "(case pgx_Connect lib url w of (Ok u, w1) \<Rightarrow> Some (Ok (), conn_Close lib w1)
      | (Err e, w1) \<Rightarrow> f lib url (sleep lib w1) | (Panic p, w1) \<Rightarrow> Some (Panic p, w1)) = Some r"
  obtain cr w1 where c: "pgx_Connect lib url w = (cr, w1)" by (cases "pgx_Connect lib url w")
  show "\<exists>n. connects lib url (attempt lib url n w)"
  proof (cases cr)
    case (Err e)
    then have "f lib url (sleep lib w1) = Some r" using step c by simp
    then obtain n where "connects lib url (attempt lib url n (sleep lib w1))" using hyp by blast
    then have "connects lib url (attempt lib url (Suc n) w)" using c by (simp add: attempt_Suc)
    then show ?thesis by blast
  qed (use c in \<open>auto intro!: exI [of _ 0] simp: attempt_def connects_def\<close>)
qed

text \<open>The wait ends when some attempt connects, and only then: the end of the context doesn't end it.\<close>

lemma wait_returns_iff: "(\<exists>r. wait_loop lib url w = Some r) \<longleftrightarrow> (\<exists>n. connects lib url (attempt lib url n w))"
  by (metis wait_loop_connects wait_loop_Some)

lemma canceled_wait_never_returns:
  assumes "\<And>w. fst (pgx_Connect lib url w) = Err Canceled"
  shows "wait_loop lib url w = None"
proof (cases "wait_loop lib url w")
  case (Some r)
  then show ?thesis using wait_loop_Some [OF Some] assms by (simp add: connects_def)
qed

section \<open>Migrations\<close>

text \<open>The versions are only logged, but their errors count, except for the one of a schema that does not exist yet.\<close>

definition Migrate :: "('u, 'w) database_lib \<Rightarrow> string \<Rightarrow> ('w, unit) act" where
  "Migrate lib url =
    bind (lift (url_Parse lib url)) (\<lambda>parsed.
    bind (lift (iofs_New lib)) (\<lambda>_.
    bind (\<lambda>w. (migrate_New lib (url_String lib (set_Scheme lib ''pgx5'' parsed)) w, w)) (\<lambda>_.
    bind (\<lambda>w. (case Version lib w of
          Ok v \<Rightarrow> Ok ()
        | Err e \<Rightarrow> if e = ErrNilVersion lib then Ok () else Err e
        | Panic p \<Rightarrow> Panic p, w)) (\<lambda>_.
    bind (catch (Up lib) (\<lambda>e. if e = ErrNoChange lib then ret () else fail e)) (\<lambda>_.
    (\<lambda>w. (bindR (Version lib w) (\<lambda>v. Ok ()), w)))))))"

text \<open>After a successful migration the schema has a version, and the migrations ran once or there was nothing to do.\<close>

lemma Migrate_Ok:
  assumes "Migrate lib url w = (Ok (), w')"
  shows "\<exists>r v. Up lib w = (r, w') \<and> (r = Ok () \<or> r = Err (ErrNoChange lib)) \<and> Version lib w' = Ok v"
  using assms
  by (auto simp: Migrate_def bind_Ok_iff catch_Ok_iff lift_def ret_def fail_def bindR_eq_Ok split: if_splits)

text \<open>The start of the server: what happens before the pool of connections is created.\<close>

definition prepare_database ::
  "('u, 'w) database_lib \<Rightarrow> (string \<Rightarrow> string res) \<Rightarrow> 'w \<Rightarrow> (string res \<times> 'w) option" where
  "prepare_database lib flags w =
    (case bindR (tool_SetFlags (Some flags) \<lparr>tb_logger = True, tb_url = []\<rparr>) tool_Build of
      Ok url \<Rightarrow> (case tool_Wait lib url w of
          None \<Rightarrow> None
        | Some (Ok u, w1) \<Rightarrow> Some (bind (Migrate lib url) (\<lambda>_. ret url) w1)
        | Some (Err e, w1) \<Rightarrow> Some (Err e, w1)
        | Some (Panic p, w1) \<Rightarrow> Some (Panic p, w1))
    | Err e \<Rightarrow> Some (Err e, w)
    | Panic p \<Rightarrow> Some (Panic p, w))"

end
