(* ===== verification/DevCommands.thy ===== *)
theory DevCommands
  imports CommandLine Listener DatabaseTool
begin

text \<open>
  The other commands of the tool: \<open>version\<close> (\<open>internal/cmd/version_cmd.go\<close>) and the two tools for developers,
  \<open>internal/cmd/dev/dev_listen_cmd.go\<close> and \<open>dev_watch_cmd.go\<close>, with the client of the API that the second one uses,
  \<open>internal/clients/api/api_client.go\<close>. What a command writes to the log is its result, so it is part of the model.
\<close>

section \<open>The tree of commands\<close>

text \<open>The first argument is the name that the command line library shows, the other ones are its subcommands.\<close>

datatype command_tree = Command string "command_tree list"

definition NewStartCommand :: command_tree where
  "NewStartCommand = Command ''start'' [Command ''controller'' [], Command ''gateway'' [], Command ''server'' []]"

definition NewDevCommand :: command_tree where
  "NewDevCommand = Command ''dev'' [Command ''listen'' [], Command ''watch'' []]"

section \<open>The version\<close>

text \<open>The build information is the settings of the binary, when there are any.\<close>

fun getSetting :: "(string \<times> string) list \<Rightarrow> string \<Rightarrow> string" where
  "getSetting [] key = []"
| "getSetting ((k, v) # settings) key = (if k = key then v else getSetting settings key)"

definition known :: "(string \<times> string) list option \<Rightarrow> string \<Rightarrow> string" where
  "known info key = (case info of
      None \<Rightarrow> ''unknown''
    | Some settings \<Rightarrow> if getSetting settings key \<noteq> [] then getSetting settings key else ''unknown'')"

definition version_run :: "(string \<times> string) list option \<Rightarrow> ('t, 'l) tool_ctx \<Rightarrow> ('l \<times> (string \<times> string) list) res" where
  "version_run info c = bindR (LoggerFromContext c) (\<lambda>logger.
     Ok (logger, [(''commit'', known info ''vcs.revision''), (''time'', known info ''vcs.time'')]))"

text \<open>The first setting with a key wins, and the log never has an empty value.\<close>

lemma getSetting_map_of: "getSetting settings key = (case map_of settings key of Some v \<Rightarrow> v | None \<Rightarrow> [])"
  by (induction settings key rule: getSetting.induct) auto

lemma version_not_empty: "version_run info c = Ok (logger, xs) \<Longrightarrow> (k, v) \<in> set xs \<Longrightarrow> v \<noteq> []"
  by (auto simp: version_run_def bindR_eq_Ok known_def split: option.splits if_splits)

section \<open>Listening to a channel\<close>

datatype 'p log_entry =
    ReceivedPayload string 'p
  | ListenerFinished
  | ListenerFailed error
  | WaitingForSignal
  | SignalReceived

text \<open>The callback writes the payload to the log, which is the state of the callbacks.\<close>

definition processPayload :: "string \<Rightarrow> 'p \<Rightarrow> ('p log_entry list, unit) act" where
  "processPayload ch p w = (Ok (), w @ [ReceivedPayload ch p])"

definition wrapped :: "string \<Rightarrow> 'a res \<Rightarrow> 'a res" where
  "wrapped what r = (case r of Ok x \<Rightarrow> Ok x | Err e \<Rightarrow> Err (Wrap what e) | Panic p \<Rightarrow> Panic p)"

lemma wrapped_Ok [simp]: "wrapped what r = Ok x \<longleftrightarrow> r = Ok x"
  by (cases r) (simp_all add: wrapped_def)

definition payload_listener :: "string \<Rightarrow> string \<Rightarrow> ('p, 'p log_entry list) listener" where
  "payload_listener dbUrl ch =
     AddPayloadCallback (processPayload ch) (NewListener\<lparr>listener.url := dbUrl, listener.channel := ch\<rparr>)"

text \<open>The preparation of the listener: the flag, the URL of the database and the builder.\<close>

definition listen_prepare ::
  "(int \<Rightarrow> string) \<Rightarrow> (string \<Rightarrow> string res) \<Rightarrow> string \<Rightarrow> ('p, 'p log_entry list) listener res" where
  "listen_prepare show' flags ch =
    (if ch = [] then Err (Fmt ''channel name is mandatory'')
     else bindR (wrapped ''failed to get database connection details''
         (bindR (tool_SetFlags (Some flags) \<lparr>tb_logger = True, tb_url = []\<rparr>) tool_Build)) (\<lambda>dbUrl.
       wrapped ''failed to create listener'' (listener_Build show' True (payload_listener dbUrl ch))))"

text \<open>
  The command: after the listener, however it ended, it waits for the signal, which comes or not. A command that is still listening or
  waiting has no result.
\<close>

definition listen_run :: "(int \<Rightarrow> string) \<Rightarrow> (string \<Rightarrow> 'p res) \<Rightarrow> (string \<Rightarrow> string res) \<Rightarrow> string \<Rightarrow> ('t, 'l) tool_ctx \<Rightarrow>
    reply list \<Rightarrow> bool \<Rightarrow> unit res option \<times> 'p log_entry list" where
  "listen_run show' decode flags ch c replies signalled =
    (case bindR (LoggerFromContext c) (\<lambda>_. listen_prepare show' flags ch) of
       Err e \<Rightarrow> (Some (Err e), [])
     | Panic p \<Rightarrow> (Some (Panic p), [])
     | Ok li \<Rightarrow> (case Listen decode li \<lparr>conn = False, script = replies, exchanged = [], world = []\<rparr> of
         (None, t) \<Rightarrow> (None, world t)
       | (Some (Panic p), t) \<Rightarrow> (Some (Panic p), world t)
       | (Some r, t) \<Rightarrow> (let w = world t @
             [case r of Err e \<Rightarrow> if is_error Canceled e then ListenerFinished else ListenerFailed e | _ \<Rightarrow> ListenerFinished,
              WaitingForSignal]
           in if signalled then (Some (Ok ()), w @ [SignalReceived]) else (None, w))))"

text \<open>What the command logs of the notifications is their payloads, all of them and in order.\<close>

definition logged_payloads :: "'p log_entry list \<Rightarrow> 'p list" where
  "logged_payloads w = concat (map (\<lambda>x. case x of ReceivedPayload ch p \<Rightarrow> [p] | _ \<Rightarrow> []) w)"

lemma logged_payloads_simps [simp]:
  "logged_payloads [] = []" "logged_payloads (v @ w) = logged_payloads v @ logged_payloads w"
  "logged_payloads (ReceivedPayload ch p # w) = p # logged_payloads w"
  "logged_payloads (ListenerFinished # w) = logged_payloads w" "logged_payloads (ListenerFailed e # w) = logged_payloads w"
  "logged_payloads (WaitingForSignal # w) = logged_payloads w" "logged_payloads (SignalReceived # w) = logged_payloads w"
  by (simp_all add: logged_payloads_def)

lemma handle_payload: "handle (payload_listener u ch) p w = w @ [ReceivedPayload ch p]"
  by (simp add: handle_def payload_listener_def AddPayloadCallback_def NewListener_def processPayload_def bind_def
      catch_def ret_def)

lemma fold_payloads: "logged_payloads (fold (handle (payload_listener u ch)) ps w) = logged_payloads w @ ps"
  by (induction ps arbitrary: w) (simp_all add: handle_payload)

lemma listen_prepare_Ok:
  "listen_prepare show' flags ch = Ok li \<Longrightarrow> ch \<noteq> [] \<and> (\<exists>u. u \<noteq> [] \<and> flags urlFlagName = Ok u \<and> li = payload_listener u ch)"
  by (auto simp: listen_prepare_def bindR_eq_Ok tool_SetFlags_def SetURL_def tool_Build_def listener_Build_def
      split: if_splits res.splits)

lemma listen_command_logs_the_payloads:
  assumes "listen_prepare show' flags ch = Ok li" "LoggerFromContext c = Ok lg"
    "Listen decode li \<lparr>conn = False, script = replies, exchanged = [], world = []\<rparr> = (r, t)"
    "listen_run show' decode flags ch c replies signalled = (r', w)"
  shows "logged_payloads w = payloads decode (exchanged t)"
proof -
  obtain u where u: "li = payload_listener u ch" using listen_prepare_Ok [OF assms(1)] by blast
  have "readyCallbacks li = []" by (simp add: u payload_listener_def AddPayloadCallback_def NewListener_def)
  from doesD [OF delivers_Listen [OF this] assms(3)]
  have "world t = fold (handle li) (payloads decode (exchanged t)) []" by (auto simp: delivers_def)
  then have "logged_payloads (world t) = payloads decode (exchanged t)" unfolding u by (simp add: fold_payloads)
  with assms show ?thesis
    by (auto simp: listen_run_def Let_def split: option.splits res.splits if_splits)
qed

section \<open>The client of the API\<close>

text \<open>
  The flags are the ones of the command line; the name that \<open>SetFlags\<close> takes is not stored, and \<open>Build\<close> always uses the
  name of the gRPC client of the library.
\<close>

record 'f client_builder =
  cb_logger :: bool
  cb_flags :: "'f option"

definition NewClient :: "'f client_builder" where
  "NewClient = \<lparr>cb_logger = False, cb_flags = None\<rparr>"

definition client_SetLogger :: "bool \<Rightarrow> 'f client_builder \<Rightarrow> 'f client_builder" where
  "client_SetLogger l b = b\<lparr>cb_logger := l\<rparr>"

definition client_SetFlags :: "'f option \<Rightarrow> string \<Rightarrow> 'f client_builder \<Rightarrow> 'f client_builder" where
  "client_SetFlags flags name b = b\<lparr>cb_flags := flags\<rparr>"

text \<open>The library: the connection for the flags with a prefix, the generated client of a service, and \<open>Close\<close>.\<close>

record ('f, 'c, 'h) client_lib =
  GrpcClientName :: string
  network_Build :: "'f option \<Rightarrow> string \<Rightarrow> 'c res"
  service_Client :: "'c \<Rightarrow> string \<Rightarrow> 'h"
  Close_conn :: "'c \<Rightarrow> unit res"

record ('c, 'h) client =
  grpcConn :: "'c option"
  ClusterTemplates :: 'h
  Clusters :: 'h
  Events :: 'h
  Hubs :: 'h

definition client_Build :: "('f, 'c, 'h) client_lib \<Rightarrow> 'f client_builder \<Rightarrow> ('c, 'h) client res" where
  "client_Build lib b =
    (if \<not> cb_logger b then Err (Fmt ''logger is mandatory'')
     else bindR (wrapped ''failed to create gRPC client'' (network_Build lib (cb_flags b) (GrpcClientName lib))) (\<lambda>c.
       Ok \<lparr>grpcConn = Some c,
         ClusterTemplates = service_Client lib c ''fulfillment.v1.ClusterTemplates'',
         Clusters = service_Client lib c ''fulfillment.v1.Clusters'',
         Events = service_Client lib c ''events.v1.Events'',
         Hubs = service_Client lib c ''private.v1.Hubs''\<rparr>))"

definition client_Close :: "('f, 'c, 'h) client_lib \<Rightarrow> ('c, 'h) client \<Rightarrow> unit res" where
  "client_Close lib x = (case grpcConn x of Some c \<Rightarrow> Close_conn lib c | None \<Rightarrow> Ok ())"

lemma client_name_is_ignored:
  "client_Build lib (client_SetFlags flags name b) = client_Build lib (client_SetFlags flags name' b)"
  by (simp add: client_SetFlags_def)

section \<open>Watching events\<close>

text \<open>The end of a stream is an error of the library, maybe wrapped.\<close>

definition EOF :: error where "EOF = ExtError ''EOF''"

datatype 'e watch_entry = ReceivedEvent 'e | WatchSignal | CloseFailed error

text \<open>The stream may never end, and then the loop does not return.\<close>

partial_function (option) recv_loop ::
  "('st \<Rightarrow> 'e res \<times> 'st) \<Rightarrow> 'st \<Rightarrow> 'e watch_entry list \<Rightarrow> (unit res \<times> 'e watch_entry list) option" where
  "recv_loop Recv st w = (case Recv st of
      (Ok x, st1) \<Rightarrow> recv_loop Recv st1 (w @ [ReceivedEvent x])
    | (Err e, st1) \<Rightarrow> Some (if is_error EOF e then Ok () else Err (Wrap ''stream failed'' e), w)
    | (Panic p, st1) \<Rightarrow> Some (Panic p, w))"

definition close_log :: "unit res \<Rightarrow> 'e watch_entry list" where
  "close_log r = (case r of Err e \<Rightarrow> [CloseFailed e] | _ \<Rightarrow> [])"

text \<open>After the end of the stream the command waits for the signal; the client is closed when the command returns.\<close>

definition watch_run :: "('f, 'c, 'h) client_lib \<Rightarrow> ('h \<Rightarrow> string option \<Rightarrow> 'st res) \<Rightarrow> ('st \<Rightarrow> 'e res \<times> 'st) \<Rightarrow>
    'f \<Rightarrow> string \<Rightarrow> ('t, 'l) tool_ctx \<Rightarrow> bool \<Rightarrow> (unit res \<times> 'e watch_entry list) option" where
  "watch_run lib Watch Recv flags f c signalled =
    (case bindR (LoggerFromContext c) (\<lambda>_.
         client_Build lib (client_SetFlags (Some flags) (GrpcClientName lib) (client_SetLogger True NewClient))) of
       Err e \<Rightarrow> Some (Err e, [])
     | Panic p \<Rightarrow> Some (Panic p, [])
     | Ok cl \<Rightarrow> (case wrapped ''failed to start stream'' (Watch (Events cl) (Some f)) of
         Err e \<Rightarrow> Some (Err e, close_log (client_Close lib cl))
       | Panic p \<Rightarrow> Some (Panic p, close_log (client_Close lib cl))
       | Ok st \<Rightarrow> (case recv_loop Recv st [] of
           None \<Rightarrow> None
         | Some (Ok u, w) \<Rightarrow>
             if signalled then Some (Ok (), w @ [WatchSignal] @ close_log (client_Close lib cl)) else None
         | Some (r, w) \<Rightarrow> Some (r, w @ close_log (client_Close lib cl)))))"

text \<open>The first events of a stream, and what is left of it.\<close>

fun received :: "('st \<Rightarrow> 'e res \<times> 'st) \<Rightarrow> 'st \<Rightarrow> 'e list \<Rightarrow> 'st \<Rightarrow> bool" where
  "received Recv st [] st' \<longleftrightarrow> st' = st"
| "received Recv st (x # xs) st' \<longleftrightarrow> (\<exists>st1. Recv st = (Ok x, st1) \<and> received Recv st1 xs st')"

lemma recv_loop_runs:
  "received Recv st xs st' \<Longrightarrow> recv_loop Recv st w = recv_loop Recv st' (w @ map ReceivedEvent xs)"
proof (induction xs arbitrary: st w)
  case (Cons x xs)
  then obtain st1 where st1: "Recv st = (Ok x, st1)" "received Recv st1 xs st'" by auto
  then have "recv_loop Recv st w = recv_loop Recv st1 (w @ [ReceivedEvent x])"
    by (subst recv_loop.simps) simp
  with Cons.IH [OF st1(2)] show ?case by simp
qed simp

definition loop_end :: "'e res \<Rightarrow> unit res option" where
  "loop_end r = (case r of
      Ok x \<Rightarrow> None
    | Err e \<Rightarrow> Some (if is_error EOF e then Ok () else Err (Wrap ''stream failed'' e))
    | Panic p \<Rightarrow> Some (Panic p))"

lemma recv_loop_stops: "loop_end (fst (Recv st)) = Some r \<Longrightarrow> recv_loop Recv st w = Some (r, w)"
  by (subst recv_loop.simps) (auto simp: loop_end_def split: prod.splits res.splits)

lemma recv_loop_reaches:
  assumes "recv_loop Recv st w = Some y"
  shows "\<exists>xs st' r. received Recv st xs st' \<and> loop_end (fst (Recv st')) = Some r"
proof (rule recv_loop.raw_induct [where P = "\<lambda>Recv st w y. \<exists>xs st' r. received Recv st xs st' \<and>
    loop_end (fst (Recv st')) = Some r", OF _ assms])
  fix f Recv st w y
  assume hyp: "\<And>Recv st w y. f Recv st w = Some y \<Longrightarrow> \<exists>xs st' r. received Recv st xs st' \<and> loop_end (fst (Recv st')) = Some r"
    and step: "(case Recv st of (Ok x, st1) \<Rightarrow> f Recv st1 (w @ [ReceivedEvent x])
      | (Err e, st1) \<Rightarrow> Some (if is_error EOF e then Ok () else Err (Wrap ''stream failed'' e), w)
      | (Panic p, st1) \<Rightarrow> Some (Panic p, w)) = Some y"
  obtain r1 st1 where r: "Recv st = (r1, st1)" by (cases "Recv st")
  show "\<exists>xs st' r. received Recv st xs st' \<and> loop_end (fst (Recv st')) = Some r"
  proof (cases "loop_end r1")
    case (Some r')
    then show ?thesis using r by (intro exI [of _ "[]"] exI [of _ st]) simp
  next
    case None
    then obtain x where x: "r1 = Ok x" by (cases r1) (simp_all add: loop_end_def)
    with step r have "f Recv st1 (w @ [ReceivedEvent x]) = Some y" by simp
    from hyp [OF this] obtain xs st' r' where "received Recv st1 xs st'" "loop_end (fst (Recv st')) = Some r'" by blast
    with r x show ?thesis by (intro exI [of _ "x # xs"] exI [of _ st'] exI [of _ r']) simp
  qed
qed

text \<open>The watch returns exactly when its stream ends, with the events until then in its log.\<close>

lemma recv_loop_iff:
  "recv_loop Recv st w = Some (r, v) \<longleftrightarrow>
     (\<exists>xs st'. received Recv st xs st' \<and> loop_end (fst (Recv st')) = Some r \<and> v = w @ map ReceivedEvent xs)"
proof
  assume run: "recv_loop Recv st w = Some (r, v)"
  from recv_loop_reaches [OF run] obtain xs st' r' where
    x: "received Recv st xs st'" "loop_end (fst (Recv st')) = Some r'" by blast
  from recv_loop_runs [OF x(1)] recv_loop_stops [of Recv st', OF x(2)] run
  have "r = r'" "v = w @ map ReceivedEvent xs" by simp_all
  with x show "\<exists>xs st'. received Recv st xs st' \<and> loop_end (fst (Recv st')) = Some r \<and> v = w @ map ReceivedEvent xs"
    by blast
next
  assume "\<exists>xs st'. received Recv st xs st' \<and> loop_end (fst (Recv st')) = Some r \<and> v = w @ map ReceivedEvent xs"
  then show "recv_loop Recv st w = Some (r, v)" using recv_loop_runs recv_loop_stops by metis
qed

end
