(* ===== verification/Spec2Isabelle.thy ===== *)
theory Spec2Isabelle
  imports ServerProps StoreRefinement FilterSafety FilterLiterals FilterTypes FilterMeaning MapperProofs ClusterCreation PublicProofs Jq EventsProofs ReconcilerProofs JsonEncoderProofs Streams ApiExample StartController DevCommands DatabaseTool
begin

text \<open>
  Verification library of the fulfillment service.

  The service keeps clusters, virtual machines, hosts, host pools, host classes, templates and hubs in PostgreSQL, serves
  them with gRPC to users (the public API) and to administrators and controllers (the private API), and creates the
  Kubernetes objects of a hub that make them real. One binary has the three parts: the server, the HTTP gateway in front
  of it and the controller. All the paths below are under \<open>src/\<close>.

  \<^bold>\<open>How the parts interact.\<close> A call goes through the interceptors: panics become errors, the authentication function
  puts a subject in the context, the transaction interceptor puts a lazy transaction in it. A public server maps the
  object of the request to its private type and delegates to a private server; a private server validates and delegates
  to a generic server; the generic server applies field masks and calls a data access object; the data access object
  writes SQL, with the translated filter of the user and the condition of the tenancy, and calls back the notifier, which
  stores an event in the same transaction and notifies its identifier. A listener with its own connection receives the
  identifiers, reads the events and gives them to the events servers, which stream them to the clients that watch. The
  controller watches and lists through the private API, and calls a function for each object, which changes Kubernetes
  and sends the object back.

  \<^bold>\<open>Foundations.\<close>
  \<^item> \<open>Prelude\<close>: errors as values (the constructors are the ways in which the code makes errors), the result of a Go
    function (a value, an error or a panic), computations over an explicit state, the rules \<open>keeps\<close> for what a
    computation leaves alone, and conversions to 32 bits on words.
  \<^item> \<open>Protobuf\<close>: the reflection that the code uses. A message is a finite map from the names of its populated fields to
    values; descriptors are arguments.

  \<^bold>\<open>Requests.\<close>
  \<^item> \<open>Auth\<close>, for \<open>internal/auth\<close>: subjects, the external and the guest authentication functions, tenancy and
    attribution logics. The locale \<open>filtering_tenancy\<close> is what the logics that filter promise (what is
    assigned is visible, and so is the shared tenant); it is interpreted on the logics of service accounts, of tokens and on the default one.
  \<^item> \<open>Tx\<close> and \<open>Streams\<close>, for the transactions of \<open>internal/database\<close>, \<open>internal/recovery\<close> and the order of the interceptors
    in \<open>internal/cmd/start_server_cmd.go\<close>. The state of a call is a \<open>session\<close>: the committed database, the working copy of the transaction, the
    errors that were reported, the outcomes of the next interactions with the database server, the time and the next
    identifiers. The lemmas show that a call commits everything or nothing, and that a handler that panics after it wrote
    is committed. The locale \<open>request_handler\<close> gives the outcome of a request for any handler that keeps to its
    transaction.
  \<^item> \<open>Dao\<close>, \<open>DaoReads\<close> and \<open>DaoWrites\<close>, for \<open>internal/database/dao/generic_dao.go\<close>: each operation with its SQL statements,
    which are functions on the tables. \<open>list_page\<close> and \<open>get_row\<close> describe reads, the lemmas \<open>dao_create_Ok\<close>, \<open>dao_update_Ok\<close>
    and \<open>dao_delete_Ok\<close> the writes, for every data access object whose callbacks keep the tables (locale
    \<open>quiet_callbacks\<close>, interpreted on the callback that the generic server installs). \<open>table_ok\<close> is the invariant of a table.
  \<^item> \<open>MaskPath\<close>, for \<open>internal/masks\<close>: compiled paths, with the laws of getting and setting.
  \<^item> \<open>GenericServer\<close> and \<open>ServiceRegistry\<close>, for \<open>internal/servers/generic_server.go\<close> and \<open>internal/database/database_notifier.go\<close>;
    \<open>ServerProofs\<close>, \<open>ServerRequests\<close> and \<open>ServerProps\<close> have their properties over whole requests and over sequences of them, in the
    locale \<open>quiet_server\<close>, interpreted on every server that the builder makes. \<open>StoreRefinement\<close> states what a server
    promises as a store without SQL and shows that every request refines an operation of it. \<open>ServerExample\<close> computes requests.
  \<^item> \<open>PrivateServers\<close> and \<open>TemplateParams\<close>, for \<open>internal/servers/private_*_server.go\<close> and
    \<open>internal/utils/template_parameters.go\<close>, with the creation of clusters from templates in \<open>ClusterCreation\<close>.
  \<^item> \<open>Mapper\<close> and \<open>MapperProofs\<close>, for \<open>internal/servers/generic_mapper.go\<close>; \<open>PublicServers\<close> and \<open>PublicProofs\<close>, for
    the public servers \<open>internal/servers/*_server.go\<close>: the delegation, what an update can change, kubeconfigs and passwords.

  \<^bold>\<open>Filters.\<close> \<open>FilterTranslator\<close>, for \<open>internal/database/dao/filter_translator.go\<close>, is the translation of a checked CEL tree
  to the text of a condition. The text is compared with specifications of how PostgreSQL reads it: a lexer
  in \<open>FilterSafety\<close> (the text stays inside its parentheses), the value of literals and patterns in \<open>FilterLiterals\<close>, the grammar of
  operators with their precedence in \<open>FilterMeaning\<close> (the text has the meaning of the tree), and a judgement of types in \<open>FilterTypes\<close>
  (what has a type is translated).

  \<^bold>\<open>Events.\<close> \<open>Listener\<close>, for \<open>internal/database/database_listener.go\<close>, and \<open>Events\<close> with \<open>EventsProofs\<close>, for
  \<open>internal/servers/events_server.go\<close> and \<open>private_events_server.go\<close>: subscriptions, filters, tenancy, and the interleavings of the watchers with the
  goroutine of the listener, which holds a lock while it sends.

  \<^bold>\<open>The assembled server.\<close> \<open>StartServer\<close>, for \<open>internal/cmd/start_server_cmd.go\<close>, \<open>metadata_server.go\<close> and the builders of the parts,
  constructs every server with its logics. \<open>StartServerProofs\<close>, \<open>ApiProofs\<close> and \<open>ApiExample\<close> compose the components:
  a call to any public service, through all the interceptors, keeps the rows of every table that its subject
  cannot see (locale \<open>keeping_server\<close>, interpreted on the generic servers, lifted through the private and the public ones).

  \<^bold>\<open>Controllers.\<close> \<open>Controllers\<close>, for \<open>internal/controllers\<close> (the cache of hubs and the functions of clusters, virtual machines, host
  pools and hosts), with \<open>ControllersProofs\<close> and \<open>ControllersExample\<close>; \<open>Reconciler\<close> and \<open>ReconcilerProofs\<close>, for
  \<open>internal/controllers/reconciler.go\<close>: three goroutines as a step relation. What one call of a function keeps is assumed
  in the locale \<open>reconciled_world\<close>, whose interpretations are the functions of the controllers, and holds in every state that the
  reconciler reaches. \<open>StartController\<close>, for \<open>internal/cmd/start_controller_cmd.go\<close>: the wait for the server and the construction.

  \<^bold>\<open>Other parts.\<close> \<open>Jq\<close>, for \<open>internal/jq\<close> (the cache and evaluation); \<open>JsonEncoder\<close> and \<open>JsonEncoderProofs\<close>, for
  \<open>internal/json/json_encoder.go\<close>, with the equivalence of the step by step encoder with the text of a tree; \<open>DatabaseTool\<close>, for
  \<open>internal/database/database_tool.go\<close>; \<open>CommandLine\<close> and \<open>DevCommands\<close>, for \<open>main.go\<close>, \<open>internal/tool.go\<close>,
  \<open>internal/context.go\<close>, the gateway, the other commands and \<open>internal/clients/api\<close>.

  \<^bold>\<open>The properties.\<close> C1 to C5 are about the assembled server, authentication and transactions; C6 to C16 about the generic server
  and its data access object; C17 to C21 about filters; C22 to C27 about the mapper, templates and the
  public servers; C28 to C32 about notifications and events; C33 to C38 about the controllers; C39 is the JSON encoder and C40
  the wait of the controller. Some show what the code does and its authors may not expect: C5, C32 and C37.

  \<^bold>\<open>Loops and bounds.\<close> There is no fuel. A loop over data is a structural recursion. The listener reads a finite script of replies of
  the world, so it is a recursion on the script, and not to have a result at its end is still to be running; the
  theorems are for all scripts. The wait for the database, the iterator of jq and the stream of events can really
  run for ever; they are partial functions to an option, with lemmas that tell exactly when they return. The wait of the
  controller terminates by the time that is left of its minute. Watchers and reconcilers are inductive step
  relations, and their theorems are about all the reachable states. Integers of Go are \<open>int\<close> where their width
  doesn't matter; the sizes and totals of lists are reduced to 32 bits with sign, as the messages do.

  \<^bold>\<open>Parameters.\<close> Code that is not under \<open>src/\<close> is an argument: the codec of the rows, CEL (its parser and checker, the
  programs of the events servers), gojq, the jsoniter stream and protojson, regular expressions, the decoder of the JSON
  of subjects, the humanize library, the registry and the descriptors of protocol buffers, the client for Kubernetes, the gRPC connections, the URL
  package, the migrations library, the command line library and loggers. What a theorem needs of them is a named
  hypothesis: \<open>kube_laws\<close> (objects are listed, created, patched and deleted), \<open>quiet_api\<close> (the private API does not
  touch Kubernetes), \<open>stream_laws\<close> (a stream appends what it is told, unless it fails), and the round trip of the codec in the
  theorems about what is read back. Each is shown to hold for a concrete function by the witness of the theorem.
  PostgreSQL is the documented behaviour of a transaction: a working copy, which a commit publishes and a
  rollback drops, with a primary key for each table.

  \<^bold>\<open>Not modelled.\<close>
  \<^item> Concurrent transactions: calls to the server run one after the other. What two of them see of each other depends on isolation in
    PostgreSQL, which the code leaves at its default.
  \<^item> The generated code of \<open>internal/api\<close> and the mocks: messages and descriptors stand for it.
  \<^item> The migrations \<open>internal/database/migrations\<close>, which are SQL; their tables are the ones of the model.
  \<^item> Logs, except for the commands whose only effect they are; network listeners, certificates, signals, the definitions of
    command line flags, and the exact text of formatted Go types in some messages.
  \<^item> The tests of \<open>it\<close> and the deployment files of \<open>charts\<close> and \<open>manifests\<close>, which are not code of the service.
\<close>

end
